(* ===== verification/Prelude.thy ===== *)
theory Prelude
  imports Complex_Main "HOL-Library.AList" "HOL-Library.Char_ord" "HOL-Library.List_Lexorder"
    "HOL-Library.Code_Target_Nat" "HOL-Library.Multiset"
begin

text \<open>
  Shared base of the development: the result type in which every exception of the JavaScript
  source is a value, the theorem collections the component theories feed, stable sorting with a
  comparator (Array.prototype.sort), order-keeping removal of duplicates (the spread of a Set), and the
  association-list model of a JavaScript Map (insertion order, update in place).
\<close>

named_theorems result_simps \<open>how the result type propagates errors\<close>
named_theorems contract_elims \<open>what a validator's success says of the value it returns\<close>
named_theorems frame_simps \<open>the parts of a state an operation leaves alone\<close>

section \<open>Results: an exception is a value\<close>

text \<open>
  The exceptions of the modelled code: a rejection carries the reason class (and the retryable
  flag) of the module's error class; the others are the errors the language itself raises where a
  value is not what an operation needs and where a date is out of range, and those of the system's calls.
\<close>

datatype failure = Rejected string bool | TypeErr | RangeErr | SystemErr

type_synonym 'a result = "failure + 'a"

abbreviation reject :: "string \<Rightarrow> 'a result" where
  "reject reason \<equiv> Inl (Rejected reason False)"

fun and_then :: "'a result \<Rightarrow> ('a \<Rightarrow> 'b result) \<Rightarrow> 'b result" where
  "and_then (Inl e) f = Inl e"
| "and_then (Inr x) f = f x"

text \<open>Unfolded in code, so that an evaluation enters the continuation only with a value.\<close>

lemma and_then_case [code_unfold]:
  "and_then r f = (case r of Inl e \<Rightarrow> Inl e | Inr x \<Rightarrow> f x)"
  by (cases r) simp_all

lemma and_then_Inr_iff [result_simps]:
  "and_then r f = Inr y \<longleftrightarrow> (\<exists>x. r = Inr x \<and> f x = Inr y)"
  by (cases r) auto

lemma and_then_Inl_iff [result_simps]:
  "and_then r f = Inl e \<longleftrightarrow> r = Inl e \<or> (\<exists>x. r = Inr x \<and> f x = Inl e)"
  by (cases r) auto

text \<open>The checks of an operation that succeeded, one after the other.\<close>

lemma and_thenE: "and_then r f = Inr y \<Longrightarrow> (\<And>x. r = Inr x \<Longrightarrow> f x = Inr y \<Longrightarrow> thesis) \<Longrightarrow> thesis"
  by (auto simp: result_simps)

lemma unless_rejectE: "(if c then Inl e else r) = Inr y \<Longrightarrow> (\<not> c \<Longrightarrow> r = Inr y \<Longrightarrow> thesis) \<Longrightarrow> thesis"
  by (simp split: if_splits)

lemma case_rejectE:
  "(case v of None \<Rightarrow> Inl e | Some x \<Rightarrow> f x) = Inr y \<Longrightarrow> (\<And>x. v = Some x \<Longrightarrow> f x = Inr y \<Longrightarrow> thesis) \<Longrightarrow> thesis"
  by (cases v) simp_all

lemmas accepted_elims = and_thenE unless_rejectE case_rejectE

definition succeeds :: "'a result \<Rightarrow> bool" where
  "succeeds r = (case r of Inl _ \<Rightarrow> False | Inr _ \<Rightarrow> True)"

lemma succeeds_simps [simp]: "succeeds (Inr x)" "\<not> succeeds (Inl e)"
  by (simp_all add: succeeds_def)

lemma succeeds_iff: "succeeds r \<longleftrightarrow> (\<exists>x. r = Inr x)"
  by (cases r) simp_all

fun map_results :: "('a \<Rightarrow> 'b result) \<Rightarrow> 'a list \<Rightarrow> 'b list result" where
  "map_results f [] = Inr []"
| "map_results f (x # xs) = and_then (f x) (\<lambda>y. and_then (map_results f xs) (\<lambda>ys. Inr (y # ys)))"

lemma map_results_Inr_map:
  "map_results f xs = Inr ys \<Longrightarrow> (\<And>x y. x \<in> set xs \<Longrightarrow> f x = Inr y \<Longrightarrow> y = g x) \<Longrightarrow> ys = map g xs"
  by (induction xs arbitrary: ys) (auto simp: result_simps)

lemma map_results_Inr_each:
  "map_results f xs = Inr ys \<Longrightarrow> x \<in> set xs \<Longrightarrow> succeeds (f x)"
  by (induction xs arbitrary: ys) (auto simp: result_simps)

section \<open>Evaluation\<close>

text \<open>Equality of strings stops at the first difference when it is evaluated.\<close>

lemma equal_list_lazy [code]:
  "HOL.equal [] [] = True" "HOL.equal (x # xs) [] = False" "HOL.equal [] (x # xs) = False"
  "HOL.equal (x # xs) (y # ys) = (if HOL.equal x y then HOL.equal xs ys else False)"
  by (simp_all add: equal)

lemma equal_char_lazy [code]:
  "HOL.equal (Char a b c d e f g h) (Char a' b' c' d' e' f' g' h') =
     (if a = a' then if b = b' then if c = c' then if d = d' then if e = e' then if f = f' then
        if g = g' then h = h' else False else False else False else False else False else False else False)"
  by (simp add: equal)

section \<open>Lists\<close>

text \<open>Array.prototype.sort with a comparator: a stable sort (\<open>le\<close> says the comparator is not positive).\<close>

fun insert_by :: "('a \<Rightarrow> 'a \<Rightarrow> bool) \<Rightarrow> 'a \<Rightarrow> 'a list \<Rightarrow> 'a list" where
  "insert_by le x [] = [x]"
| "insert_by le x (y # ys) = (if le x y then x # y # ys else y # insert_by le x ys)"

fun sort_by :: "('a \<Rightarrow> 'a \<Rightarrow> bool) \<Rightarrow> 'a list \<Rightarrow> 'a list" where
  "sort_by le [] = []"
| "sort_by le (x # xs) = insert_by le x (sort_by le xs)"

lemma set_insert_by [simp]: "set (insert_by le x xs) = insert x (set xs)"
  by (induction xs) auto

lemma set_sort_by [simp]: "set (sort_by le xs) = set xs"
  by (induction xs) auto

lemma length_insert_by [simp]: "length (insert_by le x xs) = Suc (length xs)"
  by (induction xs) auto

lemma length_sort_by [simp]: "length (sort_by le xs) = length xs"
  by (induction xs) auto

lemma mset_insert_by: "mset (insert_by le x xs) = add_mset x (mset xs)"
  by (induction xs) auto

lemma mset_sort_by: "mset (sort_by le xs) = mset xs"
  by (induction xs) (simp_all add: mset_insert_by)

lemma mset_map_sort_by: "mset (map f (sort_by le xs)) = mset (map f xs)"
  by (simp add: mset_sort_by)

lemma distinct_insert_by: "x \<notin> set xs \<Longrightarrow> distinct xs \<Longrightarrow> distinct (insert_by le x xs)"
  by (induction xs) auto

lemma distinct_sort_by: "distinct xs \<Longrightarrow> distinct (sort_by le xs)"
  by (induction xs) (auto intro: distinct_insert_by)

lemma distinct_map_insert_by:
  "f x \<notin> f ` set xs \<Longrightarrow> distinct (map f xs) \<Longrightarrow> distinct (map f (insert_by le x xs))"
  by (induction xs) auto

lemma distinct_map_sort_by: "distinct (map f xs) \<Longrightarrow> distinct (map f (sort_by le xs))"
  by (induction xs) (auto intro!: distinct_map_insert_by)

lemma sorted_wrt_insert_by:
  assumes total: "\<And>a b. le a b \<or> le b a" and trans: "\<And>a b c. le a b \<Longrightarrow> le b c \<Longrightarrow> le a c"
  shows "sorted_wrt le xs \<Longrightarrow> sorted_wrt le (insert_by le x xs)"
proof (induction xs)
  case (Cons a xs)
  show ?case
  proof (cases "le x a")
    case True
    with Cons.prems show ?thesis by (auto intro: trans)
  next
    case False
    with total have "le a x" by blast
    with Cons False show ?thesis by auto
  qed
qed simp

lemma sorted_wrt_sort_by:
  assumes "\<And>a b. le a b \<or> le b a" and "\<And>a b c. le a b \<Longrightarrow> le b c \<Longrightarrow> le a c"
  shows "sorted_wrt le (sort_by le xs)"
  by (induction xs) (simp_all add: sorted_wrt_insert_by [OF assms])

text \<open>\<open>[...new Set(xs)]\<close>: the first occurrence of each element, in order.\<close>

definition set_of_array :: "'a list \<Rightarrow> 'a list" where
  "set_of_array xs = rev (remdups (rev xs))"

lemma set_set_of_array [simp]: "set (set_of_array xs) = set xs"
  by (simp add: set_of_array_def)

lemma distinct_set_of_array [simp]: "distinct (set_of_array xs)"
  by (simp add: set_of_array_def)

lemma length_set_of_array: "length (set_of_array xs) = length xs \<longleftrightarrow> distinct xs"
proof -
  have "length (set_of_array xs) = length (remdups (rev xs))"
    by (simp add: set_of_array_def)
  also have "\<dots> = card (set xs)"
    by (simp add: length_remdups_card_conv)
  finally show ?thesis
    by (metis card_distinct distinct_card)
qed

text \<open>Two lists of strings that sort alike have the same elements.\<close>

lemma sort_eq_distinct:
  assumes "sort xs = sort ys" and "distinct ys"
  shows "distinct xs" and "set xs = set ys"
  using assms by (metis distinct_sort, metis set_sort)

text \<open>A test for sorting alike that looks through the lists once when they agree.\<close>

fun same_elements :: "'a list \<Rightarrow> 'a list \<Rightarrow> bool" where
  "same_elements [] ys = (ys = [])"
| "same_elements (x # xs) ys = (x \<in> set ys \<and> same_elements xs (remove1 x ys))"

lemma same_elements_mset: "same_elements xs ys \<longleftrightarrow> mset xs = mset ys"
proof (induction xs arbitrary: ys)
  case (Cons x xs)
  show ?case
  proof (cases "x \<in> set ys")
    case True
    then have "mset ys = add_mset x (mset (remove1 x ys))" by simp
    with True Cons.IH [of "remove1 x ys"] show ?thesis
      by (simp only: same_elements.simps mset.simps add_mset_add_mset_same_iff simp_thms)
  next
    case False
    then have "add_mset x (mset xs) \<noteq> mset ys"
      by (metis set_mset_mset union_single_eq_member)
    with False show ?thesis by simp
  qed
qed simp

lemma sort_eq_same_elements: "sort xs = sort ys \<longleftrightarrow> same_elements xs ys"
  unfolding same_elements_mset
  by (metis mset_sort properties_for_sort sorted_sort)

section \<open>Maps with insertion order\<close>

text \<open>
  A JavaScript Map iterates in insertion order; setting a present key keeps its place. That is
  \<^const>\<open>AList.update\<close>; deletion is \<^const>\<open>AList.delete\<close>.
\<close>

lemma map_of_update [simp]: "map_of (AList.update k v m) = (map_of m)(k \<mapsto> v)"
  by (simp add: update_conv')

lemma fst_set_update: "fst ` set (AList.update k v m) = insert k (fst ` set m)"
  by (induction m) auto

lemma length_update_le: "length (AList.update k v m) \<le> Suc (length m)"
  by (induction m) auto

lemma length_update_present: "k \<in> fst ` set m \<Longrightarrow> length (AList.update k v m) = length m"
  by (induction m) auto

lemma map_fst_update_present: "k \<in> fst ` set m \<Longrightarrow> map fst (AList.update k v m) = map fst m"
  by (induction m) auto

lemma set_update_subset: "set (AList.update k v m) \<subseteq> insert (k, v) (set m)"
  by (induction m) auto

lemma map_of_filter_distinct:
  "distinct (map fst m) \<Longrightarrow>
   map_of (filter P m) k = (case map_of m k of None \<Rightarrow> None | Some v \<Rightarrow> if P (k, v) then Some v else None)"
  by (induction m) (auto split: option.splits simp: map_of_eq_None_iff dest: map_of_SomeD)

lemma distinct_map_filter_fst: "distinct (map fst m) \<Longrightarrow> distinct (map fst (filter P m))"
  by (induction m) auto

end
