(* ===== verification/JsValue.thy ===== *)
theory JsValue
  imports Prelude
begin

text \<open>
  The JavaScript values the sources compute with, and the operations of the language they use on
  them: strict equality, property access, string conversion (the coercion of \<open>RegExp.test\<close> and of
  \<open>+\<close>), JSON text, and the key order of \<open>Object.keys\<close>. Strings are lists of code units below
  256 (\<^typ>\<open>char\<close>), numbers are exact rationals with NaN and the infinities, an object is the list
  of its own properties in property order. What the language leaves to the engine or its Unicode
  tables is a field of \<open>platform\<close>, as is SHA-256, which the sources import.
\<close>

section \<open>Values\<close>

datatype jnum = NaN | PosInf | NegInf | Fin rat

datatype jsv =
    JUndef
  | JNull
  | JBool bool
  | JNum jnum
  | JStr string
  | JArr "jsv list"
  | JObj "(string \<times> jsv) list"

text \<open>
  What the program takes from outside the language: text of numbers that are not small integers,
  date strings in other formats than that of \<open>toISOString\<close>, Unicode normalisation, the collation
  order of \<open>localeCompare\<close>, and the hash of \<open>node:crypto\<close> (bytes as code units).
\<close>

record platform =
  num_other :: "rat \<Rightarrow> string"
  date_other :: "string \<Rightarrow> int option"
  nfkc :: "string \<Rightarrow> string"
  locale_le :: "string \<Rightarrow> string \<Rightarrow> bool"
  sha256 :: "string \<Rightarrow> string"

text \<open>A collation is a total preorder.\<close>

definition collation :: "platform \<Rightarrow> bool" where
  "collation P \<longleftrightarrow>
     (\<forall>a b. locale_le P a b \<or> locale_le P b a) \<and>
     (\<forall>a b c. locale_le P a b \<longrightarrow> locale_le P b c \<longrightarrow> locale_le P a c)"

abbreviation code :: "char \<Rightarrow> nat" where
  "code c \<equiv> of_char c"

abbreviation JInt :: "int \<Rightarrow> jsv" where
  "JInt n \<equiv> JNum (Fin (of_int n))"

fun is_record :: "jsv \<Rightarrow> bool" where
  "is_record (JObj _) = True"
| "is_record _ = False"

fun is_array :: "jsv \<Rightarrow> bool" where
  "is_array (JArr _) = True"
| "is_array _ = False"

fun is_string :: "jsv \<Rightarrow> bool" where
  "is_string (JStr _) = True"
| "is_string _ = False"

fun is_boolean :: "jsv \<Rightarrow> bool" where
  "is_boolean (JBool _) = True"
| "is_boolean _ = False"

text \<open>\<open>typeof v === "object"\<close>, null included.\<close>

fun typeof_object :: "jsv \<Rightarrow> bool" where
  "typeof_object JNull = True"
| "typeof_object (JArr _) = True"
| "typeof_object (JObj _) = True"
| "typeof_object _ = False"

text \<open>A value that is falsy is skipped by \<open>||\<close>, \<open>!\<close> and \<open>if\<close>; one that is nullish by \<open>??\<close>.\<close>

fun truthy :: "jsv \<Rightarrow> bool" where
  "truthy JUndef = False"
| "truthy JNull = False"
| "truthy (JBool b) = b"
| "truthy (JNum n) = (n \<noteq> NaN \<and> n \<noteq> Fin 0)"
| "truthy (JStr s) = (s \<noteq> [])"
| "truthy _ = True"

definition nullish_or :: "jsv \<Rightarrow> jsv \<Rightarrow> jsv" where
  "nullish_or v d = (if v = JUndef \<or> v = JNull then d else v)"

text \<open>The default of a parameter stands in for undefined only.\<close>

definition default_to :: "jsv \<Rightarrow> jsv \<Rightarrow> jsv" where
  "default_to v d = (if v = JUndef then d else v)"

text \<open>Property access. A missing property is undefined; so is every property of a primitive that the
  sources read. (Reading a property of null or undefined is guarded where the sources can do it.)\<close>

fun jget :: "jsv \<Rightarrow> string \<Rightarrow> jsv" where
  "jget (JObj kvs) k = (case map_of kvs k of Some v \<Rightarrow> v | None \<Rightarrow> JUndef)"
| "jget _ k = JUndef"

fun jkeys :: "jsv \<Rightarrow> string list" where
  "jkeys (JObj kvs) = map fst kvs"
| "jkeys _ = []"

text \<open>\<open>{...v, k: x}\<close> keeps the place of a present key and appends a new one.\<close>

fun jset :: "string \<Rightarrow> jsv \<Rightarrow> jsv \<Rightarrow> jsv" where
  "jset k x (JObj kvs) = JObj (AList.update k x kvs)"
| "jset k x _ = JObj [(k, x)]"

fun jdelete :: "string \<Rightarrow> jsv \<Rightarrow> jsv" where
  "jdelete k (JObj kvs) = JObj (AList.delete k kvs)"
| "jdelete k v = v"

lemma jget_jset [simp]:
  "is_record v \<Longrightarrow> jget (jset k x v) k' = (if k' = k then x else jget v k')"
  by (cases v) (auto simp: map_of_update)

lemma is_record_jset [simp]: "is_record (jset k x v)"
  by (cases v) auto

lemma jkeys_jset_present: "is_record v \<Longrightarrow> k \<in> set (jkeys v) \<Longrightarrow> jkeys (jset k x v) = jkeys v"
  by (cases v) (auto simp: map_fst_update_present)

text \<open>
  \<open>===\<close> on two expressions: arrays and objects are compared by reference, and the sources never
  hold the same object twice where they compare (each value is a fresh clone), so these are unequal.
\<close>

fun strict_eq :: "jsv \<Rightarrow> jsv \<Rightarrow> bool" where
  "strict_eq (JNum NaN) _ = False"
| "strict_eq (JArr _) _ = False"
| "strict_eq (JObj _) _ = False"
| "strict_eq a b = (a = b)"

lemma strict_eq_eq: "strict_eq a b \<Longrightarrow> a = b"
  by (cases "(a, b)" rule: strict_eq.cases) auto

lemma strict_eq_JStr [simp]:
  "strict_eq (JStr s) v \<longleftrightarrow> v = JStr s" "strict_eq v (JStr s) \<longleftrightarrow> v = JStr s"
  by (auto dest: strict_eq_eq)

text \<open>Membership of a value in a Set or array of strings (\<open>has\<close>, \<open>includes\<close>).\<close>

fun str_in :: "jsv \<Rightarrow> string list \<Rightarrow> bool" where
  "str_in (JStr s) L = (s \<in> set L)"
| "str_in _ L = False"

lemma str_in_iff: "str_in v L \<longleftrightarrow> (\<exists>s. v = JStr s \<and> s \<in> set L)"
  by (cases v) auto

text \<open>\<open>value.length\<close> and \<open>value.includes(x)\<close> of an array (SameValueZero: objects by reference).\<close>

fun items :: "jsv \<Rightarrow> jsv list" where
  "items (JArr vs) = vs"
| "items _ = []"

text \<open>\<open>for (const x of v)\<close>\<close>

fun iterate :: "jsv \<Rightarrow> jsv list result" where
  "iterate (JArr vs) = Inr vs"
| "iterate (JStr s) = Inr (map (\<lambda>c. JStr [c]) s)"
| "iterate v = Inl TypeErr"

fun primitive :: "jsv \<Rightarrow> bool" where
  "primitive (JArr _) = False"
| "primitive (JObj _) = False"
| "primitive _ = True"

definition array_includes :: "jsv \<Rightarrow> jsv \<Rightarrow> bool" where
  "array_includes a v \<longleftrightarrow> primitive v \<and> v \<in> set (items a)"

text \<open>\<open>new Set(value).size === value.length\<close>: no primitive occurs twice.\<close>

definition no_repeats :: "jsv list \<Rightarrow> bool" where
  "no_repeats vs \<longleftrightarrow> distinct (filter primitive vs)"

text \<open>The text of a string; used only behind a check that a value is one.\<close>

fun text_of :: "jsv \<Rightarrow> string" where
  "text_of (JStr s) = s"
| "text_of _ = []"

section \<open>Numbers\<close>

fun is_finite :: "jsv \<Rightarrow> bool" where
  "is_finite (JNum (Fin q)) = True"
| "is_finite _ = False"

definition max_safe :: int where
  "max_safe = 9007199254740991"

definition integral :: "rat \<Rightarrow> bool" where
  "integral q \<longleftrightarrow> of_int \<lfloor>q\<rfloor> = q"

lemma integral_of_int [simp]: "integral (of_int n)"
  by (simp add: integral_def)

fun is_integer :: "jsv \<Rightarrow> bool" where
  "is_integer (JNum (Fin q)) = integral q"
| "is_integer _ = False"

fun is_safe_integer :: "jsv \<Rightarrow> bool" where
  "is_safe_integer (JNum (Fin q)) = (integral q \<and> \<bar>q\<bar> \<le> of_int max_safe)"
| "is_safe_integer _ = False"

text \<open>The numeric value of a number; used only behind a check that it is one.\<close>

fun num_of :: "jsv \<Rightarrow> rat" where
  "num_of (JNum (Fin q)) = q"
| "num_of _ = 0"

lemma is_safe_integer_JInt [simp]: "is_safe_integer (JInt n) \<longleftrightarrow> \<bar>n\<bar> \<le> max_safe"
  by (simp flip: of_int_abs)

lemma is_safe_integerE:
  assumes "is_safe_integer v"
  obtains n where "v = JInt n" and "\<bar>n\<bar> \<le> max_safe"
proof -
  from assms obtain q where v: "v = JNum (Fin q)" and q: "of_int \<lfloor>q\<rfloor> = q"
    and le: "\<bar>q\<bar> \<le> of_int max_safe"
    by (cases v rule: is_safe_integer.cases) (auto simp: integral_def)
  from le have "\<bar>of_int \<lfloor>q\<rfloor> :: rat\<bar> \<le> of_int max_safe" by (simp add: q)
  then have "\<bar>\<lfloor>q\<rfloor>\<bar> \<le> max_safe" by linarith
  moreover from v q have "v = JInt \<lfloor>q\<rfloor>" by metis
  ultimately show thesis by (intro that)
qed

section \<open>Maps keyed by values\<close>

text \<open>
  A JavaScript Map whose keys are values taken from wire data, in insertion order. An array or object
  is a key by reference: a fresh one is found by no lookup, and setting it adds an entry.
\<close>

type_synonym jmap = "(jsv \<times> jsv) list"

definition mget :: "jsv \<Rightarrow> (jsv \<times> 'v) list \<Rightarrow> 'v option" where
  "mget k m = (if primitive k then map_of m k else None)"

definition mput :: "jsv \<Rightarrow> 'v \<Rightarrow> (jsv \<times> 'v) list \<Rightarrow> (jsv \<times> 'v) list" where
  "mput k v m = (if primitive k then AList.update k v m else m @ [(k, v)])"

lemma mget_mput: "primitive k \<Longrightarrow> mget k' (mput k v m) = (if k' = k then Some v else mget k' m)"
  by (simp add: mget_def mput_def)

lemma mget_mput_other: "k' \<noteq> k \<Longrightarrow> mget k' (mput k v m) = mget k' m"
  by (auto simp: mget_def mput_def map_add_def split: option.splits)

lemma set_mput_subset: "set (mput k v m) \<subseteq> insert (k, v) (set m)"
  using set_update_subset [of k v m] by (auto simp: mput_def)

lemma length_mput_le: "length (mput k v m) \<le> Suc (length m)"
  by (simp add: mput_def length_update_le)

lemma length_mput_present: "mget k m = Some w \<Longrightarrow> length (mput k v m) = length m"
  by (auto simp: mget_def mput_def intro!: length_update_present dest: map_of_SomeD split: if_splits
      intro: rev_image_eqI)

lemma fst_set_mput: "fst ` set (mput k v m) = insert k (fst ` set m)"
  by (auto simp: mput_def fst_set_update)

lemma mget_in_set: "mget k m = Some v \<Longrightarrow> (k, v) \<in> set m"
  by (auto simp: mget_def dest: map_of_SomeD split: if_splits)

end
