(* ===== verification/JsText.thy ===== *)
theory JsText
  imports JsValue
begin

text \<open>
  Text: the character classes and the shapes of the sources' regular expressions, decimal numerals,
  string conversion, JSON text, the canonical text with sorted keys that the state roots hash, UTF-8
  and the two encodings of a digest (hexadecimal and base64url).
\<close>

section \<open>Character classes and patterns\<close>

definition between :: "nat \<Rightarrow> nat \<Rightarrow> char \<Rightarrow> bool" where
  "between lo hi c \<longleftrightarrow> lo \<le> code c \<and> code c \<le> hi"

definition is_digit :: "char \<Rightarrow> bool" where
  "is_digit c \<longleftrightarrow> between 48 57 c"

definition is_lower :: "char \<Rightarrow> bool" where
  "is_lower c \<longleftrightarrow> between 97 122 c"

definition is_alnum :: "char \<Rightarrow> bool" where
  "is_alnum c \<longleftrightarrow> is_digit c \<or> between 65 90 c \<or> is_lower c"

text \<open>The classes \<open>[A-Za-z0-9_-]\<close>, \<open>[A-Za-z0-9._:-]\<close>, \<open>[a-z0-9_.-]\<close> and \<open>[a-f0-9]\<close>.\<close>

definition is_idch :: "char \<Rightarrow> bool" where
  "is_idch c \<longleftrightarrow> is_alnum c \<or> c = CHR ''_'' \<or> c = CHR ''-''"

definition is_refch :: "char \<Rightarrow> bool" where
  "is_refch c \<longleftrightarrow> is_alnum c \<or> c = CHR ''.'' \<or> c = CHR ''_'' \<or> c = CHR '':'' \<or> c = CHR ''-''"

definition is_capch :: "char \<Rightarrow> bool" where
  "is_capch c \<longleftrightarrow> is_lower c \<or> is_digit c \<or> c = CHR ''_'' \<or> c = CHR ''.'' \<or> c = CHR ''-''"

definition is_hexch :: "char \<Rightarrow> bool" where
  "is_hexch c \<longleftrightarrow> is_digit c \<or> between 97 102 c"

definition is_control :: "char \<Rightarrow> bool" where
  "is_control c \<longleftrightarrow> code c \<le> 31 \<or> code c = 127"

lemmas char_class_defs =
  between_def is_digit_def is_lower_def is_alnum_def is_idch_def is_refch_def is_capch_def
  is_hexch_def is_control_def

text \<open>The classes read off the bits of a code unit, for evaluation.\<close>

lemma is_control_code [code]:
  "is_control (Char a b c d e f g h) \<longleftrightarrow> \<not> h \<and> (if g then f \<and> e \<and> d \<and> c \<and> b \<and> a else \<not> f)"
  by (cases a; cases b; cases c; cases d; cases e; cases f; cases g; cases h)
    (simp_all add: is_control_def of_char_Char)

lemma is_digit_code [code]:
  "is_digit (Char a b c d e f g h) \<longleftrightarrow> \<not> h \<and> \<not> g \<and> f \<and> e \<and> (d \<longrightarrow> \<not> c \<and> \<not> b)"
  by (cases a; cases b; cases c; cases d; cases e; cases f; cases g; cases h)
    (simp_all add: is_digit_def between_def of_char_Char)

lemma is_alnum_code [code]:
  "is_alnum (Char a b c d e f g h) \<longleftrightarrow> \<not> h \<and>
     (if g then (if e then (d \<longrightarrow> \<not> c \<and> \<not> (b \<and> a)) else d \<or> c \<or> b \<or> a)
      else f \<and> e \<and> (d \<longrightarrow> \<not> c \<and> \<not> b))"
  by (cases a; cases b; cases c; cases d; cases e; cases f; cases g; cases h)
    (simp_all add: is_alnum_def is_digit_def is_lower_def between_def of_char_Char)

text \<open>\<open>/^PREFIX[class]{lo,hi}$/\<close>\<close>

definition prefixed :: "string \<Rightarrow> (char \<Rightarrow> bool) \<Rightarrow> nat \<Rightarrow> nat \<Rightarrow> string \<Rightarrow> bool" where
  "prefixed p cls lo hi s \<longleftrightarrow>
     take (length p) s = p \<and> length p + lo \<le> length s \<and> length s \<le> length p + hi \<and>
     list_all cls (drop (length p) s)"

lemma prefixed_append [simp]:
  "prefixed p cls lo hi (p @ s) \<longleftrightarrow> lo \<le> length s \<and> length s \<le> hi \<and> list_all cls s"
  by (auto simp: prefixed_def)

lemma prefixed_iff:
  "prefixed p cls lo hi s \<longleftrightarrow>
   (\<exists>t. s = p @ t \<and> lo \<le> length t \<and> length t \<le> hi \<and> list_all cls t)"
proof
  assume a: "prefixed p cls lo hi s"
  then have "s = p @ drop (length p) s"
    by (metis append_take_drop_id prefixed_def)
  with a show "\<exists>t. s = p @ t \<and> lo \<le> length t \<and> length t \<le> hi \<and> list_all cls t"
    by (metis prefixed_append)
qed auto

text \<open>\<open>split(sep)\<close> with a one-character separator.\<close>

fun split_on :: "char \<Rightarrow> string \<Rightarrow> string list" where
  "split_on c [] = [[]]"
| "split_on c (x # xs) =
     (if x = c then [] # split_on c xs
      else (case split_on c xs of p # ps \<Rightarrow> (x # p) # ps | [] \<Rightarrow> [[x]]))"

text \<open>\<open>/^[0-9]+\.[0-9]+\.[0-9]+$/\<close>\<close>

definition version_shape :: "string \<Rightarrow> bool" where
  "version_shape s \<longleftrightarrow>
     (let ps = split_on CHR ''.'' s
      in length ps = 3 \<and> list_all (\<lambda>p. p \<noteq> [] \<and> list_all is_digit p) ps)"

text \<open>\<open>/^kindred\.capability\.[a-z0-9_.-]{3,96}\.v[0-9]+$/\<close>: the digits at the end are all of the
  last group, for the letter before them is not a digit.\<close>

definition capability_id_shape :: "string \<Rightarrow> bool" where
  "capability_id_shape s \<longleftrightarrow>
     (let r = rev s; rest = dropWhile is_digit r
      in takeWhile is_digit r \<noteq> [] \<and> take 2 rest = ''v.'' \<and>
         prefixed ''kindred.capability.'' is_capch 3 96 (rev (drop 2 rest)))"

text \<open>\<open>/^[A-Za-z0-9][A-Za-z0-9._:-]{7,127}$/\<close>\<close>

definition reference_shape :: "string \<Rightarrow> bool" where
  "reference_shape s \<longleftrightarrow>
     8 \<le> length s \<and> length s \<le> 128 \<and> list_all is_alnum (take 1 s) \<and> list_all is_refch (drop 1 s)"

text \<open>\<open>/^sha256:[a-f0-9]{64}$/\<close>\<close>

definition sha_root_shape :: "string \<Rightarrow> bool" where
  "sha_root_shape = prefixed ''sha256:'' is_hexch 64 64"

text \<open>\<open>toLowerCase\<close> on code units below 256.\<close>

definition lower_char :: "char \<Rightarrow> char" where
  "lower_char c =
     (if between 65 90 c \<or> (between 192 222 c \<and> code c \<noteq> 215) then char_of (code c + 32) else c)"

definition to_lower :: "string \<Rightarrow> string" where
  "to_lower s = map lower_char s"

text \<open>The white space \<open>trim\<close> removes, among code units below 256.\<close>

definition is_space :: "char \<Rightarrow> bool" where
  "is_space c \<longleftrightarrow> between 9 13 c \<or> code c = 32 \<or> code c = 160"

definition trim :: "string \<Rightarrow> string" where
  "trim s = rev (dropWhile is_space (rev (dropWhile is_space s)))"

section \<open>Numerals and string conversion\<close>

definition digit_char :: "nat \<Rightarrow> char" where
  "digit_char d = char_of (48 + d)"

lemma digit_char_table [simp]:
  "digit_char 0 = CHR ''0''" "digit_char (Suc 0) = CHR ''1''" "digit_char 1 = CHR ''1''"
  "digit_char 2 = CHR ''2''" "digit_char 3 = CHR ''3''" "digit_char 4 = CHR ''4''"
  "digit_char 5 = CHR ''5''" "digit_char 6 = CHR ''6''" "digit_char 7 = CHR ''7''"
  "digit_char 8 = CHR ''8''" "digit_char 9 = CHR ''9''"
  by code_simp+

fun nat_text :: "nat \<Rightarrow> string" where
  "nat_text n = (if n < 10 then [digit_char n] else nat_text (n div 10) @ [digit_char (n mod 10)])"

declare nat_text.simps [simp del]

definition int_text :: "int \<Rightarrow> string" where
  "int_text n = (if n < 0 then CHR ''-'' # nat_text (nat (- n)) else nat_text (nat n))"

definition rat_text :: "platform \<Rightarrow> rat \<Rightarrow> string" where
  "rat_text P q = (if integral q \<and> \<bar>q\<bar> \<le> of_int max_safe then int_text \<lfloor>q\<rfloor> else num_other P q)"

fun num_text :: "platform \<Rightarrow> jnum \<Rightarrow> string" where
  "num_text P NaN = ''NaN''"
| "num_text P PosInf = ''Infinity''"
| "num_text P NegInf = ''-Infinity''"
| "num_text P (Fin q) = rat_text P q"

fun join :: "string \<Rightarrow> string list \<Rightarrow> string" where
  "join sep [] = []"
| "join sep [s] = s"
| "join sep (s # ss) = s @ sep @ join sep ss"

lemma join_Cons: "join sep (s # ss) = s @ (if ss = [] then [] else sep @ join sep ss)"
  by (cases ss) simp_all

text \<open>\<open>String(v)\<close>, as \<open>test\<close> and \<open>+\<close> apply it: an array is joined with commas (null and
  undefined items are empty), a plain object is \<open>[object Object]\<close>.\<close>

fun to_string :: "platform \<Rightarrow> jsv \<Rightarrow> string" and item_string :: "platform \<Rightarrow> jsv \<Rightarrow> string" where
  "to_string P JUndef = ''undefined''"
| "to_string P JNull = ''null''"
| "to_string P (JBool b) = (if b then ''true'' else ''false'')"
| "to_string P (JNum n) = num_text P n"
| "to_string P (JStr s) = s"
| "to_string P (JArr vs) = join '','' (map (item_string P) vs)"
| "to_string P (JObj _) = ''[object Object]''"
| "item_string P v = (if v = JUndef \<or> v = JNull then [] else to_string P v)"

text \<open>\<open>pattern.test(v)\<close>\<close>

definition test :: "platform \<Rightarrow> (string \<Rightarrow> bool) \<Rightarrow> jsv \<Rightarrow> bool" where
  "test P shape v = shape (to_string P v)"

lemma test_JStr [simp]: "test P shape (JStr s) = shape s"
  by (simp add: test_def)

section \<open>JSON text\<close>

definition hex_digit :: "nat \<Rightarrow> char" where
  "hex_digit d = (if d < 10 then char_of (48 + d) else char_of (87 + d))"

definition escape_char :: "char \<Rightarrow> string" where
  "escape_char c =
     (if c = CHR 0x22 then [CHR 0x5C, CHR 0x22]
      else if c = CHR 0x5C then [CHR 0x5C, CHR 0x5C]
      else if code c = 8 then [CHR 0x5C, CHR ''b'']
      else if code c = 9 then [CHR 0x5C, CHR ''t'']
      else if code c = 10 then [CHR 0x5C, CHR ''n'']
      else if code c = 12 then [CHR 0x5C, CHR ''f'']
      else if code c = 13 then [CHR 0x5C, CHR ''r'']
      else if code c < 32
        then [CHR 0x5C, CHR ''u'', CHR ''0'', CHR ''0'', hex_digit (code c div 16), hex_digit (code c mod 16)]
      else [c])"

definition quote :: "string \<Rightarrow> string" where
  "quote s = [CHR 0x22] @ concat (map escape_char s) @ [CHR 0x22]"

fun json_num :: "platform \<Rightarrow> jnum \<Rightarrow> string" where
  "json_num P (Fin q) = rat_text P q"
| "json_num P _ = ''null''"

text \<open>\<open>JSON.stringify\<close>: undefined properties are left out, undefined items are null; the text of
  undefined itself is the value undefined, which a template prints as \<open>undefined\<close>.\<close>

fun json :: "platform \<Rightarrow> jsv \<Rightarrow> string"
  and json_items :: "platform \<Rightarrow> jsv list \<Rightarrow> string list"
  and json_fields :: "platform \<Rightarrow> (string \<times> jsv) list \<Rightarrow> string list" where
  "json P JUndef = ''undefined''"
| "json P JNull = ''null''"
| "json P (JBool b) = (if b then ''true'' else ''false'')"
| "json P (JNum n) = json_num P n"
| "json P (JStr s) = quote s"
| "json P (JArr vs) = ''['' @ join '','' (json_items P vs) @ '']''"
| "json P (JObj kvs) = ''{'' @ join '','' (json_fields P kvs) @ ''}''"
| "json_items P [] = []"
| "json_items P (v # vs) = (if v = JUndef then ''null'' else json P v) # json_items P vs"
| "json_fields P [] = []"
| "json_fields P ((k, v) # kvs) =
     (if v = JUndef then json_fields P kvs else (quote k @ '':'' @ json P v) # json_fields P kvs)"

section \<open>Bytes and digests\<close>

text \<open>\<open>Buffer.from(s, "utf8")\<close>: a code unit from 128 on takes two bytes.\<close>

definition utf8_char :: "char \<Rightarrow> string" where
  "utf8_char c = (if code c < 128 then [c] else [char_of (192 + code c div 64), char_of (128 + code c mod 64)])"

definition utf8 :: "string \<Rightarrow> string" where
  "utf8 s = concat (map utf8_char s)"

definition hex_text :: "string \<Rightarrow> string" where
  "hex_text bs = concat (map (\<lambda>b. [hex_digit (code b div 16), hex_digit (code b mod 16)]) bs)"

definition b64url_char :: "nat \<Rightarrow> char" where
  "b64url_char n =
     (if n < 26 then char_of (65 + n) else if n < 52 then char_of (71 + n)
      else if n < 62 then char_of (n - 4) else if n = 62 then CHR ''-'' else CHR ''_'')"

fun base64url :: "string \<Rightarrow> string" where
  "base64url (a # b # c # bs) =
     [b64url_char (code a div 4), b64url_char (code a mod 4 * 16 + code b div 16),
      b64url_char (code b mod 16 * 4 + code c div 64), b64url_char (code c mod 64)] @ base64url bs"
| "base64url [a, b] =
     [b64url_char (code a div 4), b64url_char (code a mod 4 * 16 + code b div 16),
      b64url_char (code b mod 16 * 4)]"
| "base64url [a] = [b64url_char (code a div 4), b64url_char (code a mod 4 * 16)]"
| "base64url [] = []"

lemma length_base64url: "3 * length (base64url bs) \<le> 4 * length bs + 4 \<and> 4 * length bs \<le> 3 * length (base64url bs)"
  by (induction bs rule: base64url.induct) auto

lemma code_less: "code c < 256"
  by (cases c) (simp add: of_char_Char)

lemma is_idch_b64url_char: "n < 64 \<Longrightarrow> is_idch (b64url_char n)"
proof -
  have "52 \<le> n \<Longrightarrow> n < 62 \<Longrightarrow> is_idch (char_of (n - 4))"
    by (auto simp: char_class_defs)
  then show "n < 64 \<Longrightarrow> is_idch (b64url_char n)"
    by (auto simp: b64url_char_def) (auto simp: char_class_defs)
qed

lemma sextet_bounds:
  fixes a b :: nat
  assumes "a < 256"
  shows "a div 4 < 64" "b mod 4 * 16 + a div 16 < 64" "b mod 16 * 4 + a div 64 < 64"
    "a mod 64 < 64" "a mod 4 * 16 < 64" "a mod 16 * 4 < 64"
  using assms by arith+

lemma base64url_idch: "list_all is_idch (base64url bs)"
  by (induction bs rule: base64url.induct)
    (simp_all add: is_idch_b64url_char sextet_bounds code_less)

end
