(* ===== verification/JsDate.thy ===== *)
theory JsDate
  imports JsText
begin

text \<open>
  Time values: \<open>new Date(t).toISOString()\<close> and \<open>Date.parse\<close>. A time value is an integral number of
  milliseconds since 1970-01-01T00:00:00Z. \<open>toISOString\<close> is the language's algorithm over the
  proleptic Gregorian calendar, with its six-digit signed form for years outside 0..9999 and its
  RangeError beyond \<open>8.64e15\<close>. \<open>Date.parse\<close> reads the strings \<open>toISOString\<close> writes; every other
  string is left to the engine (the field \<open>date_other\<close> of the platform). The main fact is the round
  trip \<open>date_parse_iso_text\<close>.
\<close>

section \<open>Fixed-width decimal fields\<close>

fun pad :: "nat \<Rightarrow> nat \<Rightarrow> string" where
  "pad 0 n = []"
| "pad (Suc w) n = pad w (n div 10) @ [digit_char (n mod 10)]"

fun read_digits :: "nat \<Rightarrow> string \<Rightarrow> nat" where
  "read_digits acc [] = acc"
| "read_digits acc (c # cs) = read_digits (acc * 10 + (code c - 48)) cs"

lemma length_pad [simp]: "length (pad w n) = w"
  by (induction w arbitrary: n) auto

lemma read_digits_append: "read_digits a (s @ t) = read_digits (read_digits a s) t"
  by (induction s arbitrary: a) auto

lemma code_digit_char: "d < 10 \<Longrightarrow> code (digit_char d) = 48 + d"
  by (simp add: digit_char_def)

lemma read_pad: "n < 10 ^ w \<Longrightarrow> read_digits 0 (pad w n) = n"
proof (induction w arbitrary: n)
  case (Suc w)
  then have "n div 10 < 10 ^ w" by (simp add: less_mult_imp_div_less)
  with Suc.IH show ?case by (simp add: read_digits_append code_digit_char)
qed simp

section \<open>The calendar\<close>

text \<open>Days from the start of year 0 to the start of year \<open>y\<close>, and from then to a day's time value.\<close>

definition days_before_year :: "int \<Rightarrow> int" where
  "days_before_year y = 365 * y + (y + 3) div 4 - (y + 99) div 100 + (y + 399) div 400"

definition year_of_day :: "int \<Rightarrow> int" where
  "year_of_day d =
     (let y = d * 400 div 146097
      in if d < days_before_year y then y - 1
         else if days_before_year (y + 1) \<le> d then y + 1 else y)"

definition leap :: "int \<Rightarrow> bool" where
  "leap y \<longleftrightarrow> days_before_year (y + 1) - days_before_year y = 366"

definition month_start :: "bool \<Rightarrow> nat \<Rightarrow> int" where
  "month_start l m =
     [0, 31, 59, 90, 120, 151, 181, 212, 243, 273, 304, 334] ! m + (if l \<and> 2 \<le> m then 1 else 0)"

fun month_of :: "bool \<Rightarrow> int \<Rightarrow> nat \<Rightarrow> nat" where
  "month_of l k 0 = 0"
| "month_of l k (Suc m) = (if month_start l (Suc m) \<le> k then Suc m else month_of l k m)"

definition day_number :: "int \<Rightarrow> nat \<Rightarrow> nat \<Rightarrow> int" where
  "day_number y m d = days_before_year y + month_start (leap y) m + int d"

lemma ceiling_div:
  fixes y k :: int
  assumes "0 < k"
  shows "(y + (k - 1)) div k = y div k + (if k dvd y then 0 else 1)"
proof -
  have "(y + (k - 1)) div k = ((y mod k + (k - 1)) + k * (y div k)) div k"
    by (rule arg_cong [where f = "\<lambda>x. x div k"]) simp
  also have "\<dots> = y div k + (y mod k + (k - 1)) div k"
    using assms by (intro div_mult_self2) simp
  also have "(y mod k + (k - 1)) div k = (if k dvd y then 0 else 1)"
  proof (cases "k dvd y")
    case True
    then show ?thesis using assms by simp
  next
    case False
    then have "y mod k \<noteq> 0" by (simp add: dvd_eq_mod_eq_0)
    then have "0 \<le> y mod k - 1" "y mod k - 1 < k"
      using pos_mod_sign [OF assms, of y] pos_mod_bound [OF assms, of y] by linarith+
    then have "(y mod k - 1 + k) div k = 1" using assms by simp
    with False show ?thesis by (simp add: algebra_simps)
  qed
  finally show ?thesis by simp
qed

lemma div_step:
  fixes y k :: int
  assumes "0 < k"
  shows "(y + k) div k = (y + (k - 1)) div k + (if k dvd y then 1 else 0)"
  using ceiling_div [OF assms, of y] assms by simp

lemma ceiling_div_bounds:
  fixes y k :: int
  assumes "0 < k"
  shows "y \<le> k * ((y + (k - 1)) div k)" and "k * ((y + (k - 1)) div k) \<le> y + (k - 1)"
  using mult_div_mod_eq [of k "y + (k - 1)"] pos_mod_sign [OF assms, of "y + (k - 1)"]
    pos_mod_bound [OF assms, of "y + (k - 1)"] by linarith+

lemma year_length:
  "days_before_year (y + 1) =
   days_before_year y + 365 + (if 4 dvd y then 1 else 0) - (if 100 dvd y then 1 else 0) +
     (if 400 dvd y then 1 else 0)"
  using div_step [of 4 y] div_step [of 100 y] div_step [of 400 y]
  by (simp add: days_before_year_def algebra_simps)

lemma year_length_cases:
  "days_before_year (y + 1) = days_before_year y + 365 \<or> days_before_year (y + 1) = days_before_year y + 366"
proof -
  have "400 dvd y \<Longrightarrow> 100 dvd y" and "100 dvd y \<Longrightarrow> 4 dvd y"
    by (rule dvd_trans [rotated], assumption, simp)+
  then show ?thesis by (auto simp: year_length)
qed

lemma days_before_year_bounds:
  "146097 * y - 396 \<le> 400 * days_before_year y" "400 * days_before_year y \<le> 146097 * y + 699"
proof -
  define a b c where "a = (y + 3) div 4" and "b = (y + 99) div 100" and "c = (y + 399) div 400"
  have "y \<le> 4 * a" "4 * a \<le> y + 3"
    using ceiling_div_bounds [of 4 y] by (simp_all add: a_def)
  moreover have "y \<le> 100 * b" "100 * b \<le> y + 99"
    using ceiling_div_bounds [of 100 y] by (simp_all add: b_def)
  moreover have "y \<le> 400 * c" "400 * c \<le> y + 399"
    using ceiling_div_bounds [of 400 y] by (simp_all add: c_def)
  moreover have "days_before_year y = 365 * y + a - b + c"
    by (simp add: days_before_year_def a_def b_def c_def)
  ultimately show "146097 * y - 396 \<le> 400 * days_before_year y"
    and "400 * days_before_year y \<le> 146097 * y + 699"
    by linarith+
qed

lemma days_before_year_mono: "x \<le> y \<Longrightarrow> days_before_year x \<le> days_before_year y"
proof -
  have *: "days_before_year x \<le> days_before_year (x + int n)" for n
  proof (induction n)
    case (Suc n)
    from year_length_cases [of "x + int n"]
    have "days_before_year (x + int n) \<le> days_before_year (x + int n + 1)" by auto
    with Suc show ?case by (simp add: ac_simps)
  qed simp
  assume "x \<le> y"
  with * [of "nat (y - x)"] show ?thesis by simp
qed

lemma year_of_day_bounds:
  "days_before_year (year_of_day d) \<le> d" "d < days_before_year (year_of_day d + 1)"
proof -
  define y where "y = d * 400 div 146097"
  have lo: "146097 * y \<le> 400 * d" and hi: "400 * d < 146097 * y + 146097"
    unfolding y_def by linarith+
  have "days_before_year (y - 1) \<le> d"
    using days_before_year_bounds(2) [of "y - 1"] lo by (simp add: algebra_simps)
  moreover have "d < days_before_year (y + 1 + 1)"
    using days_before_year_bounds(1) [of "y + 1 + 1"] hi by (simp add: algebra_simps)
  ultimately show "days_before_year (year_of_day d) \<le> d" "d < days_before_year (year_of_day d + 1)"
    unfolding year_of_day_def Let_def y_def [symmetric] by auto
qed

lemma month_of_le: "month_of l k m \<le> m"
  by (induction m) auto

lemma month_of_start: "0 \<le> k \<Longrightarrow> month_start l (month_of l k m) \<le> k"
  by (induction m) (simp_all add: month_start_def [of l 0])

lemma month_of_end:
  assumes "m < 12" and "j \<le> m" and "month_of l k m < j"
  shows "k < month_start l j"
  using assms by (induction m) (auto split: if_splits simp: le_Suc_eq)

text \<open>The month a day of the year falls in, and the day within it, fit their two digits.\<close>

lemma month_day_bound:
  fixes k :: int and l :: bool
  assumes "0 \<le> k" and "k \<le> 365"
  defines "m \<equiv> month_of l k 11"
  shows "m \<le> 11" and "0 \<le> k - month_start l m" and "k - month_start l m \<le> 31"
proof -
  show m: "m \<le> 11" by (simp add: m_def month_of_le)
  show "0 \<le> k - month_start l m" using month_of_start [OF assms(1)] by (simp add: m_def)
  show "k - month_start l m \<le> 31"
  proof (cases "m = 11")
    case True
    with assms(2) show ?thesis by (simp add: month_start_def split: if_splits)
  next
    case False
    with m have le: "Suc m \<le> 11" by auto
    have "month_of l k 11 < Suc m" by (simp add: m_def)
    with le have "k < month_start l (Suc m)" by (intro month_of_end [of 11]) simp_all
    moreover have "month_start l (Suc m) \<le> month_start l m + 31"
    proof -
      from m False have "m = 0 \<or> m = 1 \<or> m = 2 \<or> m = 3 \<or> m = 4 \<or> m = 5 \<or> m = 6 \<or> m = 7 \<or>
          m = 8 \<or> m = 9 \<or> m = 10" by arith
      then show ?thesis by (elim disjE) (simp_all add: month_start_def)
    qed
    ultimately show ?thesis by simp
  qed
qed

section \<open>\<open>toISOString\<close> and \<open>Date.parse\<close>\<close>

definition ms_per_day :: int where
  "ms_per_day = 86400000"

definition epoch_day :: int where
  "epoch_day = 719528"

definition max_time :: int where
  "max_time = 8640000000000000"

definition year_text :: "int \<Rightarrow> string" where
  "year_text y =
     (if 0 \<le> y \<and> y \<le> 9999 then pad 4 (nat y)
      else (if y < 0 then CHR ''-'' else CHR ''+'') # pad 6 (nat \<bar>y\<bar>))"

definition clock_text :: "nat \<Rightarrow> string" where
  "clock_text ms =
     ''T'' @ pad 2 (ms div 3600000) @ '':'' @ pad 2 (ms div 60000 mod 60) @ '':'' @
     pad 2 (ms div 1000 mod 60) @ ''.'' @ pad 3 (ms mod 1000) @ ''Z''"

definition iso_string :: "int \<Rightarrow> string" where
  "iso_string t =
     (let day = t div ms_per_day + epoch_day;
          y = year_of_day day;
          k = day - days_before_year y;
          m = month_of (leap y) k 11
      in year_text y @ ''-'' @ pad 2 (m + 1) @ ''-'' @ pad 2 (nat (k - month_start (leap y) m) + 1) @
         clock_text (nat (t mod ms_per_day)))"

definition iso_text :: "int \<Rightarrow> string result" where
  "iso_text t = (if \<bar>t\<bar> \<le> max_time then Inr (iso_string t) else Inl RangeErr)"

definition read_field :: "nat \<Rightarrow> nat \<Rightarrow> string \<Rightarrow> nat" where
  "read_field from w s = read_digits 0 (take w (drop from s))"

definition read_year :: "string \<Rightarrow> int \<times> string" where
  "read_year s =
     (case s of
        c # cs \<Rightarrow>
          if c = CHR ''-'' then (- int (read_field 0 6 cs), drop 6 cs)
          else if c = CHR ''+'' then (int (read_field 0 6 cs), drop 6 cs)
          else (int (read_field 0 4 s), drop 4 s)
      | [] \<Rightarrow> (0, []))"

definition iso_value :: "string \<Rightarrow> int option" where
  "iso_value s =
     (let (y, r) = read_year s; m = read_field 1 2 r; d = read_field 4 2 r
      in if 1 \<le> m \<and> m \<le> 12
         then Some ((day_number y (m - 1) d - 1 - epoch_day) * ms_per_day +
                    int (read_field 7 2 r * 3600000 + read_field 10 2 r * 60000 +
                         read_field 13 2 r * 1000 + read_field 16 3 r))
         else None)"

text \<open>A string \<open>toISOString\<close> can have written is read back; any other is the engine's.\<close>

definition date_parse :: "platform \<Rightarrow> string \<Rightarrow> int option" where
  "date_parse P s =
     (case iso_value s of
        Some t \<Rightarrow> if iso_text t = Inr s then Some t else date_other P s
      | None \<Rightarrow> date_other P s)"

lemma pad_digit: "c \<in> set (pad w n) \<Longrightarrow> is_digit c"
  by (induction w arbitrary: n) (auto simp: char_class_defs code_digit_char)

lemma clock_fields:
  fixes ms :: nat
  assumes "ms < 86400000"
  shows "ms div 3600000 < 10 ^ 2" "ms div 60000 mod 60 < 10 ^ 2" "ms div 1000 mod 60 < 10 ^ 2"
    "ms mod 1000 < 10 ^ 3"
    "ms div 3600000 * 3600000 + ms div 60000 mod 60 * 60000 + ms div 1000 mod 60 * 1000 + ms mod 1000 = ms"
proof -
  show "ms div 3600000 < 10 ^ 2" using assms by simp
  show "ms div 60000 mod 60 < 10 ^ 2" "ms div 1000 mod 60 < 10 ^ 2" "ms mod 1000 < 10 ^ 3"
    by (simp_all add: order_less_trans [OF mod_less_divisor])
  have "ms = ms div 1000 * 1000 + ms mod 1000"
    and "ms div 1000 = ms div 1000 div 60 * 60 + ms div 1000 mod 60"
    and "ms div 60000 = ms div 60000 div 60 * 60 + ms div 60000 mod 60"
    by simp_all
  moreover have "ms div 1000 div 60 = ms div 60000" "ms div 60000 div 60 = ms div 3600000"
    by (simp_all add: div_mult2_eq [symmetric])
  ultimately show "ms div 3600000 * 3600000 + ms div 60000 mod 60 * 60000 +
      ms div 1000 mod 60 * 1000 + ms mod 1000 = ms"
    by linarith
qed

lemma read_clock:
  assumes "ms < 86400000" and "length a = 6"
  defines "s \<equiv> a @ clock_text ms"
  shows "read_field 7 2 s * 3600000 + read_field 10 2 s * 60000 + read_field 13 2 s * 1000 +
         read_field 16 3 s = ms"
proof -
  note read = read_pad [OF clock_fields(1) [OF assms(1)]] read_pad [OF clock_fields(2) [OF assms(1)]]
    read_pad [OF clock_fields(3) [OF assms(1)]] read_pad [OF clock_fields(4) [OF assms(1)]]
  have "read_field 7 2 s = ms div 3600000" "read_field 10 2 s = ms div 60000 mod 60"
    "read_field 13 2 s = ms div 1000 mod 60" "read_field 16 3 s = ms mod 1000"
    using read assms(2) by (simp_all add: read_field_def s_def clock_text_def)
  with clock_fields(5) [OF assms(1)] show ?thesis by simp
qed

lemma read_year_text:
  assumes "\<bar>y\<bar> < 1000000"
  shows "read_year (year_text y @ s) = (y, s)"
proof (cases "0 \<le> y \<and> y \<le> 9999")
  case True
  then have "nat y < 10 ^ 4" by (simp add: nat_less_iff)
  then have read: "read_digits 0 (pad 4 (nat y)) = nat y" by (rule read_pad)
  obtain c cs where pad: "pad 4 (nat y) = c # cs"
    by (cases "pad 4 (nat y)") (use length_pad [of 4 "nat y"] in auto)
  then have "is_digit c" by (metis list.set_intros(1) pad_digit)
  then have "c \<noteq> CHR ''-''" "c \<noteq> CHR ''+''" by (auto simp: char_class_defs)
  moreover have "length (c # cs) = 4" by (metis pad length_pad)
  ultimately show ?thesis
    using True read by (simp add: year_text_def read_year_def read_field_def pad)
next
  case False
  from assms have "nat \<bar>y\<bar> < 10 ^ 6" by (simp add: nat_less_iff)
  then have "read_digits 0 (pad 6 (nat \<bar>y\<bar>)) = nat \<bar>y\<bar>" by (rule read_pad)
  with False show ?thesis
    by (auto simp: year_text_def read_year_def read_field_def)
qed

lemma year_of_time_bound:
  assumes "\<bar>t\<bar> \<le> max_time"
  shows "\<bar>year_of_day (t div ms_per_day + epoch_day)\<bar> < 1000000"
proof -
  define d where "d = t div ms_per_day + epoch_day"
  have "\<bar>d\<bar> < 200000000"
    using assms unfolding d_def max_time_def ms_per_day_def epoch_day_def by linarith
  moreover have "146097 * year_of_day d - 396 \<le> 400 * d"
    using year_of_day_bounds(1) [of d] days_before_year_bounds(1) [of "year_of_day d"] by linarith
  moreover have "400 * d < 146097 * (year_of_day d + 1) + 699"
    using year_of_day_bounds(2) [of d] days_before_year_bounds(2) [of "year_of_day d + 1"] by linarith
  ultimately show ?thesis unfolding d_def [symmetric] by (simp add: algebra_simps)
qed

lemma iso_value_iso_string:
  assumes "\<bar>t\<bar> \<le> max_time"
  shows "iso_value (iso_string t) = Some t"
proof -
  define day where "day = t div ms_per_day + epoch_day"
  define y where "y = year_of_day day"
  define k where "k = day - days_before_year y"
  define m where "m = month_of (leap y) k 11"
  define d where "d = nat (k - month_start (leap y) m) + 1"
  define ms where "ms = nat (t mod ms_per_day)"
  define r where "r = ''-'' @ pad 2 (m + 1) @ ''-'' @ pad 2 d @ clock_text ms"
  have ms: "ms < 86400000" by (simp add: ms_def ms_per_day_def nat_less_iff)
  have k: "0 \<le> k" "k \<le> 365"
    using year_of_day_bounds [of day] year_length_cases [of y] by (auto simp: k_def y_def)
  have "m \<le> 11" "d < 10 ^ 2" "int d = k - month_start (leap y) m + 1"
    using month_day_bound [OF k, of "leap y"] by (auto simp: m_def d_def)
  note md = this
  then have "m + 1 < 10 ^ 2" by simp
  have fields: "read_field (Suc 0) 2 r = m + 1" "read_field 4 2 r = d"
    using read_pad [OF \<open>m + 1 < 10 ^ 2\<close>] read_pad [OF md(2)]
    by (simp_all add: read_field_def r_def)
  have clock: "read_field 7 2 r * 3600000 + read_field 10 2 r * 60000 + read_field 13 2 r * 1000 +
      read_field 16 3 r = ms"
    using read_clock [OF ms, of "''-'' @ pad 2 (m + 1) @ ''-'' @ pad 2 d"] by (simp add: r_def)
  have "iso_string t = year_text y @ r"
    by (simp add: iso_string_def Let_def r_def d_def m_def k_def y_def day_def ms_def)
  then have "read_year (iso_string t) = (y, r)"
    using read_year_text year_of_time_bound [OF assms] by (simp add: y_def day_def)
  moreover have "day_number y m d - 1 = day"
    using md by (simp add: day_number_def k_def)
  moreover have "(day - epoch_day) * ms_per_day + int ms = t"
    by (simp add: day_def ms_def ms_per_day_def)
  ultimately show ?thesis
    using md(1) by (simp add: iso_value_def fields clock)
qed

theorem date_parse_iso_text: "iso_text t = Inr s \<Longrightarrow> date_parse P s = Some t"
  by (auto simp: iso_text_def date_parse_def iso_value_iso_string split: if_splits)

lemma iso_text_ok: "\<bar>t\<bar> \<le> max_time \<Longrightarrow> iso_text t = Inr (iso_string t)"
  by (simp add: iso_text_def)

text \<open>Evaluation of concrete times (with \<open>cong: let_weak_cong\<close>).\<close>

lemma pad_numeral: "pad (numeral w) n = pad (pred_numeral w) (n div 10) @ [digit_char (n mod 10)]"
  by (subst numeral_eq_Suc) (rule pad.simps(2))

lemma month_of_numeral:
  "month_of l k (numeral w) =
   (if month_start l (numeral w) \<le> k then numeral w else month_of l k (pred_numeral w))"
  by (simp only: numeral_eq_Suc [of w] month_of.simps)

lemmas date_eval =
  iso_string_def ms_per_day_def epoch_day_def year_of_day_def days_before_year_def leap_def
  month_start_def year_text_def clock_text_def pad_numeral month_of_numeral

lemma iso_string_2023: "iso_string 1700000000123 = ''2023-11-14T22:13:20.123Z''"
  by (simp add: date_eval cong: let_weak_cong)

end
