(* ===== verification/AgentContracts.thy ===== *)
theory AgentContracts
  imports JsDate
begin

text \<open>
  The vocabulary of the contracts of \<open>agent-protocol.mjs\<close>: its enumerations, field lists, patterns
  and limits. A set of strings that the source only tests membership in is a list here. The validators
  that use them are in AgentValidators.
\<close>

section \<open>Enumerations, field lists and patterns\<close>

definition RUNTIME_COMPONENTS :: "string list" where
  "RUNTIME_COMPONENTS = [''brainstem'', ''kindred_cloud'', ''emit_core'', ''retrobank'']"

definition AGENT_CLASSES :: "string list" where
  "AGENT_CLASSES = [''living_companion'', ''founder_intelligence'', ''worker'', ''service'']"

definition AUTHORITY_LEVELS :: "string list" where
  "AUTHORITY_LEVELS = [''none'', ''user_delegated'', ''governance_delegated'', ''founder_delegated'']"

definition MESSAGE_TYPES :: "string list" where
  "MESSAGE_TYPES =
     [''discovery'', ''request'', ''response'', ''proposal'', ''negotiation'', ''agreement'', ''task'',
      ''delegation'', ''proof_request'', ''proof_result'', ''execution_request'', ''execution_receipt'',
      ''settlement_request'', ''dispute'', ''cancellation'', ''compensation'', ''health'', ''status'',
      ''revocation'']"

definition DATA_CLASSIFICATIONS :: "string list" where
  "DATA_CLASSIFICATIONS = [''public'', ''internal'', ''confidential'', ''restricted'']"

definition IDENTITY_FIELDS :: "string list" where
  "IDENTITY_FIELDS =
     [''contract_version'', ''agent_id'', ''tenant_id'', ''agent_class'', ''owner_id'', ''creator_id'',
      ''version'', ''lineage'', ''purpose'', ''capabilities'', ''prohibited_capabilities'',
      ''permissions'', ''authority'', ''budget_refs'', ''lifecycle_state'', ''health'',
      ''evidence_refs'', ''memory_scope'', ''execution_scope'', ''provider_scope'',
      ''economic_mandate_ref'', ''replacement_agent_id'', ''created_at'', ''revoked_at'']"

definition CAPABILITY_FIELDS :: "string list" where
  "CAPABILITY_FIELDS =
     [''contract_version'', ''capability_id'', ''version'', ''owner_component'', ''action_type'',
      ''allowed_agent_classes'', ''required_authority'', ''risk_ceiling'', ''data_classifications'',
      ''execution_mode'', ''provider_contact'', ''memory_commit'', ''settlement'',
      ''compensation_required'', ''input_contract_ref'', ''output_contract_ref'']"

definition AUTHORITY_GRANT_FIELDS :: "string list" where
  "AUTHORITY_GRANT_FIELDS =
     [''contract_version'', ''grant_id'', ''subject_agent_id'', ''issuer_component'', ''issuer_id'',
      ''authentication_ref'', ''authority_level'', ''capability_ids'', ''message_types'',
      ''permissions'', ''budget_refs'', ''parent_grant_ref'', ''issued_at'', ''expires_at'',
      ''status'', ''revoked_at'']"

definition ENVELOPE_FIELDS :: "string list" where
  "ENVELOPE_FIELDS =
     [''contract_version'', ''message_id'', ''message_type'', ''sender'', ''recipient'',
      ''authority_ref'', ''correlation_id'', ''causation_id'', ''nonce'', ''timestamp'',
      ''expires_at'', ''data_classification'', ''requested_capability'', ''budget_ref'',
      ''evidence_refs'', ''authentication_ref'', ''delegation_ref'', ''payload'']"

definition PROTOCOL_RECEIPT_FIELDS :: "string list" where
  "PROTOCOL_RECEIPT_FIELDS =
     [''contract_version'', ''message_id'', ''correlation_id'', ''status'', ''accepted_at'',
      ''replay_consumed'']"

definition REVOCATION_NOTICE_FIELDS :: "string list" where
  "REVOCATION_NOTICE_FIELDS =
     [''contract_version'', ''revocation_id'', ''target_type'', ''target_id'', ''reason_class'',
      ''effective_at'', ''authority_component'', ''cascade_dependents'', ''evidence_refs'',
      ''provider_contact_requested'', ''memory_mutation_requested'', ''tool_execution_requested'',
      ''settlement_requested'', ''external_effects'']"

definition REVOCATION_RECEIPT_FIELDS :: "string list" where
  "REVOCATION_RECEIPT_FIELDS =
     [''contract_version'', ''revocation_id'', ''message_id'', ''correlation_id'', ''target_type'',
      ''target_id'', ''reason_class'', ''status'', ''effective_at'', ''identity_state_changed'',
      ''grants_revoked'', ''replay_consumed'', ''history_preserved'', ''provider_contacted'',
      ''memory_mutated'', ''tool_executed'', ''settlement_executed'', ''external_effects'',
      ''evidence_refs'', ''recorded_at'']"

text \<open>\<open>authorityOrder.get(level)\<close>: the place of a level in the list.\<close>

fun index_of :: "string \<Rightarrow> string list \<Rightarrow> nat option" where
  "index_of s [] = None"
| "index_of s (t # ts) = (if s = t then Some 0 else map_option Suc (index_of s ts))"

fun level_in :: "string list \<Rightarrow> jsv \<Rightarrow> nat option" where
  "level_in L (JStr s) = index_of s L"
| "level_in L _ = None"

text \<open>\<open>order.get(a) > order.get(b)\<close>, false where one of them is undefined.\<close>

definition level_gt :: "string list \<Rightarrow> jsv \<Rightarrow> jsv \<Rightarrow> bool" where
  "level_gt L a b =
     (case (level_in L a, level_in L b) of (Some m, Some n) \<Rightarrow> n < m | _ \<Rightarrow> False)"

definition lifecycle_states :: "string list" where
  "lifecycle_states = [''registered'', ''active'', ''suspended'', ''revoked'', ''retired'', ''replaced'']"

definition health_states :: "string list" where
  "health_states = [''healthy'', ''degraded'', ''unavailable'', ''unknown'']"

definition action_types :: "string list" where
  "action_types = [''communication'', ''reasoning'', ''memory_proposal'', ''tool'', ''settlement'']"

definition risk_levels :: "string list" where
  "risk_levels = [''low'', ''medium'', ''high'', ''critical'']"

definition execution_modes :: "string list" where
  "execution_modes = [''proposal_only'', ''governed_local_reversible'', ''governed_external'']"

definition grant_statuses :: "string list" where
  "grant_statuses = [''active'', ''suspended'', ''revoked'']"

definition forbidden_payload_keys :: "string list" where
  "forbidden_payload_keys =
     [''access_token'', ''authorization_code'', ''client_secret'', ''cookie'', ''password'',
      ''pkce_verifier'', ''private_key'', ''refresh_token'', ''seed_phrase'']"

definition revocation_reasons :: "string list" where
  "revocation_reasons =
     [''owner_request'', ''governance_policy'', ''security_response'', ''replacement'', ''retirement'']"

definition capability_message_types :: "string list" where
  "capability_message_types =
     filter (\<lambda>m. m \<notin> set [''discovery'', ''health'', ''status'', ''revocation'']) MESSAGE_TYPES"

definition direct_agent_execution_types :: "string list" where
  "direct_agent_execution_types = [''execution_request'', ''execution_receipt'', ''settlement_request'']"

lemmas enum_defs =
  RUNTIME_COMPONENTS_def AGENT_CLASSES_def AUTHORITY_LEVELS_def MESSAGE_TYPES_def
  DATA_CLASSIFICATIONS_def lifecycle_states_def health_states_def action_types_def risk_levels_def
  execution_modes_def grant_statuses_def revocation_reasons_def direct_agent_execution_types_def

lemmas field_defs =
  IDENTITY_FIELDS_def CAPABILITY_FIELDS_def AUTHORITY_GRANT_FIELDS_def ENVELOPE_FIELDS_def
  PROTOCOL_RECEIPT_FIELDS_def REVOCATION_NOTICE_FIELDS_def REVOCATION_RECEIPT_FIELDS_def

definition agentIdPattern :: "string \<Rightarrow> bool" where
  "agentIdPattern = prefixed ''kindred-agent-'' is_idch 8 96"

definition tenantIdPattern :: "string \<Rightarrow> bool" where
  "tenantIdPattern = prefixed ''kindred-tenant-'' is_idch 8 96"

definition grantIdPattern :: "string \<Rightarrow> bool" where
  "grantIdPattern = prefixed ''kindred-grant-'' is_idch 8 96"

definition messageIdPattern :: "string \<Rightarrow> bool" where
  "messageIdPattern = prefixed ''kindred-message-'' is_idch 8 96"

definition revocationIdPattern :: "string \<Rightarrow> bool" where
  "revocationIdPattern = prefixed ''kindred-revocation-'' is_idch 8 96"

definition authenticationReferencePattern :: "string \<Rightarrow> bool" where
  "authenticationReferencePattern = prefixed ''kindred-authref-'' is_idch 8 96"

definition noncePattern :: "string \<Rightarrow> bool" where
  "noncePattern = prefixed [] is_idch 16 128"

lemmas pattern_defs =
  agentIdPattern_def tenantIdPattern_def grantIdPattern_def messageIdPattern_def
  revocationIdPattern_def authenticationReferencePattern_def noncePattern_def

definition MAX_ENVELOPE_TTL_MS :: int where
  "MAX_ENVELOPE_TTL_MS = 15 * 60 * 1000"

definition MAX_FUTURE_SKEW_MS :: int where
  "MAX_FUTURE_SKEW_MS = 5 * 60 * 1000"

definition MAX_PAYLOAD_BYTES :: nat where
  "MAX_PAYLOAD_BYTES = 32 * 1024"

definition MAX_PAYLOAD_DEPTH :: nat where
  "MAX_PAYLOAD_DEPTH = 8"

end
