(* ===== verification/AgentValidators.thy ===== *)
theory AgentValidators
  imports AgentContracts
begin

text \<open>
  The field checks of \<open>agent-protocol.mjs\<close> (\<open>exactKeys\<close>, \<open>boundedString\<close>, \<open>timestamp\<close>,
  \<open>uniqueStrings\<close>, nullable references, the payload walk) and its validators of identities,
  capabilities, authority grants, envelopes, receipts and revocation notices. A validator returns its
  argument (the structured clone) or the rejection. Where the source tests a pattern on a value it has
  not checked to be a string, the pattern is tested on the value's string conversion, as \<open>RegExp.test\<close>
  does.
\<close>

section \<open>Field checks\<close>

text \<open>\<open>exactKeys\<close>: a record whose sorted keys are the sorted fields.\<close>

definition exactKeys :: "jsv \<Rightarrow> string list \<Rightarrow> bool" where
  "exactKeys v expected \<longleftrightarrow> is_record v \<and> sort (jkeys v) = sort expected"

lemma exactKeys_code [code]: "exactKeys v E \<longleftrightarrow> is_record v \<and> same_elements (jkeys v) E"
  by (simp add: exactKeys_def sort_eq_same_elements)

fun boundedString :: "jsv \<Rightarrow> nat \<Rightarrow> nat \<Rightarrow> bool" where
  "boundedString (JStr s) lo hi = (lo \<le> length s \<and> length s \<le> hi \<and> \<not> list_ex is_control s)"
| "boundedString _ lo hi = False"

fun date_of :: "platform \<Rightarrow> jsv \<Rightarrow> int option" where
  "date_of P (JStr s) = date_parse P s"
| "date_of P _ = None"

definition timestamp :: "platform \<Rightarrow> jsv \<Rightarrow> string \<Rightarrow> int result" where
  "timestamp P v reason = (case date_of P v of Some t \<Rightarrow> Inr t | None \<Rightarrow> reject reason)"

definition uniqueStrings :: "jsv \<Rightarrow> nat \<Rightarrow> nat \<Rightarrow> bool" where
  "uniqueStrings v maximum minimum \<longleftrightarrow>
     is_array v \<and> minimum \<le> length (items v) \<and> length (items v) \<le> maximum \<and>
     no_repeats (items v) \<and> list_all (\<lambda>i. boundedString i 3 128) (items v)"

definition validateNullableReference :: "platform \<Rightarrow> jsv \<Rightarrow> (string \<Rightarrow> bool) option \<Rightarrow> bool" where
  "validateNullableReference P v pattern \<longleftrightarrow>
     v = JNull \<or>
     (boundedString v 3 128 \<and> (case pattern of None \<Rightarrow> True | Some shape \<Rightarrow> test P shape v))"

text \<open>\<open>validatePayload\<close>: the walk with its depth counter.\<close>

fun validatePayload :: "jsv \<Rightarrow> nat \<Rightarrow> unit result"
  and validatePayloadItems :: "jsv list \<Rightarrow> nat \<Rightarrow> unit result"
  and validatePayloadEntries :: "(string \<times> jsv) list \<Rightarrow> nat \<Rightarrow> unit result" where
  "validatePayload v depth =
     (if MAX_PAYLOAD_DEPTH < depth then reject ''payload_depth_exceeded''
      else case v of
        JNull \<Rightarrow> Inr ()
      | JBool _ \<Rightarrow> Inr ()
      | JNum n \<Rightarrow> if is_finite (JNum n) then Inr () else reject ''payload_invalid''
      | JStr s \<Rightarrow> if boundedString (JStr s) 0 4096 then Inr () else reject ''payload_invalid''
      | JArr vs \<Rightarrow>
          if 128 < length vs then reject ''payload_capacity_exceeded''
          else validatePayloadItems vs (depth + 1)
      | JObj kvs \<Rightarrow>
          if 128 < length kvs then reject ''payload_invalid''
          else validatePayloadEntries kvs (depth + 1)
      | JUndef \<Rightarrow> reject ''payload_invalid'')"
| "validatePayloadItems [] depth = Inr ()"
| "validatePayloadItems (v # vs) depth =
     and_then (validatePayload v depth) (\<lambda>_. validatePayloadItems vs depth)"
| "validatePayloadEntries [] depth = Inr ()"
| "validatePayloadEntries ((k, v) # kvs) depth =
     (if \<not> boundedString (JStr k) 1 128 \<or> to_lower k \<in> set forbidden_payload_keys
      then reject ''sensitive_payload_forbidden''
      else and_then (validatePayload v depth) (\<lambda>_. validatePayloadEntries kvs depth))"

definition validatePrincipal :: "platform \<Rightarrow> jsv \<Rightarrow> jsv result" where
  "validatePrincipal P v =
     (if \<not> exactKeys v [''principal_type'', ''id''] then reject ''principal_invalid''
      else if \<not> str_in (jget v ''principal_type'') [''agent'', ''runtime_component'']
        then reject ''principal_invalid''
      else if jget v ''principal_type'' = JStr ''agent'' \<and> \<not> test P agentIdPattern (jget v ''id'')
        then reject ''principal_invalid''
      else if jget v ''principal_type'' = JStr ''runtime_component'' \<and>
              \<not> str_in (jget v ''id'') RUNTIME_COMPONENTS
        then reject ''runtime_component_unknown''
      else Inr v)"

section \<open>Agent identities\<close>

fun starts_with :: "string \<Rightarrow> jsv \<Rightarrow> bool result" where
  "starts_with p (JStr s) = Inr (take (length p) s = p)"
| "starts_with p _ = Inl TypeErr"

definition identity_fields_ok :: "platform \<Rightarrow> jsv \<Rightarrow> bool" where
  "identity_fields_ok P v \<longleftrightarrow>
     jget v ''contract_version'' = JStr ''kindred.agent.identity.v1'' \<and>
     test P agentIdPattern (jget v ''agent_id'') \<and>
     test P tenantIdPattern (jget v ''tenant_id'') \<and>
     str_in (jget v ''agent_class'') AGENT_CLASSES \<and>
     boundedString (jget v ''owner_id'') 8 128 \<and>
     boundedString (jget v ''creator_id'') 8 128 \<and>
     test P version_shape (jget v ''version'') \<and>
     boundedString (jget v ''purpose'') 1 512 \<and>
     uniqueStrings (jget v ''capabilities'') 64 0 \<and>
     uniqueStrings (jget v ''prohibited_capabilities'') 64 0 \<and>
     uniqueStrings (jget v ''permissions'') 64 0 \<and>
     uniqueStrings (jget v ''budget_refs'') 64 0 \<and>
     str_in (jget v ''lifecycle_state'') lifecycle_states \<and>
     str_in (jget v ''health'') health_states \<and>
     uniqueStrings (jget v ''evidence_refs'') 64 0"

definition lineage_ok :: "platform \<Rightarrow> jsv \<Rightarrow> bool" where
  "lineage_ok P v \<longleftrightarrow>
     (let l = jget v ''lineage''
      in exactKeys l [''parent_agent_id'', ''replaces_agent_id''] \<and>
         validateNullableReference P (jget l ''parent_agent_id'') (Some agentIdPattern) \<and>
         validateNullableReference P (jget l ''replaces_agent_id'') (Some agentIdPattern) \<and>
         \<not> strict_eq (jget l ''parent_agent_id'') (jget v ''agent_id'') \<and>
         \<not> strict_eq (jget l ''replaces_agent_id'') (jget v ''agent_id''))"

definition authority_ok :: "jsv \<Rightarrow> bool" where
  "authority_ok v \<longleftrightarrow>
     (let a = jget v ''authority''
      in exactKeys a [''issuer_component'', ''grant_refs'', ''ceiling''] \<and>
         jget a ''issuer_component'' = JStr ''brainstem'' \<and>
         uniqueStrings (jget a ''grant_refs'') 64 0 \<and>
         str_in (jget a ''ceiling'') AUTHORITY_LEVELS)"

definition memory_scope_ok :: "jsv \<Rightarrow> bool" where
  "memory_scope_ok v \<longleftrightarrow>
     (let m = jget v ''memory_scope''
      in exactKeys m [''namespace_refs'', ''write_mode''] \<and>
         uniqueStrings (jget m ''namespace_refs'') 64 0 \<and>
         jget m ''write_mode'' = JStr ''proposal_only'')"

definition execution_scope_ok :: "jsv \<Rightarrow> bool" where
  "execution_scope_ok v \<longleftrightarrow>
     (let e = jget v ''execution_scope''
      in exactKeys e [''mode'', ''allowed_capabilities''] \<and>
         jget e ''mode'' = JStr ''proposal_only'' \<and>
         uniqueStrings (jget e ''allowed_capabilities'') 64 0 \<and>
         list_all (\<lambda>c. array_includes (jget v ''capabilities'') c) (items (jget e ''allowed_capabilities'')))"

definition provider_scope_ok :: "jsv \<Rightarrow> bool" where
  "provider_scope_ok v \<longleftrightarrow>
     (let p = jget v ''provider_scope''
      in exactKeys p [''mode'', ''provider_refs''] \<and>
         jget p ''mode'' = JStr ''mediated_only'' \<and> uniqueStrings (jget p ''provider_refs'') 64 0)"

definition lifecycle_ok :: "jsv \<Rightarrow> bool" where
  "lifecycle_ok v \<longleftrightarrow>
     (jget v ''lifecycle_state'' = JStr ''revoked'') = (jget v ''revoked_at'' \<noteq> JNull) \<and>
     (jget v ''lifecycle_state'' = JStr ''replaced'') = (jget v ''replacement_agent_id'' \<noteq> JNull)"

text \<open>The last check, for companions; \<open>startsWith\<close> throws a TypeError on an agent id that is not a string.\<close>

definition companion_boundary :: "jsv \<Rightarrow> jsv result" where
  "companion_boundary v =
     (if jget v ''agent_class'' \<noteq> JStr ''living_companion'' then Inr v
      else if jget (jget v ''authority'') ''ceiling'' = JStr ''founder_delegated'' \<or>
              array_includes (jget v ''permissions'') (JStr ''founder_authority'') \<or>
              starts_with ''kindred-account-'' (jget v ''owner_id'') \<noteq> Inr True
        then reject ''companion_authority_boundary_violation''
      else and_then (starts_with ''kindred-agent-companion-'' (jget v ''agent_id''))
             (\<lambda>b. if b then Inr v else reject ''companion_authority_boundary_violation''))"

definition validateAgentIdentity :: "platform \<Rightarrow> jsv \<Rightarrow> jsv result" where
  "validateAgentIdentity P v =
     (if \<not> exactKeys v IDENTITY_FIELDS then reject ''identity_fields_invalid''
      else if \<not> identity_fields_ok P v then reject ''identity_invalid''
      else if list_ex (array_includes (jget v ''prohibited_capabilities'')) (items (jget v ''capabilities''))
        then reject ''identity_capability_conflict''
      else if \<not> lineage_ok P v then reject ''identity_lineage_invalid''
      else if \<not> authority_ok v then reject ''identity_authority_invalid''
      else if \<not> memory_scope_ok v then reject ''identity_memory_scope_invalid''
      else if \<not> execution_scope_ok v then reject ''identity_execution_scope_invalid''
      else if \<not> provider_scope_ok v then reject ''identity_provider_scope_invalid''
      else if \<not> validateNullableReference P (jget v ''economic_mandate_ref'') None \<or>
              \<not> validateNullableReference P (jget v ''replacement_agent_id'') (Some agentIdPattern)
        then reject ''identity_reference_invalid''
      else and_then (timestamp P (jget v ''created_at'') ''identity_timestamp_invalid'') (\<lambda>_.
           and_then
             (if jget v ''revoked_at'' = JNull then Inr 0
              else timestamp P (jget v ''revoked_at'') ''identity_timestamp_invalid'') (\<lambda>_.
           if \<not> lifecycle_ok v then reject ''identity_lifecycle_invalid'' else companion_boundary v)))"

end
