(* ===== verification/AgentMessages.thy ===== *)
theory AgentMessages
  imports AgentValidators
begin

text \<open>
  The validators of \<open>agent-protocol.mjs\<close> for what moves through the gateway: capabilities,
  authority grants, message envelopes, protocol receipts, revocation notices and revocation receipts.
  At the end, the contract all validators of the file share (a success returns the argument, and a
  second validation succeeds again) as the locale \<open>validator\<close>, interpreted on each of them.
\<close>

section \<open>Capabilities\<close>

text \<open>A non-empty array without repeats whose items are all in an enumeration.\<close>

definition enum_array :: "jsv \<Rightarrow> string list \<Rightarrow> bool" where
  "enum_array v L \<longleftrightarrow>
     is_array v \<and> items v \<noteq> [] \<and> length (items v) \<le> length L \<and> no_repeats (items v) \<and>
     list_all (\<lambda>i. str_in i L) (items v)"

definition validateCapability :: "platform \<Rightarrow> jsv \<Rightarrow> jsv result" where
  "validateCapability P v =
     (if \<not> exactKeys v CAPABILITY_FIELDS then reject ''capability_fields_invalid''
      else if \<not>
        (jget v ''contract_version'' = JStr ''kindred.agent.capability.v1'' \<and>
         test P capability_id_shape (jget v ''capability_id'') \<and>
         test P version_shape (jget v ''version'') \<and>
         str_in (jget v ''owner_component'') RUNTIME_COMPONENTS \<and>
         str_in (jget v ''action_type'') action_types \<and>
         enum_array (jget v ''allowed_agent_classes'') AGENT_CLASSES \<and>
         str_in (jget v ''required_authority'') AUTHORITY_LEVELS \<and>
         str_in (jget v ''risk_ceiling'') risk_levels \<and>
         enum_array (jget v ''data_classifications'') DATA_CLASSIFICATIONS \<and>
         str_in (jget v ''execution_mode'') execution_modes \<and>
         jget v ''provider_contact'' = JStr ''mediated_only'' \<and>
         jget v ''memory_commit'' = JStr ''brainstem_only'' \<and>
         jget v ''settlement'' = JStr ''retrobank_mandate_only'' \<and>
         is_boolean (jget v ''compensation_required'') \<and>
         boundedString (jget v ''input_contract_ref'') 3 256 \<and>
         boundedString (jget v ''output_contract_ref'') 3 256)
        then reject ''capability_invalid''
      else Inr v)"

section \<open>Authority grants\<close>

definition grant_fields_ok :: "platform \<Rightarrow> jsv \<Rightarrow> bool" where
  "grant_fields_ok P v \<longleftrightarrow>
     jget v ''contract_version'' = JStr ''kindred.agent.authority-grant.v1'' \<and>
     test P grantIdPattern (jget v ''grant_id'') \<and>
     test P agentIdPattern (jget v ''subject_agent_id'') \<and>
     jget v ''issuer_component'' = JStr ''brainstem'' \<and>
     boundedString (jget v ''issuer_id'') 8 128 \<and>
     test P authenticationReferencePattern (jget v ''authentication_ref'') \<and>
     str_in (jget v ''authority_level'') AUTHORITY_LEVELS \<and>
     uniqueStrings (jget v ''capability_ids'') 64 0 \<and>
     enum_array (jget v ''message_types'') MESSAGE_TYPES \<and>
     uniqueStrings (jget v ''permissions'') 64 0 \<and>
     uniqueStrings (jget v ''budget_refs'') 64 0 \<and>
     validateNullableReference P (jget v ''parent_grant_ref'') (Some grantIdPattern) \<and>
     str_in (jget v ''status'') grant_statuses"

definition validateAuthorityGrant :: "platform \<Rightarrow> jsv \<Rightarrow> jsv result" where
  "validateAuthorityGrant P v =
     (if \<not> exactKeys v AUTHORITY_GRANT_FIELDS then reject ''authority_grant_fields_invalid''
      else if \<not> grant_fields_ok P v then reject ''authority_grant_invalid''
      else and_then (timestamp P (jget v ''issued_at'') ''authority_grant_timestamp_invalid'') (\<lambda>issuedAt.
           and_then (timestamp P (jget v ''expires_at'') ''authority_grant_timestamp_invalid'') (\<lambda>expiresAt.
           if expiresAt \<le> issuedAt then reject ''authority_grant_timestamp_invalid''
           else and_then
             (if jget v ''revoked_at'' = JNull then Inr 0
              else timestamp P (jget v ''revoked_at'') ''authority_grant_timestamp_invalid'') (\<lambda>_.
           if (jget v ''status'' = JStr ''revoked'') \<noteq> (jget v ''revoked_at'' \<noteq> JNull)
           then reject ''authority_grant_status_invalid''
           else Inr v))))"

section \<open>Envelopes and receipts\<close>

definition envelope_fields_ok :: "platform \<Rightarrow> jsv \<Rightarrow> bool" where
  "envelope_fields_ok P v \<longleftrightarrow>
     jget v ''contract_version'' = JStr ''kindred.agent.message-envelope.v1'' \<and>
     test P messageIdPattern (jget v ''message_id'') \<and>
     str_in (jget v ''message_type'') MESSAGE_TYPES \<and>
     validateNullableReference P (jget v ''authority_ref'') (Some grantIdPattern) \<and>
     test P reference_shape (jget v ''correlation_id'') \<and>
     validateNullableReference P (jget v ''causation_id'') (Some reference_shape) \<and>
     test P noncePattern (jget v ''nonce'') \<and>
     str_in (jget v ''data_classification'') DATA_CLASSIFICATIONS \<and>
     validateNullableReference P (jget v ''requested_capability'') (Some capability_id_shape) \<and>
     validateNullableReference P (jget v ''budget_ref'') None \<and>
     uniqueStrings (jget v ''evidence_refs'') 64 0 \<and>
     validateNullableReference P (jget v ''authentication_ref'') (Some authenticationReferencePattern) \<and>
     validateNullableReference P (jget v ''delegation_ref'') (Some grantIdPattern)"

definition validateEnvelope :: "platform \<Rightarrow> jsv \<Rightarrow> jsv result" where
  "validateEnvelope P v =
     (if \<not> exactKeys v ENVELOPE_FIELDS then reject ''envelope_fields_invalid''
      else if \<not> envelope_fields_ok P v then reject ''envelope_invalid''
      else and_then (validatePrincipal P (jget v ''sender'')) (\<lambda>_.
           and_then (validatePrincipal P (jget v ''recipient'')) (\<lambda>_.
           and_then (timestamp P (jget v ''timestamp'') ''envelope_timestamp_invalid'') (\<lambda>sentAt.
           and_then (timestamp P (jget v ''expires_at'') ''envelope_timestamp_invalid'') (\<lambda>expiresAt.
           if expiresAt \<le> sentAt \<or> MAX_ENVELOPE_TTL_MS < expiresAt - sentAt
           then reject ''envelope_expiration_invalid''
           else if \<not> is_record (jget v ''payload'') then reject ''payload_invalid''
           else and_then (validatePayload (jget v ''payload'') 0) (\<lambda>_.
           if MAX_PAYLOAD_BYTES < length (utf8 (json P (jget v ''payload'')))
           then reject ''payload_capacity_exceeded''
           else Inr v))))))"

definition validateProtocolReceipt :: "platform \<Rightarrow> jsv \<Rightarrow> jsv result" where
  "validateProtocolReceipt P v =
     (if \<not> exactKeys v PROTOCOL_RECEIPT_FIELDS then reject ''protocol_receipt_fields_invalid''
      else if \<not>
        (jget v ''contract_version'' = JStr ''kindred.agent.protocol-receipt.v1'' \<and>
         test P messageIdPattern (jget v ''message_id'') \<and>
         test P reference_shape (jget v ''correlation_id'') \<and>
         jget v ''status'' = JStr ''accepted'' \<and>
         jget v ''replay_consumed'' = JBool True)
        then reject ''protocol_receipt_invalid''
      else and_then (timestamp P (jget v ''accepted_at'') ''protocol_receipt_timestamp_invalid'')
             (\<lambda>_. Inr v))"

section \<open>Revocations\<close>

definition revocation_target_valid :: "platform \<Rightarrow> jsv \<Rightarrow> bool" where
  "revocation_target_valid P v \<longleftrightarrow>
     (jget v ''target_type'' = JStr ''agent'' \<and> test P agentIdPattern (jget v ''target_id'')) \<or>
     (jget v ''target_type'' = JStr ''authority_grant'' \<and> test P grantIdPattern (jget v ''target_id''))"

definition validateRevocationNotice :: "platform \<Rightarrow> jsv \<Rightarrow> jsv result" where
  "validateRevocationNotice P v =
     (if \<not> exactKeys v REVOCATION_NOTICE_FIELDS then reject ''revocation_notice_fields_invalid''
      else if \<not>
        (jget v ''contract_version'' = JStr ''kindred.agent.revocation-notice.v1'' \<and>
         test P revocationIdPattern (jget v ''revocation_id'') \<and>
         revocation_target_valid P v \<and>
         str_in (jget v ''reason_class'') revocation_reasons \<and>
         jget v ''authority_component'' = JStr ''brainstem'' \<and>
         jget v ''cascade_dependents'' = JBool True \<and>
         uniqueStrings (jget v ''evidence_refs'') 16 1 \<and>
         jget v ''provider_contact_requested'' = JBool False \<and>
         jget v ''memory_mutation_requested'' = JBool False \<and>
         jget v ''tool_execution_requested'' = JBool False \<and>
         jget v ''settlement_requested'' = JBool False \<and>
         jget v ''external_effects'' = JBool False)
        then reject ''revocation_notice_invalid''
      else and_then (timestamp P (jget v ''effective_at'') ''revocation_notice_timestamp_invalid'')
             (\<lambda>_. Inr v))"

definition validateRevocationReceipt :: "platform \<Rightarrow> jsv \<Rightarrow> jsv result" where
  "validateRevocationReceipt P v =
     (if \<not> exactKeys v REVOCATION_RECEIPT_FIELDS then reject ''revocation_receipt_fields_invalid''
      else
        and_then (timestamp P (jget v ''effective_at'') ''revocation_receipt_timestamp_invalid'') (\<lambda>effectiveAt.
        and_then (timestamp P (jget v ''recorded_at'') ''revocation_receipt_timestamp_invalid'') (\<lambda>recordedAt.
        if \<not>
          (jget v ''contract_version'' = JStr ''kindred.agent.revocation-receipt.v1'' \<and>
           test P revocationIdPattern (jget v ''revocation_id'') \<and>
           test P messageIdPattern (jget v ''message_id'') \<and>
           test P reference_shape (jget v ''correlation_id'') \<and>
           revocation_target_valid P v \<and>
           str_in (jget v ''reason_class'') revocation_reasons \<and>
           jget v ''status'' = JStr ''applied'' \<and>
           is_boolean (jget v ''identity_state_changed'') \<and>
           is_safe_integer (jget v ''grants_revoked'') \<and>
           0 \<le> num_of (jget v ''grants_revoked'') \<and> num_of (jget v ''grants_revoked'') \<le> 4096 \<and>
           jget v ''replay_consumed'' = JBool True \<and>
           jget v ''history_preserved'' = JBool True \<and>
           jget v ''provider_contacted'' = JBool False \<and>
           jget v ''memory_mutated'' = JBool False \<and>
           jget v ''tool_executed'' = JBool False \<and>
           jget v ''settlement_executed'' = JBool False \<and>
           jget v ''external_effects'' = JBool False \<and>
           uniqueStrings (jget v ''evidence_refs'') 16 1 \<and>
           effectiveAt \<le> recordedAt \<and>
           JBool (jget v ''target_type'' = JStr ''agent'') = jget v ''identity_state_changed'' \<and>
           (jget v ''target_type'' = JStr ''authority_grant'' \<longrightarrow> 1 \<le> num_of (jget v ''grants_revoked'')))
          then reject ''revocation_receipt_invalid''
        else Inr v)))"

section \<open>What all validators promise\<close>

text \<open>
  A validator hands back a clone of its argument or rejects. Callers validate a value again that
  another layer has validated, and rely on the second validation succeeding with the same value.
\<close>

locale validator =
  fixes validate :: "jsv \<Rightarrow> jsv result"
  assumes returns_argument: "validate v = Inr w \<Longrightarrow> w = v"
begin

lemma idempotent: "validate v = Inr w \<Longrightarrow> validate w = Inr w"
  by (frule returns_argument) simp

lemma all_return_arguments: "map_results validate vs = Inr ws \<Longrightarrow> ws = vs"
  using map_results_Inr_map [of validate vs ws "\<lambda>v. v"] returns_argument by auto

lemma all_valid: "map_results validate vs = Inr ws \<Longrightarrow> v \<in> set vs \<Longrightarrow> validate v = Inr v"
  using map_results_Inr_each [of validate vs ws v] returns_argument by (auto simp: succeeds_iff)

end

lemma companion_boundary_result: "companion_boundary v = Inr w \<Longrightarrow> w = v"
  by (auto simp: companion_boundary_def result_simps split: if_splits)

interpretation identity: validator "validateAgentIdentity P"
  by unfold_locales
    (auto simp: validateAgentIdentity_def result_simps dest: companion_boundary_result split: if_splits)

interpretation capability: validator "validateCapability P"
  by unfold_locales (simp add: validateCapability_def split: if_splits)

interpretation grant: validator "validateAuthorityGrant P"
  by unfold_locales (auto simp: validateAuthorityGrant_def result_simps split: if_splits)

interpretation envelope: validator "validateEnvelope P"
  by unfold_locales (auto simp: validateEnvelope_def result_simps split: if_splits)

interpretation protocol_receipt: validator "validateProtocolReceipt P"
  by unfold_locales (auto simp: validateProtocolReceipt_def result_simps split: if_splits)

interpretation notice: validator "validateRevocationNotice P"
  by unfold_locales (auto simp: validateRevocationNotice_def result_simps split: if_splits)

interpretation revocation_receipt: validator "validateRevocationReceipt P"
  by unfold_locales (auto simp: validateRevocationReceipt_def result_simps split: if_splits)

end
