(* ===== verification/ReplayGuard.thy ===== *)
theory ReplayGuard
  imports Prelude
begin

text \<open>
  \<open>ReplayGuard\<close> of \<open>agent-protocol.mjs\<close>: the map from consumed \<open>sender:nonce\<close> keys to the expiry
  of the envelope that consumed them. Each operation takes the clock reading it is made at. The
  interface the gateway relies on is the locale \<open>replay_filter\<close>, interpreted on the guard; its trace
  lemma says that no key is consumed twice before the first consumption expires.
\<close>

section \<open>State and operations\<close>

record replay_guard =
  entries :: "(string \<times> int) list"
  maxEntries :: int

definition prune :: "int \<Rightarrow> replay_guard \<Rightarrow> replay_guard" where
  "prune now g = g\<lparr>entries := filter (\<lambda>(k, expiresAt). \<not> expiresAt \<le> now) (entries g)\<rparr>"

definition replay_key :: "string \<Rightarrow> string \<Rightarrow> string" where
  "replay_key senderKey nonce = senderKey @ '':'' @ nonce"

text \<open>\<open>has\<close>\<close>

definition has_replay :: "replay_guard \<Rightarrow> string \<Rightarrow> int \<Rightarrow> bool \<times> replay_guard" where
  "has_replay g key now =
     (let g' = prune now g in (map_of (entries g') key \<noteq> None, g'))"

definition consume :: "replay_guard \<Rightarrow> string \<Rightarrow> int \<Rightarrow> int \<Rightarrow> unit result \<times> replay_guard" where
  "consume g key expiresAt now =
     (let g' = prune now g
      in if map_of (entries g') key \<noteq> None then (reject ''envelope_replay'', g')
         else if maxEntries g' \<le> int (length (entries g'))
           then (Inl (Rejected ''replay_capacity_reached'' True), g')
         else (Inr (), g'\<lparr>entries := AList.update key expiresAt (entries g')\<rparr>))"

section \<open>The invariant\<close>

definition guard_wf :: "replay_guard \<Rightarrow> bool" where
  "guard_wf g \<longleftrightarrow>
     1 \<le> maxEntries g \<and> distinct (map fst (entries g)) \<and> int (length (entries g)) \<le> maxEntries g"

lemma maxEntries_prune [simp]: "maxEntries (prune now g) = maxEntries g"
  by (simp add: prune_def)

lemma length_prune: "length (entries (prune now g)) \<le> length (entries g)"
  by (simp add: prune_def)

lemma distinct_prune: "distinct (map fst (entries g)) \<Longrightarrow> distinct (map fst (entries (prune now g)))"
  by (simp add: prune_def distinct_map_filter_fst)

lemma map_of_prune:
  assumes "distinct (map fst (entries g))"
  shows "map_of (entries (prune now g)) k =
    (case map_of (entries g) k of None \<Rightarrow> None | Some e \<Rightarrow> if now < e then Some e else None)"
  using assms by (simp add: prune_def map_of_filter_distinct split: option.split)

lemma prune_prune: "now \<le> t \<Longrightarrow> prune t (prune now g) = prune t g"
  by (auto simp: prune_def intro!: replay_guard.equality filter_cong)

lemma prune_wf: "guard_wf g \<Longrightarrow> guard_wf (prune now g)"
  using length_prune [of now g] by (simp add: guard_wf_def distinct_prune)

lemma consume_wf:
  assumes "guard_wf g"
  shows "guard_wf (snd (consume g key e now))"
proof -
  have "guard_wf (prune now g)" using assms by (rule prune_wf)
  then show ?thesis
    using length_update_le [of key e "entries (prune now g)"]
    by (auto simp: consume_def Let_def guard_wf_def distinct_update simp del: maxEntries_prune)
qed

lemma consume_rejected: "fst (consume g key e now) = Inl err \<Longrightarrow> snd (consume g key e now) = prune now g"
  by (auto simp: consume_def Let_def split: if_splits)

section \<open>The interface: a filter with expiry\<close>

text \<open>
  \<open>held g k t\<close> says that the filter would refuse \<open>k\<close> at time \<open>t\<close>. The laws speak of clocks that
  do not run backwards: an entry dropped at one reading would be live again at an earlier one.
\<close>

locale replay_filter =
  fixes wf :: "'g \<Rightarrow> bool"
    and held :: "'g \<Rightarrow> string \<Rightarrow> int \<Rightarrow> bool"
    and use :: "'g \<Rightarrow> string \<Rightarrow> int \<Rightarrow> int \<Rightarrow> unit result \<times> 'g"
  assumes use_wf: "wf g \<Longrightarrow> wf (snd (use g k e now))"
    and use_held: "wf g \<Longrightarrow> held g k now \<Longrightarrow> \<not> succeeds (fst (use g k e now))"
    and held_after: "wf g \<Longrightarrow> now \<le> t \<Longrightarrow>
      held (snd (use g k e now)) k' t \<longleftrightarrow>
        held g k' t \<or> (k' = k \<and> succeeds (fst (use g k e now)) \<and> t < e)"
begin

text \<open>A run of consumptions \<open>(key, expiry, clock)\<close>; \<open>run\<close> yields the state after them.\<close>

fun run :: "'g \<Rightarrow> (string \<times> int \<times> int) list \<Rightarrow> 'g" where
  "run g [] = g"
| "run g ((k, e, now) # us) = run (snd (use g k e now)) us"

lemma run_append: "run g (us @ vs) = run (run g us) vs"
  by (induction g us rule: run.induct) auto

lemma run_wf: "wf g \<Longrightarrow> wf (run g us)"
  by (induction g us rule: run.induct) (auto intro: use_wf)

lemma held_run:
  assumes "wf g" and "held g k t" and "\<forall>u \<in> set us. snd (snd u) \<le> t"
  shows "held (run g us) k t"
  using assms by (induction g us rule: run.induct) (auto simp: held_after use_wf)

lemma used_once:
  assumes wf: "wf g" and first: "succeeds (fst (use g k e now))"
    and between: "\<forall>u \<in> set us. snd (snd u) \<le> t" and later: "now \<le> t" "t < e"
  shows "\<not> succeeds (fst (use (run (snd (use g k e now)) us) k e' t))"
proof -
  have "held (snd (use g k e now)) k t"
    using wf first later by (simp add: held_after)
  with wf between have "held (run (snd (use g k e now)) us) k t"
    by (intro held_run) (auto intro: use_wf)
  then show ?thesis
    using wf by (intro use_held run_wf) (auto intro: use_wf)
qed

end

definition replay_held :: "replay_guard \<Rightarrow> string \<Rightarrow> int \<Rightarrow> bool" where
  "replay_held g k t \<longleftrightarrow> fst (has_replay g k t)"

lemma replay_held_iff:
  "guard_wf g \<Longrightarrow> replay_held g k t \<longleftrightarrow> (\<exists>e. map_of (entries g) k = Some e \<and> t < e)"
  by (cases "map_of (entries g) k")
    (simp_all add: replay_held_def has_replay_def Let_def map_of_prune guard_wf_def del: map_of_eq_Some_iff)

lemma consume_Inr_iff:
  "fst (consume g k e now) = Inr () \<longleftrightarrow>
   \<not> replay_held g k now \<and> int (length (entries (prune now g))) < maxEntries g"
  by (auto simp: consume_def replay_held_def has_replay_def Let_def)

lemma entries_consume:
  "fst (consume g k e now) = Inr () \<Longrightarrow>
   entries (snd (consume g k e now)) = AList.update k e (entries (prune now g))"
  by (auto simp: consume_def Let_def split: if_splits)

lemma replay_held_prune:
  assumes "guard_wf g" "now \<le> t"
  shows "replay_held (prune now g) k t \<longleftrightarrow> replay_held g k t"
  using assms by (simp add: replay_held_def has_replay_def prune_prune)

interpretation guard: replay_filter guard_wf replay_held consume
proof unfold_locales
  fix g k e and now :: int assume "guard_wf g" "replay_held g k now"
  then show "\<not> succeeds (fst (consume g k e now))"
    using consume_Inr_iff [of g k e now] by (cases "fst (consume g k e now)") auto
next
  fix g k e k' and now t :: int assume wf: "guard_wf g" and le: "now \<le> t"
  show "replay_held (snd (consume g k e now)) k' t \<longleftrightarrow>
    replay_held g k' t \<or> (k' = k \<and> succeeds (fst (consume g k e now)) \<and> t < e)"
  proof (cases "fst (consume g k e now)")
    case (Inl err)
    then show ?thesis by (simp add: consume_rejected replay_held_prune [OF wf le])
  next
    case (Inr u)
    then have ok: "fst (consume g k e now) = Inr ()" by simp
    then have free: "\<not> replay_held g k now" by (simp add: consume_Inr_iff)
    then have "\<not> replay_held g k t"
      using wf le by (auto simp: replay_held_iff)
    moreover have "replay_held (snd (consume g k e now)) k' t \<longleftrightarrow>
        (if k' = k then t < e else replay_held (prune now g) k' t)"
      using consume_wf [OF wf] prune_wf [OF wf] by (simp add: replay_held_iff entries_consume [OF ok])
    ultimately show ?thesis
      using Inr by (auto simp: replay_held_prune [OF wf le])
  qed
qed (rule consume_wf)

end
