(* ===== verification/Gateway.thy ===== *)
theory Gateway
  imports AgentMessages ReplayGuard
begin

text \<open>
  \<open>AgentProtocolGateway\<close> of \<open>agent-protocol.mjs\<close>: its registries, the authorization of envelopes
  from agents and from components, acceptance with replay protection, and the application of a
  revocation with its cascade over delegated grants. An operation returns its result together with the
  gateway it leaves behind, also when it rejects. The gateway's clock reading and the one its replay
  guard takes in \<open>consume\<close> are separate arguments (\<open>now\<close>, \<open>guard_now\<close>).
\<close>

section \<open>State\<close>

record gateway =
  identities :: jmap
  capabilities :: jmap
  grants :: jmap
  revocations :: jmap
  componentAuthenticationRefs :: "(string \<times> jsv list) list"
  replayGuard :: replay_guard

text \<open>\<open>Date.parse\<close> of a timestamp a validator has accepted.\<close>

definition date_value :: "platform \<Rightarrow> jsv \<Rightarrow> int" where
  "date_value P v = (case date_of P v of Some t \<Rightarrow> t | None \<Rightarrow> 0)"

fun component_refs_ok :: "platform \<Rightarrow> string \<times> jsv \<Rightarrow> bool" where
  "component_refs_ok P (componentId, references) =
     (componentId \<in> set RUNTIME_COMPONENTS \<and> is_array references \<and> items references \<noteq> [] \<and>
      no_repeats (items references) \<and>
      list_all (test P authenticationReferencePattern) (items references))"

text \<open>The constructor: \<open>refs\<close> are the entries of the option \<open>componentAuthenticationRefs\<close>.\<close>

definition new_guard :: "jsv \<Rightarrow> replay_guard result" where
  "new_guard limit =
     (let m = nullish_or limit (JInt 4096)
      in if \<not> is_safe_integer m \<or> num_of m < 1 then Inl TypeErr
         else Inr \<lparr>entries = [], maxEntries = \<lfloor>num_of m\<rfloor>\<rparr>)"

definition new_gateway :: "platform \<Rightarrow> (string \<times> jsv) list \<Rightarrow> jsv \<Rightarrow> gateway result" where
  "new_gateway P refs limit =
     (if \<not> list_all (component_refs_ok P) refs then Inl TypeErr
      else and_then (new_guard limit) (\<lambda>guard.
        Inr \<lparr>identities = [], capabilities = [], grants = [], revocations = [],
             componentAuthenticationRefs = map (\<lambda>(c, rs). (c, items rs)) refs,
             replayGuard = guard\<rparr>))"

section \<open>Registration\<close>

text \<open>A registered value that differs in its JSON text is a conflict.\<close>

definition conflicts :: "platform \<Rightarrow> jmap \<Rightarrow> jsv \<Rightarrow> jsv \<Rightarrow> bool" where
  "conflicts P m key v =
     (case mget key m of None \<Rightarrow> False | Some existing \<Rightarrow> json P existing \<noteq> json P v)"

definition registerIdentity :: "platform \<Rightarrow> gateway \<Rightarrow> jsv \<Rightarrow> jsv result \<times> gateway" where
  "registerIdentity P g value =
     (case validateAgentIdentity P value of
        Inl e \<Rightarrow> (Inl e, g)
      | Inr identity \<Rightarrow>
          if conflicts P (identities g) (jget identity ''agent_id'') identity
          then (reject ''identity_conflict'', g)
          else (Inr identity, g\<lparr>identities := mput (jget identity ''agent_id'') identity (identities g)\<rparr>))"

definition registerCapability :: "platform \<Rightarrow> gateway \<Rightarrow> jsv \<Rightarrow> jsv result \<times> gateway" where
  "registerCapability P g value =
     (case validateCapability P value of
        Inl e \<Rightarrow> (Inl e, g)
      | Inr capability \<Rightarrow>
          if conflicts P (capabilities g) (jget capability ''capability_id'') capability
          then (reject ''capability_conflict'', g)
          else (Inr capability,
            g\<lparr>capabilities := mput (jget capability ''capability_id'') capability (capabilities g)\<rparr>))"

text \<open>Items of the first array that the second does not include.\<close>

definition outside :: "jsv \<Rightarrow> jsv \<Rightarrow> bool" where
  "outside a b \<longleftrightarrow> list_ex (\<lambda>x. \<not> array_includes b x) (items a)"

definition check_parent :: "gateway \<Rightarrow> jsv \<Rightarrow> unit result" where
  "check_parent g grant =
     (if jget grant ''parent_grant_ref'' = JNull then Inr ()
      else case mget (jget grant ''parent_grant_ref'') (grants g) of
        None \<Rightarrow> reject ''parent_grant_inactive''
      | Some parent \<Rightarrow>
          if jget parent ''status'' \<noteq> JStr ''active'' then reject ''parent_grant_inactive''
          else if level_gt AUTHORITY_LEVELS (jget grant ''authority_level'') (jget parent ''authority_level'') \<or>
                  outside (jget grant ''capability_ids'') (jget parent ''capability_ids'') \<or>
                  outside (jget grant ''message_types'') (jget parent ''message_types'') \<or>
                  outside (jget grant ''budget_refs'') (jget parent ''budget_refs'')
            then reject ''delegation_scope_escalation''
          else Inr ())"

definition check_grant :: "platform \<Rightarrow> gateway \<Rightarrow> jsv \<Rightarrow> unit result" where
  "check_grant P g grant =
     (case mget (jget grant ''subject_agent_id'') (identities g) of
        None \<Rightarrow> reject ''grant_subject_unknown''
      | Some identity \<Rightarrow>
          if \<not> array_includes (jget (jget identity ''authority'') ''grant_refs'') (jget grant ''grant_id'')
          then reject ''grant_not_declared_by_identity''
          else if level_gt AUTHORITY_LEVELS (jget grant ''authority_level'')
                    (jget (jget identity ''authority'') ''ceiling'')
          then reject ''authority_escalation_forbidden''
          else if list_ex (\<lambda>c. \<not> array_includes (jget identity ''capabilities'') c \<or>
                              array_includes (jget identity ''prohibited_capabilities'') c \<or>
                              mget c (capabilities g) = None)
                    (items (jget grant ''capability_ids''))
          then reject ''grant_capability_out_of_scope''
          else and_then (check_parent g grant) (\<lambda>_.
            if conflicts P (grants g) (jget grant ''grant_id'') grant
            then reject ''authority_grant_conflict''
            else Inr ()))"

definition registerAuthorityGrant :: "platform \<Rightarrow> gateway \<Rightarrow> jsv \<Rightarrow> jsv result \<times> gateway" where
  "registerAuthorityGrant P g value =
     (case and_then (validateAuthorityGrant P value) (\<lambda>grant. and_then (check_grant P g grant) (\<lambda>_. Inr grant)) of
        Inl e \<Rightarrow> (Inl e, g)
      | Inr grant \<Rightarrow> (Inr grant, g\<lparr>grants := mput (jget grant ''grant_id'') grant (grants g)\<rparr>))"

section \<open>Authorization\<close>

definition requireActiveAgent :: "gateway \<Rightarrow> jsv \<Rightarrow> jsv result" where
  "requireActiveAgent g agentId =
     (case mget agentId (identities g) of
        None \<Rightarrow> reject ''agent_unknown''
      | Some identity \<Rightarrow>
          if jget identity ''lifecycle_state'' \<noteq> JStr ''active'' then reject ''agent_inactive''
          else Inr identity)"

text \<open>The grant an envelope names, if it belongs to the agent and carries its authentication.\<close>

definition envelope_grant :: "gateway \<Rightarrow> jsv \<Rightarrow> jsv \<Rightarrow> jsv result" where
  "envelope_grant g identity envelope =
     (case mget (jget envelope ''authority_ref'') (grants g) of
        None \<Rightarrow> reject ''authority_grant_unknown''
      | Some grant \<Rightarrow>
          if \<not> strict_eq (jget grant ''subject_agent_id'') (jget identity ''agent_id'')
          then reject ''authority_grant_unknown''
          else if \<not> strict_eq (jget envelope ''authentication_ref'') (jget grant ''authentication_ref'')
          then reject ''authentication_reference_mismatch''
          else Inr grant)"

definition authorize_discovery :: "platform \<Rightarrow> gateway \<Rightarrow> jsv \<Rightarrow> jsv \<Rightarrow> int \<Rightarrow> unit result" where
  "authorize_discovery P g identity envelope now =
     (if jget (jget envelope ''recipient'') ''principal_type'' \<noteq> JStr ''runtime_component'' \<or>
         jget (jget envelope ''recipient'') ''id'' \<noteq> JStr ''brainstem'' \<or>
         jget envelope ''authority_ref'' = JNull \<or>
         jget envelope ''requested_capability'' \<noteq> JNull \<or>
         jget envelope ''budget_ref'' \<noteq> JNull \<or>
         jget envelope ''delegation_ref'' \<noteq> JNull \<or>
         jget envelope ''data_classification'' \<noteq> JStr ''internal''
      then reject ''discovery_route_forbidden''
      else and_then (envelope_grant g identity envelope) (\<lambda>grant.
        if jget grant ''status'' \<noteq> JStr ''active'' \<or>
           now < date_value P (jget grant ''issued_at'') \<or>
           date_value P (jget grant ''expires_at'') \<le> now \<or>
           \<not> array_includes (jget grant ''message_types'') (JStr ''discovery'') \<or>
           \<not> array_includes (jget grant ''permissions'') (JStr ''capability.discover'') \<or>
           items (jget grant ''capability_ids'') \<noteq> [] \<or>
           items (jget grant ''budget_refs'') \<noteq> [] \<or>
           jget grant ''parent_grant_ref'' \<noteq> JNull
        then reject ''discovery_grant_out_of_scope''
        else Inr ()))"

definition authorize_capability :: "platform \<Rightarrow> gateway \<Rightarrow> jsv \<Rightarrow> jsv \<Rightarrow> int \<Rightarrow> unit result" where
  "authorize_capability P g identity envelope now =
     (case mget (jget envelope ''requested_capability'') (capabilities g) of
        None \<Rightarrow> reject ''capability_unknown''
      | Some capability \<Rightarrow>
          let cid = jget capability ''capability_id''
          in if \<not> array_includes (jget identity ''capabilities'') cid \<or>
                array_includes (jget identity ''prohibited_capabilities'') cid \<or>
                \<not> array_includes (jget (jget identity ''execution_scope'') ''allowed_capabilities'') cid \<or>
                \<not> array_includes (jget capability ''allowed_agent_classes'') (jget identity ''agent_class'') \<or>
                \<not> array_includes (jget capability ''data_classifications'') (jget envelope ''data_classification'')
             then reject ''capability_out_of_scope''
             else if jget envelope ''authority_ref'' = JNull then reject ''authority_reference_required''
             else and_then (envelope_grant g identity envelope) (\<lambda>grant.
               if jget grant ''status'' \<noteq> JStr ''active'' \<or>
                  now < date_value P (jget grant ''issued_at'') \<or>
                  date_value P (jget grant ''expires_at'') \<le> now \<or>
                  date_value P (jget envelope ''timestamp'') < date_value P (jget grant ''issued_at'')
               then reject ''authority_grant_inactive''
               else if \<not> array_includes (jget grant ''capability_ids'') cid \<or>
                       \<not> array_includes (jget grant ''message_types'') (jget envelope ''message_type'') \<or>
                       level_gt AUTHORITY_LEVELS (jget capability ''required_authority'')
                         (jget grant ''authority_level'')
               then reject ''authority_grant_out_of_scope''
               else if \<not> strict_eq (jget envelope ''delegation_ref'') (jget grant ''parent_grant_ref'')
               then reject ''delegation_reference_mismatch''
               else if jget grant ''parent_grant_ref'' \<noteq> JNull \<and>
                       (case mget (jget grant ''parent_grant_ref'') (grants g) of
                          None \<Rightarrow> True
                        | Some parent \<Rightarrow> jget parent ''status'' \<noteq> JStr ''active'' \<or>
                                         date_value P (jget parent ''expires_at'') \<le> now)
               then reject ''parent_grant_inactive''
               else if jget envelope ''budget_ref'' \<noteq> JNull \<and>
                       (\<not> array_includes (jget identity ''budget_refs'') (jget envelope ''budget_ref'') \<or>
                        \<not> array_includes (jget grant ''budget_refs'') (jget envelope ''budget_ref''))
               then reject ''budget_out_of_scope''
               else Inr ()))"

definition authorizeAgentEnvelope :: "platform \<Rightarrow> gateway \<Rightarrow> jsv \<Rightarrow> int \<Rightarrow> unit result" where
  "authorizeAgentEnvelope P g envelope now =
     and_then (requireActiveAgent g (jget (jget envelope ''sender'') ''id'')) (\<lambda>identity.
       if str_in (jget envelope ''message_type'') direct_agent_execution_types
       then reject ''direct_agent_execution_forbidden''
       else if jget envelope ''authentication_ref'' = JNull
       then reject ''authentication_reference_required''
       else if jget envelope ''message_type'' = JStr ''discovery''
       then authorize_discovery P g identity envelope now
       else if jget envelope ''requested_capability'' = JNull
       then if str_in (jget envelope ''message_type'') capability_message_types
            then reject ''requested_capability_required'' else Inr ()
       else authorize_capability P g identity envelope now)"

text \<open>Routes only a component may use; \<open>capability\<close> is the requested one, where there is one.\<close>

definition to_component :: "jsv \<Rightarrow> string \<Rightarrow> bool" where
  "to_component envelope c \<longleftrightarrow>
     jget (jget envelope ''recipient'') ''principal_type'' = JStr ''runtime_component'' \<and>
     jget (jget envelope ''recipient'') ''id'' = JStr c"

definition check_execution_request :: "jsv \<Rightarrow> jsv option \<Rightarrow> bool" where
  "check_execution_request envelope capability \<longleftrightarrow>
     jget (jget envelope ''sender'') ''id'' = JStr ''brainstem'' \<and>
     to_component envelope ''kindred_cloud'' \<and>
     jget envelope ''authority_ref'' \<noteq> JNull \<and> jget envelope ''authentication_ref'' \<noteq> JNull \<and>
     (case capability of
        None \<Rightarrow> False
      | Some c \<Rightarrow> jget c ''owner_component'' = JStr ''kindred_cloud'' \<and>
                  jget c ''action_type'' = JStr ''tool'' \<and>
                  jget c ''execution_mode'' \<noteq> JStr ''proposal_only'')"

definition check_execution_receipt :: "jsv \<Rightarrow> bool" where
  "check_execution_receipt envelope \<longleftrightarrow>
     jget (jget envelope ''sender'') ''id'' = JStr ''kindred_cloud'' \<and>
     to_component envelope ''brainstem'' \<and> items (jget envelope ''evidence_refs'') \<noteq> []"

definition check_settlement_request :: "jsv \<Rightarrow> jsv option \<Rightarrow> bool" where
  "check_settlement_request envelope capability \<longleftrightarrow>
     jget (jget envelope ''sender'') ''id'' = JStr ''brainstem'' \<and>
     to_component envelope ''retrobank'' \<and>
     jget envelope ''authority_ref'' \<noteq> JNull \<and> jget envelope ''authentication_ref'' \<noteq> JNull \<and>
     jget envelope ''budget_ref'' \<noteq> JNull \<and>
     (case capability of
        None \<Rightarrow> False
      | Some c \<Rightarrow> jget c ''owner_component'' = JStr ''retrobank'' \<and>
                  jget c ''action_type'' = JStr ''settlement'' \<and>
                  jget c ''execution_mode'' = JStr ''governed_local_reversible'')"

definition check_revocation_route :: "jsv \<Rightarrow> bool" where
  "check_revocation_route envelope \<longleftrightarrow>
     jget (jget envelope ''sender'') ''id'' = JStr ''brainstem'' \<and>
     to_component envelope ''brainstem'' \<and>
     jget envelope ''authority_ref'' = JNull \<and> jget envelope ''requested_capability'' = JNull \<and>
     jget envelope ''budget_ref'' = JNull \<and> jget envelope ''delegation_ref'' = JNull \<and>
     jget envelope ''data_classification'' = JStr ''restricted''"

fun refs_of :: "(string \<times> jsv list) list \<Rightarrow> jsv \<Rightarrow> jsv list" where
  "refs_of m (JStr c) = (case map_of m c of Some rs \<Rightarrow> rs | None \<Rightarrow> [])"
| "refs_of m _ = []"

definition authorizeComponentEnvelope :: "gateway \<Rightarrow> jsv \<Rightarrow> unit result" where
  "authorizeComponentEnvelope g envelope =
     (let requested = jget envelope ''requested_capability'';
          capability = (if requested = JNull then None else mget requested (capabilities g));
          message_type = jget envelope ''message_type''
      in if jget envelope ''authentication_ref'' = JNull \<or>
            jget envelope ''authentication_ref'' \<notin>
              set (refs_of (componentAuthenticationRefs g) (jget (jget envelope ''sender'') ''id''))
         then reject ''component_authentication_invalid''
         else if requested \<noteq> JNull \<and> capability = None then reject ''capability_unknown''
         else if (case capability of None \<Rightarrow> False
                  | Some c \<Rightarrow> \<not> array_includes (jget c ''data_classifications'') (jget envelope ''data_classification''))
         then reject ''capability_out_of_scope''
         else if message_type = JStr ''execution_request'' \<and> \<not> check_execution_request envelope capability
         then reject ''execution_route_forbidden''
         else if message_type = JStr ''execution_receipt'' \<and> \<not> check_execution_receipt envelope
         then reject ''execution_receipt_route_forbidden''
         else if message_type = JStr ''settlement_request'' \<and> \<not> check_settlement_request envelope capability
         then reject ''settlement_route_forbidden''
         else if message_type = JStr ''revocation'' \<and> \<not> check_revocation_route envelope
         then reject ''revocation_route_forbidden''
         else Inr ())"

definition authorizeValidatedEnvelope :: "platform \<Rightarrow> gateway \<Rightarrow> jsv \<Rightarrow> int \<Rightarrow> unit result" where
  "authorizeValidatedEnvelope P g envelope now =
     (if now + MAX_FUTURE_SKEW_MS < date_value P (jget envelope ''timestamp'')
      then reject ''envelope_from_future''
      else if date_value P (jget envelope ''expires_at'') \<le> now then reject ''envelope_expired''
      else and_then
        (if jget (jget envelope ''sender'') ''principal_type'' = JStr ''agent''
         then authorizeAgentEnvelope P g envelope now
         else authorizeComponentEnvelope g envelope) (\<lambda>_.
      if jget (jget envelope ''recipient'') ''principal_type'' = JStr ''agent''
      then and_then (requireActiveAgent g (jget (jget envelope ''recipient'') ''id'')) (\<lambda>_. Inr ())
      else Inr ()))"

section \<open>Acceptance\<close>

definition sender_key :: "platform \<Rightarrow> jsv \<Rightarrow> string" where
  "sender_key P envelope =
     replay_key
       (to_string P (jget (jget envelope ''sender'') ''principal_type'') @ '':'' @
        to_string P (jget (jget envelope ''sender'') ''id''))
       (to_string P (jget envelope ''nonce''))"

definition acceptValidatedEnvelope ::
    "platform \<Rightarrow> gateway \<Rightarrow> jsv \<Rightarrow> int \<Rightarrow> int \<Rightarrow> jsv result \<times> gateway" where
  "acceptValidatedEnvelope P g envelope now guard_now =
     (case authorizeValidatedEnvelope P g envelope now of
        Inl e \<Rightarrow> (Inl e, g)
      | Inr _ \<Rightarrow>
          let (used, guard') = consume (replayGuard g) (sender_key P envelope)
                                 (date_value P (jget envelope ''expires_at'')) guard_now
          in (and_then used (\<lambda>_. and_then (iso_text now) (\<lambda>stamp.
                validateProtocolReceipt P (JObj
                  [(''contract_version'', JStr ''kindred.agent.protocol-receipt.v1''),
                   (''message_id'', jget envelope ''message_id''),
                   (''correlation_id'', jget envelope ''correlation_id''),
                   (''status'', JStr ''accepted''),
                   (''accepted_at'', JStr stamp),
                   (''replay_consumed'', JBool True)]))),
              g\<lparr>replayGuard := guard'\<rparr>))"

definition acceptEnvelope :: "platform \<Rightarrow> gateway \<Rightarrow> jsv \<Rightarrow> int \<Rightarrow> int \<Rightarrow> jsv result \<times> gateway" where
  "acceptEnvelope P g value now guard_now =
     (case validateEnvelope P value of
        Inl e \<Rightarrow> (Inl e, g)
      | Inr envelope \<Rightarrow>
          if jget envelope ''message_type'' = JStr ''revocation''
          then (reject ''revocation_requires_atomic_apply'', g)
          else acceptValidatedEnvelope P g envelope now guard_now)"

section \<open>Revocation\<close>

text \<open>One pass over the grants in map order; a grant is affected as soon as its parent is.\<close>

definition cascades_to :: "jsv list \<Rightarrow> jsv \<Rightarrow> bool" where
  "cascades_to affected grant \<longleftrightarrow>
     jget grant ''status'' \<noteq> JStr ''revoked'' \<and> jget grant ''parent_grant_ref'' \<noteq> JNull \<and>
     jget grant ''parent_grant_ref'' \<in> set affected \<and> jget grant ''grant_id'' \<notin> set affected"

fun cascade_pass :: "jsv list \<Rightarrow> jsv list \<Rightarrow> bool \<Rightarrow> (jsv list \<times> bool) result" where
  "cascade_pass [] affected changed = Inr (affected, changed)"
| "cascade_pass (grant # gs) affected changed =
     (if cascades_to affected grant
      then let affected' = affected @ [jget grant ''grant_id'']
           in if 4096 < length affected'
              then Inl (Rejected ''revocation_cascade_capacity_reached'' True)
              else cascade_pass gs affected' True
      else cascade_pass gs affected changed)"

lemma cascade_pass_bounds:
  "cascade_pass gs A c = Inr (B, c') \<Longrightarrow>
   length A \<le> length B \<and> (c' \<longrightarrow> (c \<and> B = A) \<or> (length A < length B \<and> length B \<le> 4096))"
proof (induction gs arbitrary: A c)
  case (Cons grant gs)
  show ?case
  proof (cases "cascades_to A grant")
    case True
    with Cons.prems have "cascade_pass gs (A @ [jget grant ''grant_id'']) True = Inr (B, c')"
      and "length A < 4096"
      by (auto simp: Let_def split: if_splits)
    with Cons.IH [of "A @ [jget grant ''grant_id'']" True] show ?thesis
      by auto
  next
    case False
    with Cons show ?thesis by auto
  qed
qed simp

function cascade :: "jsv list \<Rightarrow> jsv list \<Rightarrow> jsv list result" where
  "cascade gs affected =
     (case cascade_pass gs affected False of
        Inl e \<Rightarrow> Inl e
      | Inr (affected', changed) \<Rightarrow> if changed then cascade gs affected' else Inr affected')"
  by pat_completeness auto

termination
  by (relation "measure (\<lambda>(gs, A). 4097 - length A)") (auto dest!: cascade_pass_bounds)

declare cascade.simps [simp del]

text \<open>The identity update and the grants a revocation starts from.\<close>

definition revocation_targets ::
    "platform \<Rightarrow> gateway \<Rightarrow> jsv \<Rightarrow> (jsv option \<times> jsv list) result" where
  "revocation_targets P g notice =
     (if jget notice ''target_type'' = JStr ''agent''
      then case mget (jget notice ''target_id'') (identities g) of
          None \<Rightarrow> reject ''revocation_target_unknown''
        | Some identity \<Rightarrow>
            if str_in (jget identity ''lifecycle_state'') [''revoked'', ''retired'', ''replaced'']
            then reject ''revocation_target_terminal''
            else and_then
              (validateAgentIdentity P
                (jset ''revoked_at'' (jget notice ''effective_at'')
                  (jset ''health'' (JStr ''unavailable'')
                    (jset ''lifecycle_state'' (JStr ''revoked'') identity)))) (\<lambda>update.
              Inr (Some update,
                set_of_array (map (\<lambda>grant. jget grant ''grant_id'')
                  (filter (\<lambda>grant. strict_eq (jget grant ''subject_agent_id'') (jget identity ''agent_id'') \<and>
                                   jget grant ''status'' \<noteq> JStr ''revoked'')
                    (map snd (grants g))))))
      else case mget (jget notice ''target_id'') (grants g) of
          None \<Rightarrow> reject ''revocation_target_unknown''
        | Some grant \<Rightarrow>
            if jget grant ''status'' = JStr ''revoked'' then reject ''revocation_target_terminal''
            else Inr (None, [jget grant ''grant_id'']))"

definition revoked_grant :: "platform \<Rightarrow> gateway \<Rightarrow> jsv \<Rightarrow> jsv \<Rightarrow> jsv result" where
  "revoked_grant P g notice grantId =
     validateAuthorityGrant P
       (jset ''revoked_at'' (jget notice ''effective_at'')
         (jset ''status'' (JStr ''revoked'')
           (case mget grantId (grants g) of Some grant \<Rightarrow> grant | None \<Rightarrow> JObj [])))"

definition revocation_receipt_for :: "platform \<Rightarrow> jsv \<Rightarrow> jsv \<Rightarrow> bool \<Rightarrow> nat \<Rightarrow> int \<Rightarrow> jsv result" where
  "revocation_receipt_for P envelope notice identity_changed revoked now =
     and_then (iso_text now) (\<lambda>stamp.
       validateRevocationReceipt P (JObj
         [(''contract_version'', JStr ''kindred.agent.revocation-receipt.v1''),
          (''revocation_id'', jget notice ''revocation_id''),
          (''message_id'', jget envelope ''message_id''),
          (''correlation_id'', jget envelope ''correlation_id''),
          (''target_type'', jget notice ''target_type''),
          (''target_id'', jget notice ''target_id''),
          (''reason_class'', jget notice ''reason_class''),
          (''status'', JStr ''applied''),
          (''effective_at'', jget notice ''effective_at''),
          (''identity_state_changed'', JBool identity_changed),
          (''grants_revoked'', JInt (int revoked)),
          (''replay_consumed'', JBool True),
          (''history_preserved'', JBool True),
          (''provider_contacted'', JBool False),
          (''memory_mutated'', JBool False),
          (''tool_executed'', JBool False),
          (''settlement_executed'', JBool False),
          (''external_effects'', JBool False),
          (''evidence_refs'', jget notice ''evidence_refs''),
          (''recorded_at'', JStr stamp)]))"

text \<open>Everything computed before the state changes: identity update, grant updates, receipt.\<close>

definition plan_revocation ::
    "platform \<Rightarrow> gateway \<Rightarrow> jsv \<Rightarrow> jsv \<Rightarrow> int \<Rightarrow> (jsv option \<times> jsv list \<times> jsv) result" where
  "plan_revocation P g envelope notice now =
     (if mget (jget notice ''revocation_id'') (revocations g) \<noteq> None then reject ''revocation_replay''
      else if 4096 \<le> length (revocations g) then Inl (Rejected ''revocation_capacity_reached'' True)
      else and_then (revocation_targets P g notice) (\<lambda>(identityUpdate, affected).
        and_then (cascade (map snd (grants g)) affected) (\<lambda>affectedGrantIds.
        and_then (map_results (revoked_grant P g notice) affectedGrantIds) (\<lambda>grantUpdates.
        and_then (revocation_receipt_for P envelope notice (identityUpdate \<noteq> None) (length grantUpdates) now)
          (\<lambda>receipt. Inr (identityUpdate, grantUpdates, receipt))))))"

definition commit_revocation :: "gateway \<Rightarrow> jsv \<Rightarrow> jsv option \<Rightarrow> jsv list \<Rightarrow> jsv \<Rightarrow> gateway" where
  "commit_revocation g notice identityUpdate grantUpdates receipt =
     g\<lparr>identities := (case identityUpdate of None \<Rightarrow> identities g
                     | Some i \<Rightarrow> mput (jget i ''agent_id'') i (identities g)),
       grants := fold (\<lambda>grant. mput (jget grant ''grant_id'') grant) grantUpdates (grants g),
       revocations := mput (jget notice ''revocation_id'') receipt (revocations g)\<rparr>"

text \<open>The checks before the replay guard is asked.\<close>

definition check_revocation :: "platform \<Rightarrow> gateway \<Rightarrow> jsv \<Rightarrow> int \<Rightarrow> jsv result" where
  "check_revocation P g envelope now =
     (if jget envelope ''message_type'' \<noteq> JStr ''revocation'' then reject ''revocation_message_required''
      else if jget (jget envelope ''sender'') ''principal_type'' \<noteq> JStr ''runtime_component'' \<or>
              jget (jget envelope ''sender'') ''id'' \<noteq> JStr ''brainstem''
      then reject ''revocation_route_forbidden''
      else and_then (authorizeValidatedEnvelope P g envelope now) (\<lambda>_.
           and_then (validateRevocationNotice P (jget envelope ''payload'')) (\<lambda>notice.
           if jget notice ''effective_at'' \<noteq> jget envelope ''timestamp'' \<or>
              now < date_value P (jget notice ''effective_at'') \<or>
              json P (jget notice ''evidence_refs'') \<noteq> json P (jget envelope ''evidence_refs'')
           then reject ''revocation_evidence_invalid''
           else Inr notice)))"

definition applyRevocation :: "platform \<Rightarrow> gateway \<Rightarrow> jsv \<Rightarrow> int \<Rightarrow> int \<Rightarrow> jsv result \<times> gateway" where
  "applyRevocation P g value now guard_now =
     (case and_then (validateEnvelope P value) (\<lambda>envelope.
             and_then (check_revocation P g envelope now) (\<lambda>notice. Inr (envelope, notice))) of
        Inl e \<Rightarrow> (Inl e, g)
      | Inr (envelope, notice) \<Rightarrow>
          let (seen, guard') = has_replay (replayGuard g) (sender_key P envelope) now;
              g' = g\<lparr>replayGuard := guard'\<rparr>
          in if seen then (reject ''envelope_replay'', g')
             else case plan_revocation P g' envelope notice now of
                 Inl e \<Rightarrow> (Inl e, g')
               | Inr (identityUpdate, grantUpdates, receipt) \<Rightarrow>
                   (case acceptValidatedEnvelope P g' envelope now guard_now of
                      (Inl e, g'') \<Rightarrow> (Inl e, g'')
                    | (Inr _, g'') \<Rightarrow>
                        (Inr receipt, commit_revocation g'' notice identityUpdate grantUpdates receipt)))"

end
