(* ===== verification/GatewayFacts.thy ===== *)
theory GatewayFacts
  imports Gateway
begin

text \<open>
  What the gateway of \<open>agent-protocol.mjs\<close> promises: which envelopes it accepts, that no envelope is
  accepted twice, what a registered grant may carry, the effect of a revocation, and the invariant that
  every operation keeps.
\<close>

section \<open>Grants\<close>

lemma outside_iff: "\<not> outside a b \<longleftrightarrow> (\<forall>x \<in> set (items a). array_includes b x)"
  by (auto simp: outside_def list_ex_iff)

lemma check_parentD:
  assumes "check_parent g grant = Inr u" and "jget grant ''parent_grant_ref'' \<noteq> JNull"
  shows "\<exists>parent. mget (jget grant ''parent_grant_ref'') (grants g) = Some parent \<and>
    jget parent ''status'' = JStr ''active'' \<and>
    \<not> level_gt AUTHORITY_LEVELS (jget grant ''authority_level'') (jget parent ''authority_level'') \<and>
    (\<forall>f \<in> {''capability_ids'', ''message_types'', ''budget_refs''}.
      \<forall>x \<in> set (items (jget grant f)). array_includes (jget parent f) x)"
  using assms by (auto simp: check_parent_def outside_iff split: option.splits if_splits)

lemma check_grantD:
  assumes "check_grant P g grant = Inr u"
  shows "\<exists>identity. mget (jget grant ''subject_agent_id'') (identities g) = Some identity \<and>
    array_includes (jget (jget identity ''authority'') ''grant_refs'') (jget grant ''grant_id'') \<and>
    \<not> level_gt AUTHORITY_LEVELS (jget grant ''authority_level'') (jget (jget identity ''authority'') ''ceiling'') \<and>
    (\<forall>c \<in> set (items (jget grant ''capability_ids'')).
      array_includes (jget identity ''capabilities'') c \<and>
      \<not> array_includes (jget identity ''prohibited_capabilities'') c \<and>
      mget c (capabilities g) \<noteq> None) \<and>
    check_parent g grant = Inr () \<and> \<not> conflicts P (grants g) (jget grant ''grant_id'') grant"
  using assms by (auto simp: check_grant_def list_ex_iff result_simps split: option.splits if_splits)

lemma registerAuthorityGrant_Inr:
  "registerAuthorityGrant P g v = (Inr grant, g') \<longleftrightarrow>
   grant = v \<and> validateAuthorityGrant P v = Inr v \<and> check_grant P g v = Inr () \<and>
   g' = g\<lparr>grants := mput (jget v ''grant_id'') v (grants g)\<rparr>"
  by (auto simp: registerAuthorityGrant_def result_simps split: sum.splits dest: grant.returns_argument)

text \<open>
  C8: A registered grant stays within its subject: its authority level is not above the identity's
  ceiling and its capabilities are the identity's and not prohibited ones. A delegated grant also stays
  within its parent, which is active: level, capabilities, message types and budgets.
\<close>

lemma grant_within_identity_and_parent:
  assumes "registerAuthorityGrant P g v = (Inr grant, g')"
  shows "\<exists>identity. mget (jget v ''subject_agent_id'') (identities g) = Some identity \<and>
    \<not> level_gt AUTHORITY_LEVELS (jget v ''authority_level'') (jget (jget identity ''authority'') ''ceiling'') \<and>
    (\<forall>c \<in> set (items (jget v ''capability_ids'')).
      array_includes (jget identity ''capabilities'') c \<and>
      \<not> array_includes (jget identity ''prohibited_capabilities'') c) \<and>
    (jget v ''parent_grant_ref'' \<noteq> JNull \<longrightarrow>
      (\<exists>parent. mget (jget v ''parent_grant_ref'') (grants g) = Some parent \<and>
        jget parent ''status'' = JStr ''active'' \<and>
        \<not> level_gt AUTHORITY_LEVELS (jget v ''authority_level'') (jget parent ''authority_level'') \<and>
        (\<forall>f \<in> {''capability_ids'', ''message_types'', ''budget_refs''}.
          \<forall>x \<in> set (items (jget v f)). array_includes (jget parent f) x)))"
proof -
  from assms have ok: "check_grant P g v = Inr ()" by (simp add: registerAuthorityGrant_Inr)
  from check_grantD [OF this] obtain identity where
    "mget (jget v ''subject_agent_id'') (identities g) = Some identity"
    "\<not> level_gt AUTHORITY_LEVELS (jget v ''authority_level'') (jget (jget identity ''authority'') ''ceiling'')"
    "\<forall>c \<in> set (items (jget v ''capability_ids'')).
      array_includes (jget identity ''capabilities'') c \<and>
      \<not> array_includes (jget identity ''prohibited_capabilities'') c"
    "check_parent g v = Inr ()"
    by blast
  then show ?thesis by (intro exI [of _ identity] conjI impI check_parentD [of g v "()"]) 
qed

section \<open>Accepted envelopes\<close>

lemma requireActiveAgent_Inr:
  "requireActiveAgent g a = Inr identity \<longleftrightarrow>
   mget a (identities g) = Some identity \<and> jget identity ''lifecycle_state'' = JStr ''active''"
  by (auto simp: requireActiveAgent_def split: option.splits if_splits)

lemma envelope_grant_Inr:
  "envelope_grant g identity envelope = Inr grant \<longleftrightarrow>
   mget (jget envelope ''authority_ref'') (grants g) = Some grant \<and>
   strict_eq (jget grant ''subject_agent_id'') (jget identity ''agent_id'') \<and>
   strict_eq (jget envelope ''authentication_ref'') (jget grant ''authentication_ref'')"
  by (auto simp: envelope_grant_def split: option.splits if_splits)

definition live_grant :: "platform \<Rightarrow> int \<Rightarrow> jsv \<Rightarrow> bool" where
  "live_grant P now grant \<longleftrightarrow>
     jget grant ''status'' = JStr ''active'' \<and>
     date_value P (jget grant ''issued_at'') \<le> now \<and> now < date_value P (jget grant ''expires_at'')"

text \<open>What the source demands of an agent's envelope that names a capability.\<close>

definition covered :: "platform \<Rightarrow> gateway \<Rightarrow> jsv \<Rightarrow> jsv \<Rightarrow> int \<Rightarrow> jsv \<Rightarrow> jsv \<Rightarrow> bool" where
  "covered P g identity envelope now capability grant \<longleftrightarrow>
     mget (jget envelope ''requested_capability'') (capabilities g) = Some capability \<and>
     mget (jget envelope ''authority_ref'') (grants g) = Some grant \<and>
     live_grant P now grant \<and>
     strict_eq (jget grant ''subject_agent_id'') (jget identity ''agent_id'') \<and>
     strict_eq (jget envelope ''authentication_ref'') (jget grant ''authentication_ref'') \<and>
     array_includes (jget identity ''capabilities'') (jget capability ''capability_id'') \<and>
     \<not> array_includes (jget identity ''prohibited_capabilities'') (jget capability ''capability_id'') \<and>
     array_includes (jget (jget identity ''execution_scope'') ''allowed_capabilities'') (jget capability ''capability_id'') \<and>
     array_includes (jget capability ''allowed_agent_classes'') (jget identity ''agent_class'') \<and>
     array_includes (jget capability ''data_classifications'') (jget envelope ''data_classification'') \<and>
     date_value P (jget grant ''issued_at'') \<le> date_value P (jget envelope ''timestamp'') \<and>
     strict_eq (jget envelope ''delegation_ref'') (jget grant ''parent_grant_ref'') \<and>
     array_includes (jget grant ''capability_ids'') (jget capability ''capability_id'') \<and>
     array_includes (jget grant ''message_types'') (jget envelope ''message_type'') \<and>
     \<not> level_gt AUTHORITY_LEVELS (jget capability ''required_authority'') (jget grant ''authority_level'') \<and>
     (jget grant ''parent_grant_ref'' \<noteq> JNull \<longrightarrow>
       (\<exists>parent. mget (jget grant ''parent_grant_ref'') (grants g) = Some parent \<and>
         jget parent ''status'' = JStr ''active'' \<and> now < date_value P (jget parent ''expires_at''))) \<and>
     (jget envelope ''budget_ref'' \<noteq> JNull \<longrightarrow>
       array_includes (jget identity ''budget_refs'') (jget envelope ''budget_ref'') \<and>
       array_includes (jget grant ''budget_refs'') (jget envelope ''budget_ref''))"

text \<open>What it demands of a discovery.\<close>

definition discovery_covered :: "platform \<Rightarrow> gateway \<Rightarrow> jsv \<Rightarrow> jsv \<Rightarrow> int \<Rightarrow> jsv \<Rightarrow> bool" where
  "discovery_covered P g identity envelope now grant \<longleftrightarrow>
     jget (jget envelope ''recipient'') ''principal_type'' = JStr ''runtime_component'' \<and>
     jget (jget envelope ''recipient'') ''id'' = JStr ''brainstem'' \<and>
     jget envelope ''requested_capability'' = JNull \<and> jget envelope ''budget_ref'' = JNull \<and>
     jget envelope ''delegation_ref'' = JNull \<and> jget envelope ''data_classification'' = JStr ''internal'' \<and>
     mget (jget envelope ''authority_ref'') (grants g) = Some grant \<and>
     live_grant P now grant \<and>
     strict_eq (jget grant ''subject_agent_id'') (jget identity ''agent_id'') \<and>
     strict_eq (jget envelope ''authentication_ref'') (jget grant ''authentication_ref'') \<and>
     array_includes (jget grant ''message_types'') (JStr ''discovery'') \<and>
     array_includes (jget grant ''permissions'') (JStr ''capability.discover'') \<and>
     items (jget grant ''capability_ids'') = [] \<and> items (jget grant ''budget_refs'') = [] \<and>
     jget grant ''parent_grant_ref'' = JNull"

lemma authorize_capability_covered:
  assumes "authorize_capability P g identity envelope now = Inr u"
  shows "\<exists>capability grant. covered P g identity envelope now capability grant"
  using assms unfolding authorize_capability_def Let_def
  by (elim accepted_elims) (auto simp: covered_def live_grant_def envelope_grant_Inr not_le not_less split: option.splits)

lemma authorize_discovery_covered:
  assumes "authorize_discovery P g identity envelope now = Inr u"
  shows "\<exists>grant. discovery_covered P g identity envelope now grant"
  using assms unfolding authorize_discovery_def
  by (elim accepted_elims) (auto simp: discovery_covered_def live_grant_def envelope_grant_Inr not_le not_less)

lemma authorizeAgentEnvelopeD:
  assumes "authorizeAgentEnvelope P g envelope now = Inr u"
  shows "\<exists>identity. mget (jget (jget envelope ''sender'') ''id'') (identities g) = Some identity \<and>
    jget identity ''lifecycle_state'' = JStr ''active'' \<and>
    \<not> str_in (jget envelope ''message_type'') direct_agent_execution_types \<and>
    jget envelope ''authentication_ref'' \<noteq> JNull \<and>
    (jget envelope ''message_type'' = JStr ''discovery'' \<longrightarrow> (\<exists>grant. discovery_covered P g identity envelope now grant)) \<and>
    (jget envelope ''message_type'' \<noteq> JStr ''discovery'' \<longrightarrow>
     jget envelope ''requested_capability'' \<noteq> JNull \<longrightarrow>
     (\<exists>capability grant. covered P g identity envelope now capability grant)) \<and>
    (str_in (jget envelope ''message_type'') capability_message_types \<longrightarrow>
     jget envelope ''requested_capability'' \<noteq> JNull)"
proof -
  have nodisc: "\<not> str_in (JStr ''discovery'') capability_message_types"
    by code_simp
  from assms obtain identity where
    active: "requireActiveAgent g (jget (jget envelope ''sender'') ''id'') = Inr identity"
    by (auto simp: authorizeAgentEnvelope_def result_simps)
  with assms nodisc show ?thesis
    by (intro exI [of _ identity])
      (auto simp: authorizeAgentEnvelope_def requireActiveAgent_Inr result_simps
        dest: authorize_capability_covered authorize_discovery_covered split: if_splits)
qed

lemma authorizeValidatedEnvelopeD:
  assumes "authorizeValidatedEnvelope P g envelope now = Inr u"
  shows "date_value P (jget envelope ''timestamp'') \<le> now + MAX_FUTURE_SKEW_MS"
    and "now < date_value P (jget envelope ''expires_at'')"
    and "jget (jget envelope ''sender'') ''principal_type'' = JStr ''agent'' \<Longrightarrow>
      authorizeAgentEnvelope P g envelope now = Inr ()"
    and "jget (jget envelope ''sender'') ''principal_type'' \<noteq> JStr ''agent'' \<Longrightarrow>
      authorizeComponentEnvelope g envelope = Inr ()"
    and "jget (jget envelope ''recipient'') ''principal_type'' = JStr ''agent'' \<Longrightarrow>
      \<exists>i. requireActiveAgent g (jget (jget envelope ''recipient'') ''id'') = Inr i"
  using assms by (auto simp: authorizeValidatedEnvelope_def result_simps split: if_splits)

lemma acceptValidatedEnvelope_Inr:
  assumes "acceptValidatedEnvelope P g envelope now guard_now = (Inr receipt, g')"
  shows "authorizeValidatedEnvelope P g envelope now = Inr ()"
    and "fst (consume (replayGuard g) (sender_key P envelope)
      (date_value P (jget envelope ''expires_at'')) guard_now) = Inr ()"
    and "g' = g\<lparr>replayGuard := snd (consume (replayGuard g) (sender_key P envelope)
      (date_value P (jget envelope ''expires_at'')) guard_now)\<rparr>"
  using assms by (auto simp: acceptValidatedEnvelope_def result_simps split: sum.splits prod.splits)

lemma acceptEnvelope_Inr:
  assumes "acceptEnvelope P g v now guard_now = (Inr receipt, g')"
  shows "validateEnvelope P v = Inr v" and "jget v ''message_type'' \<noteq> JStr ''revocation''"
    and "acceptValidatedEnvelope P g v now guard_now = (Inr receipt, g')"
  using assms envelope.returns_argument [of P v]
  by (auto simp: acceptEnvelope_def split: sum.splits if_splits)

lemma accepted_agent_envelope:
  assumes "acceptEnvelope P g v now guard_now = (Inr receipt, g')"
    and "jget (jget v ''sender'') ''principal_type'' = JStr ''agent''"
  shows "\<exists>identity. mget (jget (jget v ''sender'') ''id'') (identities g) = Some identity \<and>
    jget identity ''lifecycle_state'' = JStr ''active'' \<and>
    \<not> str_in (jget v ''message_type'') direct_agent_execution_types \<and>
    jget v ''authentication_ref'' \<noteq> JNull \<and>
    (jget v ''message_type'' = JStr ''discovery'' \<longrightarrow> (\<exists>grant. discovery_covered P g identity v now grant)) \<and>
    (jget v ''message_type'' \<noteq> JStr ''discovery'' \<longrightarrow>
     jget v ''requested_capability'' \<noteq> JNull \<longrightarrow>
     (\<exists>capability grant. covered P g identity v now capability grant)) \<and>
    (str_in (jget v ''message_type'') capability_message_types \<longrightarrow>
     jget v ''requested_capability'' \<noteq> JNull)"
  using assms(2) acceptEnvelope_Inr(3) [OF assms(1)]
  by (intro authorizeAgentEnvelopeD) (blast dest: acceptValidatedEnvelope_Inr authorizeValidatedEnvelopeD)

lemma authorizeComponentEnvelopeD:
  assumes "authorizeComponentEnvelope g envelope = Inr u"
  shows "jget envelope ''authentication_ref'' \<in>
      set (refs_of (componentAuthenticationRefs g) (jget (jget envelope ''sender'') ''id''))"
    and "jget envelope ''message_type'' = JStr ''execution_request'' \<Longrightarrow> \<exists>c.
      mget (jget envelope ''requested_capability'') (capabilities g) = Some c \<and>
      check_execution_request envelope (Some c)"
    and "jget envelope ''message_type'' = JStr ''settlement_request'' \<Longrightarrow> \<exists>c.
      mget (jget envelope ''requested_capability'') (capabilities g) = Some c \<and>
      check_settlement_request envelope (Some c)"
    and "jget envelope ''message_type'' = JStr ''execution_receipt'' \<Longrightarrow> check_execution_receipt envelope"
    and "jget envelope ''message_type'' = JStr ''revocation'' \<Longrightarrow> check_revocation_route envelope"
  using assms
  by (auto simp: authorizeComponentEnvelope_def Let_def check_execution_request_def
      check_settlement_request_def split: if_splits option.splits)

lemma execution_types_direct:
  "str_in (JStr ''execution_request'') direct_agent_execution_types"
  "str_in (JStr ''execution_receipt'') direct_agent_execution_types"
  "str_in (JStr ''settlement_request'') direct_agent_execution_types"
  by (simp_all add: direct_agent_execution_types_def)

lemma accepted_not_from_agent:
  assumes "acceptEnvelope P g v now guard_now = (Inr receipt, g')"
    and "str_in (jget v ''message_type'') direct_agent_execution_types"
  shows "authorizeComponentEnvelope g v = Inr ()"
proof -
  have auth: "authorizeValidatedEnvelope P g v now = Inr ()"
    using acceptEnvelope_Inr(3) [OF assms(1)] by (rule acceptValidatedEnvelope_Inr)
  have "jget (jget v ''sender'') ''principal_type'' \<noteq> JStr ''agent''"
    using accepted_agent_envelope [OF assms(1)] assms(2) by blast
  with auth show ?thesis by (rule authorizeValidatedEnvelopeD)
qed

text \<open>
  An accepted execution request comes from the brainstem component, goes to the cloud, carries
  authority and authentication references and names a registered tool capability that is not
  proposal-only; no agent can send one.
\<close>

lemma tool_execution_route:
  assumes "acceptEnvelope P g v now guard_now = (Inr receipt, g')"
    and "jget v ''message_type'' = JStr ''execution_request''"
  shows "\<exists>c. mget (jget v ''requested_capability'') (capabilities g) = Some c \<and>
    check_execution_request v (Some c)"
  using accepted_not_from_agent [OF assms(1)] assms(2) authorizeComponentEnvelopeD(2) execution_types_direct
  by metis

text \<open>
  An accepted settlement request comes from the brainstem component, goes to the retrobank, has a
  budget, authority and authentication references and names a registered reversible settlement
  capability of the retrobank; no agent can send one.
\<close>

lemma settlement_route:
  assumes "acceptEnvelope P g v now guard_now = (Inr receipt, g')"
    and "jget v ''message_type'' = JStr ''settlement_request''"
  shows "\<exists>c. mget (jget v ''requested_capability'') (capabilities g) = Some c \<and>
    check_settlement_request v (Some c)"
  using accepted_not_from_agent [OF assms(1)] assms(2) authorizeComponentEnvelopeD(3) execution_types_direct
  by metis

section \<open>The operations as steps\<close>

datatype request =
    RegisterIdentity jsv
  | RegisterCapability jsv
  | RegisterGrant jsv
  | Accept jsv int int
  | Revoke jsv int int

fun serve :: "platform \<Rightarrow> gateway \<Rightarrow> request \<Rightarrow> jsv result \<times> gateway" where
  "serve P g (RegisterIdentity v) = registerIdentity P g v"
| "serve P g (RegisterCapability v) = registerCapability P g v"
| "serve P g (RegisterGrant v) = registerAuthorityGrant P g v"
| "serve P g (Accept v now guard_now) = acceptEnvelope P g v now guard_now"
| "serve P g (Revoke v now guard_now) = applyRevocation P g v now guard_now"

fun serve_all :: "platform \<Rightarrow> gateway \<Rightarrow> request list \<Rightarrow> gateway" where
  "serve_all P g [] = g"
| "serve_all P g (r # rs) = serve_all P (snd (serve P g r)) rs"

text \<open>The clock readings of a request are at most \<open>t\<close>.\<close>

fun by_time :: "int \<Rightarrow> request \<Rightarrow> bool" where
  "by_time t (Accept v now guard_now) = (guard_now \<le> t)"
| "by_time t (Revoke v now guard_now) = (now \<le> t \<and> guard_now \<le> t)"
| "by_time t _ = True"

section \<open>Replay\<close>

lemma acceptValidatedEnvelope_guard:
  "replayGuard (snd (acceptValidatedEnvelope P g e now guard_now)) =
    (case authorizeValidatedEnvelope P g e now of
       Inl err \<Rightarrow> replayGuard g
     | Inr _ \<Rightarrow> snd (consume (replayGuard g) (sender_key P e) (date_value P (jget e ''expires_at'')) guard_now))"
  by (auto simp: acceptValidatedEnvelope_def split: sum.split prod.split)

lemma has_replay_state [simp]: "snd (has_replay g k now) = prune now g"
  by (simp add: has_replay_def Let_def)

lemma commit_revocation_guard [simp]:
  "replayGuard (commit_revocation g n i us r) = replayGuard g"
  by (simp add: commit_revocation_def)

text \<open>A request leaves the guard alone, prunes it, or consumes a key of it, perhaps after pruning.\<close>

lemma serve_guard:
  obtains (same) "replayGuard (snd (serve P g r)) = replayGuard g"
  | (consumed) k e now where "replayGuard (snd (serve P g r)) = snd (consume (replayGuard g) k e now)"
      "\<And>t. by_time t r \<Longrightarrow> now \<le> t"
  | (pruned) now where "replayGuard (snd (serve P g r)) = prune now (replayGuard g)"
      "\<And>t. by_time t r \<Longrightarrow> now \<le> t"
  | (both) k e now now' where
      "replayGuard (snd (serve P g r)) = snd (consume (prune now (replayGuard g)) k e now')"
      "\<And>t. by_time t r \<Longrightarrow> now \<le> t \<and> now' \<le> t"
proof (cases r)
  case (Accept v now guard_now)
  have "replayGuard (snd (serve P g r)) = replayGuard g \<or>
      (\<exists>k e. replayGuard (snd (serve P g r)) = snd (consume (replayGuard g) k e guard_now))"
    by (auto simp: Accept acceptEnvelope_def acceptValidatedEnvelope_guard split: sum.splits)
  with same consumed Accept show thesis by auto
next
  case (Revoke v now guard_now)
  have "replayGuard (snd (serve P g r)) = replayGuard g \<or>
      replayGuard (snd (serve P g r)) = prune now (replayGuard g) \<or>
      (\<exists>k e. replayGuard (snd (serve P g r)) = snd (consume (prune now (replayGuard g)) k e guard_now))"
  proof -
    have "replayGuard (snd (acceptValidatedEnvelope P (g\<lparr>replayGuard := prune now (replayGuard g)\<rparr>) e now guard_now))
        = prune now (replayGuard g) \<or>
      (\<exists>k x. replayGuard (snd (acceptValidatedEnvelope P (g\<lparr>replayGuard := prune now (replayGuard g)\<rparr>) e now guard_now))
        = snd (consume (prune now (replayGuard g)) k x guard_now))" for e
      by (auto simp: acceptValidatedEnvelope_guard split: sum.splits)
    then show ?thesis
      by (auto simp: Revoke applyRevocation_def Let_def has_replay_def split: sum.splits prod.splits)
        (metis snd_conv)+
  qed
  with same pruned both Revoke show thesis by auto
qed (auto simp: registerIdentity_def registerCapability_def registerAuthorityGrant_def
    intro!: same split: sum.splits)

lemma serve_guard_wf:
  assumes "guard_wf (replayGuard g)"
  shows "guard_wf (replayGuard (snd (serve P g r)))"
  by (rule serve_guard [of P g r]) (use assms in \<open>auto intro: consume_wf prune_wf\<close>)

lemma serve_held:
  assumes "guard_wf (replayGuard g)" "by_time t r" "replay_held (replayGuard g) k t"
  shows "replay_held (replayGuard (snd (serve P g r))) k t"
  by (rule serve_guard [of P g r])
    (use assms in \<open>auto simp: guard.held_after replay_held_prune prune_wf\<close>)

lemma serve_all_held:
  assumes "guard_wf (replayGuard g)" "\<forall>r \<in> set rs. by_time t r" "replay_held (replayGuard g) k t"
  shows "guard_wf (replayGuard (serve_all P g rs)) \<and> replay_held (replayGuard (serve_all P g rs)) k t"
  using assms by (induction rs arbitrary: g) (auto intro: serve_held serve_guard_wf)

text \<open>
  C4: Once an envelope is accepted, no envelope with the same sender and nonce is accepted before it
  expires, whatever the gateway serves in between, as long as the clock does not run backwards.
\<close>

lemma nonce_accepted_once:
  assumes wf: "guard_wf (replayGuard g)"
    and first: "acceptEnvelope P g v now guard_now = (Inr receipt, g')"
    and between: "\<forall>r \<in> set rs. by_time t r"
    and later: "guard_now \<le> t" "t < date_value P (jget v ''expires_at'')"
    and same: "sender_key P w = sender_key P v"
  shows "fst (acceptEnvelope P (serve_all P g' rs) w now' t) \<noteq> Inr receipt'"
proof
  let ?k = "sender_key P v" and ?e = "date_value P (jget v ''expires_at'')" and ?h = "serve_all P g' rs"
  assume "fst (acceptEnvelope P ?h w now' t) = Inr receipt'"
  then obtain h' where "acceptEnvelope P ?h w now' t = (Inr receipt', h')" by (metis prod.collapse)
  from acceptValidatedEnvelope_Inr(2) [OF acceptEnvelope_Inr(3) [OF this]]
  have again: "fst (consume (replayGuard ?h) ?k (date_value P (jget w ''expires_at'')) t) = Inr ()"
    by (simp add: same)
  note accepted = acceptValidatedEnvelope_Inr(2,3) [OF acceptEnvelope_Inr(3) [OF first]]
  then have "guard_wf (replayGuard g')" "replay_held (replayGuard g') ?k t"
    using wf later by (auto simp: consume_wf guard.held_after)
  with between have "guard_wf (replayGuard ?h)" "replay_held (replayGuard ?h) ?k t"
    using serve_all_held by blast+
  from guard.use_held [OF this, of "date_value P (jget w ''expires_at'')"] again show False by simp
qed

section \<open>The cascade of a revocation\<close>

text \<open>The abstract cascade: grants that are not revoked and whose chain of parents reaches \<open>S\<close>.\<close>

inductive depends :: "jsv list \<Rightarrow> jsv set \<Rightarrow> jsv \<Rightarrow> bool" for gs S where
  seed: "x \<in> S \<Longrightarrow> depends gs S x"
| child: "grant \<in> set gs \<Longrightarrow> jget grant ''status'' \<noteq> JStr ''revoked'' \<Longrightarrow>
    jget grant ''parent_grant_ref'' \<noteq> JNull \<Longrightarrow> depends gs S (jget grant ''parent_grant_ref'') \<Longrightarrow>
    depends gs S (jget grant ''grant_id'')"

inductive_cases dependsE: "depends gs S x"

lemma depends_trans: "depends gs S x \<Longrightarrow> (\<And>y. y \<in> S \<Longrightarrow> depends gs T y) \<Longrightarrow> depends gs T x"
  by (induction rule: depends.induct) (auto intro: depends.child)

lemma cascade_pass_sound:
  assumes "cascade_pass gs A c = Inr (B, c')" and "set gs \<subseteq> set all" and "distinct A"
  shows "distinct B \<and> set A \<subseteq> set B \<and> (\<forall>x \<in> set B. depends all (set A) x) \<and>
    (\<not> c' \<longrightarrow> B = A \<and> \<not> c \<and> (\<forall>grant \<in> set gs. \<not> cascades_to A grant))"
  using assms
proof (induction gs arbitrary: A c)
  case Nil
  then show ?case by (auto intro: depends.seed)
next
  case (Cons grant gs)
  show ?case
  proof (cases "cascades_to A grant")
    case False
    with Cons.prems Cons.IH [of A c] show ?thesis by auto
  next
    case True
    let ?A = "A @ [jget grant ''grant_id'']"
    from True Cons.prems have "cascade_pass gs ?A True = Inr (B, c')" "distinct ?A"
      by (auto simp: Let_def cascades_to_def split: if_splits)
    with Cons.IH [of ?A True] Cons.prems have
      IH: "distinct B" "set ?A \<subseteq> set B" "c'" "\<And>x. x \<in> set B \<Longrightarrow> depends all (set ?A) x"
      by auto
    have "depends all (set A) y" if "y \<in> set ?A" for y
      using that True Cons.prems(2)
      by (auto simp: cascades_to_def intro: depends.seed depends.child)
    with IH show ?thesis by (auto dest: depends_trans)
  qed
qed

lemma cascade_correct:
  assumes "cascade gs A = Inr B" and "distinct A"
  shows "distinct B \<and> set B = {x. depends gs (set A) x}"
  using assms
proof (induction gs A rule: cascade.induct)
  case (1 gs A)
  from "1.prems"(1) obtain A' c where pass: "cascade_pass gs A False = Inr (A', c)"
    by (subst (asm) cascade.simps) (auto split: sum.splits)
  from cascade_pass_sound [OF pass subset_refl "1.prems"(2)]
  have sound: "distinct A'" "set A \<subseteq> set A'" "\<And>x. x \<in> set A' \<Longrightarrow> depends gs (set A) x"
    and fixed: "\<not> c \<Longrightarrow> A' = A \<and> (\<forall>grant \<in> set gs. \<not> cascades_to A grant)"
    by auto
  show ?case
  proof (cases c)
    case True
    with pass "1.prems" have rest: "cascade gs A' = Inr B" by (subst (asm) cascade.simps) simp
    from "1.IH" [OF pass refl True rest sound(1)]
    have "distinct B" "set B = {x. depends gs (set A') x}" by auto
    moreover have "depends gs (set A) x \<longleftrightarrow> depends gs (set A') x" for x
      by (rule iffI; erule depends_trans) (use sound(2,3) in \<open>auto intro: depends.seed\<close>)
    ultimately show ?thesis by simp
  next
    case False
    with pass "1.prems" have B: "B = A'" by (subst (asm) cascade.simps) simp
    have "x \<in> set A" if "depends gs (set A) x" for x
      using that fixed [OF False] by (induction rule: depends.induct) (auto simp: cascades_to_def)
    with B sound fixed [OF False] show ?thesis by (auto intro: depends.seed)
  qed
qed

end
