(* ===== verification/RevocationFacts.thy ===== *)
theory RevocationFacts
  imports GatewayFacts
begin

text \<open>
  The gateway's invariant (what is stored is valid and stored under its own id) with its preservation
  by every operation, and the effect of a revocation: exactly the dependency closure of its target is
  revoked, everything else and the order of the history stay, and a revocation that is refused changes
  nothing but the expired entries of the replay guard.
\<close>

section \<open>The invariant\<close>

definition stored :: "(jsv \<Rightarrow> jsv result) \<Rightarrow> string \<Rightarrow> jmap \<Rightarrow> bool" where
  "stored validate i m \<longleftrightarrow> (\<forall>(k, v) \<in> set m. validate v = Inr v \<and> jget v i = k)"

definition gateway_wf :: "platform \<Rightarrow> gateway \<Rightarrow> bool" where
  "gateway_wf P g \<longleftrightarrow>
     guard_wf (replayGuard g) \<and>
     stored (validateAgentIdentity P) ''agent_id'' (identities g) \<and>
     stored (validateCapability P) ''capability_id'' (capabilities g) \<and>
     stored (validateAuthorityGrant P) ''grant_id'' (grants g) \<and>
     list_all is_string (map fst (grants g)) \<and> distinct (map fst (grants g)) \<and>
     stored (validateRevocationReceipt P) ''revocation_id'' (revocations g) \<and>
     length (revocations g) \<le> 4096"

lemma stored_Nil [simp]: "stored validate i []"
  by (simp add: stored_def)

lemma stored_mput:
  "stored validate i m \<Longrightarrow> validate v = Inr v \<Longrightarrow> jget v i = k \<Longrightarrow> stored validate i (mput k v m)"
  using set_mput_subset [of k v m] unfolding stored_def by fast

lemma list_all_update:
  "list_all p (map fst m) \<Longrightarrow> p k \<Longrightarrow> list_all p (map fst (AList.update k v m))"
  by (induction m) auto

lemma stored_mget: "stored validate i m \<Longrightarrow> mget k m = Some v \<Longrightarrow> validate v = Inr v \<and> jget v i = k"
  by (auto simp: stored_def dest: mget_in_set)

lemma is_string_primitive: "is_string v \<Longrightarrow> primitive v"
  by (cases v) auto

lemma boundedString_string: "boundedString v lo hi \<Longrightarrow> is_string v"
  by (cases v) auto

lemma uniqueStrings_string: "uniqueStrings v hi lo \<Longrightarrow> array_includes v x \<Longrightarrow> is_string x"
  by (auto simp: uniqueStrings_def array_includes_def list_all_iff boundedString_string)

lemma identity_grant_refs:
  "validateAgentIdentity P v = Inr w \<Longrightarrow> uniqueStrings (jget (jget v ''authority'') ''grant_refs'') 64 0"
  by (simp add: validateAgentIdentity_def authority_ok_def Let_def split: if_splits)

lemma check_grant_id_string:
  assumes "gateway_wf P g" and "check_grant P g v = Inr ()"
  shows "is_string (jget v ''grant_id'')"
proof -
  from check_grantD [OF assms(2)] obtain identity where
    "mget (jget v ''subject_agent_id'') (identities g) = Some identity"
    and refs: "array_includes (jget (jget identity ''authority'') ''grant_refs'') (jget v ''grant_id'')"
    by blast
  with assms(1) have "validateAgentIdentity P identity = Inr identity"
    by (auto simp: gateway_wf_def dest: stored_mget)
  from identity_grant_refs [OF this] refs show ?thesis by (rule uniqueStrings_string)
qed

section \<open>What a revocation stores\<close>

lemma revoked_grant_result:
  assumes "revoked_grant P g notice k = Inr u"
  obtains grant where "mget k (grants g) = Some grant"
    and "u = jset ''revoked_at'' (jget notice ''effective_at'') (jset ''status'' (JStr ''revoked'') grant)"
    and "validateAuthorityGrant P u = Inr u"
proof (cases "mget k (grants g)")
  case None
  have fields: "sort AUTHORITY_GRANT_FIELDS \<noteq> [''revoked_at'', ''status'']"
    by (simp add: AUTHORITY_GRANT_FIELDS_def) 
  with None assms show thesis
    by (auto simp: revoked_grant_def validateAuthorityGrant_def exactKeys_def split: if_splits)
next
  case (Some grant)
  with assms that show thesis
    by (auto simp: revoked_grant_def dest: grant.returns_argument grant.idempotent)
qed

text \<open>The grant a revocation leaves in the place of \<open>grant\<close>.\<close>

definition as_revoked :: "jsv \<Rightarrow> jsv \<Rightarrow> jsv" where
  "as_revoked notice grant =
     jset ''revoked_at'' (jget notice ''effective_at'') (jset ''status'' (JStr ''revoked'') grant)"

lemma grant_is_record: "validateAuthorityGrant P v = Inr w \<Longrightarrow> is_record v"
  by (simp add: validateAuthorityGrant_def exactKeys_def split: if_splits)

lemma identity_is_record: "validateAgentIdentity P v = Inr w \<Longrightarrow> is_record v"
  by (simp add: validateAgentIdentity_def exactKeys_def split: if_splits)

lemma as_revoked_id: "is_record grant \<Longrightarrow> jget (as_revoked notice grant) ''grant_id'' = jget grant ''grant_id''"
  by (simp add: as_revoked_def)

lemma grant_updates:
  assumes wf: "gateway_wf P g" and "map_results (revoked_grant P g notice) ks = Inr us"
  shows "us = map (\<lambda>k. as_revoked notice (the (mget k (grants g)))) ks \<and>
    (\<forall>k \<in> set ks. \<exists>grant. mget k (grants g) = Some grant \<and>
       validateAuthorityGrant P (as_revoked notice grant) = Inr (as_revoked notice grant) \<and>
       jget (as_revoked notice grant) ''grant_id'' = k)"
proof
  show "us = map (\<lambda>k. as_revoked notice (the (mget k (grants g)))) ks"
    using assms(2)
    by (rule map_results_Inr_map) (auto elim!: revoked_grant_result simp: as_revoked_def)
  show "\<forall>k \<in> set ks. \<exists>grant. mget k (grants g) = Some grant \<and>
       validateAuthorityGrant P (as_revoked notice grant) = Inr (as_revoked notice grant) \<and>
       jget (as_revoked notice grant) ''grant_id'' = k"
  proof
    fix k assume "k \<in> set ks"
    with assms(2) obtain u where "revoked_grant P g notice k = Inr u"
      using map_results_Inr_each succeeds_iff by metis
    then obtain grant where grant: "mget k (grants g) = Some grant"
      and u: "u = as_revoked notice grant" "validateAuthorityGrant P u = Inr u"
      unfolding as_revoked_def by (rule revoked_grant_result)
    with wf have "validateAuthorityGrant P grant = Inr grant" "jget grant ''grant_id'' = k"
      by (auto simp: gateway_wf_def dest: stored_mget)
    with grant u show "\<exists>grant. mget k (grants g) = Some grant \<and>
       validateAuthorityGrant P (as_revoked notice grant) = Inr (as_revoked notice grant) \<and>
       jget (as_revoked notice grant) ''grant_id'' = k"
      by (auto simp: as_revoked_id grant_is_record)
  qed
qed

lemma stored_fold_mput:
  "stored validate i m \<Longrightarrow> \<forall>v \<in> set vs. validate v = Inr v \<Longrightarrow>
   stored validate i (fold (\<lambda>v. mput (jget v i) v) vs m)"
  by (induction vs arbitrary: m) (auto intro: stored_mput)

lemma fold_mput_keys:
  assumes "list_all is_string (map fst m)" "distinct (map fst m)"
    and "\<forall>v \<in> set vs. jget v i \<in> fst ` set m"
  shows "map fst (fold (\<lambda>v. mput (jget v i) v) vs m) = map fst m"
  using assms
proof (induction vs arbitrary: m)
  case (Cons v vs)
  then have "primitive (jget v i)"
    by (force simp: list_all_iff intro: is_string_primitive)
  with Cons.prems have "map fst (mput (jget v i) v m) = map fst m"
    by (simp add: mput_def map_fst_update_present)
  moreover from this have "fst ` set (mput (jget v i) v m) = fst ` set m"
    by (metis image_set)
  ultimately show ?case
    using Cons.IH [of "mput (jget v i) v m"] Cons.prems by (simp add: list_all_iff)
qed simp

lemma mget_fold_mput:
  assumes "\<forall>v \<in> set vs. primitive (jget v i)" and "distinct (map (\<lambda>v. jget v i) vs)"
  shows "mget k (fold (\<lambda>v. mput (jget v i) v) vs m) =
    (case find (\<lambda>v. jget v i = k) vs of Some v \<Rightarrow> Some v | None \<Rightarrow> mget k m)"
  using assms
proof (induction vs arbitrary: m)
  case (Cons v vs)
  have "find (\<lambda>w. jget w i = jget v i) vs = None"
    using Cons.prems(2) unfolding find_None_iff by (simp add: image_iff) metis
  with Cons show ?case by (auto simp: mget_mput split: option.split)
qed simp

section \<open>Receipts\<close>

lemma protocol_receipt_fields:
  "sort (map fst [(''contract_version'', a), (''message_id'', b), (''correlation_id'', c), (''status'', d),
     (''accepted_at'', e), (''replay_consumed'', f)]) = sort PROTOCOL_RECEIPT_FIELDS"
  by (simp add: PROTOCOL_RECEIPT_FIELDS_def)

lemma protocol_receipt_valid:
  assumes "validateEnvelope P envelope = Inr w" and "iso_text now = Inr stamp"
  shows "validateProtocolReceipt P (JObj
                  [(''contract_version'', JStr ''kindred.agent.protocol-receipt.v1''),
                   (''message_id'', jget envelope ''message_id''),
                   (''correlation_id'', jget envelope ''correlation_id''),
                   (''status'', JStr ''accepted''),
                   (''accepted_at'', JStr stamp),
                   (''replay_consumed'', JBool True)]) = Inr (JObj
                  [(''contract_version'', JStr ''kindred.agent.protocol-receipt.v1''),
                   (''message_id'', jget envelope ''message_id''),
                   (''correlation_id'', jget envelope ''correlation_id''),
                   (''status'', JStr ''accepted''),
                   (''accepted_at'', JStr stamp),
                   (''replay_consumed'', JBool True)])"
proof -
  from assms(1) have "envelope_fields_ok P envelope"
    by (simp add: validateEnvelope_def split: if_splits)
  then have "test P messageIdPattern (jget envelope ''message_id'')"
    "test P reference_shape (jget envelope ''correlation_id'')"
    by (simp_all add: envelope_fields_ok_def)
  then show ?thesis
    using date_parse_iso_text [OF assms(2)]
    by (simp add: validateProtocolReceipt_def exactKeys_def protocol_receipt_fields [simplified] timestamp_def)
qed

text \<open>An envelope that has consumed its nonce is acknowledged, as long as the clock has a date.\<close>

lemma acceptValidatedEnvelope_total:
  assumes "validateEnvelope P envelope = Inr envelope" and "iso_text now = Inr stamp"
  shows "(\<exists>receipt. fst (acceptValidatedEnvelope P g envelope now guard_now) = Inr receipt) \<or>
    snd (acceptValidatedEnvelope P g envelope now guard_now) = g \<or>
    snd (acceptValidatedEnvelope P g envelope now guard_now) =
      g\<lparr>replayGuard := prune guard_now (replayGuard g)\<rparr>"
proof (cases "authorizeValidatedEnvelope P g envelope now")
  case (Inr u)
  show ?thesis
  proof (cases "consume (replayGuard g) (sender_key P envelope)
      (date_value P (jget envelope ''expires_at'')) guard_now")
    case (Pair used guard')
    then show ?thesis
      using Inr assms consume_rejected [of "replayGuard g" "sender_key P envelope"
          "date_value P (jget envelope ''expires_at'')" guard_now]
      by (cases used) (simp_all add: acceptValidatedEnvelope_def protocol_receipt_valid)
  qed
qed (simp add: acceptValidatedEnvelope_def)

section \<open>The effect of a revocation\<close>

definition pruned :: "gateway \<Rightarrow> int \<Rightarrow> gateway" where
  "pruned g now = g\<lparr>replayGuard := prune now (replayGuard g)\<rparr>"

lemma pruned_simps [simp]:
  "identities (pruned g now) = identities g" "capabilities (pruned g now) = capabilities g"
  "grants (pruned g now) = grants g" "revocations (pruned g now) = revocations g"
  "componentAuthenticationRefs (pruned g now) = componentAuthenticationRefs g"
  "replayGuard (pruned g now) = prune now (replayGuard g)"
  by (simp_all add: pruned_def)

lemma revocation_receipt_for_iso:
  "revocation_receipt_for P envelope notice c n now = Inr r \<Longrightarrow> \<exists>stamp. iso_text now = Inr stamp"
  by (auto simp: revocation_receipt_for_def result_simps)

lemma plan_revocation_iso:
  "plan_revocation P g envelope notice now = Inr (i, us, r) \<Longrightarrow> \<exists>stamp. iso_text now = Inr stamp"
  by (auto simp: plan_revocation_def result_simps dest: revocation_receipt_for_iso split: if_splits)

lemma refused_revocation_state:
  assumes "applyRevocation P g v now guard_now = (Inl e, g')"
  shows "g' = g \<or> (\<exists>t \<in> {now, guard_now}. g' = pruned g now \<or> g' = pruned (pruned g now) t)"
proof -
  have accept: "g'' = pruned g now \<or> g'' = pruned (pruned g now) guard_now"
    if "validateEnvelope P envelope = Inr envelope"
      and "plan_revocation P (pruned g now) envelope notice now = Inr (i, us, r)"
      and "acceptValidatedEnvelope P (pruned g now) envelope now guard_now = (Inl err, g'')"
    for envelope notice i us r g'' err
  proof -
    from that(2) obtain stamp where "iso_text now = Inr stamp" by (blast dest: plan_revocation_iso)
    from acceptValidatedEnvelope_total [OF that(1) this, of "pruned g now" guard_now] that(3)
    show ?thesis by (auto simp: pruned_def)
  qed
  show ?thesis
  proof (cases "validateEnvelope P v")
    case (Inr w)
    then have valid: "validateEnvelope P v = Inr v"
      by (metis envelope.returns_argument)
    with assms show ?thesis
      by (auto simp: applyRevocation_def Let_def has_replay_def pruned_def [symmetric] result_simps
          split: sum.splits prod.splits if_splits dest!: accept [OF valid])
  qed (use assms in \<open>simp add: applyRevocation_def\<close>)
qed

lemma applyRevocation_Inr:
  assumes "applyRevocation P g v now guard_now = (Inr receipt, g')"
  obtains notice i us g'' receipt' where "validateEnvelope P v = Inr v"
    and "check_revocation P g v now = Inr notice"
    and "plan_revocation P (pruned g now) v notice now = Inr (i, us, receipt)"
    and "acceptValidatedEnvelope P (pruned g now) v now guard_now = (Inr receipt', g'')"
    and "g' = commit_revocation g'' notice i us receipt"
  using assms
  by (auto simp: applyRevocation_def Let_def has_replay_def pruned_def [symmetric] result_simps
      split: sum.splits prod.splits if_splits dest: envelope.returns_argument)

text \<open>The grants a revocation names directly: the agent's own that are not revoked, or the target.\<close>

definition revocation_seeds :: "gateway \<Rightarrow> jsv \<Rightarrow> jsv set" where
  "revocation_seeds g notice =
     (if jget notice ''target_type'' = JStr ''agent''
      then {jget grant ''grant_id'' | grant. grant \<in> snd ` set (grants g) \<and>
              strict_eq (jget grant ''subject_agent_id'') (jget notice ''target_id'') \<and>
              jget grant ''status'' \<noteq> JStr ''revoked''}
      else {jget notice ''target_id''})"

definition revoked_set :: "gateway \<Rightarrow> jsv \<Rightarrow> jsv set" where
  "revoked_set g notice = {k. depends (map snd (grants g)) (revocation_seeds g notice) k}"

definition as_revoked_identity :: "jsv \<Rightarrow> jsv \<Rightarrow> jsv" where
  "as_revoked_identity notice identity =
     jset ''revoked_at'' (jget notice ''effective_at'')
       (jset ''health'' (JStr ''unavailable'') (jset ''lifecycle_state'' (JStr ''revoked'') identity))"

lemma revocation_targets_Inr:
  assumes wf: "gateway_wf P g" and targets: "revocation_targets P g notice = Inr (i, A)"
  shows "distinct A \<and> set A = revocation_seeds g notice \<and>
    (if jget notice ''target_type'' = JStr ''agent''
     then \<exists>identity. mget (jget notice ''target_id'') (identities g) = Some identity \<and>
       i = Some (as_revoked_identity notice identity) \<and>
       validateAgentIdentity P (as_revoked_identity notice identity) = Inr (as_revoked_identity notice identity) \<and>
       jget (as_revoked_identity notice identity) ''agent_id'' = jget notice ''target_id''
     else i = None \<and> (\<exists>grant. mget (jget notice ''target_id'') (grants g) = Some grant))"
proof (cases "jget notice ''target_type'' = JStr ''agent''")
  case True
  with targets obtain identity update where
    found: "mget (jget notice ''target_id'') (identities g) = Some identity"
    and update: "validateAgentIdentity P (as_revoked_identity notice identity) = Inr update" "i = Some update"
    and A: "A = set_of_array (map (\<lambda>grant. jget grant ''grant_id'')
                  (filter (\<lambda>grant. strict_eq (jget grant ''subject_agent_id'') (jget identity ''agent_id'') \<and>
                                   jget grant ''status'' \<noteq> JStr ''revoked'') (map snd (grants g))))"
    by (auto simp: revocation_targets_def result_simps as_revoked_identity_def split: option.splits if_splits)
  from found wf have valid: "validateAgentIdentity P identity = Inr identity"
    and id: "jget identity ''agent_id'' = jget notice ''target_id''"
    by (auto simp: gateway_wf_def dest: stored_mget)
  have "jget (as_revoked_identity notice identity) ''agent_id'' = jget notice ''target_id''"
    using identity_is_record [OF valid] id by (simp add: as_revoked_identity_def)
  moreover have "update = as_revoked_identity notice identity"
    using update(1) by (rule identity.returns_argument)
  moreover have "distinct A \<and> set A = revocation_seeds g notice"
    using True by (auto simp: A id revocation_seeds_def)
  ultimately show ?thesis
    using True found update by auto
next
  case False
  with targets obtain grant where "mget (jget notice ''target_id'') (grants g) = Some grant"
    "i = None" "A = [jget grant ''grant_id'']"
    by (auto simp: revocation_targets_def split: option.splits if_splits)
  moreover from this wf have "jget grant ''grant_id'' = jget notice ''target_id''"
    by (auto simp: gateway_wf_def dest: stored_mget)
  ultimately show ?thesis using False by (simp add: revocation_seeds_def)
qed

lemma plan_revocation_Inr:
  assumes wf: "gateway_wf P g" and plan: "plan_revocation P g envelope notice now = Inr (i, us, receipt)"
  obtains ks where "distinct ks" and "set ks = revoked_set g notice"
    and "map_results (revoked_grant P g notice) ks = Inr us"
    and "revocation_receipt_for P envelope notice (i \<noteq> None) (length us) now = Inr receipt"
    and "length (revocations g) < 4096"
    and "mget (jget notice ''revocation_id'') (revocations g) = None"
    and "\<exists>A. revocation_targets P g notice = Inr (i, A)"
proof -
  from plan obtain A ks where targets: "revocation_targets P g notice = Inr (i, A)"
    and cascade: "cascade (map snd (grants g)) A = Inr ks"
    and rest: "map_results (revoked_grant P g notice) ks = Inr us"
      "revocation_receipt_for P envelope notice (i \<noteq> None) (length us) now = Inr receipt"
      "length (revocations g) < 4096" "mget (jget notice ''revocation_id'') (revocations g) = None"
    by (auto simp: plan_revocation_def result_simps split: if_splits)
  from revocation_targets_Inr [OF wf targets]
  have A: "distinct A" "set A = revocation_seeds g notice" by auto
  from cascade_correct [OF cascade A(1)]
  have "distinct ks" "set ks = revoked_set g notice"
    by (auto simp: revoked_set_def A)
  with rest targets show thesis by (intro that) auto
qed

lemma acceptValidated_frame:
  assumes "acceptValidatedEnvelope P g e now guard_now = (r, g')"
  shows "identities g' = identities g" "capabilities g' = capabilities g" "grants g' = grants g"
    "revocations g' = revocations g" "componentAuthenticationRefs g' = componentAuthenticationRefs g"
  using assms by (auto simp: acceptValidatedEnvelope_def split: sum.splits prod.splits)

lemma pruned_wf: "gateway_wf P g \<Longrightarrow> gateway_wf P (pruned g now)"
  by (simp add: gateway_wf_def prune_wf)

lemma revoked_set_pruned [simp]: "revoked_set (pruned g now) notice = revoked_set g notice"
  by (simp add: revoked_set_def revocation_seeds_def)

text \<open>The grants after a revocation, position by position.\<close>

lemma committed_grants:
  assumes wf: "gateway_wf P g" and "distinct ks"
    and results: "map_results (revoked_grant P g notice) ks = Inr us"
  defines "m \<equiv> fold (\<lambda>v. mput (jget v ''grant_id'') v) us (grants g)"
  shows "map fst m = map fst (grants g)"
    and "stored (validateAuthorityGrant P) ''grant_id'' m"
    and "mget k m = (if k \<in> set ks then map_option (as_revoked notice) (mget k (grants g))
                     else mget k (grants g))"
proof -
  from grant_updates [OF wf results]
  have us: "us = map (\<lambda>k. as_revoked notice (the (mget k (grants g)))) ks"
    and each: "\<And>k. k \<in> set ks \<Longrightarrow> \<exists>grant. mget k (grants g) = Some grant \<and>
       validateAuthorityGrant P (as_revoked notice grant) = Inr (as_revoked notice grant) \<and>
       jget (as_revoked notice grant) ''grant_id'' = k"
    by auto
  define u where "u k = as_revoked notice (the (mget k (grants g)))" for k
  have u: "jget (u k) ''grant_id'' = k" "validateAuthorityGrant P (u k) = Inr (u k)"
    "k \<in> fst ` set (grants g)" "mget k (grants g) \<noteq> None" if "k \<in> set ks" for k
    using each [OF that] by (auto simp: u_def dest: mget_in_set intro: rev_image_eqI)
  have prim: "primitive k" if "k \<in> set ks" for k
    using u(4) [OF that] by (simp add: mget_def split: if_splits)
  have us: "us = map u ks" by (simp add: us u_def)
  have ids: "map (\<lambda>v. jget v ''grant_id'') us = ks"
    by (simp add: us comp_def u map_idI)
  have strings: "list_all is_string (map fst (grants g))" "distinct (map fst (grants g))"
    using wf by (simp_all add: gateway_wf_def)
  show "map fst m = map fst (grants g)"
    unfolding m_def by (rule fold_mput_keys [OF strings]) (auto simp: us u)
  show "stored (validateAuthorityGrant P) ''grant_id'' m"
    unfolding m_def by (rule stored_fold_mput) (use wf in \<open>auto simp: gateway_wf_def us u\<close>)
  have "mget k m = (case find (\<lambda>v. jget v ''grant_id'' = k) us of Some v \<Rightarrow> Some v | None \<Rightarrow> mget k (grants g))"
    unfolding m_def
    by (rule mget_fold_mput)
      (use u prim assms(2) in \<open>auto simp: us comp_def map_idI [OF u(1)]\<close>)
  moreover have "find (\<lambda>v. jget v ''grant_id'' = k) us = (if k \<in> set ks then Some (u k) else None)"
  proof -
    have "find (\<lambda>v. jget v ''grant_id'' = k) (map u ls) = (if k \<in> set ls then Some (u k) else None)"
      if "set ls \<subseteq> set ks" for ls
      using that by (induction ls) (auto simp: u)
    then show ?thesis by (simp add: us)
  qed
  ultimately show "mget k m = (if k \<in> set ks then map_option (as_revoked notice) (mget k (grants g))
                     else mget k (grants g))"
    using u(4) [of k] by (auto simp: u_def)
qed

lemma commit_revocation_effect:
  assumes wf: "gateway_wf P g"
    and applied: "applyRevocation P g v now guard_now = (Inr receipt, g')"
  obtains notice i us ks where "check_revocation P g v now = Inr notice"
    and "set ks = revoked_set g notice" and "distinct ks" and "length us = length ks"
    and "revocation_receipt_for P v notice (i \<noteq> None) (length us) now = Inr receipt"
    and "map_results (revoked_grant P g notice) ks = Inr us"
    and "\<exists>A. revocation_targets P g notice = Inr (i, A)"
    and "length (revocations g) < 4096" and "mget (jget notice ''revocation_id'') (revocations g) = None"
    and "identities g' = (case i of None \<Rightarrow> identities g | Some u \<Rightarrow> mput (jget u ''agent_id'') u (identities g))"
    and "grants g' = fold (\<lambda>v. mput (jget v ''grant_id'') v) us (grants g)"
    and "revocations g' = mput (jget notice ''revocation_id'') receipt (revocations g)"
    and "capabilities g' = capabilities g"
    and "componentAuthenticationRefs g' = componentAuthenticationRefs g"
    and "replayGuard g' = snd (consume (prune now (replayGuard g)) (sender_key P v)
           (date_value P (jget v ''expires_at'')) guard_now)"
proof -
  from applied obtain notice i us g'' receipt' where
    check: "check_revocation P g v now = Inr notice"
    and plan: "plan_revocation P (pruned g now) v notice now = Inr (i, us, receipt)"
    and accept: "acceptValidatedEnvelope P (pruned g now) v now guard_now = (Inr receipt', g'')"
    and g': "g' = commit_revocation g'' notice i us receipt"
    by (rule applyRevocation_Inr)
  from plan_revocation_Inr [OF pruned_wf [OF wf] plan] obtain ks where
    ks: "distinct ks" "set ks = revoked_set g notice"
    and rest: "map_results (revoked_grant P (pruned g now) notice) ks = Inr us"
      "revocation_receipt_for P v notice (i \<noteq> None) (length us) now = Inr receipt"
      "length (revocations g) < 4096" "mget (jget notice ''revocation_id'') (revocations g) = None"
      "\<exists>A. revocation_targets P (pruned g now) notice = Inr (i, A)"
    by (metis pruned_simps(4) revoked_set_pruned)
  have pruned: "revoked_grant P (pruned g now) = revoked_grant P g"
    "revocation_targets P (pruned g now) = revocation_targets P g"
    unfolding fun_eq_iff revoked_grant_def revocation_targets_def pruned_simps by simp_all
  from rest(1) have "length us = length ks"
    by (induction ks arbitrary: us) (auto simp: result_simps)
  moreover note acceptValidatedEnvelope_Inr(3) [OF accept]
  ultimately show thesis
    using check ks rest acceptValidated_frame [OF accept]
    by (intro that [of notice ks us i]) (simp_all add: g' commit_revocation_def pruned split: option.split)
qed

text \<open>
  C2: A revocation that is applied marks as revoked exactly the grants in the dependency closure of its
  target (the target grant, or the agent's own grants, and every grant delegated from one of them),
  leaves every other grant as it was, keeps all grants and their order, and reports their number.
\<close>

lemma revocation_revokes_dependents:
  assumes wf: "gateway_wf P g"
    and applied: "applyRevocation P g v now guard_now = (Inr receipt, g')"
  shows "\<exists>notice. check_revocation P g v now = Inr notice \<and>
    map fst (grants g') = map fst (grants g) \<and>
    (\<forall>k. mget k (grants g') =
      (if k \<in> revoked_set g notice then map_option (as_revoked notice) (mget k (grants g))
       else mget k (grants g))) \<and>
    jget receipt ''grants_revoked'' = JInt (int (card (revoked_set g notice)))"
proof -
  from wf applied obtain notice us ks and i :: "jsv option" where
    check: "check_revocation P g v now = Inr notice"
    and ks: "set ks = revoked_set g notice" "distinct ks" "length us = length ks"
    and rec: "revocation_receipt_for P v notice (i \<noteq> None) (length us) now = Inr receipt"
    and us: "map_results (revoked_grant P g notice) ks = Inr us"
    and gr: "grants g' = fold (\<lambda>v. mput (jget v ''grant_id'') v) us (grants g)"
    by (rule commit_revocation_effect) (rule that; assumption)
  have "jget receipt ''grants_revoked'' = JInt (int (length us))"
    using rec by (auto simp: revocation_receipt_for_def result_simps dest!: revocation_receipt.returns_argument)
  moreover have "length us = card (revoked_set g notice)"
    using ks by (metis distinct_card)
  moreover note committed_grants [OF wf ks(2) us, folded gr]
  ultimately show ?thesis
    using check ks(1) by (intro exI [of _ notice]) auto
qed

section \<open>A revoked agent\<close>

lemma revocation_identity:
  assumes wf: "gateway_wf P g"
    and applied: "applyRevocation P g v now guard_now = (Inr receipt, g')"
    and notice: "check_revocation P g v now = Inr notice"
  shows "mget k (identities g') =
    (if jget notice ''target_type'' = JStr ''agent'' \<and> k = jget notice ''target_id''
     then map_option (as_revoked_identity notice) (mget k (identities g)) else mget k (identities g))"
proof -
  from wf applied obtain i where
    targets: "\<exists>A. revocation_targets P g notice = Inr (i, A)"
    and ids: "identities g' = (case i of None \<Rightarrow> identities g | Some u \<Rightarrow> mput (jget u ''agent_id'') u (identities g))"
    by (rule commit_revocation_effect) (use notice in \<open>auto intro: that\<close>)
  from targets obtain A where "revocation_targets P g notice = Inr (i, A)" ..
  note seeds = revocation_targets_Inr [OF wf this]
  show ?thesis
  proof (cases "jget notice ''target_type'' = JStr ''agent''")
    case True
    with seeds obtain identity where found: "mget (jget notice ''target_id'') (identities g) = Some identity"
      and i: "i = Some (as_revoked_identity notice identity)"
      and id: "jget (as_revoked_identity notice identity) ''agent_id'' = jget notice ''target_id''"
      by auto
    from found have "primitive (jget notice ''target_id'')" by (simp add: mget_def split: if_splits)
    with True found i id ids show ?thesis by (auto simp: mget_mput)
  qed (use seeds ids in auto)
qed

text \<open>
  C6: In the state a revocation of an agent leaves, no envelope that the agent sends and none that is
  sent to it is accepted, at whatever time.
\<close>

lemma revoked_agent_blocked:
  assumes wf: "gateway_wf P g"
    and applied: "applyRevocation P g v now guard_now = (Inr receipt, g')"
    and target: "check_revocation P g v now = Inr notice" "jget notice ''target_type'' = JStr ''agent''"
    and party: "p \<in> {''sender'', ''recipient''}" "jget (jget w p) ''principal_type'' = JStr ''agent''"
      "jget (jget w p) ''id'' = jget notice ''target_id''"
  shows "fst (acceptEnvelope P g' w now' guard_now') \<noteq> Inr receipt'"
proof
  assume "fst (acceptEnvelope P g' w now' guard_now') = Inr receipt'"
  then obtain g'' where "acceptEnvelope P g' w now' guard_now' = (Inr receipt', g'')"
    by (metis prod.collapse)
  from acceptValidatedEnvelope_Inr(1) [OF acceptEnvelope_Inr(3) [OF this]]
  have auth: "authorizeValidatedEnvelope P g' w now' = Inr ()" .
  have "\<exists>i. requireActiveAgent g' (jget notice ''target_id'') = Inr i"
  proof (cases "p = ''sender''")
    case True
    with party have agent: "jget (jget w ''sender'') ''principal_type'' = JStr ''agent''" by simp
    from authorizeAgentEnvelopeD [OF authorizeValidatedEnvelopeD(3) [OF auth agent]] True party
    show ?thesis by (auto simp: requireActiveAgent_Inr)
  next
    case False
    with party authorizeValidatedEnvelopeD(5) [OF auth] show ?thesis by auto
  qed
  then obtain i where "mget (jget notice ''target_id'') (identities g') = Some i"
    and active: "jget i ''lifecycle_state'' = JStr ''active''"
    by (auto simp: requireActiveAgent_Inr)
  with revocation_identity [OF wf applied target(1), of "jget notice ''target_id''"] target(2)
  obtain identity where "mget (jget notice ''target_id'') (identities g) = Some identity"
    and i: "i = as_revoked_identity notice identity"
    by (cases "mget (jget notice ''target_id'') (identities g)") auto
  with wf have "is_record identity"
    by (auto simp: gateway_wf_def dest!: stored_mget intro: identity_is_record)
  with i active show False by (simp add: as_revoked_identity_def)
qed

section \<open>Every operation keeps the invariant\<close>

lemma new_guard_wf: "new_guard limit = Inr guard \<Longrightarrow> guard_wf guard"
  by (auto simp: new_guard_def Let_def guard_wf_def le_floor_iff split: if_splits)

lemma new_gateway_wf:
  assumes "new_gateway P refs limit = Inr g"
  shows "gateway_wf P g"
proof -
  from assms obtain guard where guard: "new_guard limit = Inr guard"
    and g: "replayGuard g = guard" "identities g = []" "capabilities g = []" "grants g = []" "revocations g = []"
    by (auto simp: new_gateway_def result_simps split: if_splits)
  from new_guard_wf [OF guard] g show ?thesis by (simp add: gateway_wf_def)
qed

lemma registerIdentity_wf:
  "gateway_wf P g \<Longrightarrow> gateway_wf P (snd (registerIdentity P g v))"
  by (auto simp: registerIdentity_def gateway_wf_def split: sum.split
      intro!: stored_mput dest: identity.idempotent)

lemma registerCapability_wf:
  "gateway_wf P g \<Longrightarrow> gateway_wf P (snd (registerCapability P g v))"
  by (auto simp: registerCapability_def gateway_wf_def split: sum.split
      intro!: stored_mput dest: capability.idempotent)

lemma registerAuthorityGrant_wf:
  assumes wf: "gateway_wf P g"
  shows "gateway_wf P (snd (registerAuthorityGrant P g v))"
proof (cases "registerAuthorityGrant P g v")
  case (Pair r g')
  show ?thesis
  proof (cases r)
    case (Inl e)
    with Pair have "g' = g" by (auto simp: registerAuthorityGrant_def split: sum.splits)
    with wf Pair show ?thesis by simp
  next
    case (Inr grant)
    with Pair have ok: "validateAuthorityGrant P v = Inr v" "check_grant P g v = Inr ()"
      and g': "g' = g\<lparr>grants := mput (jget v ''grant_id'') v (grants g)\<rparr>"
      by (simp_all add: registerAuthorityGrant_Inr)
    have string: "is_string (jget v ''grant_id'')" using wf ok(2) by (rule check_grant_id_string)
    then have "mput (jget v ''grant_id'') v (grants g) = AList.update (jget v ''grant_id'') v (grants g)"
      by (simp add: mput_def is_string_primitive)
    moreover have "stored (validateAuthorityGrant P) ''grant_id'' (mput (jget v ''grant_id'') v (grants g))"
      using wf ok(1) by (auto simp: gateway_wf_def intro: stored_mput)
    ultimately show ?thesis
      using wf string by (simp add: Pair g' gateway_wf_def distinct_update list_all_update)
  qed
qed

lemma acceptEnvelope_wf:
  assumes "gateway_wf P g"
  shows "gateway_wf P (snd (acceptEnvelope P g v now guard_now))"
proof -
  have "snd (acceptEnvelope P g v now guard_now) = g \<or>
    (\<exists>k e. snd (acceptEnvelope P g v now guard_now) =
      g\<lparr>replayGuard := snd (consume (replayGuard g) k e guard_now)\<rparr>)"
    by (auto simp: acceptEnvelope_def acceptValidatedEnvelope_def split: sum.split prod.split)
      (metis snd_conv)+
  with assms show ?thesis
    by (auto simp: gateway_wf_def consume_wf)
qed

lemma revocation_receipt_id:
  "revocation_receipt_for P v notice c n now = Inr receipt \<Longrightarrow>
   validateRevocationReceipt P receipt = Inr receipt \<and>
   jget receipt ''revocation_id'' = jget notice ''revocation_id''"
  unfolding revocation_receipt_for_def result_simps
  by (elim exE conjE, frule revocation_receipt.returns_argument, drule revocation_receipt.idempotent) simp

lemma committed_identities_stored:
  assumes wf: "gateway_wf P g" and "revocation_targets P g notice = Inr (i, A)"
  shows "stored (validateAgentIdentity P) ''agent_id''
    (case i of None \<Rightarrow> identities g | Some u \<Rightarrow> mput (jget u ''agent_id'') u (identities g))"
  using revocation_targets_Inr [OF assms] wf
  by (auto simp: gateway_wf_def split: if_splits intro!: stored_mput)

lemma applyRevocation_wf:
  assumes wf: "gateway_wf P g"
  shows "gateway_wf P (snd (applyRevocation P g v now guard_now))"
proof (cases "applyRevocation P g v now guard_now")
  case (Pair r g')
  show ?thesis
  proof (cases r)
    case (Inl e)
    with refused_revocation_state Pair
    have "g' = g \<or> (\<exists>t. g' = pruned g now \<or> g' = pruned (pruned g now) t)" by blast
    with wf Pair pruned_wf show ?thesis by auto
  next
    case (Inr receipt)
    with Pair have applied: "applyRevocation P g v now guard_now = (Inr receipt, g')" by simp
    from wf applied obtain notice i us ks where
      ks: "distinct ks"
      and rec: "revocation_receipt_for P v notice (i \<noteq> None) (length us) now = Inr receipt"
      and us: "map_results (revoked_grant P g notice) ks = Inr us"
      and targets: "\<exists>A. revocation_targets P g notice = Inr (i, A)"
      and len: "length (revocations g) < 4096"
      and ids: "identities g' = (case i of None \<Rightarrow> identities g | Some u \<Rightarrow> mput (jget u ''agent_id'') u (identities g))"
      and grs: "grants g' = fold (\<lambda>v. mput (jget v ''grant_id'') v) us (grants g)"
      and rev: "revocations g' = mput (jget notice ''revocation_id'') receipt (revocations g)"
      and caps: "capabilities g' = capabilities g"
      and guard: "replayGuard g' = snd (consume (prune now (replayGuard g)) (sender_key P v)
           (date_value P (jget v ''expires_at'')) guard_now)"
      by (rule commit_revocation_effect)
    from targets have "stored (validateAgentIdentity P) ''agent_id'' (identities g')"
      using committed_identities_stored [OF wf] ids by auto
    moreover from committed_grants(1,2) [OF wf ks us, folded grs] wf
    have "stored (validateAuthorityGrant P) ''grant_id'' (grants g')"
      "list_all is_string (map fst (grants g'))" "distinct (map fst (grants g'))"
      by (simp_all add: gateway_wf_def)
    moreover have "length (revocations g') \<le> 4096"
      using len length_update_le [of "jget notice ''revocation_id''" receipt "revocations g"]
      by (simp add: rev mput_def)
    moreover have "stored (validateRevocationReceipt P) ''revocation_id'' (revocations g')"
      using wf revocation_receipt_id [OF rec] stored_mput [of "validateRevocationReceipt P" "''revocation_id''" "revocations g" receipt]
      by (simp add: gateway_wf_def rev)
    moreover have "guard_wf (replayGuard g')"
      using wf by (simp add: guard gateway_wf_def consume_wf prune_wf)
    ultimately show ?thesis
      using wf by (simp add: Pair gateway_wf_def caps)
  qed
qed

lemma serve_wf: "gateway_wf P g \<Longrightarrow> gateway_wf P (snd (serve P g r))"
  by (cases r) (simp_all add: registerIdentity_wf registerCapability_wf registerAuthorityGrant_wf
      acceptEnvelope_wf applyRevocation_wf)

lemma serve_all_wf: "gateway_wf P g \<Longrightarrow> gateway_wf P (serve_all P g rs)"
  by (induction rs arbitrary: g) (auto intro: serve_wf)

end
