(* ===== verification/GatewayProperties.thy ===== *)
theory GatewayProperties
  imports RevocationFacts
begin

text \<open>
  The properties of the agent protocol that are about whole runs or whole values.
\<close>

section \<open>Identities and payloads\<close>

lemma starts_with_True: "starts_with p v = Inr True \<longleftrightarrow> (\<exists>t. v = JStr (p @ t))"
proof (cases v)
  case (JStr s)
  have "take (length p) s = p \<longleftrightarrow> (\<exists>t. s = p @ t)"
    by (metis append_eq_conv_conj append_take_drop_id)
  then show ?thesis by (simp add: JStr)
qed auto

lemma companion_boundary_Inr:
  assumes "companion_boundary v = Inr w" and "jget v ''agent_class'' = JStr ''living_companion''"
  shows "jget (jget v ''authority'') ''ceiling'' \<noteq> JStr ''founder_delegated'' \<and>
      \<not> array_includes (jget v ''permissions'') (JStr ''founder_authority'') \<and>
      (\<exists>a o'. jget v ''agent_id'' = JStr (''kindred-agent-companion-'' @ a) \<and>
             jget v ''owner_id'' = JStr (''kindred-account-'' @ o'))"
proof -
  from assms have "starts_with ''kindred-account-'' (jget v ''owner_id'') = Inr True"
    "starts_with ''kindred-agent-companion-'' (jget v ''agent_id'') = Inr True"
    by (auto simp: companion_boundary_def result_simps split: if_splits)
  with assms show ?thesis
    unfolding starts_with_True by (auto simp: companion_boundary_def split: if_splits)
qed

text \<open>
  A validated identity never declares a capability it also prohibits, and a validated living
  companion has no founder authority (neither as ceiling nor as permission), belongs to an account and
  carries a companion id.
\<close>

lemma identity_boundaries:
  assumes "validateAgentIdentity P v = Inr w"
  shows "(\<forall>c. array_includes (jget v ''capabilities'') c \<longrightarrow>
        \<not> array_includes (jget v ''prohibited_capabilities'') c) \<and>
    (jget v ''agent_class'' = JStr ''living_companion'' \<longrightarrow>
      jget (jget v ''authority'') ''ceiling'' \<noteq> JStr ''founder_delegated'' \<and>
      \<not> array_includes (jget v ''permissions'') (JStr ''founder_authority'') \<and>
      (\<exists>a o'. jget v ''agent_id'' = JStr (''kindred-agent-companion-'' @ a) \<and>
             jget v ''owner_id'' = JStr (''kindred-account-'' @ o')))"
proof -
  from assms have "\<not> list_ex (array_includes (jget v ''prohibited_capabilities'')) (items (jget v ''capabilities''))"
    and "companion_boundary v = Inr w"
    by (auto simp: validateAgentIdentity_def result_simps split: if_splits)
  then show ?thesis
    using companion_boundary_Inr [of v w]
    by (auto simp: list_ex_iff array_includes_def [of "jget v ''capabilities''"])
qed

text \<open>\<open>subvalue v d w\<close>: \<open>w\<close> is nested in \<open>v\<close> at depth \<open>d\<close>.\<close>

inductive subvalue :: "jsv \<Rightarrow> nat \<Rightarrow> jsv \<Rightarrow> bool" for v where
  here: "subvalue v 0 v"
| item: "subvalue v d (JArr vs) \<Longrightarrow> w \<in> set vs \<Longrightarrow> subvalue v (Suc d) w"
| field: "subvalue v d (JObj kvs) \<Longrightarrow> (k, w) \<in> set kvs \<Longrightarrow> subvalue v (Suc d) w"

lemma validatePayloadItems_each:
  "validatePayloadItems vs d = Inr () \<Longrightarrow> w \<in> set vs \<Longrightarrow> validatePayload w d = Inr ()"
  by (induction vs) (auto simp: result_simps simp del: validatePayload.simps)

lemma validatePayloadEntries_each:
  "validatePayloadEntries kvs d = Inr () \<Longrightarrow> (k, w) \<in> set kvs \<Longrightarrow>
   validatePayload w d = Inr () \<and> boundedString (JStr k) 1 128 \<and> to_lower k \<notin> set forbidden_payload_keys"
  by (induction kvs) (auto simp: result_simps simp del: validatePayload.simps split: if_splits)

lemma validatePayload_subvalue:
  "subvalue v d w \<Longrightarrow> validatePayload v n = Inr () \<Longrightarrow> validatePayload w (n + d) = Inr ()"
proof (induction rule: subvalue.induct)
  case (item d vs w)
  then have "validatePayloadItems vs (n + Suc d) = Inr ()" by (auto split: if_splits)
  then show ?case using item.hyps(2) by (rule validatePayloadItems_each)
next
  case (field d kvs k w)
  then have "validatePayloadEntries kvs (n + Suc d) = Inr ()" by (auto split: if_splits)
  then show ?case using field.hyps(2) validatePayloadEntries_each by blast
qed simp

text \<open>
  C9: No credential-like key (\<open>password\<close>, \<open>private_key\<close>, \<open>seed_phrase\<close>, ... in any letter case)
  occurs at any depth of the payload of a validated envelope, and the payload nests at most 8 deep,
  with at most 128 items or fields at each level and at most 32 KiB of JSON text.
\<close>

lemma payload_contained:
  assumes "validateEnvelope P v = Inr w" and "subvalue (jget v ''payload'') d x"
  shows "d \<le> MAX_PAYLOAD_DEPTH \<and> length (items x) \<le> 128 \<and> length (jkeys x) \<le> 128 \<and>
    (\<forall>k \<in> set (jkeys x). to_lower k \<notin> set forbidden_payload_keys) \<and>
    length (utf8 (json P (jget v ''payload''))) \<le> MAX_PAYLOAD_BYTES"
proof -
  from assms(1) have payload: "validatePayload (jget v ''payload'') 0 = Inr ()"
    and bytes: "length (utf8 (json P (jget v ''payload''))) \<le> MAX_PAYLOAD_BYTES"
    by (auto simp: validateEnvelope_def result_simps simp del: validatePayload.simps split: if_splits)
  from validatePayload_subvalue [OF assms(2) payload]
  have x: "validatePayload x d = Inr ()" by simp
  have keys: "to_lower k \<notin> set forbidden_payload_keys" if "k \<in> set (jkeys x)" for k
    using that x by (cases x) (auto dest: validatePayloadEntries_each split: if_splits)
  from x have "d \<le> MAX_PAYLOAD_DEPTH \<and> length (items x) \<le> 128 \<and> length (jkeys x) \<le> 128"
    by (cases x) (auto split: if_splits)
  with keys bytes show ?thesis by blast
qed

section \<open>The cascade returns\<close>

lemma cascade_pass_total:
  assumes "set gs \<subseteq> set all" and "\<forall>x \<in> set A. depends all S x" and "distinct A"
    and "finite {x. depends all S x}" and "card {x. depends all S x} \<le> 4096"
  shows "\<exists>r. cascade_pass gs A c = Inr r"
  using assms
proof (induction gs arbitrary: A c)
  case (Cons grant gs)
  show ?case
  proof (cases "cascades_to A grant")
    case True
    let ?A = "A @ [jget grant ''grant_id'']"
    have "depends all S (jget grant ''grant_id'')"
      using True Cons.prems(1,2) by (auto simp: cascades_to_def intro: depends.child)
    with True Cons.prems have A: "\<forall>x \<in> set ?A. depends all S x" "distinct ?A"
      by (auto simp: cascades_to_def)
    have "card (set ?A) \<le> card {x. depends all S x}"
      using A(1) Cons.prems(4) by (intro card_mono) auto
    then have "length ?A \<le> 4096"
      using distinct_card [OF A(2)] Cons.prems(5) by linarith
    then have "cascade_pass (grant # gs) A c = cascade_pass gs ?A True"
      using True by (simp add: Let_def)
    with Cons.IH [OF _ A Cons.prems(4,5)] Cons.prems(1) show ?thesis by simp
  qed (use Cons in simp)
qed simp

lemma cascade_total:
  assumes "\<forall>x \<in> set A. depends gs S x" "distinct A" "finite {x. depends gs S x}"
    "card {x. depends gs S x} \<le> 4096"
  shows "\<exists>B. cascade gs A = Inr B"
  using assms
proof (induction gs A rule: cascade.induct)
  case (1 gs A)
  have "\<exists>r. cascade_pass gs A False = Inr r"
    by (rule cascade_pass_total [OF subset_refl "1.prems"])
  then obtain A' c where pass: "cascade_pass gs A False = Inr (A', c)" by auto
  show ?case
  proof (cases c)
    case True
    have "set A \<subseteq> set A'" "distinct A'" "\<And>x. x \<in> set A' \<Longrightarrow> depends gs (set A) x"
      using cascade_pass_sound [OF pass subset_refl "1.prems"(2)] by auto
    note sound = this
    have "depends gs S x" if "x \<in> set A'" for x
      by (rule depends_trans [OF sound(3) [OF that]]) (use "1.prems"(1) in blast)
    then have "\<forall>x \<in> set A'. depends gs S x" by blast
    from "1.IH" [OF pass refl True \<open>\<forall>x \<in> set A'. depends gs S x\<close> sound(2) "1.prems"(3,4)] obtain B where "cascade gs A' = Inr B" ..
    with pass True have "cascade gs A = Inr B" by (subst cascade.simps) simp
    then show ?thesis ..
  next
    case False
    with pass show ?thesis by (subst cascade.simps) simp
  qed
qed

lemma depends_finite: "finite S \<Longrightarrow> finite {x. depends gs S x}"
proof (rule finite_subset)
  show "{x. depends gs S x} \<subseteq> S \<union> (\<lambda>grant. jget grant ''grant_id'') ` set gs"
    by (rule subsetI, drule CollectD, erule dependsE) auto
qed simp

text \<open>
  C7: The cascade loop of a revocation terminates; as long as the dependency closure of its seeds has at
  most 4096 grants it succeeds and collects exactly that closure, each grant once.
\<close>

lemma cascade_computes_closure:
  assumes "distinct seeds" and "card {x. depends gs (set seeds) x} \<le> 4096"
  shows "\<exists>affected. cascade gs seeds = Inr affected \<and> distinct affected \<and>
    set affected = {x. depends gs (set seeds) x}"
proof -
  from assms obtain B where "cascade gs seeds = Inr B"
    using cascade_total [of seeds gs "set seeds"] depends_finite [of "set seeds" gs]
    by (auto intro: depends.seed)
  with cascade_correct [OF this assms(1)] show ?thesis by blast
qed

section \<open>Runs of the gateway\<close>

text \<open>
  C5: Whatever is registered, accepted or revoked, in whatever order, at whatever times and whether it
  succeeds or not, a constructed gateway keeps its invariant: everything stored is valid and stored under
  its own id, grant ids are strings and occur once, at most 4096 revocations are kept, and the replay
  guard holds distinct keys within its capacity.
\<close>

theorem gateway_invariant:
  assumes "new_gateway P refs limit = Inr g"
  shows "gateway_wf P (serve_all P g requests)"
  using assms by (intro serve_all_wf new_gateway_wf)

text \<open>
  C3: An envelope from an agent is accepted only if the agent is registered and active and the envelope is
  authenticated and not of a type that moves value or runs tools. A discovery goes to the brainstem, is of the
  internal class, names neither capability nor budget, and rests on a live root grant of the agent for
  discovery and nothing else. Any other message that names a capability has it covered: by the agent, which
  declares it, is not prohibited it, has it in its execution scope and is of a class it is open to; by the
  capability, which is registered and open to the classification of the data; and by a live grant of the
  agent, issued before the message, with that capability, message type, level and a live parent that the
  message names; a budget it names is both the agent's and the grant's. A message type that needs a capability
  names one; the others, if they name none, need no grant.
\<close>

lemma agent_envelope_authorized:
  assumes "acceptEnvelope P g v now guard_now = (Inr receipt, g')"
    and "jget (jget v ''sender'') ''principal_type'' = JStr ''agent''"
  shows "\<exists>identity. mget (jget (jget v ''sender'') ''id'') (identities g) = Some identity \<and>
    jget identity ''lifecycle_state'' = JStr ''active'' \<and>
    \<not> str_in (jget v ''message_type'') direct_agent_execution_types \<and>
    jget v ''authentication_ref'' \<noteq> JNull \<and>
    (jget v ''message_type'' = JStr ''discovery'' \<longrightarrow> (\<exists>grant. discovery_covered P g identity v now grant)) \<and>
    (jget v ''message_type'' \<noteq> JStr ''discovery'' \<longrightarrow>
     jget v ''requested_capability'' \<noteq> JNull \<longrightarrow>
     (\<exists>capability grant. covered P g identity v now capability grant)) \<and>
    (str_in (jget v ''message_type'') capability_message_types \<longrightarrow>
     jget v ''requested_capability'' \<noteq> JNull)"
  using assms by (rule accepted_agent_envelope)

section \<open>Revocations\<close>

text \<open>
  C1: A revocation that is refused, for whatever reason and at whatever point, leaves identities,
  capabilities, grants and recorded revocations exactly as they were and consumes no nonce: the replay
  guard can only have lost entries.
\<close>

lemma refused_revocation_changes_nothing:
  assumes "applyRevocation P g v now guard_now = (Inl e, g')"
  shows "identities g' = identities g \<and> capabilities g' = capabilities g \<and> grants g' = grants g \<and>
    revocations g' = revocations g \<and> set (entries (replayGuard g')) \<subseteq> set (entries (replayGuard g))"
  using refused_revocation_state [OF assms] by (auto simp: prune_def)

end
