(* ===== verification/Digests.thy ===== *)
theory Digests
  imports AgentMessages
begin

text \<open>
  The identifiers the sources derive from a hash: the first 32 characters of the base64url text of the
  SHA-256 of a label and its values. The hash is a parameter; that it has 32 bytes is the hypothesis
  \<open>hash_width\<close>, under which every derived identifier has the shape its contract asks for.
\<close>

definition digest :: "platform \<Rightarrow> string \<Rightarrow> string list \<Rightarrow> string" where
  "digest P label values =
     take 32 (base64url (sha256 P (utf8 (label @ '':'' @ join '':'' values))))"

definition hash_width :: "platform \<Rightarrow> bool" where
  "hash_width P \<longleftrightarrow> (\<forall>s. length (sha256 P s) = 32)"

lemma length_digest: "hash_width P \<Longrightarrow> length (digest P l vs) = 32"
  using length_base64url [of "sha256 P (utf8 (l @ '':'' @ join '':'' vs))"]
  by (auto simp: digest_def hash_width_def)

lemma digest_idch: "list_all is_idch (digest P l vs)"
  using base64url_idch by (auto simp: digest_def list_all_iff dest: in_set_takeD)

lemma prefixed_digest [simp]:
  "hash_width P \<Longrightarrow> lo \<le> 32 \<Longrightarrow> 32 \<le> hi \<Longrightarrow> prefixed p is_idch lo hi (p @ digest P l vs)"
  by (simp add: length_digest digest_idch)

lemma is_idch_refch: "is_idch c \<Longrightarrow> is_refch c"
  by (auto simp: is_idch_def is_refch_def)

lemma is_idch_not_control: "is_idch c \<Longrightarrow> \<not> is_control c"
  by (auto simp: char_class_defs)

lemma boundedString_idch:
  "list_all is_idch s \<Longrightarrow> boundedString (JStr s) lo hi \<longleftrightarrow> lo \<le> length s \<and> length s \<le> hi"
  by (auto simp: list_all_iff list_ex_iff dest: is_idch_not_control)

end
