(* ===== verification/CapabilityDiscovery.thy ===== *)
theory CapabilityDiscovery
  imports Digests Gateway
begin

text \<open>
  \<open>capability-discovery.mjs\<close>: the query and result contracts, the artifacts an agent sends (a grant, the
  identity scoped to it, and the discovery envelope), the catalog with its eligibility rule, and the
  admission of a discovery through a gateway with a shared replay guard. Ids are compared by the
  platform's collation order; capability ids that are not strings, which the validator lets pass as
  arrays, are compared by their text.
\<close>

section \<open>Contracts\<close>

definition CAPABILITY_DISCOVERY_QUERY_FIELDS :: "string list" where
  "CAPABILITY_DISCOVERY_QUERY_FIELDS =
     [''contract_version'', ''requester_agent_id'', ''action_types'', ''data_classification'',
      ''risk_ceiling'', ''result_limit'', ''include_unavailable'', ''authority_requested'',
      ''provider_contact_requested'', ''memory_write_requested'', ''tool_execution_requested'',
      ''settlement_requested'', ''external_effects'']"

definition CAPABILITY_DISCOVERY_RESULT_FIELDS :: "string list" where
  "CAPABILITY_DISCOVERY_RESULT_FIELDS =
     [''contract_version'', ''query_message_id'', ''correlation_id'', ''catalog_component'',
      ''result_count'', ''truncated'', ''capabilities'', ''authority_granted'',
      ''execution_authorized'', ''provider_contact_authorized'', ''memory_write_authorized'',
      ''settlement_authorized'', ''external_effects_authorized'', ''evidence_refs'',
      ''generated_at'']"

definition CAPABILITY_DISCOVERY_PROJECTION_FIELDS :: "string list" where
  "CAPABILITY_DISCOVERY_PROJECTION_FIELDS =
     [''capability_id'', ''version'', ''owner_component'', ''action_type'', ''required_authority'',
      ''risk_ceiling'', ''data_classifications'', ''execution_mode'', ''available'',
      ''input_contract_ref'', ''output_contract_ref'']"

definition DISCOVERY_TTL_MS :: int where
  "DISCOVERY_TTL_MS = 2 * 60 * 1000"

definition uniqueEnum :: "jsv \<Rightarrow> string list \<Rightarrow> nat \<Rightarrow> bool" where
  "uniqueEnum v allowed maximum \<longleftrightarrow>
     is_array v \<and> length (items v) \<le> maximum \<and> no_repeats (items v) \<and>
     list_all (\<lambda>i. str_in i allowed) (items v)"

text \<open>\<open>riskOrder.get(a) <= riskOrder.get(b)\<close>\<close>

definition level_le :: "string list \<Rightarrow> jsv \<Rightarrow> jsv \<Rightarrow> bool" where
  "level_le L a b = (case (level_in L a, level_in L b) of (Some m, Some n) \<Rightarrow> m \<le> n | _ \<Rightarrow> False)"

definition validateCapabilityDiscoveryQuery :: "platform \<Rightarrow> jsv \<Rightarrow> jsv result" where
  "validateCapabilityDiscoveryQuery P v =
     (if \<not>
       (exactKeys v CAPABILITY_DISCOVERY_QUERY_FIELDS \<and>
        jget v ''contract_version'' = JStr ''kindred.agent.capability-discovery-query.v1'' \<and>
        test P agentIdPattern (jget v ''requester_agent_id'') \<and>
        uniqueEnum (jget v ''action_types'') action_types (length action_types) \<and>
        str_in (jget v ''data_classification'') DATA_CLASSIFICATIONS \<and>
        str_in (jget v ''risk_ceiling'') risk_levels \<and>
        is_safe_integer (jget v ''result_limit'') \<and>
        1 \<le> num_of (jget v ''result_limit'') \<and> num_of (jget v ''result_limit'') \<le> 64 \<and>
        jget v ''include_unavailable'' = JBool False \<and>
        jget v ''authority_requested'' = JBool False \<and>
        jget v ''provider_contact_requested'' = JBool False \<and>
        jget v ''memory_write_requested'' = JBool False \<and>
        jget v ''tool_execution_requested'' = JBool False \<and>
        jget v ''settlement_requested'' = JBool False \<and>
        jget v ''external_effects'' = JBool False)
      then reject ''discovery_query_invalid'' else Inr v)"

definition string_between :: "nat \<Rightarrow> nat \<Rightarrow> jsv \<Rightarrow> bool" where
  "string_between lo hi v = (case v of JStr s \<Rightarrow> lo \<le> length s \<and> length s \<le> hi | _ \<Rightarrow> False)"

definition validateProjection :: "platform \<Rightarrow> jsv \<Rightarrow> jsv result" where
  "validateProjection P v =
     (if \<not>
       (exactKeys v CAPABILITY_DISCOVERY_PROJECTION_FIELDS \<and>
        test P capability_id_shape (jget v ''capability_id'') \<and>
        test P version_shape (jget v ''version'') \<and>
        str_in (jget v ''owner_component'') RUNTIME_COMPONENTS \<and>
        str_in (jget v ''action_type'') action_types \<and>
        str_in (jget v ''required_authority'') AUTHORITY_LEVELS \<and>
        str_in (jget v ''risk_ceiling'') risk_levels \<and>
        uniqueEnum (jget v ''data_classifications'') DATA_CLASSIFICATIONS (length DATA_CLASSIFICATIONS) \<and>
        str_in (jget v ''execution_mode'') execution_modes \<and>
        is_boolean (jget v ''available'') \<and>
        string_between 3 256 (jget v ''input_contract_ref'') \<and>
        string_between 3 256 (jget v ''output_contract_ref''))
      then reject ''discovery_projection_invalid'' else Inr v)"

definition validateCapabilityDiscoveryResult :: "platform \<Rightarrow> jsv \<Rightarrow> jsv result" where
  "validateCapabilityDiscoveryResult P v =
     (if \<not>
       (exactKeys v CAPABILITY_DISCOVERY_RESULT_FIELDS \<and>
        jget v ''contract_version'' = JStr ''kindred.agent.capability-discovery-result.v1'' \<and>
        test P messageIdPattern (jget v ''query_message_id'') \<and>
        test P reference_shape (jget v ''correlation_id'') \<and>
        jget v ''catalog_component'' = JStr ''brainstem'' \<and>
        is_safe_integer (jget v ''result_count'') \<and>
        0 \<le> num_of (jget v ''result_count'') \<and> num_of (jget v ''result_count'') \<le> 64 \<and>
        is_boolean (jget v ''truncated'') \<and>
        is_array (jget v ''capabilities'') \<and>
        of_nat (length (items (jget v ''capabilities''))) = num_of (jget v ''result_count'') \<and>
        jget v ''authority_granted'' = JBool False \<and>
        jget v ''execution_authorized'' = JBool False \<and>
        jget v ''provider_contact_authorized'' = JBool False \<and>
        jget v ''memory_write_authorized'' = JBool False \<and>
        jget v ''settlement_authorized'' = JBool False \<and>
        jget v ''external_effects_authorized'' = JBool False \<and>
        is_array (jget v ''evidence_refs'') \<and>
        1 \<le> length (items (jget v ''evidence_refs'')) \<and> length (items (jget v ''evidence_refs'')) \<le> 4 \<and>
        no_repeats (items (jget v ''evidence_refs'')) \<and>
        list_all (test P reference_shape) (items (jget v ''evidence_refs'')) \<and>
        date_of P (jget v ''generated_at'') \<noteq> None)
      then reject ''discovery_result_invalid''
      else and_then (map_results (validateProjection P) (items (jget v ''capabilities''))) (\<lambda>projections.
        if \<not> no_repeats (map (\<lambda>c. jget c ''capability_id'') projections)
        then reject ''discovery_result_duplicate''
        else Inr (jset ''capabilities'' (JArr projections) v)))"

section \<open>The artifacts of a discovery\<close>

record discovery_request =
  request_identity :: jsv
  request_now :: "int option"
  correlationId :: jsv
  actionTypes :: jsv
  dataClassification :: jsv
  riskCeiling :: jsv
  resultLimit :: jsv

definition discovery_query :: "discovery_request \<Rightarrow> jsv \<Rightarrow> jsv" where
  "discovery_query r identity = JObj
     [(''contract_version'', JStr ''kindred.agent.capability-discovery-query.v1''),
      (''requester_agent_id'', jget identity ''agent_id''),
      (''action_types'', nullish_or (actionTypes r) (JArr [])),
      (''data_classification'', nullish_or (dataClassification r) (JStr ''internal'')),
      (''risk_ceiling'', nullish_or (riskCeiling r) (JStr ''low'')),
      (''result_limit'', nullish_or (resultLimit r) (JInt 16)),
      (''include_unavailable'', JBool False),
      (''authority_requested'', JBool False),
      (''provider_contact_requested'', JBool False),
      (''memory_write_requested'', JBool False),
      (''tool_execution_requested'', JBool False),
      (''settlement_requested'', JBool False),
      (''external_effects'', JBool False)]"

definition discovery_grant :: "platform \<Rightarrow> jsv \<Rightarrow> string \<Rightarrow> string \<Rightarrow> string \<Rightarrow> jsv" where
  "discovery_grant P identity seed issuedAt expiresAt = JObj
     [(''contract_version'', JStr ''kindred.agent.authority-grant.v1''),
      (''grant_id'', JStr (''kindred-grant-'' @ digest P ''discovery-grant'' [seed])),
      (''subject_agent_id'', jget identity ''agent_id''),
      (''issuer_component'', JStr ''brainstem''),
      (''issuer_id'', JStr ''kindred-component-brainstem''),
      (''authentication_ref'', JStr (''kindred-authref-'' @ digest P ''discovery-authref'' [seed])),
      (''authority_level'', JStr ''user_delegated''),
      (''capability_ids'', JArr []),
      (''message_types'', JArr [JStr ''discovery'']),
      (''permissions'', JArr [JStr ''capability.discover'']),
      (''budget_refs'', JArr []),
      (''parent_grant_ref'', JNull),
      (''issued_at'', JStr issuedAt),
      (''expires_at'', JStr expiresAt),
      (''status'', JStr ''active''),
      (''revoked_at'', JNull)]"

definition scoped_identity :: "jsv \<Rightarrow> jsv \<Rightarrow> jsv" where
  "scoped_identity identity grant =
     jset ''authority''
       (jset ''grant_refs'' (JArr (items (jget (jget identity ''authority'') ''grant_refs'') @ [jget grant ''grant_id'']))
         (jget identity ''authority'')) identity"

definition discovery_envelope :: "platform \<Rightarrow> discovery_request \<Rightarrow> jsv \<Rightarrow> jsv \<Rightarrow> jsv \<Rightarrow> string \<Rightarrow> string \<Rightarrow> string \<Rightarrow> jsv" where
  "discovery_envelope P r identity query grant seed issuedAt expiresAt = JObj
     [(''contract_version'', JStr ''kindred.agent.message-envelope.v1''),
      (''message_id'', JStr (''kindred-message-'' @ digest P ''discovery-message'' [seed])),
      (''message_type'', JStr ''discovery''),
      (''sender'', JObj [(''principal_type'', JStr ''agent''), (''id'', jget identity ''agent_id'')]),
      (''recipient'', JObj [(''principal_type'', JStr ''runtime_component''), (''id'', JStr ''brainstem'')]),
      (''authority_ref'', jget grant ''grant_id''),
      (''correlation_id'', correlationId r),
      (''causation_id'', JNull),
      (''nonce'', JStr (digest P ''discovery-nonce'' [seed])),
      (''timestamp'', JStr issuedAt),
      (''expires_at'', JStr expiresAt),
      (''data_classification'', JStr ''internal''),
      (''requested_capability'', JNull),
      (''budget_ref'', JNull),
      (''evidence_refs'', JArr []),
      (''authentication_ref'', jget grant ''authentication_ref''),
      (''delegation_ref'', JNull),
      (''payload'', query)]"

definition createCapabilityDiscoveryArtifacts ::
    "platform \<Rightarrow> discovery_request \<Rightarrow> (jsv \<times> jsv \<times> jsv) result" where
  "createCapabilityDiscoveryArtifacts P r =
     and_then (validateAgentIdentity P (request_identity r)) (\<lambda>identity.
       if jget identity ''lifecycle_state'' \<noteq> JStr ''active'' then reject ''discovery_principal_inactive''
       else if \<not> str_in (jget (jget identity ''authority'') ''ceiling'')
                 [''user_delegated'', ''governance_delegated'', ''founder_delegated'']
       then reject ''discovery_authority_ceiling_invalid''
       else case request_now r of
         None \<Rightarrow> reject ''discovery_timestamp_invalid''
       | Some now \<Rightarrow>
         if \<not> test P reference_shape (nullish_or (correlationId r) (JStr []))
         then reject ''discovery_correlation_invalid''
         else and_then (validateCapabilityDiscoveryQuery P (discovery_query r identity)) (\<lambda>query.
           let seed = digest P ''capability-discovery''
                        [item_string P (jget identity ''agent_id''), item_string P (correlationId r)]
           in and_then (iso_text now) (\<lambda>issuedAt.
              and_then (iso_text (now + DISCOVERY_TTL_MS)) (\<lambda>expiresAt.
              and_then (validateAuthorityGrant P (discovery_grant P identity seed issuedAt expiresAt)) (\<lambda>grant.
              and_then (validateAgentIdentity P (scoped_identity identity grant)) (\<lambda>scopedIdentity.
              and_then (validateEnvelope P
                (discovery_envelope P r identity query grant seed issuedAt expiresAt)) (\<lambda>envelope.
              Inr (grant, scopedIdentity, envelope))))))))"

section \<open>The catalog\<close>

record discovery_catalog =
  maxCapabilities :: int
  catalog_entries :: "(jsv \<times> (jsv \<times> bool)) list"

definition new_catalog :: "jsv \<Rightarrow> discovery_catalog result" where
  "new_catalog limit =
     (let m = nullish_or limit (JInt 1024)
      in if \<not> is_safe_integer m \<or> num_of m < 1 \<or> 4096 < num_of m then Inl TypeErr
         else Inr \<lparr>maxCapabilities = \<lfloor>num_of m\<rfloor>, catalog_entries = []\<rparr>)"

text \<open>\<open>registerCapability\<close> of the catalog\<close>

definition catalog_register ::
    "platform \<Rightarrow> discovery_catalog \<Rightarrow> jsv \<Rightarrow> jsv \<Rightarrow> jsv result \<times> discovery_catalog" where
  "catalog_register P c value available_option =
     (case validateCapability P value of
        Inl e \<Rightarrow> (Inl e, c)
      | Inr capability \<Rightarrow>
          let available = nullish_or available_option (JBool True);
              existing = mget (jget capability ''capability_id'') (catalog_entries c)
          in if \<not> is_boolean available then (reject ''discovery_availability_invalid'', c)
             else if (case existing of None \<Rightarrow> False | Some (old, _) \<Rightarrow> json P old \<noteq> json P capability)
             then (reject ''discovery_capability_conflict'', c)
             else if existing = None \<and> maxCapabilities c \<le> int (length (catalog_entries c))
             then (reject ''discovery_catalog_capacity_reached'', c)
             else (Inr capability, c\<lparr>catalog_entries :=
               mput (jget capability ''capability_id'') (capability, available = JBool True) (catalog_entries c)\<rparr>))"

definition setAvailability :: "discovery_catalog \<Rightarrow> jsv \<Rightarrow> jsv \<Rightarrow> unit result \<times> discovery_catalog" where
  "setAvailability c capabilityId available =
     (case mget capabilityId (catalog_entries c) of
        None \<Rightarrow> (reject ''discovery_capability_unknown'', c)
      | Some (capability, _) \<Rightarrow>
          if \<not> is_boolean available then (reject ''discovery_availability_invalid'', c)
          else (Inr (), c\<lparr>catalog_entries :=
            mput capabilityId (capability, available = JBool True) (catalog_entries c)\<rparr>))"

definition catalog_eligible :: "jsv \<Rightarrow> jsv \<Rightarrow> jsv \<times> bool \<Rightarrow> bool" where
  "catalog_eligible identity query entry =
     (case entry of (capability, available) \<Rightarrow>
        available \<and>
        array_includes (jget capability ''allowed_agent_classes'') (jget identity ''agent_class'') \<and>
        array_includes (jget capability ''data_classifications'') (jget query ''data_classification'') \<and>
        level_le risk_levels (jget capability ''risk_ceiling'') (jget query ''risk_ceiling'') \<and>
        (items (jget query ''action_types'') = [] \<or>
         array_includes (jget query ''action_types'') (jget capability ''action_type'')))"

definition by_id :: "platform \<Rightarrow> jsv \<Rightarrow> jsv \<Rightarrow> bool" where
  "by_id P a b = locale_le P (to_string P (jget a ''capability_id'')) (to_string P (jget b ''capability_id''))"

definition project :: "jsv \<Rightarrow> jsv" where
  "project capability = JObj
     [(''capability_id'', jget capability ''capability_id''),
      (''version'', jget capability ''version''),
      (''owner_component'', jget capability ''owner_component''),
      (''action_type'', jget capability ''action_type''),
      (''required_authority'', jget capability ''required_authority''),
      (''risk_ceiling'', jget capability ''risk_ceiling''),
      (''data_classifications'', jget capability ''data_classifications''),
      (''execution_mode'', jget capability ''execution_mode''),
      (''available'', JBool True),
      (''input_contract_ref'', jget capability ''input_contract_ref''),
      (''output_contract_ref'', jget capability ''output_contract_ref'')]"

definition discovery_evidence ::
    "platform \<Rightarrow> jsv \<Rightarrow> jsv \<Rightarrow> jsv \<Rightarrow> (jsv \<times> jsv \<times> jsv \<times> jsv) result" where
  "discovery_evidence P envelope receipt identity =
     (case and_then (validateEnvelope P envelope) (\<lambda>e. and_then (validateProtocolReceipt P receipt) (\<lambda>r.
             and_then (validateAgentIdentity P identity) (\<lambda>i.
             and_then (validateCapabilityDiscoveryQuery P (jget e ''payload'')) (\<lambda>q. Inr (e, r, i, q))))) of
        Inl _ \<Rightarrow> reject ''discovery_evidence_invalid''
      | Inr evidence \<Rightarrow> Inr evidence)"

definition discovery_route_ok :: "jsv \<Rightarrow> jsv \<Rightarrow> jsv \<Rightarrow> bool" where
  "discovery_route_ok envelope identity query \<longleftrightarrow>
     jget envelope ''message_type'' = JStr ''discovery'' \<and>
     jget (jget envelope ''sender'') ''principal_type'' = JStr ''agent'' \<and>
     to_component envelope ''brainstem'' \<and>
     jget envelope ''requested_capability'' = JNull \<and> jget envelope ''budget_ref'' = JNull \<and>
     jget envelope ''data_classification'' = JStr ''internal'' \<and>
     strict_eq (jget (jget envelope ''sender'') ''id'') (jget identity ''agent_id'') \<and>
     strict_eq (jget query ''requester_agent_id'') (jget identity ''agent_id'')"

text \<open>The receipt of the admission matches the envelope and falls in its lifetime.\<close>

definition receipt_matches :: "platform \<Rightarrow> jsv \<Rightarrow> jsv \<Rightarrow> int \<Rightarrow> bool" where
  "receipt_matches P envelope receipt now \<longleftrightarrow>
     strict_eq (jget receipt ''message_id'') (jget envelope ''message_id'') \<and>
     strict_eq (jget receipt ''correlation_id'') (jget envelope ''correlation_id'') \<and>
     date_value P (jget envelope ''timestamp'') \<le> date_value P (jget receipt ''accepted_at'') \<and>
     date_value P (jget receipt ''accepted_at'') < date_value P (jget envelope ''expires_at'') \<and>
     date_value P (jget receipt ''accepted_at'') \<le> now"

definition eligible_capabilities :: "platform \<Rightarrow> discovery_catalog \<Rightarrow> jsv \<Rightarrow> jsv \<Rightarrow> jsv list" where
  "eligible_capabilities P c identity query =
     sort_by (by_id P) (map fst (filter (catalog_eligible identity query) (map snd (catalog_entries c))))"

definition discover ::
    "platform \<Rightarrow> discovery_catalog \<Rightarrow> jsv \<Rightarrow> jsv \<Rightarrow> jsv \<Rightarrow> int option \<Rightarrow> jsv result" where
  "discover P c input_envelope protocolReceipt input_identity clock =
     (case clock of None \<Rightarrow> reject ''discovery_timestamp_invalid'' | Some now \<Rightarrow>
      and_then (discovery_evidence P input_envelope protocolReceipt input_identity)
        (\<lambda>(envelope, receipt, identity, query).
         if \<not> discovery_route_ok envelope identity query then reject ''discovery_route_invalid''
         else if jget identity ''lifecycle_state'' \<noteq> JStr ''active'' then reject ''discovery_principal_inactive''
         else if \<not> receipt_matches P envelope receipt now then reject ''discovery_receipt_invalid''
         else let eligible = eligible_capabilities P c identity query
              in and_then (map_results (\<lambda>capability. validateProjection P (project capability))
                   (take (nat \<lfloor>num_of (jget query ''result_limit'')\<rfloor>) eligible)) (\<lambda>found.
                 and_then (iso_text now) (\<lambda>stamp.
                 validateCapabilityDiscoveryResult P (JObj
                   [(''contract_version'', JStr ''kindred.agent.capability-discovery-result.v1''),
                    (''query_message_id'', jget envelope ''message_id''),
                    (''correlation_id'', jget envelope ''correlation_id''),
                    (''catalog_component'', JStr ''brainstem''),
                    (''result_count'', JInt (int (length found))),
                    (''truncated'', JBool (length found < length eligible)),
                    (''capabilities'', JArr found),
                    (''authority_granted'', JBool False),
                    (''execution_authorized'', JBool False),
                    (''provider_contact_authorized'', JBool False),
                    (''memory_write_authorized'', JBool False),
                    (''settlement_authorized'', JBool False),
                    (''external_effects_authorized'', JBool False),
                    (''evidence_refs'', JArr [jget receipt ''message_id'']),
                    (''generated_at'', JStr stamp)])))))"

section \<open>Admission through a gateway\<close>

text \<open>
  \<open>executeCapabilityDiscovery\<close> with a catalog and a replay guard: \<open>guard_now\<close> is the guard's own clock.
  A fresh gateway admits the artifacts; the guard is the caller's and keeps what was consumed.
\<close>

definition executeCapabilityDiscovery ::
    "platform \<Rightarrow> discovery_request \<Rightarrow> discovery_catalog \<Rightarrow> replay_guard \<Rightarrow> int \<Rightarrow>
     (jsv \<times> jsv) result \<times> replay_guard" where
  "executeCapabilityDiscovery P r c guard guard_now =
     (case createCapabilityDiscoveryArtifacts P r of
        Inl e \<Rightarrow> (Inl e, guard)
      | Inr (grant, identity, envelope) \<Rightarrow>
          let now = the (request_now r);
              g0 = \<lparr>identities = [], capabilities = [], grants = [], revocations = [],
                    componentAuthenticationRefs = [], replayGuard = guard\<rparr>
          in case registerIdentity P g0 identity of
               (Inl e, _) \<Rightarrow> (Inl e, guard)
             | (Inr _, g1) \<Rightarrow> (case registerAuthorityGrant P g1 grant of
                 (Inl e, _) \<Rightarrow> (Inl e, guard)
               | (Inr _, g2) \<Rightarrow> (case acceptEnvelope P g2 envelope now guard_now of
                   (Inl e, g3) \<Rightarrow> (Inl e, replayGuard g3)
                 | (Inr receipt, g3) \<Rightarrow>
                     (and_then (discover P c envelope receipt identity (Some now)) (\<lambda>found.
                        Inr (receipt, found)), replayGuard g3))))"

end
