(* ===== verification/DiscoveryFacts.thy ===== *)
theory DiscoveryFacts
  imports CapabilityDiscovery RevocationFacts
begin

text \<open>
  What capability discovery promises: results are drawn from the catalog by the eligibility rule, in the
  collation order, within the limit, and confer no authority; a discovery is admitted once; the catalog
  stays within its capacity.
\<close>

interpretation query: validator "validateCapabilityDiscoveryQuery P"
  by unfold_locales (simp add: validateCapabilityDiscoveryQuery_def split: if_splits)

interpretation projection: validator "validateProjection P"
  by unfold_locales (simp add: validateProjection_def split: if_splits)

section \<open>Results\<close>

lemma sorted_eligible:
  assumes "collation P"
  shows "sorted_wrt (by_id P) (eligible_capabilities P c identity query)"
  unfolding eligible_capabilities_def
  by (rule sorted_wrt_sort_by) (use assms in \<open>unfold collation_def by_id_def, blast+\<close>)

lemma eligible_in_catalog:
  "x \<in> set (eligible_capabilities P c identity query) \<longleftrightarrow>
   (\<exists>k. (k, x, True) \<in> set (catalog_entries c) \<and> catalog_eligible identity query (x, True))"
  by (force simp: eligible_capabilities_def catalog_eligible_def)

text \<open>The flags of a result that say what it authorizes; all of them are false.\<close>

definition authorizations :: "string list" where
  "authorizations =
     [''authority_granted'', ''execution_authorized'', ''provider_contact_authorized'',
      ''memory_write_authorized'', ''settlement_authorized'', ''external_effects_authorized'']"

lemma validate_result_Inr:
  assumes "validateCapabilityDiscoveryResult P v = Inr w"
  shows "is_record v" and "w = jset ''capabilities'' (JArr (items (jget v ''capabilities''))) v"
    and "\<forall>f \<in> set authorizations. jget v f = JBool False"
    and "no_repeats (map (\<lambda>c. jget c ''capability_id'') (items (jget v ''capabilities'')))"
  using assms unfolding validateCapabilityDiscoveryResult_def
  by (auto simp: exactKeys_def authorizations_def dest!: projection.all_return_arguments elim!: accepted_elims)

lemma result_limit_bounds:
  "validateCapabilityDiscoveryQuery P q = Inr q' \<Longrightarrow>
   \<lfloor>num_of (jget q ''result_limit'')\<rfloor> \<in> {1..64}"
  by (auto simp: validateCapabilityDiscoveryQuery_def le_floor_iff floor_le_iff split: if_splits)

lemma discovery_evidence_Inr:
  "discovery_evidence P e r i = Inr (e', r', i', q) \<Longrightarrow>
   e' = e \<and> r' = r \<and> i' = i \<and> q = jget e ''payload'' \<and> validateEnvelope P e = Inr e \<and>
   validateProtocolReceipt P r = Inr r \<and> validateAgentIdentity P i = Inr i \<and>
   validateCapabilityDiscoveryQuery P q = Inr q"
  by (auto simp: discovery_evidence_def result_simps split: sum.splits
      dest: envelope.returns_argument protocol_receipt.returns_argument identity.returns_argument
        query.returns_argument)

text \<open>
  C10: A discovery result lists the projections of exactly the first capabilities, up to the query's limit
  (at most 64), of the catalog's eligible ones in collation order: registered and available, open to the
  agent's class and the data classification, not above the risk ceiling and of a requested action type.
  It says whether more were eligible, and every authorization flag in it is false.
\<close>

theorem discovery_results:
  assumes "collation P" and found: "discover P c envelope receipt identity (Some now) = Inr res"
  shows "\<exists>eligible limit. sorted_wrt (by_id P) eligible \<and>
    (\<forall>x. x \<in> set eligible \<longleftrightarrow> (\<exists>k. (k, x, True) \<in> set (catalog_entries c) \<and>
       catalog_eligible identity (jget envelope ''payload'') (x, True))) \<and>
    jget res ''capabilities'' = JArr (map project (take limit eligible)) \<and>
    1 \<le> limit \<and> limit \<le> 64 \<and>
    jget (jget envelope ''payload'') ''result_limit'' = JInt (int limit) \<and>
    jget res ''truncated'' = JBool (limit < length eligible) \<and>
    (\<forall>f \<in> set authorizations. jget res f = JBool False)"
proof -
  let ?query = "jget envelope ''payload''"
  let ?eligible = "eligible_capabilities P c identity ?query"
  define limit where "limit = nat \<lfloor>num_of (jget ?query ''result_limit'')\<rfloor>"
  from found obtain e r i q where evidence: "discovery_evidence P envelope receipt identity = Inr (e, r, i, q)"
    by (auto simp: discover_def result_simps)
  note parts = discovery_evidence_Inr [OF evidence]
  then have query: "validateCapabilityDiscoveryQuery P ?query = Inr ?query" by metis
  from found parts obtain ps v where
    ps: "map_results (\<lambda>x. validateProjection P (project x)) (take limit ?eligible) = Inr ps"
    and v: "validateCapabilityDiscoveryResult P v = Inr res"
    and fields: "jget v ''capabilities'' = JArr ps" "jget v ''truncated'' = JBool (length ps < length ?eligible)"
    by (auto simp: discover_def evidence result_simps Let_def limit_def split: if_splits)
  have "ps = map project (take limit ?eligible)"
    using ps by (rule map_results_Inr_map) (rule projection.returns_argument)
  moreover have "limit \<in> {1..64}" "jget ?query ''result_limit'' = JInt (int limit)"
  proof -
    from query have "is_safe_integer (jget ?query ''result_limit'')"
      by (simp add: validateCapabilityDiscoveryQuery_def split: if_splits)
    then obtain n where n: "jget ?query ''result_limit'' = JInt n" by (rule is_safe_integerE)
    moreover from n result_limit_bounds [OF query] have "n \<in> {1..64}" by simp
    ultimately show "limit \<in> {1..64}" "jget ?query ''result_limit'' = JInt (int limit)"
      by (auto simp: limit_def)
  qed
  moreover note validate_result_Inr [OF v]
  ultimately show ?thesis
    using sorted_eligible [OF assms(1)] eligible_in_catalog fields
    by (intro exI [of _ ?eligible] exI [of _ limit]) (auto simp: authorizations_def)
qed

section \<open>Admission\<close>

definition discovery_key :: "platform \<Rightarrow> discovery_request \<Rightarrow> string" where
  "discovery_key P r =
     (let agent = jget (request_identity r) ''agent_id'';
          seed = digest P ''capability-discovery'' [item_string P agent, item_string P (correlationId r)]
      in replay_key (''agent:'' @ to_string P agent) (digest P ''discovery-nonce'' [seed]))"

lemma artifacts_Inr:
  assumes "createCapabilityDiscoveryArtifacts P r = Inr (grant, identity, envelope)"
  obtains now where "request_now r = Some now" and "sender_key P envelope = discovery_key P r"
    and "date_value P (jget envelope ''expires_at'') = now + DISCOVERY_TTL_MS"
proof -
  from assms obtain now query grant' seed issuedAt expiresAt where
    now: "request_now r = Some now" and expires: "iso_text (now + DISCOVERY_TTL_MS) = Inr expiresAt"
    and envelope: "envelope = discovery_envelope P r (request_identity r) query grant' seed issuedAt expiresAt"
    and seed: "seed = digest P ''capability-discovery''
      [item_string P (jget (request_identity r) ''agent_id''), item_string P (correlationId r)]"
    by (auto simp: createCapabilityDiscoveryArtifacts_def Let_def result_simps split: if_splits option.splits
        dest!: envelope.returns_argument identity.returns_argument)
  have "sender_key P envelope = discovery_key P r"
    by (simp add: envelope seed discovery_envelope_def sender_key_def discovery_key_def Let_def)
  moreover have "date_value P (jget envelope ''expires_at'') = now + DISCOVERY_TTL_MS"
    using date_parse_iso_text [OF expires] by (simp add: envelope discovery_envelope_def date_value_def)
  ultimately show thesis using now that by blast
qed

lemma registered_guard:
  "replayGuard (snd (registerIdentity P g v)) = replayGuard g"
  "replayGuard (snd (registerAuthorityGrant P g v)) = replayGuard g"
  by (auto simp: registerIdentity_def registerAuthorityGrant_def split: sum.split)

lemma execute_Inr:
  assumes "executeCapabilityDiscovery P r c guard guard_now = (Inr res, guard')"
  obtains grant identity envelope g receipt g' where
    "createCapabilityDiscoveryArtifacts P r = Inr (grant, identity, envelope)"
    and "replayGuard g = guard" and "replayGuard g' = guard'"
    and "acceptEnvelope P g envelope (the (request_now r)) guard_now = (Inr receipt, g')"
proof -
  let ?g0 = "\<lparr>identities = [], capabilities = [], grants = [], revocations = [],
              componentAuthenticationRefs = [], replayGuard = guard\<rparr>"
  from assms obtain grant identity envelope where
    artifacts: "createCapabilityDiscoveryArtifacts P r = Inr (grant, identity, envelope)"
    by (auto simp: executeCapabilityDiscovery_def split: sum.splits)
  obtain r1 g1 where g1: "registerIdentity P ?g0 identity = (r1, g1)" by fastforce
  obtain r2 g2 where g2: "registerAuthorityGrant P g1 grant = (r2, g2)" by fastforce
  have "replayGuard g2 = guard"
    using registered_guard(1) [of P ?g0 identity] registered_guard(2) [of P g1 grant] g1 g2 by simp
  moreover obtain receipt g3 where
    "acceptEnvelope P g2 envelope (the (request_now r)) guard_now = (Inr receipt, g3)" "replayGuard g3 = guard'"
    using assms by (auto simp: executeCapabilityDiscovery_def artifacts Let_def g1 g2
        split: sum.splits prod.splits)
  ultimately show thesis using artifacts that by blast
qed

text \<open>
  The discovery of an agent under one correlation id is admitted once: with the replay guard that the
  first admission leaves, a second one of the same agent and correlation id fails until the first
  envelope has expired, whatever else differs in the request.
\<close>

theorem discovery_admitted_once:
  assumes wf: "guard_wf guard"
    and first: "executeCapabilityDiscovery P r c guard t = (Inr res, guard')"
    and same: "jget (request_identity r') ''agent_id'' = jget (request_identity r) ''agent_id''"
      "correlationId r' = correlationId r"
    and clock: "t \<le> t'" "\<And>now. request_now r = Some now \<Longrightarrow> t' < now + DISCOVERY_TTL_MS"
  shows "fst (executeCapabilityDiscovery P r' c' guard' t') \<noteq> Inr res'"
proof
  assume "fst (executeCapabilityDiscovery P r' c' guard' t') = Inr res'"
  then obtain guard'' where second: "executeCapabilityDiscovery P r' c' guard' t' = (Inr res', guard'')"
    by (metis prod.collapse)
  from first obtain gr i e g rc g' where
    create: "createCapabilityDiscoveryArtifacts P r = Inr (gr, i, e)"
    and guards: "replayGuard g = guard" "replayGuard g' = guard'"
    and accept: "acceptEnvelope P g e (the (request_now r)) t = (Inr rc, g')"
    by (rule execute_Inr)
  from second obtain gr' i' e' h rc' h' where
    create': "createCapabilityDiscoveryArtifacts P r' = Inr (gr', i', e')"
    and guards': "replayGuard h = guard'"
    and accept': "acceptEnvelope P h e' (the (request_now r')) t' = (Inr rc', h')"
    by (rule execute_Inr)
  obtain now where now: "request_now r = Some now" and key: "sender_key P e = discovery_key P r"
    and expiry: "date_value P (jget e ''expires_at'') = now + DISCOVERY_TTL_MS"
    using create by (rule artifacts_Inr)
  have key': "sender_key P e' = discovery_key P r"
    using same by (rule_tac artifacts_Inr [OF create']) (simp add: discovery_key_def)
  note used = acceptValidatedEnvelope_Inr(2,3) [OF acceptEnvelope_Inr(3) [OF accept]]
  from used(2) have "guard' = snd (consume guard (discovery_key P r) (now + DISCOVERY_TTL_MS) t)"
    by (simp add: guards(1) flip: guards(2) key expiry)
  moreover from used(1) have "succeeds (fst (consume guard (discovery_key P r) (now + DISCOVERY_TTL_MS) t))"
    by (simp add: guards(1) flip: key expiry)
  ultimately have "\<not> succeeds (fst (consume guard' (discovery_key P r) x t'))" for x
    using guard.used_once [OF wf, of "discovery_key P r" "now + DISCOVERY_TTL_MS" t "[]" t' x]
      clock(1) clock(2) [OF now] by simp
  moreover from acceptValidatedEnvelope_Inr(2) [OF acceptEnvelope_Inr(3) [OF accept']]
  have "fst (consume guard' (discovery_key P r) (date_value P (jget e' ''expires_at'')) t') = Inr ()"
    by (simp add: guards' key')
  ultimately show False by (metis succeeds_simps(1))
qed

section \<open>The catalog\<close>

definition catalog_wf :: "platform \<Rightarrow> discovery_catalog \<Rightarrow> bool" where
  "catalog_wf P c \<longleftrightarrow>
     maxCapabilities c \<in> {1..4096} \<and> int (length (catalog_entries c)) \<le> maxCapabilities c \<and>
     (\<forall>(k, v, a) \<in> set (catalog_entries c). validateCapability P v = Inr v \<and> jget v ''capability_id'' = k)"

lemma new_catalog_wf: "new_catalog limit = Inr c \<Longrightarrow> catalog_wf P c"
  by (auto simp: new_catalog_def Let_def catalog_wf_def le_floor_iff floor_le_iff split: if_splits)

lemma catalog_register_wf:
  assumes "catalog_wf P c"
  shows "catalog_wf P (snd (catalog_register P c v a))"
proof (cases "validateCapability P v")
  case (Inr capability)
  let ?k = "jget capability ''capability_id''"
  have valid: "validateCapability P capability = Inr capability"
    using Inr by (rule capability.idempotent)
  have "int (length (mput ?k (capability, b) (catalog_entries c))) \<le> maxCapabilities c"
    if "\<not> (mget ?k (catalog_entries c) = None \<and> maxCapabilities c \<le> int (length (catalog_entries c)))" for b
    using that assms length_mput_le [of ?k "(capability, b)" "catalog_entries c"]
    by (cases "mget ?k (catalog_entries c)") (auto simp: catalog_wf_def length_mput_present)
  moreover have "\<forall>(k, v, a) \<in> set (mput ?k (capability, b) (catalog_entries c)).
      validateCapability P v = Inr v \<and> jget v ''capability_id'' = k" for b
    using assms valid set_mput_subset [of ?k "(capability, b)" "catalog_entries c"]
    unfolding catalog_wf_def by fast
  ultimately show ?thesis
    using assms Inr by (simp add: catalog_register_def Let_def catalog_wf_def split del: if_split)
      (simp split: if_split)
qed (use assms in \<open>simp add: catalog_register_def\<close>)

lemma setAvailability_wf:
  assumes "catalog_wf P c"
  shows "catalog_wf P (snd (setAvailability c k a))"
proof (cases "mget k (catalog_entries c)")
  case (Some entry)
  obtain v b where entry: "entry = (v, b)" by fastforce
  with Some assms have "validateCapability P v = Inr v" "jget v ''capability_id'' = k"
    by (auto simp: catalog_wf_def dest!: mget_in_set)
  then have "\<forall>(k, v, a) \<in> set (mput k (v, a') (catalog_entries c)).
      validateCapability P v = Inr v \<and> jget v ''capability_id'' = k" for a'
    using assms set_mput_subset [of k "(v, a')" "catalog_entries c"]
    unfolding catalog_wf_def by fast
  with Some assms entry show ?thesis
    by (simp add: setAvailability_def catalog_wf_def length_mput_present [OF Some])
qed (use assms in \<open>simp add: setAvailability_def\<close>)

datatype catalog_request = CatalogRegister jsv jsv | CatalogAvailability jsv jsv

fun catalog_step :: "platform \<Rightarrow> catalog_request \<Rightarrow> discovery_catalog \<Rightarrow> discovery_catalog" where
  "catalog_step P (CatalogRegister v a) c = snd (catalog_register P c v a)"
| "catalog_step P (CatalogAvailability k a) c = snd (setAvailability c k a)"

text \<open>
  A constructed catalog stays within its capacity (at most 4096) and holds only valid capabilities,
  each under its own id, after any sequence of registrations and availability changes.
\<close>

theorem catalog_invariant:
  assumes "new_catalog limit = Inr c"
  shows "catalog_wf P (fold (catalog_step P) requests c)"
proof -
  have "catalog_wf P c" using assms by (rule new_catalog_wf)
  moreover have "catalog_wf P (catalog_step P q c)" if "catalog_wf P c" for q c
    using that by (cases q) (simp_all add: catalog_register_wf setAvailability_wf)
  ultimately show ?thesis
    by (induction requests arbitrary: c) auto
qed

end
