(* ===== verification/CompanionProposals.thy ===== *)
theory CompanionProposals
  imports Digests
begin

text \<open>
  \<open>companion-communication.mjs\<close>, \<open>companion-memory-proposal.mjs\<close> and \<open>createLivingCompanionIdentity\<close>
  of \<open>agent-protocol.mjs\<close>: the identity of a living companion, the two proposal contracts and the
  artifacts (capability, grant, scoped identity, envelope) a companion sends a proposal with. The
  arguments object of a function is a record here; an absent field is undefined.
\<close>

section \<open>Identity of a living companion\<close>

text \<open>\<open>s.replace(/^p/, "")\<close>; a value that is not a string has no such method.\<close>

fun strip_prefix :: "string \<Rightarrow> jsv \<Rightarrow> string result" where
  "strip_prefix p (JStr s) = Inr (if take (length p) s = p then drop (length p) s else s)"
| "strip_prefix p _ = Inl TypeErr"

record companion_options =
  companion :: jsv
  accountId :: jsv
  tenantId :: jsv
  companion_capabilities :: jsv
  grantRefs :: jsv
  budgetRefs :: jsv
  economicMandateRef :: jsv

definition companion_aggregate_ok :: "platform \<Rightarrow> companion_options \<Rightarrow> bool" where
  "companion_aggregate_ok P opts \<longleftrightarrow>
     (let c = companion opts
      in is_record c \<and>
         jget c ''contract_version'' = JStr ''kindred.companion.aggregate.v1'' \<and>
         boundedString (jget c ''id'') 12 96 \<and>
         strict_eq (jget c ''owner_account_id'') (accountId opts) \<and>
         jget (jget c ''permissions'') ''owner_account_only'' = JBool True \<and>
         jget (jget c ''permissions'') ''provider_access'' = JBool False \<and>
         str_in (jget c ''lifecycle_state'') [''companion_active'', ''companion_offline''] \<and>
         jget (jget c ''provenance'') ''historical_data_status'' = JStr ''unavailable_not_fabricated'' \<and>
         test P tenantIdPattern (tenantId opts))"

text \<open>\<open>[...v]\<close> of an optional array; spreading a string gives its characters, other values throw.\<close>

fun spread :: "jsv \<Rightarrow> jsv result" where
  "spread JUndef = Inr (JArr [])"
| "spread JNull = Inr (JArr [])"
| "spread (JArr vs) = Inr (JArr vs)"
| "spread (JStr s) = Inr (JArr (map (\<lambda>c. JStr [c]) s))"
| "spread _ = Inl TypeErr"

definition living_companion_identity ::
    "platform \<Rightarrow> companion_options \<Rightarrow> string \<Rightarrow> jsv \<Rightarrow> jsv \<Rightarrow> jsv \<Rightarrow> jsv" where
  "living_companion_identity P opts suffix capabilities grant_refs budget_refs =
     (let c = companion opts in JObj
           [(''contract_version'', JStr ''kindred.agent.identity.v1''),
            (''agent_id'', JStr (''kindred-agent-companion-'' @ suffix)),
            (''tenant_id'', tenantId opts),
            (''agent_class'', JStr ''living_companion''),
            (''owner_id'', accountId opts),
            (''creator_id'', JStr ''kindred-component-brainstem''),
            (''version'', JStr ''1.0.0''),
            (''lineage'', JObj [(''parent_agent_id'', JNull), (''replaces_agent_id'', JNull)]),
            (''purpose'', JStr ''Maintain an owner-bound living companion presence without sovereign authority.''),
            (''capabilities'', capabilities),
            (''prohibited_capabilities'', JArr (map JStr
              [''direct_memory_commit'', ''direct_tool_execution'', ''direct_value_movement'',
               ''founder_authority''])),
            (''permissions'', JArr (map JStr [''companion.communicate'', ''companion.memory.propose''])),
            (''authority'', JObj
              [(''issuer_component'', JStr ''brainstem''), (''grant_refs'', grant_refs),
               (''ceiling'', JStr ''user_delegated'')]),
            (''budget_refs'', budget_refs),
            (''lifecycle_state'', JStr ''active''),
            (''health'', JStr (if jget c ''lifecycle_state'' = JStr ''companion_active''
                               then ''healthy'' else ''degraded'')),
            (''evidence_refs'', JArr []),
            (''memory_scope'', JObj
              [(''namespace_refs'', JArr [JStr (''companion:'' @ to_string P (jget c ''id''))]),
               (''write_mode'', JStr ''proposal_only'')]),
            (''execution_scope'', JObj
              [(''mode'', JStr ''proposal_only''), (''allowed_capabilities'', capabilities)]),
            (''provider_scope'', JObj [(''mode'', JStr ''mediated_only''), (''provider_refs'', JArr [])]),
            (''economic_mandate_ref'', nullish_or (economicMandateRef opts) JNull),
            (''replacement_agent_id'', JNull),
            (''created_at'', jget c ''adopted_at''),
            (''revoked_at'', JNull)])"

definition createLivingCompanionIdentity :: "platform \<Rightarrow> companion_options \<Rightarrow> jsv result" where
  "createLivingCompanionIdentity P opts =
     (if \<not> companion_aggregate_ok P opts then reject ''companion_aggregate_invalid''
      else let c = companion opts
      in and_then (strip_prefix ''local-companion-'' (jget c ''id'')) (\<lambda>suffix.
         and_then (spread (companion_capabilities opts)) (\<lambda>capabilities.
         and_then (spread (grantRefs opts)) (\<lambda>grant_refs.
         and_then (spread (budgetRefs opts)) (\<lambda>budget_refs.
         validateAgentIdentity P
           (living_companion_identity P opts suffix capabilities grant_refs budget_refs))))))"

section \<open>Content and patterns of proposals\<close>

text \<open>\<open>/[\u0000-\u0008\u000b\u000c\u000e-\u001f\u007f]/\<close>\<close>

definition unsafe_char :: "char \<Rightarrow> bool" where
  "unsafe_char c \<longleftrightarrow> is_control c \<and> code c \<notin> {9, 10, 13}"

fun content_ok :: "platform \<Rightarrow> jsv \<Rightarrow> bool" where
  "content_ok P (JStr s) =
     (s \<noteq> [] \<and> length s \<le> 4096 \<and> s = trim (nfkc P s) \<and> \<not> list_ex unsafe_char s)"
| "content_ok P _ = False"

definition consentReceiptPattern :: "string \<Rightarrow> bool" where
  "consentReceiptPattern = prefixed ''consent-receipt-'' is_idch 20 48"

definition companionPrincipalPattern :: "string \<Rightarrow> bool" where
  "companionPrincipalPattern = prefixed ''kindred-agent-companion-'' is_idch 8 96"

definition userMessagePattern :: "string \<Rightarrow> bool" where
  "userMessagePattern = prefixed ''chat-message-'' is_idch 8 96"

definition namespacePattern :: "string \<Rightarrow> bool" where
  "namespacePattern = prefixed ''companion:local-companion-'' is_idch 8 96"

definition PROPOSAL_TTL_MS :: int where
  "PROPOSAL_TTL_MS = 2 * 60 * 1000"

text \<open>The grant and the envelope of a proposal; both modules build them the same way.\<close>

definition proposal_grant :: "platform \<Rightarrow> jsv \<Rightarrow> string \<Rightarrow> string \<Rightarrow> string \<Rightarrow> string \<Rightarrow> string \<Rightarrow> jsv" where
  "proposal_grant P identity seed capability_id permission issuedAt expiresAt = JObj
     [(''contract_version'', JStr ''kindred.agent.authority-grant.v1''),
      (''grant_id'', JStr (''kindred-grant-'' @ digest P ''grant'' [seed])),
      (''subject_agent_id'', jget identity ''agent_id''),
      (''issuer_component'', JStr ''brainstem''),
      (''issuer_id'', JStr ''kindred-component-brainstem''),
      (''authentication_ref'', JStr (''kindred-authref-'' @ digest P ''authref'' [seed])),
      (''authority_level'', JStr ''user_delegated''),
      (''capability_ids'', JArr [JStr capability_id]),
      (''message_types'', JArr [JStr ''proposal'']),
      (''permissions'', JArr [JStr permission]),
      (''budget_refs'', JArr []),
      (''parent_grant_ref'', JNull),
      (''issued_at'', JStr issuedAt),
      (''expires_at'', JStr expiresAt),
      (''status'', JStr ''active''),
      (''revoked_at'', JNull)]"

definition scoped_companion :: "jsv \<Rightarrow> string \<Rightarrow> jsv \<Rightarrow> jsv" where
  "scoped_companion identity capability_id grant =
     jset ''execution_scope''
       (jset ''allowed_capabilities'' (JArr [JStr capability_id]) (jget identity ''execution_scope''))
       (jset ''authority'' (jset ''grant_refs'' (JArr [jget grant ''grant_id'']) (jget identity ''authority''))
         (jset ''capabilities'' (JArr [JStr capability_id])
           (jset ''contract_version'' (JStr ''kindred.agent.identity.v1'') identity)))"

definition proposal_envelope ::
    "platform \<Rightarrow> jsv \<Rightarrow> string \<Rightarrow> string \<Rightarrow> jsv \<Rightarrow> jsv \<Rightarrow> jsv \<Rightarrow> jsv list \<Rightarrow> jsv \<Rightarrow> string \<Rightarrow> string \<Rightarrow> jsv" where
  "proposal_envelope P identity seed capability_id grant correlation causation evidence proposal issuedAt expiresAt = JObj
     [(''contract_version'', JStr ''kindred.agent.message-envelope.v1''),
      (''message_id'', JStr (''kindred-message-'' @ digest P ''message'' [seed])),
      (''message_type'', JStr ''proposal''),
      (''sender'', JObj [(''principal_type'', JStr ''agent''), (''id'', jget identity ''agent_id'')]),
      (''recipient'', JObj [(''principal_type'', JStr ''runtime_component''), (''id'', JStr ''brainstem'')]),
      (''authority_ref'', jget grant ''grant_id''),
      (''correlation_id'', correlation),
      (''causation_id'', causation),
      (''nonce'', JStr (digest P ''nonce'' [seed])),
      (''timestamp'', JStr issuedAt),
      (''expires_at'', JStr expiresAt),
      (''data_classification'', JStr ''confidential''),
      (''requested_capability'', JStr capability_id),
      (''budget_ref'', JNull),
      (''evidence_refs'', JArr evidence),
      (''authentication_ref'', jget grant ''authentication_ref''),
      (''delegation_ref'', JNull),
      (''payload'', proposal)]"

section \<open>Communication\<close>

definition COMPANION_COMMUNICATION_CAPABILITY_ID :: string where
  "COMPANION_COMMUNICATION_CAPABILITY_ID = ''kindred.capability.companion.communication-proposal.v1''"

definition COMPANION_COMMUNICATION_PROPOSAL_FIELDS :: "string list" where
  "COMPANION_COMMUNICATION_PROPOSAL_FIELDS =
     [''contract_version'', ''purpose'', ''consent_receipt_ref'', ''companion_principal_id'',
      ''user_message_id'', ''client_message_id'', ''content'', ''response_mode'',
      ''provider_contact_requested'', ''memory_write_requested'', ''tool_execution_requested'',
      ''settlement_requested'', ''external_effects'']"

definition communicationCapability :: "platform \<Rightarrow> jsv result" where
  "communicationCapability P = validateCapability P (JObj
     [(''contract_version'', JStr ''kindred.agent.capability.v1''),
      (''capability_id'', JStr COMPANION_COMMUNICATION_CAPABILITY_ID),
      (''version'', JStr ''1.0.0''),
      (''owner_component'', JStr ''emit_core''),
      (''action_type'', JStr ''communication''),
      (''allowed_agent_classes'', JArr [JStr ''living_companion'']),
      (''required_authority'', JStr ''user_delegated''),
      (''risk_ceiling'', JStr ''low''),
      (''data_classifications'', JArr [JStr ''confidential'']),
      (''execution_mode'', JStr ''proposal_only''),
      (''provider_contact'', JStr ''mediated_only''),
      (''memory_commit'', JStr ''brainstem_only''),
      (''settlement'', JStr ''retrobank_mandate_only''),
      (''compensation_required'', JBool False),
      (''input_contract_ref'', JStr ''contracts/agent/v1/companion-communication-proposal.schema.json''),
      (''output_contract_ref'', JStr ''contracts/agent/v1/protocol-receipt.schema.json'')])"

definition validateCompanionCommunicationProposal :: "platform \<Rightarrow> jsv \<Rightarrow> jsv result" where
  "validateCompanionCommunicationProposal P v =
     (if \<not> exactKeys v COMPANION_COMMUNICATION_PROPOSAL_FIELDS then reject ''proposal_fields_invalid''
      else if \<not>
        (jget v ''contract_version'' = JStr ''kindred.agent.companion-communication-proposal.v1'' \<and>
         jget v ''purpose'' = JStr ''companion_chat'' \<and>
         test P consentReceiptPattern (jget v ''consent_receipt_ref'') \<and>
         test P companionPrincipalPattern (jget v ''companion_principal_id'') \<and>
         test P userMessagePattern (jget v ''user_message_id'') \<and>
         test P reference_shape (jget v ''client_message_id'') \<and>
         content_ok P (jget v ''content'') \<and>
         jget v ''response_mode'' = JStr ''brainstem_decision_required'' \<and>
         jget v ''provider_contact_requested'' = JBool False \<and>
         jget v ''memory_write_requested'' = JBool False \<and>
         jget v ''tool_execution_requested'' = JBool False \<and>
         jget v ''settlement_requested'' = JBool False \<and>
         jget v ''external_effects'' = JBool False)
        then reject ''proposal_invalid''
      else Inr v)"

record communication_input =
  ci_identity :: jsv
  ci_consentReceiptRef :: jsv
  ci_userMessageId :: jsv
  ci_clientMessageId :: jsv
  ci_content :: jsv
  ci_now :: "int option"

text \<open>The scope of an identity that has been given nothing yet.\<close>

definition scope_empty :: "jsv \<Rightarrow> bool" where
  "scope_empty identity \<longleftrightarrow>
     items (jget identity ''capabilities'') = [] \<and>
     items (jget (jget identity ''authority'') ''grant_refs'') = [] \<and>
     items (jget identity ''budget_refs'') = [] \<and>
     items (jget (jget identity ''execution_scope'') ''allowed_capabilities'') = [] \<and>
     items (jget (jget identity ''provider_scope'') ''provider_refs'') = [] \<and>
     jget identity ''economic_mandate_ref'' = JNull"

definition communication_proposal :: "communication_input \<Rightarrow> jsv \<Rightarrow> jsv" where
  "communication_proposal inp identity = JObj
     [(''contract_version'', JStr ''kindred.agent.companion-communication-proposal.v1''),
      (''purpose'', JStr ''companion_chat''),
      (''consent_receipt_ref'', ci_consentReceiptRef inp),
      (''companion_principal_id'', jget identity ''agent_id''),
      (''user_message_id'', ci_userMessageId inp),
      (''client_message_id'', ci_clientMessageId inp),
      (''content'', ci_content inp),
      (''response_mode'', JStr ''brainstem_decision_required''),
      (''provider_contact_requested'', JBool False),
      (''memory_write_requested'', JBool False),
      (''tool_execution_requested'', JBool False),
      (''settlement_requested'', JBool False),
      (''external_effects'', JBool False)]"

definition createCompanionCommunicationArtifacts ::
    "platform \<Rightarrow> communication_input \<Rightarrow> (jsv \<times> jsv \<times> jsv \<times> jsv) result" where
  "createCompanionCommunicationArtifacts P inp =
     and_then (validateAgentIdentity P (ci_identity inp)) (\<lambda>identity.
       if jget identity ''agent_class'' \<noteq> JStr ''living_companion'' \<or> \<not> scope_empty identity
       then reject ''companion_scope_not_empty''
       else and_then (validateCompanionCommunicationProposal P (communication_proposal inp identity)) (\<lambda>proposal.
       case ci_now inp of None \<Rightarrow> reject ''proposal_timestamp_invalid'' | Some now \<Rightarrow>
         and_then (iso_text now) (\<lambda>issuedAt.
         and_then (iso_text (now + PROPOSAL_TTL_MS)) (\<lambda>expiresAt.
         let seed = digest P ''companion-communication''
               [item_string P (jget identity ''agent_id''),
                item_string P (jget proposal ''consent_receipt_ref''),
                item_string P (jget proposal ''client_message_id'')]
         in and_then (communicationCapability P) (\<lambda>capability.
            and_then (validateAuthorityGrant P
              (proposal_grant P identity seed COMPANION_COMMUNICATION_CAPABILITY_ID
                ''companion.communicate'' issuedAt expiresAt)) (\<lambda>grant.
            and_then (validateAgentIdentity P
              (scoped_companion identity COMPANION_COMMUNICATION_CAPABILITY_ID grant)) (\<lambda>scopedIdentity.
            and_then (validateEnvelope P
              (proposal_envelope P identity seed COMPANION_COMMUNICATION_CAPABILITY_ID grant
                (jget proposal ''client_message_id'') (jget proposal ''user_message_id'')
                [jget proposal ''consent_receipt_ref''] proposal issuedAt expiresAt)) (\<lambda>envelope.
            Inr (capability, grant, scopedIdentity, envelope)))))))))"

section \<open>Memory\<close>

definition COMPANION_MEMORY_PROPOSAL_CAPABILITY_ID :: string where
  "COMPANION_MEMORY_PROPOSAL_CAPABILITY_ID = ''kindred.capability.companion.memory-proposal.v1''"

definition COMPANION_MEMORY_PROPOSAL_FIELDS :: "string list" where
  "COMPANION_MEMORY_PROPOSAL_FIELDS =
     [''contract_version'', ''purpose'', ''consent_receipt_ref'', ''companion_principal_id'',
      ''client_request_id'', ''target_namespace_ref'', ''expected_memory_version'', ''mutation'',
      ''category'', ''content'', ''source_kind'', ''source_reference'', ''retention'',
      ''companion_access'', ''verification'', ''commit_policy'', ''memory_mutated'',
      ''provider_contact_requested'', ''tool_execution_requested'', ''settlement_requested'',
      ''external_effects'']"

definition memory_categories :: "string list" where
  "memory_categories =
     [''working'', ''episodic'', ''semantic'', ''relationship'', ''preference'', ''procedural'',
      ''safety_governance'', ''provenance'']"

definition memory_retentions :: "string list" where
  "memory_retentions = [''session'', ''until_revoked'', ''user_managed'']"

definition memoryProposalCapability :: "platform \<Rightarrow> jsv result" where
  "memoryProposalCapability P = validateCapability P (JObj
     [(''contract_version'', JStr ''kindred.agent.capability.v1''),
      (''capability_id'', JStr COMPANION_MEMORY_PROPOSAL_CAPABILITY_ID),
      (''version'', JStr ''1.0.0''),
      (''owner_component'', JStr ''brainstem''),
      (''action_type'', JStr ''memory_proposal''),
      (''allowed_agent_classes'', JArr [JStr ''living_companion'']),
      (''required_authority'', JStr ''user_delegated''),
      (''risk_ceiling'', JStr ''medium''),
      (''data_classifications'', JArr [JStr ''confidential'']),
      (''execution_mode'', JStr ''proposal_only''),
      (''provider_contact'', JStr ''mediated_only''),
      (''memory_commit'', JStr ''brainstem_only''),
      (''settlement'', JStr ''retrobank_mandate_only''),
      (''compensation_required'', JBool False),
      (''input_contract_ref'', JStr ''contracts/agent/v1/companion-memory-proposal.schema.json''),
      (''output_contract_ref'', JStr ''contracts/agent/v1/protocol-receipt.schema.json'')])"

definition memory_proposal_fields_ok :: "platform \<Rightarrow> jsv \<Rightarrow> bool" where
  "memory_proposal_fields_ok P v \<longleftrightarrow>
     jget v ''contract_version'' = JStr ''kindred.agent.companion-memory-proposal.v1'' \<and>
     jget v ''purpose'' = JStr ''companion_memory'' \<and>
     test P consentReceiptPattern (jget v ''consent_receipt_ref'') \<and>
     test P companionPrincipalPattern (jget v ''companion_principal_id'') \<and>
     test P reference_shape (jget v ''client_request_id'') \<and>
     test P namespacePattern (jget v ''target_namespace_ref'') \<and>
     is_safe_integer (jget v ''expected_memory_version'') \<and>
     1 \<le> num_of (jget v ''expected_memory_version'') \<and>
     jget v ''mutation'' = JStr ''append_unverified'' \<and>
     str_in (jget v ''category'') memory_categories \<and>
     content_ok P (jget v ''content'') \<and>
     jget v ''source_kind'' = JStr ''user_provided'' \<and>
     jget v ''source_reference'' = JNull \<and>
     str_in (jget v ''retention'') memory_retentions \<and>
     is_boolean (jget v ''companion_access'') \<and>
     jget v ''verification'' = JStr ''unverified'' \<and>
     jget v ''commit_policy'' = JStr ''brainstem_decision_required'' \<and>
     jget v ''memory_mutated'' = JBool False \<and>
     jget v ''provider_contact_requested'' = JBool False \<and>
     jget v ''tool_execution_requested'' = JBool False \<and>
     jget v ''settlement_requested'' = JBool False \<and>
     jget v ''external_effects'' = JBool False"

definition validateCompanionMemoryProposal :: "platform \<Rightarrow> jsv \<Rightarrow> jsv result" where
  "validateCompanionMemoryProposal P v =
     (if \<not> exactKeys v COMPANION_MEMORY_PROPOSAL_FIELDS then reject ''memory_proposal_fields_invalid''
      else if \<not> memory_proposal_fields_ok P v then reject ''memory_proposal_invalid''
      else and_then (strip_prefix ''kindred-agent-companion-'' (jget v ''companion_principal_id'')) (\<lambda>suffix.
        if jget v ''target_namespace_ref'' \<noteq> JStr (''companion:local-companion-'' @ suffix)
        then reject ''memory_proposal_target_invalid''
        else Inr v))"

record memory_input =
  mi_identity :: jsv
  mi_consentReceiptRef :: jsv
  mi_clientRequestId :: jsv
  mi_targetNamespaceRef :: jsv
  mi_expectedMemoryVersion :: jsv
  mi_memory :: jsv
  mi_now :: "int option"

definition memory_proposal :: "memory_input \<Rightarrow> jsv \<Rightarrow> jsv" where
  "memory_proposal inp identity = JObj
     [(''contract_version'', JStr ''kindred.agent.companion-memory-proposal.v1''),
      (''purpose'', JStr ''companion_memory''),
      (''consent_receipt_ref'', mi_consentReceiptRef inp),
      (''companion_principal_id'', jget identity ''agent_id''),
      (''client_request_id'', mi_clientRequestId inp),
      (''target_namespace_ref'', mi_targetNamespaceRef inp),
      (''expected_memory_version'', mi_expectedMemoryVersion inp),
      (''mutation'', JStr ''append_unverified''),
      (''category'', jget (mi_memory inp) ''category''),
      (''content'', jget (mi_memory inp) ''content''),
      (''source_kind'', jget (jget (mi_memory inp) ''source'') ''kind''),
      (''source_reference'', nullish_or (jget (jget (mi_memory inp) ''source'') ''reference'') JNull),
      (''retention'', jget (mi_memory inp) ''retention''),
      (''companion_access'', jget (mi_memory inp) ''companion_access''),
      (''verification'', JStr ''unverified''),
      (''commit_policy'', JStr ''brainstem_decision_required''),
      (''memory_mutated'', JBool False),
      (''provider_contact_requested'', JBool False),
      (''tool_execution_requested'', JBool False),
      (''settlement_requested'', JBool False),
      (''external_effects'', JBool False)]"

definition memory_scope_matches :: "jsv \<Rightarrow> jsv \<Rightarrow> bool" where
  "memory_scope_matches identity namespace_ref \<longleftrightarrow>
     (case items (jget (jget identity ''memory_scope'') ''namespace_refs'') of
        [n] \<Rightarrow> strict_eq n namespace_ref | _ \<Rightarrow> False)"

definition createCompanionMemoryProposalArtifacts ::
    "platform \<Rightarrow> memory_input \<Rightarrow> (jsv \<times> jsv \<times> jsv \<times> jsv) result" where
  "createCompanionMemoryProposalArtifacts P inp =
     and_then (validateAgentIdentity P (mi_identity inp)) (\<lambda>identity.
       if jget identity ''agent_class'' \<noteq> JStr ''living_companion'' \<or>
          jget identity ''lifecycle_state'' \<noteq> JStr ''active'' \<or> \<not> scope_empty identity \<or>
          \<not> memory_scope_matches identity (mi_targetNamespaceRef inp) \<or>
          \<not> array_includes (jget identity ''permissions'') (JStr ''companion.memory.propose'')
       then reject ''companion_memory_scope_invalid''
       else and_then (validateCompanionMemoryProposal P (memory_proposal inp identity)) (\<lambda>proposal.
       case mi_now inp of None \<Rightarrow> reject ''memory_proposal_timestamp_invalid'' | Some now \<Rightarrow>
         and_then (iso_text now) (\<lambda>issuedAt.
         and_then (iso_text (now + PROPOSAL_TTL_MS)) (\<lambda>expiresAt.
         let seed = digest P ''companion-memory-proposal''
               [item_string P (jget identity ''agent_id''),
                item_string P (jget proposal ''consent_receipt_ref''),
                item_string P (jget proposal ''client_request_id''),
                to_string P (jget proposal ''expected_memory_version''),
                item_string P (jget proposal ''content'')]
         in and_then (memoryProposalCapability P) (\<lambda>capability.
            and_then (validateAuthorityGrant P
              (proposal_grant P identity seed COMPANION_MEMORY_PROPOSAL_CAPABILITY_ID
                ''companion.memory.propose'' issuedAt expiresAt)) (\<lambda>grant.
            and_then (validateAgentIdentity P
              (scoped_companion identity COMPANION_MEMORY_PROPOSAL_CAPABILITY_ID grant)) (\<lambda>scopedIdentity.
            and_then (validateEnvelope P
              (proposal_envelope P identity seed COMPANION_MEMORY_PROPOSAL_CAPABILITY_ID grant
                (jget proposal ''client_request_id'')
                (JStr (''memory-version:'' @ to_string P (jget proposal ''expected_memory_version'')))
                [jget proposal ''consent_receipt_ref'', jget proposal ''target_namespace_ref'']
                proposal issuedAt expiresAt)) (\<lambda>envelope.
            Inr (capability, grant, scopedIdentity, envelope)))))))))"

end
