(* ===== verification/BrainstemDecisions.thy ===== *)
theory BrainstemDecisions
  imports CompanionProposals
begin

text \<open>
  \<open>brainstem-companion-decision.mjs\<close> and \<open>brainstem-memory-decision.mjs\<close>: the inspection of an admitted
  proposal and the decision record it leads to. \<open>inspect\<close> is a function to the envelope (where the
  proposal contract holds) and the reason; its \<open>try\<close> blocks turn every exception into a reason.
\<close>

section \<open>Decision records\<close>

definition decisionIdPattern :: "string \<Rightarrow> bool" where
  "decisionIdPattern = prefixed ''brainstem-decision-'' is_idch 20 48"

definition denialReasons :: "string list" where
  "denialReasons =
     [''proposal_contract_invalid'', ''admission_receipt_invalid'', ''route_invalid'',
      ''authority_scope_invalid'', ''principal_inactive'', ''policy_denied'']"

definition BRAINSTEM_COMPANION_DECISION_FIELDS :: "string list" where
  "BRAINSTEM_COMPANION_DECISION_FIELDS =
     [''contract_version'', ''decision_id'', ''proposal_message_id'', ''correlation_id'', ''decision'',
      ''reason_class'', ''authority_component'', ''response_policy'', ''local_response_authorized'',
      ''provider_contact_authorized'', ''memory_write_authorized'', ''tool_execution_authorized'',
      ''settlement_authorized'', ''external_effects_authorized'', ''evidence_refs'', ''decided_at'']"

definition BRAINSTEM_MEMORY_DECISION_FIELDS :: "string list" where
  "BRAINSTEM_MEMORY_DECISION_FIELDS =
     [''contract_version'', ''decision_id'', ''proposal_message_id'', ''correlation_id'', ''decision'',
      ''reason_class'', ''authority_component'', ''target_namespace_ref'', ''expected_memory_version'',
      ''mutation'', ''commit_policy'', ''memory_commit_authorized'', ''provider_contact_authorized'',
      ''tool_execution_authorized'', ''settlement_authorized'', ''external_effects_authorized'',
      ''evidence_refs'', ''decided_at'']"

definition decision_evidence_ok :: "platform \<Rightarrow> jsv \<Rightarrow> bool" where
  "decision_evidence_ok P v \<longleftrightarrow>
     (let refs = jget v ''evidence_refs''
      in is_array refs \<and> 1 \<le> length (items refs) \<and> length (items refs) \<le> 4 \<and>
         no_repeats (items refs) \<and> list_all (test P reference_shape) (items refs)) \<and>
     date_of P (jget v ''decided_at'') \<noteq> None"

definition validateBrainstemCompanionDecision :: "platform \<Rightarrow> jsv \<Rightarrow> jsv result" where
  "validateBrainstemCompanionDecision P v =
     (if \<not>
       (exactKeys v BRAINSTEM_COMPANION_DECISION_FIELDS \<and>
        jget v ''contract_version'' = JStr ''kindred.brainstem.companion-communication-decision.v1'' \<and>
        test P decisionIdPattern (jget v ''decision_id'') \<and>
        test P messageIdPattern (jget v ''proposal_message_id'') \<and>
        test P reference_shape (jget v ''correlation_id'') \<and>
        str_in (jget v ''decision'') [''approved'', ''denied''] \<and>
        jget v ''authority_component'' = JStr ''brainstem'' \<and>
        jget v ''provider_contact_authorized'' = JBool False \<and>
        jget v ''memory_write_authorized'' = JBool False \<and>
        jget v ''tool_execution_authorized'' = JBool False \<and>
        jget v ''settlement_authorized'' = JBool False \<and>
        jget v ''external_effects_authorized'' = JBool False \<and>
        decision_evidence_ok P v)
      then reject ''decision_invalid''
      else if
        (if jget v ''decision'' = JStr ''approved''
         then jget v ''reason_class'' \<noteq> JStr ''local_acknowledgement_allowed'' \<or>
              jget v ''response_policy'' \<noteq> JStr ''deterministic_local_acknowledgement_only'' \<or>
              jget v ''local_response_authorized'' \<noteq> JBool True
         else \<not> str_in (jget v ''reason_class'') denialReasons \<or>
              jget v ''response_policy'' \<noteq> JNull \<or>
              jget v ''local_response_authorized'' \<noteq> JBool False)
        then reject ''decision_policy_invalid''
      else Inr v)"

definition validateBrainstemMemoryDecision :: "platform \<Rightarrow> jsv \<Rightarrow> jsv result" where
  "validateBrainstemMemoryDecision P v =
     (if \<not>
       (exactKeys v BRAINSTEM_MEMORY_DECISION_FIELDS \<and>
        jget v ''contract_version'' = JStr ''kindred.brainstem.memory-commit-decision.v1'' \<and>
        test P decisionIdPattern (jget v ''decision_id'') \<and>
        test P messageIdPattern (jget v ''proposal_message_id'') \<and>
        test P reference_shape (jget v ''correlation_id'') \<and>
        str_in (jget v ''decision'') [''approved'', ''denied''] \<and>
        jget v ''authority_component'' = JStr ''brainstem'' \<and>
        is_boolean (jget v ''memory_commit_authorized'') \<and>
        jget v ''provider_contact_authorized'' = JBool False \<and>
        jget v ''tool_execution_authorized'' = JBool False \<and>
        jget v ''settlement_authorized'' = JBool False \<and>
        jget v ''external_effects_authorized'' = JBool False \<and>
        decision_evidence_ok P v)
      then reject ''memory_decision_invalid''
      else if
        (if jget v ''decision'' = JStr ''approved''
         then jget v ''reason_class'' \<noteq> JStr ''authoritative_local_memory_commit_allowed'' \<or>
              \<not> test P namespacePattern (jget v ''target_namespace_ref'') \<or>
              \<not> is_safe_integer (jget v ''expected_memory_version'') \<or>
              num_of (jget v ''expected_memory_version'') < 1 \<or>
              jget v ''mutation'' \<noteq> JStr ''append_unverified'' \<or>
              jget v ''commit_policy'' \<noteq> JStr ''brainstem_authoritative_local_commit'' \<or>
              jget v ''memory_commit_authorized'' \<noteq> JBool True
         else \<not> str_in (jget v ''reason_class'') denialReasons \<or>
              jget v ''target_namespace_ref'' \<noteq> JNull \<or>
              jget v ''expected_memory_version'' \<noteq> JNull \<or>
              jget v ''mutation'' \<noteq> JNull \<or>
              jget v ''commit_policy'' \<noteq> JNull \<or>
              jget v ''memory_commit_authorized'' \<noteq> JBool False)
        then reject ''memory_decision_policy_invalid''
      else Inr v)"

section \<open>Inspection\<close>

text \<open>\<open>validateAdmissionReceipt\<close>, the same in both modules.\<close>

definition admission_receipt_ok :: "platform \<Rightarrow> jsv \<Rightarrow> jsv \<Rightarrow> int \<Rightarrow> bool" where
  "admission_receipt_ok P value envelope now =
     (case validateProtocolReceipt P value of
        Inl _ \<Rightarrow> False
      | Inr receipt \<Rightarrow>
          strict_eq (jget receipt ''message_id'') (jget envelope ''message_id'') \<and>
          strict_eq (jget receipt ''correlation_id'') (jget envelope ''correlation_id'') \<and>
          (case (date_of P (jget receipt ''accepted_at''), date_of P (jget envelope ''timestamp''),
                 date_of P (jget envelope ''expires_at'')) of
             (Some acceptedAt, Some sentAt, Some expiresAt) \<Rightarrow>
               sentAt \<le> acceptedAt \<and> acceptedAt < expiresAt \<and> acceptedAt \<le> now
           | _ \<Rightarrow> False))"

text \<open>The ids a denial names when the envelope is not valid.\<close>

definition fallback_message :: "platform \<Rightarrow> string \<Rightarrow> jsv \<Rightarrow> jsv" where
  "fallback_message P fallback envelope =
     (if test P messageIdPattern (nullish_or (jget envelope ''message_id'') (JStr []))
      then jget envelope ''message_id'' else JStr fallback)"

definition fallback_correlation :: "platform \<Rightarrow> string \<Rightarrow> jsv \<Rightarrow> jsv" where
  "fallback_correlation P fallback envelope =
     (if test P reference_shape (nullish_or (jget envelope ''correlation_id'') (JStr []))
      then jget envelope ''correlation_id'' else JStr fallback)"

definition single_item :: "jsv \<Rightarrow> jsv \<Rightarrow> bool" where
  "single_item a v \<longleftrightarrow> (case items a of [x] \<Rightarrow> strict_eq x v | _ \<Rightarrow> False)"

definition proposal_route :: "jsv \<Rightarrow> string \<Rightarrow> bool" where
  "proposal_route envelope capability_id \<longleftrightarrow>
     jget envelope ''message_type'' = JStr ''proposal'' \<and>
     jget (jget envelope ''sender'') ''principal_type'' = JStr ''agent'' \<and>
     jget (jget envelope ''recipient'') ''principal_type'' = JStr ''runtime_component'' \<and>
     jget (jget envelope ''recipient'') ''id'' = JStr ''brainstem'' \<and>
     jget envelope ''requested_capability'' = JStr capability_id \<and>
     jget envelope ''data_classification'' = JStr ''confidential''"

text \<open>The identity is scoped to the one capability and the one grant of the envelope.\<close>

definition proposal_scope :: "jsv \<Rightarrow> jsv \<Rightarrow> string \<Rightarrow> string \<Rightarrow> bool" where
  "proposal_scope identity envelope capability_id permission \<longleftrightarrow>
     jget identity ''agent_class'' = JStr ''living_companion'' \<and>
     strict_eq (jget identity ''agent_id'') (jget (jget envelope ''sender'') ''id'') \<and>
     strict_eq (jget identity ''agent_id'') (jget (jget envelope ''payload'') ''companion_principal_id'') \<and>
     jget (jget identity ''authority'') ''ceiling'' = JStr ''user_delegated'' \<and>
     single_item (jget (jget identity ''authority'') ''grant_refs'') (jget envelope ''authority_ref'') \<and>
     array_includes (jget identity ''permissions'') (JStr permission) \<and>
     single_item (jget identity ''capabilities'') (JStr capability_id) \<and>
     single_item (jget (jget identity ''execution_scope'') ''allowed_capabilities'') (JStr capability_id) \<and>
     items (jget identity ''budget_refs'') = [] \<and>
     items (jget (jget identity ''provider_scope'') ''provider_refs'') = [] \<and>
     jget identity ''economic_mandate_ref'' = JNull"

section \<open>Communication decisions\<close>

definition communication_route :: "jsv \<Rightarrow> bool" where
  "communication_route envelope \<longleftrightarrow>
     proposal_route envelope COMPANION_COMMUNICATION_CAPABILITY_ID \<and>
     strict_eq (jget envelope ''correlation_id'') (jget (jget envelope ''payload'') ''client_message_id'') \<and>
     strict_eq (jget envelope ''causation_id'') (jget (jget envelope ''payload'') ''user_message_id'') \<and>
     array_includes (jget envelope ''evidence_refs'') (jget (jget envelope ''payload'') ''consent_receipt_ref'')"

definition inspect_communication ::
    "platform \<Rightarrow> jsv \<Rightarrow> jsv \<Rightarrow> jsv \<Rightarrow> int \<Rightarrow> jsv option \<times> string" where
  "inspect_communication P input_envelope protocolReceipt input_identity now =
     (case and_then (validateEnvelope P input_envelope) (\<lambda>e.
             and_then (validateCompanionCommunicationProposal P (jget e ''payload'')) (\<lambda>_. Inr e)) of
        Inl _ \<Rightarrow> (None, ''proposal_contract_invalid'')
      | Inr envelope \<Rightarrow>
          (Some envelope,
           if \<not> communication_route envelope then ''route_invalid''
           else if \<not> admission_receipt_ok P protocolReceipt envelope now then ''admission_receipt_invalid''
           else case validateAgentIdentity P input_identity of
               Inl _ \<Rightarrow> ''authority_scope_invalid''
             | Inr identity \<Rightarrow>
                 if jget identity ''lifecycle_state'' \<noteq> JStr ''active'' then ''principal_inactive''
                 else if \<not> proposal_scope identity envelope COMPANION_COMMUNICATION_CAPABILITY_ID
                              ''companion.communicate''
                 then ''authority_scope_invalid''
                 else ''local_acknowledgement_allowed''))"

text \<open>The record of a decision.\<close>

definition companion_decision ::
    "platform \<Rightarrow> jsv \<Rightarrow> jsv \<Rightarrow> bool \<Rightarrow> string \<Rightarrow> jsv list \<Rightarrow> string \<Rightarrow> jsv" where
  "companion_decision P message correlation approved reason evidence stamp = JObj
     [(''contract_version'', JStr ''kindred.brainstem.companion-communication-decision.v1''),
      (''decision_id'', JStr (''brainstem-decision-'' @ digest P ''brainstem-companion-decision''
         [item_string P message, item_string P correlation, reason])),
      (''proposal_message_id'', message),
      (''correlation_id'', correlation),
      (''decision'', JStr (if approved then ''approved'' else ''denied'')),
      (''reason_class'', JStr reason),
      (''authority_component'', JStr ''brainstem''),
      (''response_policy'', if approved then JStr ''deterministic_local_acknowledgement_only'' else JNull),
      (''local_response_authorized'', JBool approved),
      (''provider_contact_authorized'', JBool False),
      (''memory_write_authorized'', JBool False),
      (''tool_execution_authorized'', JBool False),
      (''settlement_authorized'', JBool False),
      (''external_effects_authorized'', JBool False),
      (''evidence_refs'', JArr evidence),
      (''decided_at'', JStr stamp)]"

definition decideCompanionCommunication ::
    "platform \<Rightarrow> jsv \<Rightarrow> jsv \<Rightarrow> jsv \<Rightarrow> int option \<Rightarrow> jsv result" where
  "decideCompanionCommunication P input_envelope protocolReceipt input_identity clock =
     (case clock of None \<Rightarrow> reject ''decision_timestamp_invalid'' | Some now \<Rightarrow>
      let (inspected, reason) = inspect_communication P input_envelope protocolReceipt input_identity now;
          approved = (reason = ''local_acknowledgement_allowed'');
          message = (case inspected of
              Some e \<Rightarrow> jget e ''message_id''
            | None \<Rightarrow> fallback_message P ''kindred-message-BrainstemDenied00000001'' input_envelope);
          correlation = (case inspected of
              Some e \<Rightarrow> jget e ''correlation_id''
            | None \<Rightarrow> fallback_correlation P ''brainstem-denied-correlation'' input_envelope);
          evidence = (if approved
            then [message, jget (jget (the inspected) ''payload'') ''consent_receipt_ref'']
            else [message, JStr (''brainstem-reason:'' @ reason)])
      in and_then (iso_text now) (\<lambda>stamp. validateBrainstemCompanionDecision P
           (companion_decision P message correlation approved reason evidence stamp)))"

section \<open>Memory decisions\<close>

definition memory_route :: "platform \<Rightarrow> jsv \<Rightarrow> bool" where
  "memory_route P envelope \<longleftrightarrow>
     proposal_route envelope COMPANION_MEMORY_PROPOSAL_CAPABILITY_ID \<and>
     strict_eq (jget envelope ''correlation_id'') (jget (jget envelope ''payload'') ''client_request_id'') \<and>
     jget envelope ''causation_id'' =
       JStr (''memory-version:'' @ to_string P (jget (jget envelope ''payload'') ''expected_memory_version'')) \<and>
     array_includes (jget envelope ''evidence_refs'') (jget (jget envelope ''payload'') ''consent_receipt_ref'') \<and>
     array_includes (jget envelope ''evidence_refs'') (jget (jget envelope ''payload'') ''target_namespace_ref'')"

definition inspect_memory ::
    "platform \<Rightarrow> jsv \<Rightarrow> jsv \<Rightarrow> jsv \<Rightarrow> int \<Rightarrow> jsv option \<times> string" where
  "inspect_memory P input_envelope protocolReceipt input_identity now =
     (case and_then (validateEnvelope P input_envelope) (\<lambda>e.
             and_then (validateCompanionMemoryProposal P (jget e ''payload'')) (\<lambda>_. Inr e)) of
        Inl _ \<Rightarrow> (None, ''proposal_contract_invalid'')
      | Inr envelope \<Rightarrow>
          (Some envelope,
           if \<not> memory_route P envelope then ''route_invalid''
           else if \<not> admission_receipt_ok P protocolReceipt envelope now then ''admission_receipt_invalid''
           else case validateAgentIdentity P input_identity of
               Inl _ \<Rightarrow> ''authority_scope_invalid''
             | Inr identity \<Rightarrow>
                 if jget identity ''lifecycle_state'' \<noteq> JStr ''active'' then ''principal_inactive''
                 else if \<not> proposal_scope identity envelope COMPANION_MEMORY_PROPOSAL_CAPABILITY_ID
                              ''companion.memory.propose'' \<or>
                         jget (jget identity ''memory_scope'') ''write_mode'' \<noteq> JStr ''proposal_only'' \<or>
                         \<not> single_item (jget (jget identity ''memory_scope'') ''namespace_refs'')
                              (jget (jget envelope ''payload'') ''target_namespace_ref'')
                 then ''authority_scope_invalid''
                 else ''authoritative_local_memory_commit_allowed''))"

definition memory_decision_record ::
    "platform \<Rightarrow> jsv \<Rightarrow> jsv \<Rightarrow> bool \<Rightarrow> string \<Rightarrow> jsv \<Rightarrow> jsv list \<Rightarrow> string \<Rightarrow> jsv" where
  "memory_decision_record P message correlation approved reason payload evidence stamp = JObj
      [(''contract_version'', JStr ''kindred.brainstem.memory-commit-decision.v1''),
       (''decision_id'', JStr (''brainstem-decision-'' @ digest P ''brainstem-memory-decision''
          [item_string P message, item_string P correlation, reason])),
       (''proposal_message_id'', message),
       (''correlation_id'', correlation),
       (''decision'', JStr (if approved then ''approved'' else ''denied'')),
       (''reason_class'', JStr reason),
       (''authority_component'', JStr ''brainstem''),
       (''target_namespace_ref'', if approved then jget payload ''target_namespace_ref'' else JNull),
       (''expected_memory_version'', if approved then jget payload ''expected_memory_version'' else JNull),
       (''mutation'', if approved then jget payload ''mutation'' else JNull),
       (''commit_policy'', if approved then JStr ''brainstem_authoritative_local_commit'' else JNull),
       (''memory_commit_authorized'', JBool approved),
       (''provider_contact_authorized'', JBool False),
       (''tool_execution_authorized'', JBool False),
       (''settlement_authorized'', JBool False),
       (''external_effects_authorized'', JBool False),
       (''evidence_refs'', JArr evidence),
       (''decided_at'', JStr stamp)]"

definition decideCompanionMemory ::
    "platform \<Rightarrow> jsv \<Rightarrow> jsv \<Rightarrow> jsv \<Rightarrow> int option \<Rightarrow> jsv result" where
  "decideCompanionMemory P input_envelope protocolReceipt input_identity clock =
     (case clock of None \<Rightarrow> reject ''memory_decision_timestamp_invalid'' | Some now \<Rightarrow>
      let (inspected, reason) = inspect_memory P input_envelope protocolReceipt input_identity now;
          approved = (reason = ''authoritative_local_memory_commit_allowed'');
          message = (case inspected of
              Some e \<Rightarrow> jget e ''message_id''
            | None \<Rightarrow> fallback_message P ''kindred-message-MemoryDenied0000000001'' input_envelope);
          correlation = (case inspected of
              Some e \<Rightarrow> jget e ''correlation_id''
            | None \<Rightarrow> fallback_correlation P ''memory-denied-correlation'' input_envelope);
          payload = jget (the inspected) ''payload'';
          evidence = (if approved
            then [message, jget payload ''consent_receipt_ref'', jget payload ''target_namespace_ref'']
            else [message, JStr (''brainstem-reason:'' @ reason)])
      in and_then (iso_text now) (\<lambda>stamp. validateBrainstemMemoryDecision P
           (memory_decision_record P message correlation approved reason payload evidence stamp)))"

end
