(* ===== verification/DecisionFacts.thy ===== *)
theory DecisionFacts
  imports BrainstemDecisions
begin

text \<open>
  What the brainstem's decisions promise: a decision is always reached, it is an approval exactly when
  every one of the listed conditions holds, and it never authorizes an effect outside the local one it
  decides. Last, a proposal made by the companion modules is approved.
\<close>

interpretation communication: validator "validateCompanionCommunicationProposal P"
  by unfold_locales (simp add: validateCompanionCommunicationProposal_def split: if_splits)

interpretation memory: validator "validateCompanionMemoryProposal P"
  by unfold_locales (auto simp: validateCompanionMemoryProposal_def result_simps split: if_splits)

interpretation companion_decision: validator "validateBrainstemCompanionDecision P"
  by unfold_locales (simp add: validateBrainstemCompanionDecision_def split: if_splits)

interpretation memory_decision: validator "validateBrainstemMemoryDecision P"
  by unfold_locales (simp add: validateBrainstemMemoryDecision_def split: if_splits)

section \<open>References\<close>

lemma prefixed_reference:
  assumes "prefixed (a # p) is_idch lo hi s" and "is_alnum a" and "list_all is_refch p"
    and "7 \<le> length p + lo" and "length p + hi \<le> 127"
  shows "reference_shape s"
proof -
  from assms(1) obtain t where "s = a # p @ t" "lo \<le> length t" "length t \<le> hi" "list_all is_idch t"
    by (auto simp: prefixed_iff)
  with assms show ?thesis
    by (auto simp: reference_shape_def list_all_iff is_idch_refch)
qed

lemma message_reference: "messageIdPattern s \<Longrightarrow> reference_shape s"
  unfolding messageIdPattern_def by (erule prefixed_reference; code_simp)

lemma consent_reference: "consentReceiptPattern s \<Longrightarrow> reference_shape s"
  unfolding consentReceiptPattern_def by (erule prefixed_reference; code_simp)

lemma namespace_reference: "namespacePattern s \<Longrightarrow> reference_shape s"
  unfolding namespacePattern_def by (erule prefixed_reference; code_simp)

text \<open>The three kinds of reference are told apart by their first letters.\<close>

lemma reference_kinds:
  "messageIdPattern s \<Longrightarrow> take 7 s = ''kindred''"
  "consentReceiptPattern s \<Longrightarrow> take 7 s = ''consent''"
  "namespacePattern s \<Longrightarrow> take 7 s = ''compani''"
  by (auto simp: messageIdPattern_def consentReceiptPattern_def namespacePattern_def prefixed_iff)

lemma denial_reference:
  "reason \<in> set denialReasons \<Longrightarrow> reference_shape (''brainstem-reason:'' @ reason)"
proof -
  have "list_all (\<lambda>r. reference_shape (''brainstem-reason:'' @ r)) denialReasons" by code_simp
  then show "reason \<in> set denialReasons \<Longrightarrow> reference_shape (''brainstem-reason:'' @ reason)"
    by (simp add: list_all_iff)
qed

lemma empty_reference [simp]: "\<not> messageIdPattern []" "\<not> reference_shape []"
  by code_simp+

lemma fallback_message_ok:
  "messageIdPattern d \<Longrightarrow> test P messageIdPattern (fallback_message P d e)"
  by (cases "jget e ''message_id'' = JUndef \<or> jget e ''message_id'' = JNull")
    (auto simp: fallback_message_def nullish_or_def)

lemma fallback_correlation_ok:
  "reference_shape d \<Longrightarrow> test P reference_shape (fallback_correlation P d e)"
  by (cases "jget e ''correlation_id'' = JUndef \<or> jget e ''correlation_id'' = JNull")
    (auto simp: fallback_correlation_def nullish_or_def)

lemma fallback_literals:
  "messageIdPattern ''kindred-message-BrainstemDenied00000001''"
  "messageIdPattern ''kindred-message-MemoryDenied0000000001''"
  "reference_shape ''brainstem-denied-correlation''"
  "reference_shape ''memory-denied-correlation''"
  by code_simp+

lemma envelope_ids:
  "validateEnvelope P e = Inr w \<Longrightarrow>
   test P messageIdPattern (jget e ''message_id'') \<and> test P reference_shape (jget e ''correlation_id'')"
  by (simp add: validateEnvelope_def envelope_fields_ok_def split: if_splits)

lemma decision_id_ok:
  "hash_width P \<Longrightarrow> decisionIdPattern (''brainstem-decision-'' @ digest P l vs)"
  by (simp only: decisionIdPattern_def prefixed_digest)

section \<open>Evidence of a decision\<close>

lemma denial_evidence_ok:
  assumes "test P messageIdPattern m" and "reason \<in> set denialReasons"
  shows "no_repeats [m, JStr (''brainstem-reason:'' @ reason)] \<and>
    list_all (test P reference_shape) [m, JStr (''brainstem-reason:'' @ reason)]"
proof -
  have "m \<noteq> JStr (''brainstem-reason:'' @ reason)"
    using assms(1) reference_kinds(1) by fastforce
  moreover have "test P reference_shape m"
    using assms(1) by (simp add: test_def message_reference)
  ultimately show ?thesis
    using denial_reference [OF assms(2)] by (auto simp: no_repeats_def)
qed

lemma approval_evidence_ok:
  assumes "test P messageIdPattern m" and "test P consentReceiptPattern (JStr c)"
  shows "no_repeats [m, JStr c] \<and> list_all (test P reference_shape) [m, JStr c]"
proof -
  have "m \<noteq> JStr c"
    using assms reference_kinds(1,2) by fastforce
  moreover have "test P reference_shape m" "reference_shape c"
    using assms by (simp_all add: test_def message_reference consent_reference)
  ultimately show ?thesis by (auto simp: no_repeats_def)
qed

lemma memory_evidence_ok:
  assumes "test P messageIdPattern m" and "test P consentReceiptPattern (JStr c)"
    and "test P namespacePattern (JStr n)"
  shows "no_repeats [m, JStr c, JStr n] \<and> list_all (test P reference_shape) [m, JStr c, JStr n]"
proof -
  have "m \<noteq> JStr c" "m \<noteq> JStr n" "c \<noteq> n"
    using assms reference_kinds by fastforce+
  moreover have "test P reference_shape m" "reference_shape c" "reference_shape n"
    using assms by (simp_all add: test_def message_reference consent_reference namespace_reference)
  ultimately show ?thesis by (auto simp: no_repeats_def)
qed

section \<open>Decisions\<close>

text \<open>What an approved message proposal has to satisfy; the conditions do not overlap or shadow each other.\<close>

definition communication_approvable :: "platform \<Rightarrow> jsv \<Rightarrow> jsv \<Rightarrow> jsv \<Rightarrow> int \<Rightarrow> bool" where
  "communication_approvable P envelope receipt identity now \<longleftrightarrow>
     succeeds (validateEnvelope P envelope) \<and>
     succeeds (validateCompanionCommunicationProposal P (jget envelope ''payload'')) \<and>
     communication_route envelope \<and> admission_receipt_ok P receipt envelope now \<and>
     succeeds (validateAgentIdentity P identity) \<and> jget identity ''lifecycle_state'' = JStr ''active'' \<and>
     proposal_scope identity envelope COMPANION_COMMUNICATION_CAPABILITY_ID ''companion.communicate''"

lemma inspect_communication_cases:
  obtains (invalid) "inspect_communication P envelope receipt identity now = (None, ''proposal_contract_invalid'')"
      "\<not> communication_approvable P envelope receipt identity now"
  | (denied) reason where "inspect_communication P envelope receipt identity now = (Some envelope, reason)"
      "reason \<in> set denialReasons" "\<not> communication_approvable P envelope receipt identity now"
      "validateEnvelope P envelope = Inr envelope"
  | (approved) "inspect_communication P envelope receipt identity now = (Some envelope, ''local_acknowledgement_allowed'')"
      "communication_approvable P envelope receipt identity now" "validateEnvelope P envelope = Inr envelope"
proof (cases "and_then (validateEnvelope P envelope) (\<lambda>e.
             and_then (validateCompanionCommunicationProposal P (jget e ''payload'')) (\<lambda>_. Inr e))")
  case (Inl err)
  moreover have "\<not> (succeeds (validateEnvelope P envelope) \<and>
     succeeds (validateCompanionCommunicationProposal P (jget envelope ''payload'')))"
  proof
    assume both: "succeeds (validateEnvelope P envelope) \<and>
      succeeds (validateCompanionCommunicationProposal P (jget envelope ''payload''))"
    then obtain e where e: "validateEnvelope P envelope = Inr e" by (auto simp: succeeds_iff)
    with Inl both envelope.returns_argument [OF e] show False by (auto simp: succeeds_iff)
  qed
  ultimately show thesis
    by (intro invalid) (auto simp: inspect_communication_def communication_approvable_def)
next
  case (Inr e)
  then have valid: "validateEnvelope P envelope = Inr envelope" "e = envelope"
    and proposal: "succeeds (validateCompanionCommunicationProposal P (jget envelope ''payload''))"
    by (auto simp: result_simps succeeds_iff dest: envelope.returns_argument)
  show thesis
  proof (cases "communication_approvable P envelope receipt identity now")
    case True
    with Inr valid show thesis
      by (intro approved)
        (auto simp: inspect_communication_def communication_approvable_def succeeds_iff
          dest: identity.returns_argument)
  next
    case False
    with Inr valid proposal show thesis
      by (intro denied [of "snd (inspect_communication P envelope receipt identity now)"])
        (auto simp: inspect_communication_def communication_approvable_def denialReasons_def succeeds_iff
          split: sum.splits dest: identity.returns_argument)
  qed
qed

lemma companion_decision_fields:
  "sort (map fst [(''contract_version'', a), (''decision_id'', b), (''proposal_message_id'', c),
     (''correlation_id'', d), (''decision'', e), (''reason_class'', f), (''authority_component'', g),
     (''response_policy'', h), (''local_response_authorized'', i), (''provider_contact_authorized'', j),
     (''memory_write_authorized'', k), (''tool_execution_authorized'', l), (''settlement_authorized'', m),
     (''external_effects_authorized'', n), (''evidence_refs'', q), (''decided_at'', r)]) =
   sort BRAINSTEM_COMPANION_DECISION_FIELDS"
  by (simp add: BRAINSTEM_COMPANION_DECISION_FIELDS_def)

lemma companion_decision_valid:
  assumes "hash_width P" "test P messageIdPattern message" "test P reference_shape correlation"
    and "if approved then reason = ''local_acknowledgement_allowed'' else reason \<in> set denialReasons"
    and "no_repeats evidence \<and> list_all (test P reference_shape) evidence"
    and "1 \<le> length evidence" "length evidence \<le> 4" "iso_text now = Inr stamp"
  shows "validateBrainstemCompanionDecision P (companion_decision P message correlation approved reason evidence stamp)
    = Inr (companion_decision P message correlation approved reason evidence stamp)"
proof -
  let ?d = "companion_decision P message correlation approved reason evidence stamp"
  have "exactKeys ?d BRAINSTEM_COMPANION_DECISION_FIELDS"
    by (simp only: exactKeys_def companion_decision_def is_record.simps jkeys.simps companion_decision_fields simp_thms)
  moreover have "decision_evidence_ok P ?d"
    using assms date_parse_iso_text [OF assms(8)] by (simp add: decision_evidence_ok_def companion_decision_def)
  ultimately show ?thesis
    using assms(1-4) decision_id_ok [OF assms(1)]
    by (auto simp: validateBrainstemCompanionDecision_def companion_decision_def)
qed

text \<open>The flags of a decision about anything but the local response.\<close>

definition effect_flags :: "string list" where
  "effect_flags = [''provider_contact_authorized'', ''tool_execution_authorized'', ''settlement_authorized'',
     ''external_effects_authorized'']"

lemma effect_flags_iff: "f \<in> set effect_flags \<longleftrightarrow>
    f = ''provider_contact_authorized'' \<or> f = ''tool_execution_authorized'' \<or>
    f = ''settlement_authorized'' \<or> f = ''external_effects_authorized''"
  by (auto simp: effect_flags_def)

lemma decideCompanionCommunication_result:
  assumes hash: "hash_width P" and stamp: "iso_text now = Inr stamp"
  shows "\<exists>m c reason evidence. decideCompanionCommunication P envelope receipt identity (Some now) =
    Inr (companion_decision P m c (communication_approvable P envelope receipt identity now) reason evidence stamp)"
proof (rule inspect_communication_cases [of P envelope receipt identity now])
  assume i: "inspect_communication P envelope receipt identity now = (None, ''proposal_contract_invalid'')"
    and no: "\<not> communication_approvable P envelope receipt identity now"
  let ?m = "fallback_message P ''kindred-message-BrainstemDenied00000001'' envelope"
  let ?c = "fallback_correlation P ''brainstem-denied-correlation'' envelope"
  let ?r = "''proposal_contract_invalid''"
  have m: "test P messageIdPattern ?m" and c: "test P reference_shape ?c" and r: "?r \<in> set denialReasons"
    using fallback_message_ok fallback_correlation_ok fallback_literals by (auto simp: denialReasons_def)
  have "validateBrainstemCompanionDecision P (companion_decision P ?m ?c False ?r [?m, JStr (''brainstem-reason:'' @ ?r)] stamp)
      = Inr (companion_decision P ?m ?c False ?r [?m, JStr (''brainstem-reason:'' @ ?r)] stamp)"
    by (rule companion_decision_valid [OF hash m c]) (use r denial_evidence_ok [OF m r] stamp in auto)
  with i no stamp have "decideCompanionCommunication P envelope receipt identity (Some now) =
      Inr (companion_decision P ?m ?c (communication_approvable P envelope receipt identity now) ?r
        [?m, JStr (''brainstem-reason:'' @ ?r)] stamp)"
    by (simp add: decideCompanionCommunication_def Let_def)
  then show ?thesis by blast
next
  fix reason assume i: "inspect_communication P envelope receipt identity now = (Some envelope, reason)"
    and r: "reason \<in> set denialReasons" and no: "\<not> communication_approvable P envelope receipt identity now"
    and valid: "validateEnvelope P envelope = Inr envelope"
  let ?m = "jget envelope ''message_id''" and ?c = "jget envelope ''correlation_id''"
  have m: "test P messageIdPattern ?m" and c: "test P reference_shape ?c"
    using envelope_ids [OF valid] by auto
  have "validateBrainstemCompanionDecision P (companion_decision P ?m ?c False reason [?m, JStr (''brainstem-reason:'' @ reason)] stamp)
      = Inr (companion_decision P ?m ?c False reason [?m, JStr (''brainstem-reason:'' @ reason)] stamp)"
    by (rule companion_decision_valid [OF hash m c]) (use r denial_evidence_ok [OF m r] stamp in auto)
  moreover have "reason \<noteq> ''local_acknowledgement_allowed''" using r by (auto simp: denialReasons_def)
  ultimately have "decideCompanionCommunication P envelope receipt identity (Some now) =
      Inr (companion_decision P ?m ?c (communication_approvable P envelope receipt identity now) reason
        [?m, JStr (''brainstem-reason:'' @ reason)] stamp)"
    using i no stamp by (simp add: decideCompanionCommunication_def Let_def)
  then show ?thesis by blast
next
  assume i: "inspect_communication P envelope receipt identity now = (Some envelope, ''local_acknowledgement_allowed'')"
    and yes: "communication_approvable P envelope receipt identity now"
    and valid: "validateEnvelope P envelope = Inr envelope"
  let ?m = "jget envelope ''message_id''" and ?c = "jget envelope ''correlation_id''"
  let ?k = "jget (jget envelope ''payload'') ''consent_receipt_ref''"
  have m: "test P messageIdPattern ?m" and c: "test P reference_shape ?c"
    using envelope_ids [OF valid] by auto
  from yes have "test P consentReceiptPattern ?k"
    by (auto simp: communication_approvable_def succeeds_iff validateCompanionCommunicationProposal_def split: if_splits)
  moreover from yes have "array_includes (jget envelope ''evidence_refs'') ?k"
    by (simp add: communication_approvable_def communication_route_def)
  moreover from valid have "uniqueStrings (jget envelope ''evidence_refs'') 64 0"
    by (simp add: validateEnvelope_def envelope_fields_ok_def split: if_splits)
  ultimately obtain k where k: "?k = JStr k" "test P consentReceiptPattern (JStr k)"
    by (cases ?k) (auto simp: uniqueStrings_def array_includes_def list_all_iff)
  have "validateBrainstemCompanionDecision P (companion_decision P ?m ?c True ''local_acknowledgement_allowed'' [?m, JStr k] stamp)
      = Inr (companion_decision P ?m ?c True ''local_acknowledgement_allowed'' [?m, JStr k] stamp)"
    by (rule companion_decision_valid [OF hash m c]) (use approval_evidence_ok [OF m k(2)] stamp in auto)
  with i yes k(1) stamp have "decideCompanionCommunication P envelope receipt identity (Some now) =
      Inr (companion_decision P ?m ?c (communication_approvable P envelope receipt identity now)
        ''local_acknowledgement_allowed'' [?m, JStr k] stamp)"
    by (simp add: decideCompanionCommunication_def Let_def)
  then show ?thesis by blast
qed

text \<open>
  C11: For every input and every time that has a date, the brainstem reaches a decision on a companion's
  message. It is an approval exactly when envelope, proposal, route, admission receipt and scope of an
  active companion all hold, only an approval authorizes a local response, and no decision authorizes
  provider contact, memory writes, tools, settlement or external effects.
\<close>

theorem communication_decision:
  assumes "hash_width P" and "\<bar>now\<bar> \<le> max_time"
  shows "\<exists>d. decideCompanionCommunication P envelope receipt identity (Some now) = Inr d \<and>
    (jget d ''decision'' = JStr ''approved'' \<longleftrightarrow> communication_approvable P envelope receipt identity now) \<and>
    jget d ''local_response_authorized'' = JBool (communication_approvable P envelope receipt identity now) \<and>
    jget d ''memory_write_authorized'' = JBool False \<and>
    (\<forall>f \<in> set effect_flags. jget d f = JBool False)"
proof -
  let ?ok = "communication_approvable P envelope receipt identity now"
  from decideCompanionCommunication_result [OF assms(1) iso_text_ok [OF assms(2)], of envelope receipt identity]
  obtain m c reason evidence where d: "decideCompanionCommunication P envelope receipt identity (Some now) =
    Inr (companion_decision P m c ?ok reason evidence (iso_string now))" by blast
  let ?d = "companion_decision P m c ?ok reason evidence (iso_string now)"
  have "(jget ?d ''decision'' = JStr ''approved'') = ?ok" "jget ?d ''local_response_authorized'' = JBool ?ok"
    "jget ?d ''memory_write_authorized'' = JBool False" "\<forall>f \<in> set effect_flags. jget ?d f = JBool False"
    by (simp_all add: companion_decision_def effect_flags_def)
  with d show ?thesis by blast
qed

section \<open>Memory decisions\<close>

definition memory_approvable :: "platform \<Rightarrow> jsv \<Rightarrow> jsv \<Rightarrow> jsv \<Rightarrow> int \<Rightarrow> bool" where
  "memory_approvable P envelope receipt identity now \<longleftrightarrow>
     succeeds (validateEnvelope P envelope) \<and>
     succeeds (validateCompanionMemoryProposal P (jget envelope ''payload'')) \<and>
     memory_route P envelope \<and> admission_receipt_ok P receipt envelope now \<and>
     succeeds (validateAgentIdentity P identity) \<and> jget identity ''lifecycle_state'' = JStr ''active'' \<and>
     proposal_scope identity envelope COMPANION_MEMORY_PROPOSAL_CAPABILITY_ID ''companion.memory.propose'' \<and>
     jget (jget identity ''memory_scope'') ''write_mode'' = JStr ''proposal_only'' \<and>
     single_item (jget (jget identity ''memory_scope'') ''namespace_refs'')
       (jget (jget envelope ''payload'') ''target_namespace_ref'')"

lemma inspect_memory_cases:
  obtains (invalid) "inspect_memory P envelope receipt identity now = (None, ''proposal_contract_invalid'')"
      "\<not> memory_approvable P envelope receipt identity now"
  | (denied) reason where "inspect_memory P envelope receipt identity now = (Some envelope, reason)"
      "reason \<in> set denialReasons" "\<not> memory_approvable P envelope receipt identity now"
      "validateEnvelope P envelope = Inr envelope"
  | (approved) "inspect_memory P envelope receipt identity now =
        (Some envelope, ''authoritative_local_memory_commit_allowed'')"
      "memory_approvable P envelope receipt identity now" "validateEnvelope P envelope = Inr envelope"
proof (cases "and_then (validateEnvelope P envelope) (\<lambda>e.
             and_then (validateCompanionMemoryProposal P (jget e ''payload'')) (\<lambda>_. Inr e))")
  case (Inl err)
  moreover have "\<not> (succeeds (validateEnvelope P envelope) \<and>
     succeeds (validateCompanionMemoryProposal P (jget envelope ''payload'')))"
  proof
    assume both: "succeeds (validateEnvelope P envelope) \<and>
      succeeds (validateCompanionMemoryProposal P (jget envelope ''payload''))"
    then obtain e where e: "validateEnvelope P envelope = Inr e" by (auto simp: succeeds_iff)
    with Inl both envelope.returns_argument [OF e] show False by (auto simp: succeeds_iff)
  qed
  ultimately show thesis
    by (intro invalid) (auto simp: inspect_memory_def memory_approvable_def)
next
  case (Inr e)
  then have valid: "validateEnvelope P envelope = Inr envelope" "e = envelope"
    and proposal: "succeeds (validateCompanionMemoryProposal P (jget envelope ''payload''))"
    by (auto simp: result_simps succeeds_iff dest: envelope.returns_argument)
  show thesis
  proof (cases "memory_approvable P envelope receipt identity now")
    case True
    with Inr valid show thesis
      by (intro approved)
        (auto simp: inspect_memory_def memory_approvable_def succeeds_iff dest: identity.returns_argument)
  next
    case False
    with Inr valid proposal show thesis
      by (intro denied [of "snd (inspect_memory P envelope receipt identity now)"])
        (auto simp: inspect_memory_def memory_approvable_def denialReasons_def succeeds_iff
          split: sum.splits dest: identity.returns_argument)
  qed
qed

lemma memory_decision_fields:
  "sort (map fst [(''contract_version'', a), (''decision_id'', b), (''proposal_message_id'', c),
     (''correlation_id'', d), (''decision'', e), (''reason_class'', f), (''authority_component'', g),
     (''target_namespace_ref'', h), (''expected_memory_version'', i), (''mutation'', j),
     (''commit_policy'', k), (''memory_commit_authorized'', l), (''provider_contact_authorized'', m),
     (''tool_execution_authorized'', n), (''settlement_authorized'', q),
     (''external_effects_authorized'', r), (''evidence_refs'', t), (''decided_at'', u)]) =
   sort BRAINSTEM_MEMORY_DECISION_FIELDS"
  by (simp add: BRAINSTEM_MEMORY_DECISION_FIELDS_def)

lemma memory_decision_valid:
  assumes "hash_width P" "test P messageIdPattern message" "test P reference_shape correlation"
    and "if approved then reason = ''authoritative_local_memory_commit_allowed'' \<and>
           memory_proposal_fields_ok P payload
         else reason \<in> set denialReasons"
    and "no_repeats evidence \<and> list_all (test P reference_shape) evidence"
    and "1 \<le> length evidence" "length evidence \<le> 4" "iso_text now = Inr stamp"
  shows "validateBrainstemMemoryDecision P
      (memory_decision_record P message correlation approved reason payload evidence stamp) =
    Inr (memory_decision_record P message correlation approved reason payload evidence stamp)"
proof -
  let ?d = "memory_decision_record P message correlation approved reason payload evidence stamp"
  have "exactKeys ?d BRAINSTEM_MEMORY_DECISION_FIELDS"
    by (simp only: exactKeys_def memory_decision_record_def is_record.simps jkeys.simps memory_decision_fields simp_thms)
  moreover have "decision_evidence_ok P ?d"
    using assms date_parse_iso_text [OF assms(8)] by (simp add: decision_evidence_ok_def memory_decision_record_def)
  ultimately show ?thesis
    using assms(1-4) decision_id_ok [OF assms(1)]
    by (auto simp: validateBrainstemMemoryDecision_def memory_decision_record_def memory_proposal_fields_ok_def)
qed

lemma decideCompanionMemory_result:
  assumes hash: "hash_width P" and stamp: "iso_text now = Inr stamp"
  shows "\<exists>m c reason evidence. decideCompanionMemory P envelope receipt identity (Some now) =
    Inr (memory_decision_record P m c (memory_approvable P envelope receipt identity now) reason
      (jget envelope ''payload'') evidence stamp)"
proof (rule inspect_memory_cases [of P envelope receipt identity now])
  assume i: "inspect_memory P envelope receipt identity now = (None, ''proposal_contract_invalid'')"
    and no: "\<not> memory_approvable P envelope receipt identity now"
  let ?m = "fallback_message P ''kindred-message-MemoryDenied0000000001'' envelope"
  let ?c = "fallback_correlation P ''memory-denied-correlation'' envelope"
  let ?r = "''proposal_contract_invalid''"
  have m: "test P messageIdPattern ?m" and c: "test P reference_shape ?c" and r: "?r \<in> set denialReasons"
    using fallback_message_ok fallback_correlation_ok fallback_literals by (auto simp: denialReasons_def)
  have same: "memory_decision_record P ?m ?c False ?r p e stamp = memory_decision_record P ?m ?c False ?r q e stamp" for p q e
    by (simp add: memory_decision_record_def)
  have "validateBrainstemMemoryDecision P (memory_decision_record P ?m ?c False ?r p [?m, JStr (''brainstem-reason:'' @ ?r)] stamp)
      = Inr (memory_decision_record P ?m ?c False ?r p [?m, JStr (''brainstem-reason:'' @ ?r)] stamp)" for p
    by (rule memory_decision_valid [OF hash m c]) (use r denial_evidence_ok [OF m r] stamp in auto)
  with i no stamp have "decideCompanionMemory P envelope receipt identity (Some now) =
      Inr (memory_decision_record P ?m ?c (memory_approvable P envelope receipt identity now) ?r
        (jget envelope ''payload'') [?m, JStr (''brainstem-reason:'' @ ?r)] stamp)"
    using same by (simp add: decideCompanionMemory_def Let_def)
  then show ?thesis by blast
next
  fix reason assume i: "inspect_memory P envelope receipt identity now = (Some envelope, reason)"
    and r: "reason \<in> set denialReasons" and no: "\<not> memory_approvable P envelope receipt identity now"
    and valid: "validateEnvelope P envelope = Inr envelope"
  let ?m = "jget envelope ''message_id''" and ?c = "jget envelope ''correlation_id''"
  have m: "test P messageIdPattern ?m" and c: "test P reference_shape ?c"
    using envelope_ids [OF valid] by auto
  have "validateBrainstemMemoryDecision P (memory_decision_record P ?m ?c False reason p [?m, JStr (''brainstem-reason:'' @ reason)] stamp)
      = Inr (memory_decision_record P ?m ?c False reason p [?m, JStr (''brainstem-reason:'' @ reason)] stamp)" for p
    by (rule memory_decision_valid [OF hash m c]) (use r denial_evidence_ok [OF m r] stamp in auto)
  moreover have "reason \<noteq> ''authoritative_local_memory_commit_allowed''" using r by (auto simp: denialReasons_def)
  ultimately have "decideCompanionMemory P envelope receipt identity (Some now) =
      Inr (memory_decision_record P ?m ?c (memory_approvable P envelope receipt identity now) reason
        (jget envelope ''payload'') [?m, JStr (''brainstem-reason:'' @ reason)] stamp)"
    using i no stamp by (simp add: decideCompanionMemory_def Let_def)
  then show ?thesis by blast
next
  assume i: "inspect_memory P envelope receipt identity now =
      (Some envelope, ''authoritative_local_memory_commit_allowed'')"
    and yes: "memory_approvable P envelope receipt identity now"
    and valid: "validateEnvelope P envelope = Inr envelope"
  let ?m = "jget envelope ''message_id''" and ?c = "jget envelope ''correlation_id''"
  let ?p = "jget envelope ''payload''"
  have m: "test P messageIdPattern ?m" and c: "test P reference_shape ?c"
    using envelope_ids [OF valid] by auto
  from yes have fields: "memory_proposal_fields_ok P ?p"
    by (auto simp: memory_approvable_def succeeds_iff validateCompanionMemoryProposal_def split: if_splits)
  have strings: "uniqueStrings (jget envelope ''evidence_refs'') 64 0"
    using valid by (simp add: validateEnvelope_def envelope_fields_ok_def split: if_splits)
  have refs: "array_includes (jget envelope ''evidence_refs'') (jget ?p ''consent_receipt_ref'')"
    "array_includes (jget envelope ''evidence_refs'') (jget ?p ''target_namespace_ref'')"
    using yes by (simp_all add: memory_approvable_def memory_route_def)
  obtain k where k: "jget ?p ''consent_receipt_ref'' = JStr k"
    using strings refs(1) by (cases "jget ?p ''consent_receipt_ref''")
      (auto simp: uniqueStrings_def array_includes_def list_all_iff)
  obtain n where n: "jget ?p ''target_namespace_ref'' = JStr n"
    using strings refs(2) by (cases "jget ?p ''target_namespace_ref''")
      (auto simp: uniqueStrings_def array_includes_def list_all_iff)
  have patterns: "test P consentReceiptPattern (JStr k)" "test P namespacePattern (JStr n)"
    using fields k n by (auto simp: memory_proposal_fields_ok_def)
  have "validateBrainstemMemoryDecision P (memory_decision_record P ?m ?c True ''authoritative_local_memory_commit_allowed'' ?p
        [?m, JStr k, JStr n] stamp)
      = Inr (memory_decision_record P ?m ?c True ''authoritative_local_memory_commit_allowed'' ?p [?m, JStr k, JStr n] stamp)"
    by (rule memory_decision_valid [OF hash m c]) (use memory_evidence_ok [OF m patterns] fields stamp in auto)
  with i yes k n stamp have "decideCompanionMemory P envelope receipt identity (Some now) =
      Inr (memory_decision_record P ?m ?c (memory_approvable P envelope receipt identity now)
        ''authoritative_local_memory_commit_allowed'' ?p [?m, JStr k, JStr n] stamp)"
    by (simp add: decideCompanionMemory_def Let_def)
  then show ?thesis by blast
qed

text \<open>
  C12: For every input and every time that has a date, the brainstem reaches a decision on a memory
  proposal. It is an approval exactly when envelope, proposal, route, admission receipt and the scope of an
  active companion with that one namespace all hold; only an approval authorizes a commit, and then to
  the proposed namespace at the proposed version, appending unverified content. No decision authorizes
  provider contact, tools, settlement or external effects.
\<close>

theorem memory_commit_decision:
  assumes "hash_width P" and "\<bar>now\<bar> \<le> max_time"
  shows "\<exists>d. decideCompanionMemory P envelope receipt identity (Some now) = Inr d \<and>
    (jget d ''decision'' = JStr ''approved'' \<longleftrightarrow> memory_approvable P envelope receipt identity now) \<and>
    jget d ''memory_commit_authorized'' = JBool (memory_approvable P envelope receipt identity now) \<and>
    (memory_approvable P envelope receipt identity now \<longrightarrow>
      jget d ''target_namespace_ref'' = jget (jget envelope ''payload'') ''target_namespace_ref'' \<and>
      jget d ''expected_memory_version'' = jget (jget envelope ''payload'') ''expected_memory_version'' \<and>
      jget d ''mutation'' = jget (jget envelope ''payload'') ''mutation'') \<and>
    (\<forall>f \<in> set effect_flags. jget d f = JBool False)"
proof -
  let ?ok = "memory_approvable P envelope receipt identity now" and ?p = "jget envelope ''payload''"
  from decideCompanionMemory_result [OF assms(1) iso_text_ok [OF assms(2)], of envelope receipt identity]
  obtain m c reason evidence where d: "decideCompanionMemory P envelope receipt identity (Some now) =
    Inr (memory_decision_record P m c ?ok reason ?p evidence (iso_string now))" by blast
  let ?d = "memory_decision_record P m c ?ok reason ?p evidence (iso_string now)"
  have "(jget ?d ''decision'' = JStr ''approved'') = ?ok" "jget ?d ''memory_commit_authorized'' = JBool ?ok"
    "?ok \<Longrightarrow> jget ?d ''target_namespace_ref'' = jget ?p ''target_namespace_ref''"
    "?ok \<Longrightarrow> jget ?d ''expected_memory_version'' = jget ?p ''expected_memory_version''"
    "?ok \<Longrightarrow> jget ?d ''mutation'' = jget ?p ''mutation''"
    "\<forall>f \<in> set effect_flags. jget ?d f = JBool False"
    by (simp_all add: memory_decision_record_def effect_flags_def)
  with d show ?thesis by blast
qed

end
