(* ===== verification/CompanionFacts.thy ===== *)
theory CompanionFacts
  imports DecisionFacts RevocationFacts
begin

text \<open>
  The path of a companion's proposal through the components: the artifacts the companion modules create,
  their admission by the gateway, and the decision of the brainstem. And the identity of a companion
  built from its aggregate stays inside the companion boundary.
\<close>

lemma communication_artifacts_Inr:
  assumes "createCompanionCommunicationArtifacts P inp = Inr (capability, grant, identity, envelope)"
  obtains identity0 proposal seed now issuedAt expiresAt where
    "validateAgentIdentity P identity0 = Inr identity0" and "identity0 = ci_identity inp"
    and "jget identity0 ''agent_class'' = JStr ''living_companion''" and "scope_empty identity0"
    and "proposal = communication_proposal inp identity0"
    and "validateCompanionCommunicationProposal P proposal = Inr proposal"
    and "ci_now inp = Some now" and "iso_text now = Inr issuedAt"
    and "iso_text (now + PROPOSAL_TTL_MS) = Inr expiresAt"
    and "grant = proposal_grant P identity0 seed COMPANION_COMMUNICATION_CAPABILITY_ID
                ''companion.communicate'' issuedAt expiresAt"
    and "identity = scoped_companion identity0 COMPANION_COMMUNICATION_CAPABILITY_ID grant"
    and "validateAgentIdentity P identity = Inr identity"
    and "envelope = proposal_envelope P identity0 seed COMPANION_COMMUNICATION_CAPABILITY_ID grant
                (jget proposal ''client_message_id'') (jget proposal ''user_message_id'')
                [jget proposal ''consent_receipt_ref''] proposal issuedAt expiresAt"
    and "validateEnvelope P envelope = Inr envelope"
proof -
  from assms obtain identity0 proposal now issuedAt expiresAt grant' identity' envelope' where
    raw: "validateAgentIdentity P (ci_identity inp) = Inr identity0"
      "jget identity0 ''agent_class'' = JStr ''living_companion''" "scope_empty identity0"
      "validateCompanionCommunicationProposal P (communication_proposal inp identity0) = Inr proposal"
      "ci_now inp = Some now" "iso_text now = Inr issuedAt" "iso_text (now + PROPOSAL_TTL_MS) = Inr expiresAt"
    and made: "validateAuthorityGrant P (proposal_grant P identity0 (digest P ''companion-communication''
               [item_string P (jget identity0 ''agent_id''),
                item_string P (jget proposal ''consent_receipt_ref''),
                item_string P (jget proposal ''client_message_id'')]) COMPANION_COMMUNICATION_CAPABILITY_ID
                ''companion.communicate'' issuedAt expiresAt) = Inr grant"
      "validateAgentIdentity P (scoped_companion identity0 COMPANION_COMMUNICATION_CAPABILITY_ID grant) = Inr identity"
      "validateEnvelope P (proposal_envelope P identity0 (digest P ''companion-communication''
               [item_string P (jget identity0 ''agent_id''),
                item_string P (jget proposal ''consent_receipt_ref''),
                item_string P (jget proposal ''client_message_id'')]) COMPANION_COMMUNICATION_CAPABILITY_ID grant
                (jget proposal ''client_message_id'') (jget proposal ''user_message_id'')
                [jget proposal ''consent_receipt_ref''] proposal issuedAt expiresAt) = Inr envelope"
    unfolding createCompanionCommunicationArtifacts_def Let_def by (elim accepted_elims) simp
  note same = identity.returns_argument [OF raw(1)] communication.returns_argument [OF raw(4)]
    grant.returns_argument [OF made(1)] identity.returns_argument [OF made(2)] envelope.returns_argument [OF made(3)]
  show thesis
    by (rule that [OF _ same(1) raw(2,3) same(2) _ raw(5-7) same(3,4) _ same(5)])
      (use raw made same in simp_all)
qed

definition communication_permitted :: "jsv \<Rightarrow> bool" where
  "communication_permitted identity \<longleftrightarrow>
     jget identity ''lifecycle_state'' = JStr ''active'' \<and>
     jget (jget identity ''authority'') ''ceiling'' = JStr ''user_delegated'' \<and>
     array_includes (jget identity ''permissions'') (JStr ''companion.communicate'')"

lemma companion_id_string:
  "validateAgentIdentity P v = Inr w \<Longrightarrow> jget v ''agent_class'' = JStr ''living_companion'' \<Longrightarrow>
   \<exists>a. jget v ''agent_id'' = JStr a"
  by (cases "jget v ''agent_id''")
    (auto simp: validateAgentIdentity_def companion_boundary_def result_simps split: if_splits)

lemma identity_parts_records:
  "validateAgentIdentity P v = Inr w \<Longrightarrow> is_record v \<and> is_record (jget v ''authority'') \<and>
   is_record (jget v ''execution_scope'')"
  by (simp add: validateAgentIdentity_def exactKeys_def authority_ok_def execution_scope_ok_def Let_def split: if_splits)

lemma scoped_companion_fields:
  assumes "is_record i" "is_record (jget i ''authority'')" "is_record (jget i ''execution_scope'')"
    and "s = scoped_companion i c grant"
  shows "f \<notin> {''capabilities'', ''authority'', ''execution_scope'', ''contract_version''} \<Longrightarrow> jget s f = jget i f"
    and "jget s ''capabilities'' = JArr [JStr c]"
    and "jget (jget s ''authority'') ''grant_refs'' = JArr [jget grant ''grant_id'']"
    and "f \<noteq> ''grant_refs'' \<Longrightarrow> jget (jget s ''authority'') f = jget (jget i ''authority'') f"
    and "jget (jget s ''execution_scope'') ''allowed_capabilities'' = JArr [JStr c]"
  using assms by (simp_all add: scoped_companion_def)

lemma accepted_receipt_ok:
  assumes accept: "acceptValidatedEnvelope P g e now guard_now = (Inr receipt, g')"
    and ids: "jget e ''message_id'' = JStr m" "jget e ''correlation_id'' = JStr c"
    and times: "date_of P (jget e ''timestamp'') = Some sent" "date_of P (jget e ''expires_at'') = Some expires"
    and sent: "sent \<le> now"
  shows "admission_receipt_ok P receipt e now"
proof -
  have live: "now < expires"
    using authorizeValidatedEnvelopeD(2) [OF acceptValidatedEnvelope_Inr(1) [OF accept]] times(2)
    by (simp add: date_value_def)
  from accept obtain stamp where stamp: "iso_text now = Inr stamp"
    and valid: "validateProtocolReceipt P (JObj
                [(''contract_version'', JStr ''kindred.agent.protocol-receipt.v1''),
                 (''message_id'', jget e ''message_id''),
                 (''correlation_id'', jget e ''correlation_id''),
                 (''status'', JStr ''accepted''),
                 (''accepted_at'', JStr stamp),
                 (''replay_consumed'', JBool True)]) = Inr receipt"
    by (auto simp: acceptValidatedEnvelope_def result_simps split: sum.splits prod.splits)
  from protocol_receipt.idempotent [OF valid] ids times sent live date_parse_iso_text [OF stamp]
  show ?thesis
    by (simp add: admission_receipt_ok_def protocol_receipt.returns_argument [OF valid])
qed

lemma proposal_communication_route:
  assumes envelope: "envelope = proposal_envelope P identity seed COMPANION_COMMUNICATION_CAPABILITY_ID grant
                (jget proposal ''client_message_id'') (jget proposal ''user_message_id'')
                [jget proposal ''consent_receipt_ref''] proposal issuedAt expiresAt"
    and valid: "validateEnvelope P envelope = Inr envelope"
    and proposal: "validateCompanionCommunicationProposal P proposal = Inr proposal"
    and client: "jget proposal ''client_message_id'' = JStr c"
  shows "communication_route envelope"
proof -
  have refs: "uniqueStrings (jget envelope ''evidence_refs'') 64 0"
    "validateNullableReference P (jget envelope ''causation_id'') (Some reference_shape)"
    using valid by (simp_all add: validateEnvelope_def envelope_fields_ok_def split: if_splits)
  obtain k where k: "jget proposal ''consent_receipt_ref'' = JStr k"
    using refs(1) by (cases "jget proposal ''consent_receipt_ref''")
      (auto simp: envelope proposal_envelope_def uniqueStrings_def)
  have "test P userMessagePattern (jget proposal ''user_message_id'')"
    using proposal by (simp add: validateCompanionCommunicationProposal_def split: if_splits)
  then obtain u where u: "jget proposal ''user_message_id'' = JStr u"
    using refs(2) by (cases "jget proposal ''user_message_id''")
      (auto simp: envelope proposal_envelope_def validateNullableReference_def userMessagePattern_def
        prefixed_def test_def)
  show ?thesis
    using k u client
    by (simp add: communication_route_def proposal_route_def envelope proposal_envelope_def array_includes_def)
qed

text \<open>
  C13: The path of a companion's message. When a gateway accepts the envelope that the companion module
  created for an active companion with the communication permission and a user-delegated ceiling, the
  brainstem approves the message with the gateway's receipt, at the time of acceptance.
\<close>

theorem admitted_message_approved:
  assumes hash: "hash_width P"
    and made: "createCompanionCommunicationArtifacts P inp = Inr (capability, grant, identity, envelope)"
    and permitted: "communication_permitted identity"
    and client: "is_string (ci_clientMessageId inp)"
    and accepted: "acceptEnvelope P g envelope now guard_now = (Inr receipt, g')"
    and clock: "\<And>sent. ci_now inp = Some sent \<Longrightarrow> sent \<le> now"
  shows "\<exists>d. decideCompanionCommunication P envelope receipt identity (Some now) = Inr d \<and>
    jget d ''decision'' = JStr ''approved'' \<and> jget d ''local_response_authorized'' = JBool True"
proof -
  from made obtain identity0 proposal seed sent issuedAt expiresAt where
    id0: "validateAgentIdentity P identity0 = Inr identity0" "jget identity0 ''agent_class'' = JStr ''living_companion''"
      "scope_empty identity0"
    and proposal: "proposal = communication_proposal inp identity0"
      "validateCompanionCommunicationProposal P proposal = Inr proposal"
    and times: "ci_now inp = Some sent" "iso_text sent = Inr issuedAt" "iso_text (sent + PROPOSAL_TTL_MS) = Inr expiresAt"
    and grant: "grant = proposal_grant P identity0 seed COMPANION_COMMUNICATION_CAPABILITY_ID
                ''companion.communicate'' issuedAt expiresAt"
    and identity: "identity = scoped_companion identity0 COMPANION_COMMUNICATION_CAPABILITY_ID grant"
      "validateAgentIdentity P identity = Inr identity"
    and envelope: "envelope = proposal_envelope P identity0 seed COMPANION_COMMUNICATION_CAPABILITY_ID grant
                (jget proposal ''client_message_id'') (jget proposal ''user_message_id'')
                [jget proposal ''consent_receipt_ref''] proposal issuedAt expiresAt"
      "validateEnvelope P envelope = Inr envelope"
    by (rule communication_artifacts_Inr)
  obtain a where a: "jget identity0 ''agent_id'' = JStr a" using companion_id_string id0 by blast
  obtain c where c: "ci_clientMessageId inp = JStr c" using client by (cases "ci_clientMessageId inp") auto
  note fields = scoped_companion_fields [OF _ _ _ identity(1)] identity_parts_records [OF id0(1)]
  have accept: "acceptValidatedEnvelope P g envelope now guard_now = (Inr receipt, g')"
    using acceptEnvelope_Inr(3) [OF accepted] .
  have payload: "jget envelope ''payload'' = proposal"
    "jget proposal ''client_message_id'' = JStr c"
    "jget proposal ''companion_principal_id'' = JStr a"
    by (simp_all add: envelope(1) proposal_envelope_def proposal(1) communication_proposal_def c a)
  have route: "communication_route envelope"
    by (rule proposal_communication_route [OF envelope proposal(2) payload(2)])
  have receipt: "admission_receipt_ok P receipt envelope now"
    by (rule accepted_receipt_ok [OF accept])
      (use payload(2) clock times date_parse_iso_text [OF times(2)] date_parse_iso_text [OF times(3)]
       in \<open>simp_all add: envelope(1) proposal_envelope_def\<close>)
  have scope: "proposal_scope identity envelope COMPANION_COMMUNICATION_CAPABILITY_ID ''companion.communicate''"
    using permitted id0(2,3) a payload fields
    by (simp add: proposal_scope_def communication_permitted_def single_item_def scope_empty_def
        envelope(1) proposal_envelope_def grant proposal_grant_def)
  have approvable: "communication_approvable P envelope receipt identity now"
    using envelope(2) proposal(2) identity(2) route receipt scope permitted
    by (simp add: communication_approvable_def payload(1) communication_permitted_def)
  from accept obtain stamp where "iso_text now = Inr stamp"
    by (auto simp: acceptValidatedEnvelope_def result_simps split: sum.splits prod.splits)
  from decideCompanionCommunication_result [OF hash this, of envelope receipt identity] approvable
  show ?thesis by (auto simp: companion_decision_def)
qed

lemma strip_prefix_shape: "\<exists>t. strip_prefix p (JStr s) = Inr t \<and> (s = p @ t \<or> s = t)"
  by (metis append_take_drop_id strip_prefix.simps(1))

text \<open>
  The identity made from a companion aggregate belongs to the aggregate's owner, carries the companion
  id, holds no more than user-delegated authority, writes memory by proposal only to the namespace of that
  companion, and never has one of the capabilities that move value, run tools, commit memory or carry
  founder authority.
\<close>

theorem companion_identity_bounded:
  assumes made: "createLivingCompanionIdentity P opts = Inr identity"
  shows "\<exists>companionId suffix. jget (companion opts) ''id'' = JStr companionId \<and>
    jget identity ''agent_id'' = JStr (''kindred-agent-companion-'' @ suffix) \<and>
    (companionId = ''local-companion-'' @ suffix \<or> companionId = suffix) \<and>
    jget identity ''owner_id'' = jget (companion opts) ''owner_account_id'' \<and>
    jget (jget identity ''authority'') ''ceiling'' = JStr ''user_delegated'' \<and>
    jget identity ''memory_scope'' = JObj
      [(''namespace_refs'', JArr [JStr (''companion:'' @ companionId)]), (''write_mode'', JStr ''proposal_only'')] \<and>
    (\<forall>c \<in> {''direct_memory_commit'', ''direct_tool_execution'', ''direct_value_movement'', ''founder_authority''}.
       \<not> array_includes (jget identity ''capabilities'') (JStr c))"
proof -
  from made have ok: "companion_aggregate_ok P opts"
    by (auto simp: createLivingCompanionIdentity_def split: if_splits)
  then obtain cid where cid: "jget (companion opts) ''id'' = JStr cid"
    by (cases "jget (companion opts) ''id''") (auto simp: companion_aggregate_ok_def Let_def)
  obtain suffix where suffix: "strip_prefix ''local-companion-'' (JStr cid) = Inr suffix"
    and shape: "cid = ''local-companion-'' @ suffix \<or> cid = suffix"
    using strip_prefix_shape [of "''local-companion-''" cid] by blast
  from made ok obtain caps grants budgets where
    valid: "validateAgentIdentity P (living_companion_identity P opts suffix caps grants budgets) = Inr identity"
    by (auto simp: createLivingCompanionIdentity_def Let_def result_simps cid suffix simp del: strip_prefix.simps)
  define v where "v = living_companion_identity P opts suffix caps grants budgets"
  note valid = valid [folded v_def]
  have fields: "jget v ''agent_id'' = JStr (''kindred-agent-companion-'' @ suffix)"
      "jget v ''owner_id'' = accountId opts"
      "jget v ''authority'' = JObj [(''issuer_component'', JStr ''brainstem''), (''grant_refs'', grants), (''ceiling'', JStr ''user_delegated'')]"
      "jget v ''memory_scope'' = JObj [(''namespace_refs'', JArr [JStr (''companion:'' @ cid)]), (''write_mode'', JStr ''proposal_only'')]"
      "jget v ''prohibited_capabilities'' = JArr (map JStr [''direct_memory_commit'', ''direct_tool_execution'', ''direct_value_movement'', ''founder_authority''])"
    by (simp_all add: v_def living_companion_identity_def Let_def cid)
  have v: "identity = v" using valid by (rule identity.returns_argument)
  have "\<not> list_ex (array_includes (jget v ''prohibited_capabilities'')) (items (jget v ''capabilities''))"
    using valid by (auto simp: validateAgentIdentity_def split: if_splits)
  then have caps: "\<not> array_includes (jget identity ''capabilities'') (JStr c)"
    if "array_includes (jget v ''prohibited_capabilities'') (JStr c)" for c
    using that by (auto simp: v list_ex_iff array_includes_def)
  have prohibited: "array_includes (jget v ''prohibited_capabilities'') (JStr c)"
    if "c \<in> {''direct_memory_commit'', ''direct_tool_execution'', ''direct_value_movement'', ''founder_authority''}" for c
    using that by (simp only: fields(5) array_includes_def items.simps) auto
  have owner: "jget v ''owner_id'' = jget (companion opts) ''owner_account_id''"
    using ok fields(2) by (auto simp: companion_aggregate_ok_def Let_def dest: strict_eq_eq)
  have ceiling: "jget (jget v ''authority'') ''ceiling'' = JStr ''user_delegated''"
    by (simp add: fields(3))
  have none: "\<forall>c \<in> {''direct_memory_commit'', ''direct_tool_execution'', ''direct_value_movement'', ''founder_authority''}.
      \<not> array_includes (jget v ''capabilities'') (JStr c)"
    using caps [OF prohibited] v by blast
  show ?thesis
    unfolding v
    by (rule exI [of _ cid], rule exI [of _ suffix], intro conjI)
      (fact cid fields(1) shape owner ceiling fields(4) none)+
qed

end
