(* ===== verification/CanonicalBytes.thy ===== *)
theory CanonicalBytes
  imports JsDate
begin

text \<open>
  The canonical form of \<open>src/native-port-identity.mjs\<close> (\<open>canonicalBytes\<close>, \<open>digest\<close>,
  \<open>exactFields\<close>) and the base64 coding of \<open>Buffer\<close> it works with. The canonical form of a value is
  stable under itself, and two values have the same one exactly when they differ in nothing but the
  order of their properties.
\<close>

section \<open>Property order\<close>

text \<open>
  A new object lists its array-index properties first, by number, and then the others in the order of
  their insertion.
\<close>

definition index_value :: "string \<Rightarrow> nat" where
  "index_value k = read_digits 0 k"

definition index_key :: "string \<Rightarrow> bool" where
  "index_key k \<longleftrightarrow>
     k \<noteq> [] \<and> list_all is_digit k \<and> (hd k = CHR ''0'' \<longrightarrow> length k = 1) \<and> index_value k \<le> 4294967294"

definition property_order :: "(string \<times> 'v) list \<Rightarrow> (string \<times> 'v) list" where
  "property_order kvs =
     sort_key (\<lambda>kv. index_value (fst kv)) (filter (\<lambda>kv. index_key (fst kv)) kvs) @
     filter (\<lambda>kv. \<not> index_key (fst kv)) kvs"

lemma filter_sort_key:
  assumes "\<And>x. x \<in> set xs \<Longrightarrow> Q x \<Longrightarrow> f x = c"
  shows "filter Q (sort_key f xs) = filter Q xs"
proof -
  have "filter Q (sort_key f xs) = filter Q (filter (\<lambda>x. f x = c) (sort_key f xs))"
    using assms by (auto simp: filter_filter intro!: filter_cong)
  also have "\<dots> = filter Q xs"
    using assms by (auto simp: sort_key_stable filter_filter intro!: filter_cong)
  finally show ?thesis .
qed

lemma filter_property_order:
  "filter (\<lambda>kv. k = fst kv) (property_order kvs) = filter (\<lambda>kv. k = fst kv) kvs"
proof -
  have "filter (\<lambda>kv. k = fst kv) (sort_key (\<lambda>kv. index_value (fst kv)) xs) = filter (\<lambda>kv. k = fst kv) xs"
    for xs :: "(string \<times> 'a) list"
    by (rule filter_sort_key [where c = "index_value k"]) simp
  moreover have "filter (\<lambda>kv. k = fst kv) (filter (\<lambda>kv. index_key (fst kv)) kvs) =
      (if index_key k then filter (\<lambda>kv. k = fst kv) kvs else [])"
    "filter (\<lambda>kv. k = fst kv) (filter (\<lambda>kv. \<not> index_key (fst kv)) kvs) =
      (if index_key k then [] else filter (\<lambda>kv. k = fst kv) kvs)"
    by (auto simp: filter_empty_conv intro!: filter_cong)
  ultimately show ?thesis
    by (simp add: property_order_def del: filter_filter)
qed

lemma mset_property_order [simp]: "mset (property_order kvs) = mset kvs"
  by (simp add: property_order_def)

lemma set_property_order [simp]: "set (property_order kvs) = set kvs"
  by (metis mset_property_order set_mset_mset)

lemma sort_key_property_order: "sort_key fst (property_order kvs) = sort_key fst kvs"
proof (rule properties_for_sort_key)
  show "mset (sort_key fst kvs) = mset (property_order kvs)" by simp
  show "sorted (map fst (sort_key fst kvs))" by simp
  show "filter (\<lambda>x. fst k = fst x) (sort_key fst kvs) = filter (\<lambda>x. fst k = fst x) (property_order kvs)" for k
    by (simp add: filter_property_order filter_sort_key [where c = "fst k"])
qed

section \<open>Canonical values\<close>

text \<open>
  \<open>ordered\<close>, followed by the stringification and parsing of \<open>canonicalBytes\<close>: the text of a canonical
  value is read back as that value. Sorting the converted properties is sorting before the conversion,
  which does not touch the names; what cannot be converted throws a TypeError wherever it stands.
\<close>

fun canonical :: "jsv \<Rightarrow> jsv result"
  and canonical_items :: "jsv list \<Rightarrow> jsv list result"
  and canonical_fields :: "(string \<times> jsv) list \<Rightarrow> (string \<times> jsv) list result" where
  "canonical JUndef = Inl TypeErr"
| "canonical JNull = Inr JNull"
| "canonical (JBool b) = Inr (JBool b)"
| "canonical (JNum n) = (if is_safe_integer (JNum n) then Inr (JNum n) else Inl TypeErr)"
| "canonical (JStr s) = Inr (JStr s)"
| "canonical (JArr vs) = and_then (canonical_items vs) (\<lambda>ws. Inr (JArr ws))"
| "canonical (JObj kvs) =
     and_then (canonical_fields kvs) (\<lambda>ws. Inr (JObj (property_order (sort_key fst ws))))"
| "canonical_items [] = Inr []"
| "canonical_items (v # vs) =
     and_then (canonical v) (\<lambda>w. and_then (canonical_items vs) (\<lambda>ws. Inr (w # ws)))"
| "canonical_fields [] = Inr []"
| "canonical_fields ((k, v) # kvs) =
     and_then (canonical v) (\<lambda>w. and_then (canonical_fields kvs) (\<lambda>ws. Inr ((k, w) # ws)))"

definition canonicalBytes :: "platform \<Rightarrow> jsv \<Rightarrow> string result" where
  "canonicalBytes P v = and_then (canonical v) (\<lambda>w. Inr (utf8 (json P w)))"

definition native_digest :: "platform \<Rightarrow> string \<Rightarrow> string" where
  "native_digest P bytes = hex_text (sha256 P bytes)"

text \<open>The keys are joined before they are compared.\<close>

definition exactFields :: "jsv \<Rightarrow> string list \<Rightarrow> unit result" where
  "exactFields v expected =
     (if is_record v \<and> join ''|'' (sort (jkeys v)) = join ''|'' (sort expected) then Inr ()
      else reject ''Native schema fields rejected'')"

text \<open>The join makes the check ambiguous.\<close>

lemma exactFields_ambiguous: "exactFields (JObj [(''body|signature'', v)]) [''signature'', ''body''] = Inr ()"
  by (simp add: exactFields_def)

lemma canonical_items_iff:
  "canonical_items vs = Inr ws \<longleftrightarrow> list_all2 (\<lambda>v w. canonical v = Inr w) vs ws"
  by (induction vs arbitrary: ws) (auto simp: result_simps list_all2_Cons1)

lemma canonical_fields_iff:
  "canonical_fields kvs = Inr ws \<longleftrightarrow> list_all2 (\<lambda>(k, v) (k', w). k = k' \<and> canonical v = Inr w) kvs ws"
  by (induction kvs arbitrary: ws) (auto simp: result_simps list_all2_Cons1)

lemma canonical_failure:
  "canonical v = Inl e \<Longrightarrow> e = TypeErr"
  "canonical_items vs = Inl e \<Longrightarrow> e = TypeErr"
  "canonical_fields kvs = Inl e \<Longrightarrow> e = TypeErr"
  by (induction v and vs and kvs rule: canonical_canonical_items_canonical_fields.induct)
    (auto simp: result_simps split: if_splits)

text \<open>Converting the properties one by one commutes with reordering them.\<close>

lemma canonical_fields_error: "canonical_fields kvs = Inl e \<longleftrightarrow> e = TypeErr \<and> (\<exists>(k, v) \<in> set kvs. canonical v = Inl TypeErr)"
proof (induction kvs)
  case (Cons kv kvs)
  obtain k v where "kv = (k, v)" by fastforce
  with Cons show ?case
    by (cases "canonical v") (auto simp: result_simps dest: canonical_failure)
qed simp

lemma canonical_field_idem:
  "canonical v = Inr w \<Longrightarrow> canonical w = Inr w"
  "canonical_items vs = Inr ws \<Longrightarrow> canonical_items ws = Inr ws"
  "canonical_fields kvs = Inr us \<Longrightarrow> \<forall>(k, u) \<in> set us. canonical u = Inr u"
proof (induction v and vs and kvs arbitrary: w and ws and us
    rule: canonical_canonical_items_canonical_fields.induct)
  case (7 kvs)
  then obtain us where us: "canonical_fields kvs = Inr us"
    and w: "w = JObj (property_order (sort_key fst us))"
    by (auto simp: result_simps)
  let ?us = "property_order (sort_key fst us)"
  have "canonical_fields ?us = Inr ?us"
    using 7(1) [OF us] by (auto simp: canonical_fields_iff list_all2_same)
  then show ?case
    by (simp add: w sort_key_property_order sort_key_id_if_sorted)
qed (auto simp: result_simps split: if_splits)

lemma canonical_idem: "canonical v = Inr w \<Longrightarrow> canonical w = Inr w"
  by (rule canonical_field_idem)

section \<open>Values up to the order of properties\<close>

inductive same_value :: "jsv \<Rightarrow> jsv \<Rightarrow> bool" where
  refl: "same_value v v"
| trans: "same_value u v \<Longrightarrow> same_value v w \<Longrightarrow> same_value u w"
| array: "list_all2 same_value vs ws \<Longrightarrow> same_value (JArr vs) (JArr ws)"
| inside: "list_all2 (\<lambda>f g. fst f = fst g \<and> same_value (snd f) (snd g)) kvs kws \<Longrightarrow>
    same_value (JObj kvs) (JObj kws)"
| reorder: "mset kvs = mset kws \<Longrightarrow> distinct (map fst kvs) \<Longrightarrow> same_value (JObj kvs) (JObj kws)"

definition canonical_value :: "jsv \<Rightarrow> jsv" where
  "canonical_value v = (case canonical v of Inr w \<Rightarrow> w | Inl _ \<Rightarrow> JUndef)"

lemma canonical_items_map:
  "canonical_items vs =
     (if \<exists>v \<in> set vs. canonical v = Inl TypeErr then Inl TypeErr else Inr (map canonical_value vs))"
proof (induction vs)
  case (Cons v vs)
  then show ?case
    by (cases "canonical v") (auto simp: canonical_value_def dest: canonical_failure)
qed simp

lemma canonical_fields_map:
  "canonical_fields kvs =
     (if \<exists>kv \<in> set kvs. canonical (snd kv) = Inl TypeErr then Inl TypeErr
      else Inr (map (apsnd canonical_value) kvs))"
proof (induction kvs)
  case (Cons kv kvs)
  obtain k v where "kv = (k, v)" by fastforce
  with Cons show ?case
    by (cases "canonical v") (auto simp: canonical_value_def dest: canonical_failure)
qed simp

lemma same_value_canonical: "same_value v w \<Longrightarrow> canonical v = canonical w"
proof (induction rule: same_value.induct)
  case (array vs ws)
  then have "canonical_items vs = canonical_items ws"
    by (induction rule: list_all2_induct) simp_all
  then show ?case by simp
next
  case (inside kvs kws)
  then have "canonical_fields kvs = canonical_fields kws"
    by (induction rule: list_all2_induct) (auto split: prod.split)
  then show ?case by simp
next
  case (reorder kvs kws)
  then have sets: "set kvs = set kws" by (metis set_mset_mset)
  have "sort_key fst (map (apsnd canonical_value) kvs) = sort_key fst (map (apsnd canonical_value) kws)"
  proof (rule sort_key_inj_key_eq)
    show "mset (map (apsnd canonical_value) kvs) = mset (sort_key fst (map (apsnd canonical_value) kws))"
      using reorder by simp
    show "inj_on fst (set (map (apsnd canonical_value) kvs))"
      using reorder by (auto simp: distinct_map inj_on_def)
  qed simp
  then show ?case
    by (simp add: canonical_fields_map sets)
qed simp_all

text \<open>Objects have no two properties of one name, at any depth.\<close>

fun proper :: "jsv \<Rightarrow> bool" and proper_items :: "jsv list \<Rightarrow> bool"
  and proper_fields :: "(string \<times> jsv) list \<Rightarrow> bool" where
  "proper (JArr vs) = proper_items vs"
| "proper (JObj kvs) = (distinct (map fst kvs) \<and> proper_fields kvs)"
| "proper _ = True"
| "proper_items [] = True"
| "proper_items (v # vs) = (proper v \<and> proper_items vs)"
| "proper_fields [] = True"
| "proper_fields ((k, v) # kvs) = (proper v \<and> proper_fields kvs)"

lemma canonical_same_value:
  "canonical v = Inr w \<Longrightarrow> proper v \<Longrightarrow> same_value v w"
  "canonical_items vs = Inr ws \<Longrightarrow> proper_items vs \<Longrightarrow> list_all2 same_value vs ws"
  "canonical_fields kvs = Inr us \<Longrightarrow> proper_fields kvs \<Longrightarrow>
     list_all2 (\<lambda>f g. fst f = fst g \<and> same_value (snd f) (snd g)) kvs us"
proof (induction v and vs and kvs arbitrary: w and ws and us
    rule: canonical_canonical_items_canonical_fields.induct)
  case (7 kvs)
  then obtain us where us: "canonical_fields kvs = Inr us"
    and w: "w = JObj (property_order (sort_key fst us))"
    by (auto simp: result_simps)
  with 7 have inside: "list_all2 (\<lambda>f g. fst f = fst g \<and> same_value (snd f) (snd g)) kvs us" by simp
  then have "map fst kvs = map fst us"
    by (induction rule: list_all2_induct) simp_all
  with 7 have "distinct (map fst us)" by simp
  then have "same_value (JObj us) w"
    by (auto simp: w intro: same_value.reorder)
  with inside show ?case
    by (blast intro: same_value.inside same_value.trans)
qed (auto simp: result_simps intro: same_value.refl same_value.array split: if_splits)

lemma same_value_sym: "same_value v w \<Longrightarrow> same_value w v"
proof (induction rule: same_value.induct)
  case (array vs ws)
  then have "list_all2 same_value ws vs" by (auto simp: list_all2_conv_all_nth)
  then show ?case by (rule same_value.array)
next
  case (inside kvs kws)
  then have "list_all2 (\<lambda>f g. fst f = fst g \<and> same_value (snd f) (snd g)) kws kvs"
    by (auto simp: list_all2_conv_all_nth)
  then show ?case by (rule same_value.inside)
next
  case (reorder kvs kws)
  then have "distinct (map fst kws)" by (metis mset_eq_imp_distinct_iff mset_map)
  with reorder show ?case by (intro same_value.reorder) simp_all
qed (blast intro: same_value.intros)+

lemma canonical_iff_same:
  assumes v: "canonical v = Inr c" "proper v" and w: "canonical w = Inr d" "proper w"
  shows "c = d \<longleftrightarrow> same_value v w"
proof
  assume "c = d"
  with canonical_same_value(1) [OF v] same_value_sym [OF canonical_same_value(1) [OF w]]
  show "same_value v w" by (blast intro: same_value.trans)
next
  assume "same_value v w"
  with v w show "c = d" by (auto dest: same_value_canonical)
qed

section \<open>The text of a canonical value is unambiguous\<close>

lemma utf8_char_prefix_free:
  assumes eq: "utf8_char c @ r = utf8_char d @ r'"
  shows "c = d \<and> r = r'"
proof -
  have div: "code c div 64 < 4" "code d div 64 < 4"
    using code_less [of c] code_less [of d] by (simp_all add: less_mult_imp_div_less)
  have wide: False if "code a < 128" "code b div 64 < 4" "a = char_of (192 + code b div 64)" for a b :: char
  proof -
    from that have "code a = 192 + code b div 64" by simp
    with that(1) show False by simp
  qed
  consider "code c < 128" "code d < 128" | "code c < 128" "128 \<le> code d"
    | "128 \<le> code c" "code d < 128" | "128 \<le> code c" "128 \<le> code d" by linarith
  then show ?thesis
  proof cases
    case 2
    with eq have "c = char_of (192 + code d div 64)" by (simp add: utf8_char_def)
    with wide 2 div show ?thesis by blast
  next
    case 3
    with eq have "d = char_of (192 + code c div 64)" by (simp add: utf8_char_def)
    with wide 3 div show ?thesis by blast
  next
    case 4
    with eq div have "code c div 64 = code d div 64" "code c mod 64 = code d mod 64" and r: "r = r'"
      by (simp_all add: utf8_char_def)
    then have "code c = code d" by (metis div_mult_mod_eq)
    then show ?thesis using r by simp
  qed (use eq in \<open>simp add: utf8_char_def\<close>)
qed

lemma utf8_char_not_empty [simp]: "utf8_char c \<noteq> []"
  by (simp add: utf8_char_def)

lemma utf8_inj: "utf8 s = utf8 t \<Longrightarrow> s = t"
proof (induction s arbitrary: t)
  case Nil
  then show ?case by (cases t) (simp_all add: utf8_def)
next
  case (Cons c s)
  then obtain d t' where t: "t = d # t'" by (cases t) (simp_all add: utf8_def)
  with Cons.prems have "utf8_char c @ utf8 s = utf8_char d @ utf8 t'" by (simp add: utf8_def)
  from utf8_char_prefix_free [OF this] Cons.IH t show ?case by blast
qed

lemma hex_digit_inj: "m < 16 \<Longrightarrow> n < 16 \<Longrightarrow> hex_digit m = hex_digit n \<Longrightarrow> m = n"
  by (auto simp: hex_digit_def split: if_splits)

lemma escape_char_cases:
  obtains (pair) k where "escape_char c = [CHR 0x5C, k]"
      "c = (if k = CHR ''b'' then char_of (8::nat) else if k = CHR ''t'' then char_of (9::nat)
        else if k = CHR ''n'' then char_of (10::nat) else if k = CHR ''f'' then char_of (12::nat)
        else if k = CHR ''r'' then char_of (13::nat) else k)" "k \<noteq> CHR ''u''"
  | (hex) "escape_char c = [CHR 0x5C, CHR ''u'', CHR ''0'', CHR ''0'', hex_digit (code c div 16), hex_digit (code c mod 16)]"
      "code c < 32"
  | (plain) "escape_char c = [c]" "c \<noteq> CHR 0x22" "c \<noteq> CHR 0x5C"
proof -
  have of_code: "c = char_of n" if "code c = n" for n using that by auto
  show thesis
  proof (cases "c = CHR 0x22 \<or> c = CHR 0x5C \<or> code c \<in> {8, 9, 10, 12, 13}")
    case True
    then show thesis
      by (intro pair [of "escape_char c ! 1"]) (auto simp: escape_char_def dest: of_code)
  next
    case False
    then show thesis
      using hex plain by (cases "code c < 32") (auto simp: escape_char_def)
  qed
qed

lemma escape_char_prefix_free:
  assumes eq: "escape_char c @ r = escape_char d @ r'"
  shows "c = d \<and> r = r'"
proof (cases c rule: escape_char_cases)
  case (pair k)
  with eq show ?thesis
    by (cases d rule: escape_char_cases) auto
next
  case hex
  show ?thesis
  proof (cases d rule: escape_char_cases)
    case hex': hex
    with hex eq have "code c div 16 = code d div 16" "code c mod 16 = code d mod 16" and r: "r = r'"
      by (auto intro!: hex_digit_inj)
    then have "code c = code d" by (metis div_mult_mod_eq)
    then show ?thesis using r by simp
  qed (use hex eq in auto)
next
  case plain
  with eq show ?thesis
    by (cases d rule: escape_char_cases) auto
qed

lemma escape_char_start: "\<exists>x xs. escape_char c = x # xs \<and> x \<noteq> CHR 0x22"
  by (cases c rule: escape_char_cases) simp_all

lemma quote_unique:
  assumes "quote s @ r = quote t @ r'"
  shows "s = t \<and> r = r'"
proof -
  have "concat (map escape_char s) @ CHR 0x22 # r = concat (map escape_char t) @ CHR 0x22 # r' \<Longrightarrow> s = t \<and> r = r'"
  proof (induction s arbitrary: t)
    case Nil
    then show ?case using escape_char_start [of "hd t"] by (cases t) auto
  next
    case (Cons c s)
    then obtain d t' where t: "t = d # t'" using escape_char_start [of c] by (cases t) auto
    with Cons.prems have "escape_char c @ (concat (map escape_char s) @ CHR 0x22 # r) =
        escape_char d @ (concat (map escape_char t') @ CHR 0x22 # r')" by simp
    from escape_char_prefix_free [OF this] Cons.IH [of t'] t show ?case by simp
  qed
  with assms show ?thesis by (simp add: quote_def)
qed

text \<open>What may follow a value inside a text, and what no value starts with.\<close>

definition closes :: "string \<Rightarrow> bool" where
  "closes r \<longleftrightarrow> (case r of [] \<Rightarrow> True | c # _ \<Rightarrow> c \<in> {CHR '','', CHR '']'', CHR ''}''})"

lemma is_digit_digit_char: "d < 10 \<Longrightarrow> is_digit (digit_char d)"
  by (simp add: char_class_defs code_digit_char)

lemma nat_text_induct [case_names digit more]:
  assumes "\<And>n. n < 10 \<Longrightarrow> Q n [digit_char n]"
    and "\<And>n s. 10 \<le> n \<Longrightarrow> Q (n div 10) s \<Longrightarrow> Q n (s @ [digit_char (n mod 10)])"
  shows "Q n (nat_text n)"
proof (induction n rule: less_induct)
  case (less n)
  show ?case
  proof (cases "n < 10")
    case True
    with assms(1) show ?thesis by (simp add: nat_text.simps [of n])
  next
    case False
    with assms(2) less show ?thesis by (simp add: nat_text.simps [of n])
  qed
qed

lemma nat_text_digits: "list_all is_digit (nat_text n)" "nat_text n \<noteq> []"
  by (induction n rule: nat_text_induct) (simp_all add: is_digit_digit_char)

lemma read_nat_text: "read_digits 0 (nat_text n) = n"
  by (induction n rule: nat_text_induct) (simp_all add: read_digits_append code_digit_char)

lemma digits_before_close:
  assumes "list_all is_digit s" "list_all is_digit t" "s @ r = t @ r'" "closes r" "closes r'"
  shows "s = t \<and> r = r'"
proof -
  have stop: "takeWhile is_digit (u @ q) = u" if "list_all is_digit u" "closes q" for u q
    using that by (cases q) (auto simp: closes_def list_all_iff char_class_defs split: if_splits)
  from assms stop show ?thesis by (metis same_append_eq)
qed

lemma int_text_unique:
  assumes eq: "int_text m @ r = int_text n @ r'" and "closes r" "closes r'"
  shows "m = n \<and> r = r'"
proof -
  have digits: "nat a = nat b \<and> r = r'" if "nat_text (nat a) @ r = nat_text (nat b) @ r'" for a b :: int
    using digits_before_close [OF nat_text_digits(1) nat_text_digits(1) that assms(2,3)] read_nat_text by metis
  have minus: "hd (nat_text k) \<noteq> CHR ''-''" for k
    using nat_text_digits [of k] by (cases "nat_text k") (auto simp: char_class_defs)
  show ?thesis
  proof (cases "m < 0"; cases "n < 0")
    assume "m < 0" "n < 0"
    with eq digits [of "- m" "- n"] have "nat (- m) = nat (- n) \<and> r = r'" by (simp add: int_text_def)
    with \<open>m < 0\<close> \<open>n < 0\<close> show ?thesis by linarith
  next
    assume "m < 0" "\<not> n < 0"
    with eq minus [of "nat n"] nat_text_digits(2) [of "nat n"] show ?thesis
      by (cases "nat_text (nat n)") (simp_all add: int_text_def)
  next
    assume "\<not> m < 0" "n < 0"
    with eq minus [of "nat m"] nat_text_digits(2) [of "nat m"] show ?thesis
      by (cases "nat_text (nat m)") (simp_all add: int_text_def)
  next
    assume "\<not> m < 0" "\<not> n < 0"
    with eq digits [of m n] have "nat m = nat n \<and> r = r'" by (simp add: int_text_def)
    with \<open>\<not> m < 0\<close> \<open>\<not> n < 0\<close> show ?thesis by linarith
  qed
qed

lemma join_unique:
  assumes step: "\<And>x y r r'. x \<in> set xs \<Longrightarrow> y \<in> set ys \<Longrightarrow> f x @ r = f y @ r' \<Longrightarrow> closes r \<Longrightarrow>
      closes r' \<Longrightarrow> x = y \<and> r = r'"
    and start: "\<And>x. x \<in> set xs \<union> set ys \<Longrightarrow> f x \<noteq> [] \<and> hd (f x) \<noteq> e"
    and e: "e \<in> {CHR '']'', CHR ''}''}"
    and eq: "join '','' (map f xs) @ e # r = join '','' (map f ys) @ e # r'"
  shows "xs = ys \<and> r = r'"
  using step start eq
proof (induction xs arbitrary: ys)
  case Nil
  show ?case
  proof (cases ys)
    case (Cons y zs)
    then have "join '','' (map f ys) = f y @ (if zs = [] then [] else '','' @ join '','' (map f zs))"
      by (cases zs) simp_all
    with Nil(2) [of y] Nil(3) Cons show ?thesis by (cases "f y") auto
  qed (use Nil in simp)
next
  case (Cons x xs)
  have split: "join '','' (map f (z # zs)) @ e # q = f z @ (if zs = [] then e # q else CHR '','' # join '','' (map f zs) @ e # q)"
    for z zs q by (cases zs) simp_all
  show ?case
  proof (cases ys)
    case Nil
    with Cons.prems(2) [of x] Cons.prems(3) split [of x xs r] show ?thesis by (cases "f x") auto
  next
    case ys: (Cons y zs)
    let ?rest = "\<lambda>zs q. if zs = [] then e # q else CHR '','' # join '','' (map f zs) @ e # q"
    have "x = y \<and> ?rest xs r = ?rest zs r'"
    proof (rule Cons.prems(1))
      show "f x @ ?rest xs r = f y @ ?rest zs r'" using Cons.prems(3) split [of x xs r] split [of y zs r'] ys by simp
      show "closes (?rest xs r)" "closes (?rest zs r')" using e by (auto simp: closes_def)
    qed (simp_all add: ys)
    then have xy: "x = y" and rest: "?rest xs r = ?rest zs r'" by blast+
    have sep: "e \<noteq> CHR '',''" using e by auto
    show ?thesis
    proof (cases "xs = [] \<or> zs = []")
      case True
      with rest sep have "xs = [] \<and> zs = [] \<and> r = r'" by (simp split: if_splits)
      with xy ys show ?thesis by simp
    next
      case False
      with rest have tails: "join '','' (map f xs) @ e # r = join '','' (map f zs) @ e # r'" by simp
      have "xs = zs \<and> r = r'"
        by (rule Cons.IH [OF _ _ tails]; (rule Cons.prems(1) Cons.prems(2))?) (simp_all add: ys)
      with xy ys show ?thesis by simp
    qed
  qed
qed

text \<open>A canonical value is a fixed point of \<open>canonical\<close>; so are its parts.\<close>

lemma canonical_parts:
  "canonical (JArr vs) = Inr (JArr vs) \<Longrightarrow> v \<in> set vs \<Longrightarrow> canonical v = Inr v"
  "canonical (JObj kvs) = Inr (JObj kvs) \<Longrightarrow> (k, v) \<in> set kvs \<Longrightarrow> canonical v = Inr v"
proof -
  show "canonical (JArr vs) = Inr (JArr vs) \<Longrightarrow> v \<in> set vs \<Longrightarrow> canonical v = Inr v"
    by (auto simp: result_simps canonical_items_iff list_all2_same)
next
  assume "canonical (JObj kvs) = Inr (JObj kvs)" and kv: "(k, v) \<in> set kvs"
  then obtain us where us: "canonical_fields kvs = Inr us" and kvs: "kvs = property_order (sort_key fst us)"
    by (auto simp: result_simps)
  from kvs kv have "(k, v) \<in> set us" by (metis set_property_order set_sort)
  with canonical_field_idem(3) [OF us] show "canonical v = Inr v" by auto
qed

lemma canonical_not_undefined: "canonical v = Inr v \<Longrightarrow> v \<noteq> JUndef"
  by auto

definition field_text :: "platform \<Rightarrow> string \<times> jsv \<Rightarrow> string" where
  "field_text P kv = quote (fst kv) @ '':'' @ json P (snd kv)"

lemma json_items_canonical:
  "(\<And>v. v \<in> set vs \<Longrightarrow> v \<noteq> JUndef) \<Longrightarrow> json_items P vs = map (json P) vs"
  by (induction vs) auto

lemma json_fields_canonical:
  "\<forall>kv \<in> set kvs. snd kv \<noteq> JUndef \<Longrightarrow> json_fields P kvs = map (field_text P) kvs"
  by (induction kvs) (auto simp: field_text_def)

lemma json_number: "canonical (JNum n) = Inr (JNum n) \<Longrightarrow> \<exists>i. n = Fin (of_int i) \<and> json P (JNum n) = int_text i"
proof -
  assume "canonical (JNum n) = Inr (JNum n)"
  then have "is_safe_integer (JNum n)" by (simp split: if_splits)
  then obtain i where i: "JNum n = JInt i" "\<bar>i\<bar> \<le> max_safe" by (rule is_safe_integerE)
  then have "\<bar>of_int i :: rat\<bar> \<le> of_int max_safe" by linarith
  with i show ?thesis by (auto simp: rat_text_def)
qed

text \<open>The kind of a value shows in the first letter of its text.\<close>

fun kind :: "jsv \<Rightarrow> nat" where
  "kind JUndef = 0" | "kind JNull = 1" | "kind (JBool b) = (if b then 2 else 3)" | "kind (JNum _) = 4"
| "kind (JStr _) = 5" | "kind (JArr _) = 6" | "kind (JObj _) = 7"

fun start_ok :: "nat \<Rightarrow> char \<Rightarrow> bool" where
  "start_ok k c = (if k = 1 then c = CHR ''n'' else if k = 2 then c = CHR ''t'' else if k = 3 then c = CHR ''f''
     else if k = 4 then c = CHR ''-'' \<or> is_digit c else if k = 5 then c = CHR 0x22
     else if k = 6 then c = CHR ''['' else k = 7 \<and> c = CHR ''{'')"

lemma start_unique: "start_ok k c \<Longrightarrow> start_ok l c \<Longrightarrow> k = l"
  by (auto simp: char_class_defs split: if_splits)

lemma json_start:
  assumes "canonical v = Inr v"
  shows "\<exists>c s. json P v = c # s \<and> start_ok (kind v) c \<and> c \<notin> {CHR '']'', CHR ''}''}"
proof (cases v)
  case (JNum n)
  with json_number [of n P] assms obtain i where "json P v = int_text i" by auto
  moreover have "\<exists>c s. int_text i = c # s \<and> (c = CHR ''-'' \<or> is_digit c)"
    using nat_text_digits [of "nat i"] by (cases "nat_text (nat i)") (auto simp: int_text_def)
  ultimately show ?thesis using JNum by (auto simp: char_class_defs)
qed (use assms in \<open>auto simp: quote_def\<close>)

lemma same_kind:
  assumes "canonical v = Inr v" "canonical w = Inr w" "json P v @ r = json P w @ r'"
  shows "kind v = kind w"
proof -
  obtain c s where v: "json P v = c # s" "start_ok (kind v) c" using json_start [OF assms(1)] by blast
  obtain d t where w: "json P w = d # t" "start_ok (kind w) d" using json_start [OF assms(2)] by blast
  from v w assms(3) have "c = d" by simp
  with v w start_unique show ?thesis by blast
qed

lemma kind_elims:
  "kind w = 4 \<Longrightarrow> (\<And>m. w = JNum m \<Longrightarrow> thesis) \<Longrightarrow> thesis"
  "kind w = 5 \<Longrightarrow> (\<And>t. w = JStr t \<Longrightarrow> thesis) \<Longrightarrow> thesis"
  "kind w = 6 \<Longrightarrow> (\<And>ws. w = JArr ws \<Longrightarrow> thesis) \<Longrightarrow> thesis"
  "kind w = 7 \<Longrightarrow> (\<And>kws. w = JObj kws \<Longrightarrow> thesis) \<Longrightarrow> thesis"
  by (cases w; simp split: if_splits)+

lemma json_unique:
  assumes "canonical v = Inr v" "canonical w = Inr w" "json P v @ r = json P w @ r'" "closes r" "closes r'"
  shows "v = w \<and> r = r'"
  using assms
proof (induction v arbitrary: w r r')
    case JNull
    with same_kind [OF JNull(1-3)] show ?case by (cases w) (simp_all split: if_splits)
  next
    case (JBool b)
    with same_kind [OF JBool(1-3)] show ?case by (cases w) (simp_all split: if_splits)
  next
    case (JNum n)
    have w: "kind w = 4" using same_kind [OF JNum(1-3)] by simp
    then obtain m where w: "w = JNum m" by (rule kind_elims)
    from json_number [OF JNum(1), of P] obtain i where i: "n = Fin (of_int i)" "json P (JNum n) = int_text i" by blast
    from json_number [OF JNum(2) [unfolded w], of P] obtain j where j: "m = Fin (of_int j)" "json P (JNum m) = int_text j"
      by blast
    have "int_text i @ r = int_text j @ r'" using JNum(3) i(2) j(2) w by (simp del: json.simps)
    from int_text_unique [OF this JNum(4,5)] i(1) j(1) w show ?case by simp
  next
    case (JStr s)
    have "kind w = 5" using same_kind [OF JStr(1-3)] by simp
    then obtain t where "w = JStr t" by (rule kind_elims)
    with quote_unique [of s r t r'] JStr(3) show ?case by simp
  next
    case (JArr vs)
    have "kind w = 6" using same_kind [OF JArr.prems(1-3)] by simp
    then obtain ws where w: "w = JArr ws" by (rule kind_elims)
    note parts = canonical_parts(1) [OF JArr.prems(1)] canonical_parts(1) [OF JArr.prems(2) [unfolded w]]
    have "json_items P vs = map (json P) vs" "json_items P ws = map (json P) ws"
      using parts canonical_not_undefined by (blast intro: json_items_canonical)+
    with JArr.prems(3) w have "join '','' (map (json P) vs) @ CHR '']'' # r = join '','' (map (json P) ws) @ CHR '']'' # r'"
      by simp
    moreover have "json P x \<noteq> [] \<and> hd (json P x) \<noteq> CHR '']''" if "x \<in> set vs \<union> set ws" for x
    proof -
      have "canonical x = Inr x" using parts that by blast
      from json_start [OF this, of P] show ?thesis by (elim exE conjE) simp
    qed
    moreover have "x = y \<and> q = q'" if "x \<in> set vs" "y \<in> set ws" "json P x @ q = json P y @ q'"
      "closes q" "closes q'" for x y q q'
      using JArr.IH [OF that(1) parts(1) [OF that(1)] parts(2) [OF that(2)] that(3-5)] .
    ultimately have "vs = ws \<and> r = r'"
      using join_unique [where f = "json P" and e = "CHR '']''"] by blast
    then show ?case by (simp add: w)
  next
    case (JObj kvs)
    have "kind w = 7" using same_kind [OF JObj.prems(1-3)] by simp
    then obtain kws where w: "w = JObj kws" by (rule kind_elims)
    note parts = canonical_parts(2) [OF JObj.prems(1)] canonical_parts(2) [OF JObj.prems(2) [unfolded w]]
    have "json_fields P kvs = map (field_text P) kvs" "json_fields P kws = map (field_text P) kws"
      using parts canonical_not_undefined by (metis json_fields_canonical prod.collapse)+
    with JObj.prems(3) w have texts: "join '','' (map (field_text P) kvs) @ CHR ''}'' # r =
        join '','' (map (field_text P) kws) @ CHR ''}'' # r'"
      by simp
    have step: "x = y \<and> q = q'"
      if x: "x \<in> set kvs" and y: "y \<in> set kws" and eq: "field_text P x @ q = field_text P y @ q'"
        and q: "closes q" "closes q'" for x y q q'
    proof -
      from eq have "quote (fst x) @ ('':'' @ json P (snd x) @ q) = quote (fst y) @ ('':'' @ json P (snd y) @ q')"
        by (simp add: field_text_def)
      from quote_unique [OF this] have fst: "fst x = fst y" and snd: "json P (snd x) @ q = json P (snd y) @ q'"
        by auto
      have "canonical (snd x) = Inr (snd x)" "canonical (snd y) = Inr (snd y)"
        using parts x y by (metis prod.collapse)+
      from JObj.IH [OF x _ this snd q] have "snd x = snd y \<and> q = q'" by (simp add: snds.simps)
      with fst show ?thesis by (simp add: prod_eq_iff)
    qed
    have "kvs = kws \<and> r = r'"
      by (rule join_unique [OF step _ _ texts]) (simp_all add: field_text_def quote_def)
    then show ?case by (simp add: w)
qed simp

section \<open>Canonical bytes\<close>

lemma canonicalBytes_iff:
  "canonicalBytes P v = Inr b \<longleftrightarrow> (\<exists>c. canonical v = Inr c \<and> b = utf8 (json P c))"
  by (auto simp: canonicalBytes_def result_simps)

lemma canonicalBytes_unique:
  assumes "canonical v = Inr c" "canonical w = Inr d" "utf8 (json P c) = utf8 (json P d)"
  shows "c = d"
  using json_unique [of c d P "[]" "[]"] canonical_idem assms by (simp add: utf8_inj closes_def)

text \<open>
  C14: The bytes that the network signs and hashes are those of the value, whatever the order in which
  its properties were inserted at any depth, and of no other value; the form they stand for is its own
  canonical form.
\<close>

theorem canonical_bytes_characterize:
  assumes "canonicalBytes P v = Inr a" and "canonicalBytes P w = Inr b" and "proper v" and "proper w"
  shows "(a = b \<longleftrightarrow> same_value v w) \<and>
    (\<exists>c. canonical v = Inr c \<and> same_value v c \<and> canonicalBytes P c = Inr a)"
proof -
  from assms obtain c d where c: "canonical v = Inr c" "a = utf8 (json P c)"
    and d: "canonical w = Inr d" "b = utf8 (json P d)"
    by (auto simp: canonicalBytes_iff)
  have "a = b \<longleftrightarrow> c = d" using canonicalBytes_unique c d by blast
  also have "\<dots> \<longleftrightarrow> same_value v w" using canonical_iff_same c d assms by blast
  finally have "a = b \<longleftrightarrow> same_value v w" .
  moreover have "canonicalBytes P c = Inr a"
    using canonical_idem [OF c(1)] c(2) by (simp add: canonicalBytes_iff)
  ultimately show ?thesis using c canonical_same_value(1) assms(3) by blast
qed

section \<open>base64\<close>

text \<open>
  \<open>toString("base64")\<close> and \<open>Buffer.from(s, "base64")\<close>: the decoder takes both alphabets and skips
  every other character, the padding among them; a last single character gives no byte.
\<close>

definition b64_char :: "nat \<Rightarrow> char" where
  "b64_char n = (if n = 62 then CHR ''+'' else if n = 63 then CHR ''/'' else b64url_char n)"

fun base64 :: "string \<Rightarrow> string" where
  "base64 (a # b # c # bs) =
     [b64_char (code a div 4), b64_char (code a mod 4 * 16 + code b div 16),
      b64_char (code b mod 16 * 4 + code c div 64), b64_char (code c mod 64)] @ base64 bs"
| "base64 [a, b] =
     [b64_char (code a div 4), b64_char (code a mod 4 * 16 + code b div 16),
      b64_char (code b mod 16 * 4), CHR ''='']"
| "base64 [a] = [b64_char (code a div 4), b64_char (code a mod 4 * 16), CHR ''='', CHR ''='']"
| "base64 [] = []"

definition sextet :: "char \<Rightarrow> nat option" where
  "sextet c =
     (if between 65 90 c then Some (code c - 65) else if between 97 122 c then Some (code c - 71)
      else if between 48 57 c then Some (code c + 4)
      else if c = CHR ''+'' \<or> c = CHR ''-'' then Some 62
      else if c = CHR ''/'' \<or> c = CHR ''_'' then Some 63 else None)"

fun bytes_of_sextets :: "nat list \<Rightarrow> string" where
  "bytes_of_sextets (a # b # c # d # xs) =
     [char_of (a * 4 + b div 16), char_of (b mod 16 * 16 + c div 4), char_of (c mod 4 * 64 + d)] @
     bytes_of_sextets xs"
| "bytes_of_sextets [a, b, c] = [char_of (a * 4 + b div 16), char_of (b mod 16 * 16 + c div 4)]"
| "bytes_of_sextets [a, b] = [char_of (a * 4 + b div 16)]"
| "bytes_of_sextets _ = []"

definition base64_bytes :: "string \<Rightarrow> string" where
  "base64_bytes s = bytes_of_sextets (List.map_filter sextet s)"

lemma sextet_b64_char: "n < 64 \<Longrightarrow> sextet (b64_char n) = Some n"
proof -
  assume "n < 64"
  then have "n \<in> set [0..<64]" by simp
  moreover have "list_all (\<lambda>n. sextet (b64_char n) = Some n) [0..<64]" by code_simp
  ultimately show ?thesis by (simp add: list_all_iff)
qed

lemma sextet_padding: "sextet CHR ''='' = None"
  by code_simp

lemma byte_parts: "code c div 16 < 16" "code c div 64 < 4"
  using code_less [of c] by (simp_all add: less_mult_imp_div_less)

lemma hex_text_inj: "hex_text a = hex_text b \<Longrightarrow> a = b"
proof (induction a arbitrary: b)
  case Nil
  then show ?case by (cases b) (simp_all add: hex_text_def)
next
  case (Cons x xs)
  then obtain y ys where b: "b = y # ys" by (cases b) (auto simp: hex_text_def)
  with Cons.prems have "hex_digit (code x div 16) = hex_digit (code y div 16)" "hex_digit (code x mod 16) = hex_digit (code y mod 16)"
    and rest: "hex_text xs = hex_text ys" by (simp_all add: hex_text_def)
  then have "code x div 16 = code y div 16" "code x mod 16 = code y mod 16"
    by (simp_all add: hex_digit_inj byte_parts)
  then have "code x = code y" by (metis div_mult_mod_eq)
  with Cons.IH [OF rest] b show ?case by simp
qed

lemma hex_digit_class: "d < 16 \<Longrightarrow> is_hexch (hex_digit d)"
proof -
  have "list_all (\<lambda>d. is_hexch (hex_digit d)) [0..<16]" by code_simp
  then show "d < 16 \<Longrightarrow> is_hexch (hex_digit d)" by (simp add: list_all_iff)
qed

lemma hex_text_class: "list_all is_hexch (hex_text bs)"
  by (induction bs) (simp_all add: hex_text_def hex_digit_class byte_parts)

lemma length_hex_text: "length (hex_text bs) = 2 * length bs"
  by (induction bs) (simp_all add: hex_text_def)

lemma base64_bytes_base64: "base64_bytes (base64 bs) = bs"
  by (induction bs rule: base64.induct)
    (simp_all add: base64_bytes_def List.map_filter_simps sextet_b64_char sextet_padding sextet_bounds
      code_less byte_parts)

lemma length_base64: "length (base64 bs) = 4 * ((length bs + 2) div 3)"
proof (induction bs rule: base64.induct)
  case (1 a b c bs)
  moreover have "(length bs + 2 + 3) div 3 = (length bs + 2) div 3 + 1" by simp
  ultimately show ?case by (simp add: algebra_simps)
qed simp_all

end
