(* ===== verification/JsonText.thy ===== *)
theory JsonText
  imports CanonicalBytes
begin

text \<open>
  The JSON of the files a component keeps: the indented text of \<open>JSON.stringify(v, null, 2)\<close>, and
  \<open>JSON.parse\<close>. A text is read back as the value it was printed from, less what JSON does not keep.
\<close>

section \<open>Indented text\<close>

definition newline :: "nat \<Rightarrow> string" where
  "newline n = CHR 0x0A # replicate (2 * n) CHR '' ''"

fun pretty :: "platform \<Rightarrow> nat \<Rightarrow> jsv \<Rightarrow> string"
  and pretty_items :: "platform \<Rightarrow> nat \<Rightarrow> jsv list \<Rightarrow> string list"
  and pretty_fields :: "platform \<Rightarrow> nat \<Rightarrow> (string \<times> jsv) list \<Rightarrow> string list" where
  "pretty P n (JArr vs) =
     (if vs = [] then ''[]''
      else ''['' @ newline (Suc n) @ join (CHR '','' # newline (Suc n)) (pretty_items P (Suc n) vs) @ newline n @ '']'')"
| "pretty P n (JObj kvs) =
     (let ts = pretty_fields P (Suc n) kvs
      in if ts = [] then ''{}''
         else ''{'' @ newline (Suc n) @ join (CHR '','' # newline (Suc n)) ts @ newline n @ ''}'')"
| "pretty P n v = json P v"
| "pretty_items P n [] = []"
| "pretty_items P n (v # vs) = (if v = JUndef then ''null'' else pretty P n v) # pretty_items P n vs"
| "pretty_fields P n [] = []"
| "pretty_fields P n ((k, v) # kvs) =
     (if v = JUndef then pretty_fields P n kvs
      else (quote k @ '': '' @ pretty P n v) # pretty_fields P n kvs)"

text \<open>What the text keeps: undefined properties are left out, undefined items and the numbers that are
  not finite become null.\<close>

fun json_value :: "jsv \<Rightarrow> jsv" and json_values :: "jsv list \<Rightarrow> jsv list"
  and json_members :: "(string \<times> jsv) list \<Rightarrow> (string \<times> jsv) list" where
  "json_value (JNum n) = (case n of Fin q \<Rightarrow> JNum n | _ \<Rightarrow> JNull)"
| "json_value (JArr vs) = JArr (json_values vs)"
| "json_value (JObj kvs) = JObj (json_members kvs)"
| "json_value v = v"
| "json_values [] = []"
| "json_values (v # vs) = (if v = JUndef then JNull else json_value v) # json_values vs"
| "json_members [] = []"
| "json_members ((k, v) # kvs) = (if v = JUndef then json_members kvs else (k, json_value v) # json_members kvs)"

section \<open>Reading\<close>

text \<open>
  A reading ends with a value and the text after it, or with a syntax error, or at a literal whose value
  the model leaves to the engine: numbers that are not safe integers, and escapes of code units from
  256 on.
\<close>

datatype 'a reading = Read 'a string | Syntax | Elsewhere

fun then_read :: "'a reading \<Rightarrow> ('a \<Rightarrow> string \<Rightarrow> 'b reading) \<Rightarrow> 'b reading" where
  "then_read (Read x r) f = f x r"
| "then_read Syntax f = Syntax"
| "then_read Elsewhere f = Elsewhere"

definition is_blank :: "char \<Rightarrow> bool" where
  "is_blank c \<longleftrightarrow> c = CHR '' '' \<or> c = CHR 0x0A \<or> c = CHR 0x0D \<or> c = CHR 0x09"

definition skip :: "string \<Rightarrow> string" where
  "skip s = dropWhile is_blank s"

definition next_is :: "char \<Rightarrow> string \<Rightarrow> bool" where
  "next_is c s \<longleftrightarrow> (case s of [] \<Rightarrow> False | d # _ \<Rightarrow> d = c)"

definition hex_value :: "char \<Rightarrow> nat option" where
  "hex_value c =
     (if is_digit c then Some (code c - 48) else if between 97 102 c then Some (code c - 87)
      else if between 65 70 c then Some (code c - 55) else None)"

definition escaped :: "char \<Rightarrow> char option" where
  "escaped e = map_of
     [(CHR 0x22, CHR 0x22), (CHR 0x5C, CHR 0x5C), (CHR ''/'', CHR ''/''), (CHR ''b'', char_of (8::nat)),
      (CHR ''f'', char_of (12::nat)), (CHR ''n'', char_of (10::nat)), (CHR ''r'', char_of (13::nat)),
      (CHR ''t'', char_of (9::nat))] e"

definition code_unit :: "string \<Rightarrow> char reading" where
  "code_unit s =
     (if length s < 4 then Syntax
      else case (hex_value (s ! 0), hex_value (s ! 1), hex_value (s ! 2), hex_value (s ! 3)) of
        (Some a, Some b, Some c, Some d) \<Rightarrow>
          if a = 0 \<and> b = 0 then Read (char_of (16 * c + d)) (drop 4 s) else Elsewhere
      | _ \<Rightarrow> Syntax)"

definition read_escape :: "string \<Rightarrow> char reading" where
  "read_escape s =
     (case s of [] \<Rightarrow> Syntax
      | e # r \<Rightarrow> if e = CHR ''u'' then code_unit r
                 else (case escaped e of None \<Rightarrow> Syntax | Some c \<Rightarrow> Read c r))"

lemma read_escape_shorter: "read_escape s = Read c r \<Longrightarrow> length r < length s"
  by (auto simp: read_escape_def code_unit_def split: list.splits if_splits option.splits)

text \<open>The rest of a string literal, behind its opening quote.\<close>

function read_string :: "string \<Rightarrow> string reading" where
  "read_string s =
     (case s of [] \<Rightarrow> Syntax
      | c # r \<Rightarrow>
          if c = CHR 0x22 then Read [] r
          else if code c < 32 then Syntax
          else if c = CHR 0x5C then
            (case read_escape r of
               Read d r' \<Rightarrow> then_read (read_string r') (\<lambda>t r''. Read (d # t) r'')
             | Syntax \<Rightarrow> Syntax | Elsewhere \<Rightarrow> Elsewhere)
          else then_read (read_string r) (\<lambda>t r''. Read (c # t) r''))"
  by auto
termination
  by (relation "measure length") (auto dest: read_escape_shorter)

declare read_string.simps [simp del]

definition read_number :: "string \<Rightarrow> jsv reading" where
  "read_number s =
     (let r = (if next_is CHR ''-'' s then drop 1 s else s);
          ds = takeWhile is_digit r; rest = dropWhile is_digit r; n = int (read_digits 0 ds)
      in if ds = [] \<or> (hd ds = CHR ''0'' \<and> length ds \<noteq> 1) then Syntax
         else if next_is CHR ''.'' rest \<or> next_is CHR ''e'' rest \<or> next_is CHR ''E'' rest \<or> max_safe < n then Elsewhere
         else Read (JInt (if next_is CHR ''-'' s then - n else n)) rest)"

definition read_word :: "string \<Rightarrow> jsv \<Rightarrow> string \<Rightarrow> jsv reading" where
  "read_word word v s = (if take (length word) s = word then Read v (drop (length word) s) else Syntax)"

text \<open>An object that a text repeats a key in has the last value, at the place of the first.\<close>

definition object_of :: "(string \<times> jsv) list \<Rightarrow> jsv" where
  "object_of kvs = JObj (property_order (fold (\<lambda>(k, v). AList.update k v) kvs []))"

text \<open>Values, and the items and members behind an opening bracket. The first argument bounds the
  recursion; a bound above twice the length of the text is enough (\<open>read_value_fuel\<close>).\<close>

fun read_value :: "nat \<Rightarrow> string \<Rightarrow> jsv reading"
  and read_items :: "nat \<Rightarrow> string \<Rightarrow> jsv list reading"
  and read_members :: "nat \<Rightarrow> string \<Rightarrow> (string \<times> jsv) list reading" where
  "read_value 0 s = Syntax"
| "read_value (Suc n) s =
     (case skip s of [] \<Rightarrow> Syntax
      | c # r \<Rightarrow>
          if c = CHR 0x22 then then_read (read_string r) (\<lambda>t r'. Read (JStr t) r')
          else if c = CHR ''['' then
            (if next_is CHR '']'' (skip r) then Read (JArr []) (drop 1 (skip r))
             else then_read (read_items n r) (\<lambda>vs r'. Read (JArr vs) r'))
          else if c = CHR ''{'' then
            (if next_is CHR ''}'' (skip r) then Read (JObj []) (drop 1 (skip r))
             else then_read (read_members n r) (\<lambda>kvs r'. Read (object_of kvs) r'))
          else if c = CHR ''n'' then read_word ''null'' JNull (c # r)
          else if c = CHR ''t'' then read_word ''true'' (JBool True) (c # r)
          else if c = CHR ''f'' then read_word ''false'' (JBool False) (c # r)
          else read_number (c # r))"
| "read_items 0 s = Syntax"
| "read_items (Suc n) s =
     then_read (read_value n s) (\<lambda>v r.
       if next_is CHR '','' (skip r)
       then then_read (read_items n (drop 1 (skip r))) (\<lambda>vs r'. Read (v # vs) r')
       else if next_is CHR '']'' (skip r) then Read [v] (drop 1 (skip r)) else Syntax)"
| "read_members 0 s = Syntax"
| "read_members (Suc n) s =
     (if \<not> next_is CHR 0x22 (skip s) then Syntax
      else then_read (read_string (drop 1 (skip s))) (\<lambda>k r.
        if \<not> next_is CHR '':'' (skip r) then Syntax
        else then_read (read_value n (drop 1 (skip r))) (\<lambda>v r'.
          if next_is CHR '','' (skip r')
          then then_read (read_members n (drop 1 (skip r'))) (\<lambda>kvs r''. Read ((k, v) # kvs) r'')
          else if next_is CHR ''}'' (skip r') then Read [(k, v)] (drop 1 (skip r')) else Syntax)))"

text \<open>\<open>JSON.parse\<close>: a syntax error is none; \<open>engine\<close> reads the texts with a literal of its own.\<close>

definition json_parse :: "(string \<Rightarrow> jsv option) \<Rightarrow> string \<Rightarrow> jsv option" where
  "json_parse engine text =
     (case read_value (Suc (2 * length text)) text of
        Read v r \<Rightarrow> if skip r = [] then Some v else None
      | Syntax \<Rightarrow> None
      | Elsewhere \<Rightarrow> engine text)"

section \<open>The bound is enough\<close>

lemma length_skip: "length (skip s) \<le> length s"
  by (simp add: skip_def length_dropWhile_le)

lemma next_is_Cons [simp]: "next_is c (d # s) \<longleftrightarrow> d = c" "\<not> next_is c []"
  by (auto simp: next_is_def)

lemma next_is_drop: "next_is c s \<Longrightarrow> length (drop 1 s) < length s"
  by (cases s) auto

lemma then_read_Read: "then_read p f = Read y r \<longleftrightarrow> (\<exists>x r'. p = Read x r' \<and> f x r' = Read y r)"
  by (cases p) auto

lemma read_string_shorter: "read_string s = Read t r \<Longrightarrow> length r < length s"
proof (induction s arbitrary: t r rule: read_string.induct)
  case (1 s)
  show ?case
  proof (cases s)
    case (Cons c s')
    with 1 show ?thesis
      unfolding read_string.simps [of s]
      by (auto simp: then_read_Read split: if_splits reading.splits dest!: read_escape_shorter)
         (fastforce simp: read_string.simps [of s])+
  qed (use 1 in \<open>simp add: read_string.simps\<close>)
qed

lemma read_number_shorter:
  assumes "read_number s = Read v r"
  shows "length r < length s"
proof -
  let ?t = "if next_is CHR ''-'' s then drop 1 s else s"
  have "length (dropWhile is_digit t) < length t" if "takeWhile is_digit t \<noteq> []" for t
    using that by (cases t) (auto simp: le_imp_less_Suc length_dropWhile_le split: if_splits)
  moreover have "takeWhile is_digit ?t \<noteq> []" "r = dropWhile is_digit ?t"
    using assms by (simp_all add: read_number_def Let_def split: if_splits)
  ultimately have "length r < length ?t" by metis
  then show ?thesis by (simp split: if_splits)
qed

lemma read_word_shorter: "word \<noteq> [] \<Longrightarrow> read_word word w s = Read v r \<Longrightarrow> length r < length s"
  by (cases s) (auto simp: read_word_def split: if_splits)

lemma drop_skip_shorter: "next_is c (skip s) \<Longrightarrow> length (drop 1 (skip s)) < length s"
  using next_is_drop [of c "skip s"] length_skip [of s] by simp

lemma read_value_shorter:
  "read_value n s = Read v r \<Longrightarrow> length r < length s"
  "read_items n s = Read vs r \<Longrightarrow> length r < length s"
  "read_members n s = Read kvs r \<Longrightarrow> length r < length s"
proof (induction n arbitrary: s v r vs kvs)
  case (Suc n)
  {
    case 1
    obtain c t where s: "skip s = c # t" using 1 by (cases "skip s") auto
    then have t: "length t < length s" using length_skip [of s] by simp
    show ?case
      using 1 s t Suc.IH(2) [of t] Suc.IH(3) [of t] drop_skip_shorter [of _ t]
      by (fastforce simp: then_read_Read simp del: read_value.simps(1) split: if_splits
        dest: read_string_shorter read_number_shorter read_word_shorter [rotated])
  next
    case 2
    then show ?case
      by (fastforce simp: then_read_Read split: if_splits dest!: Suc.IH(1,2) drop_skip_shorter)
  next
    case 3
    then show ?case
      by (fastforce simp: then_read_Read split: if_splits dest!: Suc.IH(1,3) drop_skip_shorter read_string_shorter)
  }
qed simp_all

lemma then_read_cong:
  "p = q \<Longrightarrow> (\<And>x r. q = Read x r \<Longrightarrow> f x r = g x r) \<Longrightarrow> then_read p f = then_read q g"
  by (cases q) auto

lemma read_value_fuel:
  "2 * length s < n \<Longrightarrow> 2 * length s < m \<Longrightarrow> read_value n s = read_value m s"
  "Suc (2 * length s) < n \<Longrightarrow> Suc (2 * length s) < m \<Longrightarrow> read_items n s = read_items m s"
  "Suc (2 * length s) < n \<Longrightarrow> Suc (2 * length s) < m \<Longrightarrow> read_members n s = read_members m s"
proof (induction n arbitrary: s m)
  case (Suc n)
  {
    case 1
    then obtain m' where m: "m = Suc m'" "2 * length s \<le> n" "2 * length s \<le> m'" by (cases m) auto
    show ?case
    proof (cases "skip s")
      case (Cons c t)
      then have "length t < length s" using length_skip [of s] by simp
      with m Suc.IH(2,3) [of t m'] have "read_items n t = read_items m' t" "read_members n t = read_members m' t"
        by simp_all
      with Cons m(1) show ?thesis by simp
    qed (simp add: m)
  next
    case 2
    then obtain m' where m: "m = Suc m'" "2 * length s < n" "2 * length s < m'" by (cases m) auto
    have rest: "read_items n (drop 1 (skip r)) = read_items m' (drop 1 (skip r))"
      if "read_value m' s = Read v r" "next_is CHR '','' (skip r)" for v r
      using m(2,3) read_value_shorter(1) [OF that(1)] drop_skip_shorter [OF that(2)] by (intro Suc.IH(2)) simp_all
    show ?case
      unfolding m(1) read_items.simps using m(2,3) rest
      by (intro then_read_cong Suc.IH(1)) (auto intro!: then_read_cong)
  next
    case 3
    then obtain m' where m: "m = Suc m'" "2 * length s < n" "2 * length s < m'" by (cases m) auto
    have shorter: "length (drop 1 (skip r)) < length s"
      if "next_is CHR 0x22 (skip s)" "read_string (drop 1 (skip s)) = Read k r" "next_is CHR '':'' (skip r)" for k r
      using read_string_shorter [OF that(2)] drop_skip_shorter [OF that(1)] drop_skip_shorter [OF that(3)] by simp
    have member: "read_value n (drop 1 (skip r)) = read_value m' (drop 1 (skip r))"
      if "next_is CHR 0x22 (skip s)" "read_string (drop 1 (skip s)) = Read k r" "next_is CHR '':'' (skip r)" for k r
      using m(2,3) shorter [OF that] by (intro Suc.IH(1)) simp_all
    have rest: "read_members n (drop 1 (skip r')) = read_members m' (drop 1 (skip r'))"
      if "next_is CHR 0x22 (skip s)" "read_string (drop 1 (skip s)) = Read k r" "next_is CHR '':'' (skip r)"
        "read_value m' (drop 1 (skip r)) = Read v r'" "next_is CHR '','' (skip r')" for k r v r'
      using m(2,3) shorter [OF that(1-3)] read_value_shorter(1) [OF that(4)] drop_skip_shorter [OF that(5)]
      by (intro Suc.IH(3)) simp_all
    show ?case
      unfolding m(1) read_members.simps
      by (intro if_cong then_read_cong) (simp_all only: not_not member rest simp_thms)
  }
qed simp_all

section \<open>What was printed is read back\<close>

text \<open>The values whose text is read back: each object lists its properties the way the language does, and
  the finite numbers are safe integers, unless the flag admits others.\<close>

fun shaped :: "bool \<Rightarrow> jsv \<Rightarrow> bool" and shaped_items :: "bool \<Rightarrow> jsv list \<Rightarrow> bool"
  and shaped_fields :: "bool \<Rightarrow> (string \<times> jsv) list \<Rightarrow> bool" where
  "shaped b (JNum n) = (case n of Fin q \<Rightarrow> b \<or> is_safe_integer (JNum n) | _ \<Rightarrow> True)"
| "shaped b (JArr vs) = shaped_items b vs"
| "shaped b (JObj kvs) = (distinct (map fst kvs) \<and> property_order kvs = kvs \<and> shaped_fields b kvs)"
| "shaped b _ = True"
| "shaped_items b [] = True"
| "shaped_items b (v # vs) = (shaped b v \<and> shaped_items b vs)"
| "shaped_fields b [] = True"
| "shaped_fields b ((k, v) # kvs) = (shaped b v \<and> shaped_fields b kvs)"

abbreviation printable :: "jsv \<Rightarrow> bool" where
  "printable \<equiv> shaped False"

text \<open>The text of a number that is not a safe integer: digits with a fraction or an exponent behind them,
  or more of them than a safe integer has.\<close>

definition foreign_number :: "string \<Rightarrow> bool" where
  "foreign_number t \<longleftrightarrow> (\<exists>sign ds rest. t = sign @ ds @ rest \<and> sign \<in> {[], ''-''} \<and> ds \<noteq> [] \<and> list_all is_digit ds \<and>
     (hd ds = CHR ''0'' \<longrightarrow> length ds = 1) \<and>
     (case rest of [] \<Rightarrow> max_safe < int (read_digits 0 ds) | c # _ \<Rightarrow> c \<in> {CHR ''.'', CHR ''e''}))"

definition number_texts :: "platform \<Rightarrow> bool" where
  "number_texts P \<longleftrightarrow> (\<forall>q. \<not> is_safe_integer (JNum (Fin q)) \<longrightarrow> foreign_number (num_other P q))"

text \<open>A reading that gives a value, or is left to the engine where the flag admits it.\<close>

definition reads :: "bool \<Rightarrow> 'a reading \<Rightarrow> 'a \<Rightarrow> string \<Rightarrow> bool" where
  "reads b p x r \<longleftrightarrow> p = Read x r \<or> (b \<and> p = Elsewhere)"

lemma reads_Read [simp, intro]: "reads b (Read x r) x r"
  by (simp add: reads_def)

lemma reads_then: "reads b p x r \<Longrightarrow> reads b (f x r) y r' \<Longrightarrow> reads b (then_read p f) y r'"
  by (auto simp: reads_def)

lemma skip_Nil [simp]: "skip [] = []"
  by (simp add: skip_def)

lemma skip_Cons: "skip (c # s) = (if is_blank c then skip s else c # s)"
  by (simp add: skip_def)

lemma skip_newline [simp]: "skip (newline n @ s) = skip s"
proof -
  have "skip (replicate m CHR '' '' @ s) = skip s" for m
    by (induction m) (simp_all add: skip_Cons is_blank_def)
  then show ?thesis by (simp add: newline_def skip_Cons is_blank_def)
qed

lemma hex_value_digit: "d < 16 \<Longrightarrow> hex_value (hex_digit d) = Some d"
  by (cases "d < 10") (simp_all add: hex_value_def hex_digit_def char_class_defs)

lemma code_unit_byte:
  "m < 16 \<Longrightarrow> n < 16 \<Longrightarrow>
     code_unit (CHR ''0'' # CHR ''0'' # hex_digit m # hex_digit n # s) = Read (char_of (16 * m + n)) s"
proof -
  have "hex_value CHR ''0'' = Some 0" by (simp add: hex_value_def char_class_defs)
  then show "m < 16 \<Longrightarrow> n < 16 \<Longrightarrow>
     code_unit (CHR ''0'' # CHR ''0'' # hex_digit m # hex_digit n # s) = Read (char_of (16 * m + n)) s"
    by (simp add: code_unit_def hex_value_digit eval_nat_numeral)
qed

lemma read_escaped: "read_string (escape_char c @ s) = then_read (read_string s) (\<lambda>t r. Read (c # t) r)"
proof (cases "c = CHR 0x22 \<or> c = CHR 0x5C \<or> code c \<in> {8, 9, 10, 12, 13}")
  case True
  moreover have "code c = k \<Longrightarrow> c = char_of k" for k by auto
  ultimately have "c \<in> {CHR 0x22, CHR 0x5C, char_of (8::nat), char_of (9::nat), char_of (10::nat), char_of (12::nat),
      char_of (13::nat)}" by blast
  then show ?thesis
    by (auto simp: escape_char_def read_string.simps [of "CHR 0x5C # _"] read_escape_def escaped_def)
next
  case False
  show ?thesis
  proof (cases "code c < 32")
    case True
    then have "code c div 16 < 16" "code c mod 16 < 16" "16 * (code c div 16) + code c mod 16 = code c" by simp_all
    with False True show ?thesis
      by (simp add: escape_char_def read_string.simps [of "CHR 0x5C # _"] read_escape_def code_unit_byte)
  next
    case False': False
    with False show ?thesis
      by (simp add: escape_char_def read_string.simps [of "c # _"])
  qed
qed

lemma read_quoted: "read_string (concat (map escape_char s) @ CHR 0x22 # r) = Read s r"
  by (induction s) (simp_all add: read_escaped read_string.simps [of "CHR 0x22 # _"])

text \<open>What may follow a printed value.\<close>

definition ends_value :: "string \<Rightarrow> bool" where
  "ends_value r \<longleftrightarrow> (case r of [] \<Rightarrow> True | c # _ \<Rightarrow> c = CHR '','' \<or> c = CHR ''}'' \<or> c = CHR 0x0A)"

lemma ends_value_simps [simp]: "ends_value []" "ends_value (CHR '','' # r)" "ends_value (newline n @ r)"
  "ends_value (CHR ''}'' # r)"
  by (simp_all add: ends_value_def newline_def)

lemma digits_then: "list_all is_digit ds \<Longrightarrow> ends_value r \<Longrightarrow> takeWhile is_digit (ds @ r) = ds \<and> dropWhile is_digit (ds @ r) = r"
  by (cases r) (auto simp: ends_value_def list_all_iff char_class_defs)

lemma nat_text_lead: "hd (nat_text n) = CHR ''0'' \<Longrightarrow> n = 0"
proof -
  have zero: "d < 10 \<Longrightarrow> digit_char d = CHR ''0'' \<Longrightarrow> d = 0" for d
    using code_digit_char [of d] by simp
  show "hd (nat_text n) = CHR ''0'' \<Longrightarrow> n = 0"
  proof (induction n rule: less_induct)
    case (less n)
    show ?case
    proof (cases "n < 10")
      case False
      then have "n div 10 < n" "n div 10 \<noteq> 0" by simp_all
      with less.IH [of "n div 10"] less.prems False show ?thesis
        using nat_text_digits(2) [of "n div 10"] by (simp add: nat_text.simps [of n])
    qed (use less.prems zero in \<open>simp add: nat_text.simps [of n]\<close>)
  qed
qed

lemma read_printed_nat:
  assumes "int n \<le> max_safe" "ends_value r"
  shows "read_number (nat_text n @ r) = Read (JInt (int n)) r"
    and "read_number (CHR ''-'' # nat_text n @ r) = Read (JInt (- int n)) r"
proof -
  note ds = digits_then [OF nat_text_digits(1) assms(2), of n]
  obtain c s where c: "nat_text n = c # s" using nat_text_digits(2) [of n] by (cases "nat_text n") auto
  then have "c \<noteq> CHR ''-''" using nat_text_digits(1) [of n] by (auto simp: char_class_defs)
  moreover have "nat_text n = [CHR ''0''] \<or> c \<noteq> CHR ''0''"
    using nat_text_lead [of n] c by (auto simp: nat_text.simps [of 0])
  moreover have "\<not> next_is CHR ''.'' r \<and> \<not> next_is CHR ''e'' r \<and> \<not> next_is CHR ''E'' r"
    using assms(2) by (cases r) (auto simp: ends_value_def)
  ultimately show "read_number (nat_text n @ r) = Read (JInt (int n)) r"
    "read_number (CHR ''-'' # nat_text n @ r) = Read (JInt (- int n)) r"
    using ds c assms(1) read_nat_text [of n] by (auto simp: read_number_def Let_def)
qed

lemma read_value_skip: "skip s = skip t \<Longrightarrow> read_value n s = read_value n t"
  by (cases n) simp_all

lemma quote_starts: "quote k = CHR 0x22 # concat (map escape_char k) @ [CHR 0x22]"
  by (simp add: quote_def)

lemma number_starts: "\<exists>c s. int_text i = c # s \<and> (c = CHR ''-'' \<or> is_digit c)"
  using nat_text_digits [of "nat i"] nat_text_digits [of "nat (- i)"]
  by (cases "nat_text (nat i)") (auto simp: int_text_def)

lemma foreign_number_read:
  assumes "foreign_number t" "ends_value r"
  shows "read_number (t @ r) = Elsewhere"
proof -
  obtain sign ds rest where t: "t = sign @ ds @ rest" and parts: "sign \<in> {[], ''-''}" "ds \<noteq> []" "list_all is_digit ds"
    "hd ds = CHR ''0'' \<longrightarrow> length ds = 1"
    "case rest of [] \<Rightarrow> max_safe < int (read_digits 0 ds) | c # _ \<Rightarrow> c \<in> {CHR ''.'', CHR ''e''}"
    using assms(1) unfolding foreign_number_def by blast
  obtain c cs where ds: "ds = c # cs" "is_digit c" using parts(2,3) by (cases ds) auto
  then have sign: "\<not> next_is CHR ''-'' (ds @ rest @ r)" by (auto simp: char_class_defs)
  have digits: "takeWhile is_digit (ds @ rest @ r) = ds \<and> dropWhile is_digit (ds @ rest @ r) = rest @ r"
  proof (cases rest)
    case Nil
    then show ?thesis using digits_then [OF parts(3) assms(2)] by simp
  next
    case (Cons d u)
    then have "\<not> is_digit d" using parts(5) by (auto simp: char_class_defs)
    with Cons parts(3) show ?thesis by (simp add: list_all_iff)
  qed
  have body: "\<not> (ds = [] \<or> (hd ds = CHR ''0'' \<and> length ds \<noteq> Suc 0))" using parts(2,4) by auto
  have stop: "next_is CHR ''.'' (rest @ r) \<or> next_is CHR ''e'' (rest @ r) \<or> next_is CHR ''E'' (rest @ r) \<or>
      max_safe < int (read_digits 0 ds)"
    using parts(5) by (cases rest) auto
  from parts(1) consider "sign = []" | "sign = ''-''" by blast
  then show ?thesis
    by cases (simp_all only: t read_number_def Let_def append_assoc append_Nil append_Cons next_is_Cons sign if_True if_False
      drop_Suc_Cons drop_0 One_nat_def digits body stop simp_thms)
qed

lemma foreign_number_starts: "foreign_number t \<Longrightarrow> \<exists>c s. t = c # s \<and> (c = CHR ''-'' \<or> is_digit c)"
  unfolding foreign_number_def by (elim exE conjE, rename_tac sign ds rest, case_tac ds) auto

lemma shaped_number:
  assumes "shaped b (JNum (Fin q))" "b \<longrightarrow> number_texts P"
  obtains k where "q = of_int k" "\<bar>k\<bar> \<le> max_safe" "rat_text P q = int_text k"
  | "b" "foreign_number (rat_text P q)"
proof (cases "is_safe_integer (JNum (Fin q))")
  case True
  then obtain k where k: "JNum (Fin q) = JInt k" "\<bar>k\<bar> \<le> max_safe" by (rule is_safe_integerE)
  then have "\<bar>of_int k :: rat\<bar> \<le> of_int max_safe" by linarith
  with k show thesis by (intro that(1) [of k]) (simp_all add: rat_text_def)
next
  case False
  with assms show thesis by (intro that(2)) (auto simp: rat_text_def number_texts_def)
qed

lemma shaped_number_starts:
  assumes "shaped b (JNum (Fin q))" "b \<longrightarrow> number_texts P"
  shows "\<exists>c s. rat_text P q = c # s \<and> (c = CHR ''-'' \<or> is_digit c)"
  using assms by (rule shaped_number) (use number_starts foreign_number_starts in auto)

lemma read_value_number:
  assumes "skip s = t @ r" "t = c # u" "c = CHR ''-'' \<or> is_digit c"
  shows "read_value (Suc n) s = read_number (t @ r)"
proof -
  from assms(3) have "c \<notin> {CHR 0x22, CHR ''['', CHR ''{'', CHR ''n'', CHR ''t'', CHR ''f''}"
    by (auto simp: char_class_defs)
  then show ?thesis using assms(1,2) by simp
qed

lemma read_int_text: "\<bar>k\<bar> \<le> max_safe \<Longrightarrow> ends_value r \<Longrightarrow> read_number (int_text k @ r) = Read (JInt k) r"
  using read_printed_nat(1) [of "nat k" r] read_printed_nat(2) [of "nat (- k)" r] by (simp add: int_text_def)

lemma printed_number:
  assumes "shaped b (JNum m)" "ends_value r" "skip s = pretty P i (JNum m) @ r" "b \<longrightarrow> number_texts P"
  shows "reads b (read_value (Suc n) s) (json_value (JNum m)) r"
proof (cases m)
  case (Fin q)
  obtain c u where start: "rat_text P q = c # u" "c = CHR ''-'' \<or> is_digit c"
    using shaped_number_starts assms(1,4) Fin by blast
  have read: "read_value (Suc n) s = read_number (rat_text P q @ r)"
    by (rule read_value_number [OF _ start]) (use assms(3) Fin in simp)
  from assms(1,4) show ?thesis
    unfolding Fin read by (rule shaped_number) (simp_all add: read_int_text foreign_number_read assms(2) reads_def)
qed (use assms in \<open>simp_all add: read_word_def\<close>)

lemma pretty_start:
  assumes "shaped b v" "b \<longrightarrow> number_texts P"
  shows "\<exists>c s. pretty P i v = c # s \<and> \<not> is_blank c \<and> c \<noteq> CHR '']'' \<and> c \<noteq> CHR ''}''"
proof (cases v)
  case (JNum m)
  show ?thesis
  proof (cases m)
    case (Fin q)
    with assms JNum obtain c t where c: "rat_text P q = c # t" "c = CHR ''-'' \<or> is_digit c"
      using shaped_number_starts by blast
    moreover from c(2) have "\<not> is_blank c \<and> c \<noteq> CHR '']'' \<and> c \<noteq> CHR ''}''"
      by (auto simp: is_blank_def char_class_defs)
    ultimately show ?thesis using JNum Fin by simp
  qed (use JNum in \<open>simp_all add: is_blank_def\<close>)
next
  case (JBool b)
  then show ?thesis by (cases b) (simp_all add: is_blank_def)
next
  case (JArr vs)
  then show ?thesis by (cases vs) (simp_all add: is_blank_def)
next
  case (JObj kvs)
  then show ?thesis by (cases "pretty_fields P (Suc i) kvs") (simp_all add: is_blank_def)
qed (simp_all add: is_blank_def quote_starts)

lemma skip_pretty: "shaped b v \<Longrightarrow> b \<longrightarrow> number_texts P \<Longrightarrow> skip (pretty P i v @ r) = pretty P i v @ r"
  using pretty_start [of b v P i] by (auto simp: skip_Cons)

lemma join_starts: "ts \<noteq> [] \<Longrightarrow> \<exists>u. join sep ts = hd ts @ u"
  by (cases ts; cases "tl ts") auto

lemma sort_key_map: "sort_key f (map g xs) = map g (sort_key (\<lambda>x. f (g x)) xs)"
proof -
  have "insort_key f (g x) (map g ys) = map g (insort_key (\<lambda>x. f (g x)) x ys)" for x ys
    by (induction ys) simp_all
  then show ?thesis by (induction xs) simp_all
qed

lemma property_order_filter: "property_order (filter Q kvs) = filter Q (property_order kvs)"
  by (simp add: property_order_def filter_sort conj_commute)

lemma property_order_map: "property_order (map (\<lambda>(k, v). (k, f v)) kvs) = map (\<lambda>(k, v). (k, f v)) (property_order kvs)"
  by (simp add: property_order_def filter_map o_def case_prod_unfold sort_key_map)

lemma json_members_map: "json_members kvs = map (\<lambda>(k, v). (k, json_value v)) (filter (\<lambda>(k, v). v \<noteq> JUndef) kvs)"
  by (induction kvs) auto

lemma object_of_members:
  assumes "distinct (map fst kvs)" "property_order kvs = kvs"
  shows "object_of (json_members kvs) = JObj (json_members kvs)"
proof -
  have "distinct (map fst (acc @ us)) \<Longrightarrow> fold (\<lambda>(k, v). AList.update k v) us acc = acc @ us" for us acc :: "(string \<times> jsv) list"
  proof (induction us arbitrary: acc)
    case (Cons u us)
    then have "AList.update (fst u) (snd u) acc = acc @ [u]" by (induction acc) auto
    with Cons.IH [of "acc @ [u]"] Cons.prems show ?case by (simp add: case_prod_unfold)
  qed simp
  moreover have "distinct (map fst (json_members kvs))"
    using assms(1) by (simp add: json_members_map o_def case_prod_unfold distinct_map_filter)
  moreover have "property_order (json_members kvs) = json_members kvs"
    by (simp add: json_members_map property_order_map property_order_filter assms(2))
  ultimately show ?thesis by (simp add: object_of_def)
qed

lemma items_start:
  assumes "shaped_items b vs" "vs \<noteq> []" "b \<longrightarrow> number_texts P"
  shows "\<exists>c s. join sep (pretty_items P i vs) = c # s \<and> \<not> is_blank c \<and> c \<noteq> CHR '']''"
proof -
  from assms(2) obtain v us where vs: "vs = v # us" by (cases vs) auto
  let ?w = "if v = JUndef then JNull else v"
  obtain u where "join sep (pretty_items P i vs) = pretty P i ?w @ u"
    using join_starts [of "pretty_items P i vs" sep] vs by auto
  moreover have "shaped b ?w" using assms(1) vs by simp
  ultimately show ?thesis using pretty_start [of b ?w P i] assms(3) by auto
qed

lemma fields_start:
  assumes "pretty_fields P i kvs \<noteq> []"
  shows "\<exists>s. join sep (pretty_fields P i kvs) = CHR 0x22 # s"
proof -
  have "t \<in> set (pretty_fields P i kvs) \<Longrightarrow> hd t = CHR 0x22 \<and> t \<noteq> []" for t
    by (induction kvs) (auto simp: quote_starts split: if_splits)
  then have "hd (hd (pretty_fields P i kvs)) = CHR 0x22" "hd (pretty_fields P i kvs) \<noteq> []" using assms by auto
  then show ?thesis
    using join_starts [OF assms, of sep] by (cases "hd (pretty_fields P i kvs)") auto
qed

lemma skip_items:
  "shaped_items b vs \<Longrightarrow> vs \<noteq> [] \<Longrightarrow> b \<longrightarrow> number_texts P \<Longrightarrow> skip (join sep (pretty_items P i vs) @ r) = join sep (pretty_items P i vs) @ r"
  using items_start [of b vs P sep i] by (auto simp: skip_Cons)

lemma skip_fields:
  "pretty_fields P i kvs \<noteq> [] \<Longrightarrow> skip (join sep (pretty_fields P i kvs) @ r) = join sep (pretty_fields P i kvs) @ r"
  using fields_start [of P i kvs sep] by (auto simp: skip_Cons is_blank_def)

lemma json_members_empty: "pretty_fields P i kvs = [] \<longleftrightarrow> json_members kvs = []"
  by (induction kvs) (auto split: if_splits)

lemma skip_mark: "c \<in> {CHR '','', CHR '']'', CHR ''}'', CHR 0x22, CHR '':''} \<Longrightarrow> skip (c # r) = c # r"
  by (auto simp: skip_Cons is_blank_def)

lemma read_pretty:
  "\<lbrakk>shaped b v; v \<noteq> JUndef; length (pretty P i v) \<le> n; ends_value r; skip s = pretty P i v @ r; b \<longrightarrow> number_texts P\<rbrakk> \<Longrightarrow>
     reads b (read_value n s) (json_value v) r"
  "\<lbrakk>shaped_items b vs; vs \<noteq> []; length (join (CHR '','' # newline j) (pretty_items P i vs)) < n;
     skip s = join (CHR '','' # newline j) (pretty_items P i vs) @ newline l @ CHR '']'' # r; b \<longrightarrow> number_texts P\<rbrakk> \<Longrightarrow>
     reads b (read_items n s) (json_values vs) r"
  "\<lbrakk>shaped_fields b kvs; pretty_fields P i kvs \<noteq> []; length (join (CHR '','' # newline j) (pretty_fields P i kvs)) < n;
     skip s = join (CHR '','' # newline j) (pretty_fields P i kvs) @ newline l @ CHR ''}'' # r; b \<longrightarrow> number_texts P\<rbrakk> \<Longrightarrow>
     reads b (read_members n s) (json_members kvs) r"
proof (induction P i v and P i vs and P i kvs arbitrary: n s r and n s j l r and n s j l r
    rule: pretty_pretty_items_pretty_fields.induct [case_names arr obj undef null bool num str nil cons none more])
  case (arr P i vs)
  obtain m where n: "n = Suc m" using arr.prems(3) by (cases n) (auto split: if_splits)
  show ?case
  proof (cases "vs = []")
    case True
    with arr.prems show ?thesis by (simp add: n skip_Cons is_blank_def)
  next
    case False
    let ?items = "join (CHR '','' # newline (Suc i)) (pretty_items P (Suc i) vs)"
    let ?t = "newline (Suc i) @ ?items @ newline i @ CHR '']'' # r"
    have t: "skip ?t = ?items @ newline i @ CHR '']'' # r"
      using arr.prems(1,6) False by (simp add: skip_items)
    moreover have "\<not> next_is CHR '']'' (skip ?t)"
      unfolding t using items_start [of b vs P "CHR '','' # newline (Suc i)" "Suc i"] arr.prems(1,6) False by auto
    moreover have "reads b (read_items m ?t) (json_values vs) r"
      by (rule arr.IH [OF _ _ _ _ t]) (use arr.prems False n in auto)
    moreover have "skip s = CHR ''['' # ?t" using arr.prems(5) False by simp
    ultimately show ?thesis unfolding n by (auto intro!: reads_then)
  qed
next
  case (obj P i kvs)
  obtain m where n: "n = Suc m" using obj.prems(3) by (cases n) (auto simp: Let_def split: if_splits)
  show ?case
  proof (cases "pretty_fields P (Suc i) kvs = []")
    case True
    then have "json_members kvs = []" by (simp add: json_members_empty)
    with obj.prems True show ?thesis by (simp add: n skip_mark)
  next
    case False
    let ?fields = "join (CHR '','' # newline (Suc i)) (pretty_fields P (Suc i) kvs)"
    let ?t = "newline (Suc i) @ ?fields @ newline i @ CHR ''}'' # r"
    have t: "skip ?t = ?fields @ newline i @ CHR ''}'' # r"
      using False by (simp add: skip_fields)
    moreover have "\<not> next_is CHR ''}'' (skip ?t)"
      unfolding t using fields_start [OF False, of "CHR '','' # newline (Suc i)"] by auto
    moreover have "reads b (read_members m ?t) (json_members kvs) r"
      by (rule obj.IH [OF _ _ _ t]) (use obj.prems False n in \<open>auto simp: Let_def\<close>)
    moreover have "skip s = CHR ''{'' # ?t" using obj.prems(5) False by (simp add: Let_def)
    moreover have "object_of (json_members kvs) = JObj (json_members kvs)"
      using obj.prems(1) by (simp add: object_of_members)
    ultimately show ?thesis unfolding n by (auto intro!: reads_then)
  qed
next
  case undef
  then show ?case by simp
next
  case (null P i)
  then show ?case by (cases n) (auto simp: read_word_def)
next
  case (bool P i c)
  then show ?case by (cases n; cases c) (auto simp: read_word_def)
next
  case (num P i m)
  obtain k where n: "n = Suc k" using num.prems(1,3,6) pretty_start [of b "JNum m" P i] by (cases n) auto
  show ?case unfolding n by (rule printed_number [OF num.prems(1,4,5,6)])
next
  case (str P i t)
  then show ?case by (cases n) (simp_all add: quote_starts read_quoted)
next
  case (nil P i)
  then show ?case by simp
next
  case (cons P i v vs)
  obtain m where n: "n = Suc m" using cons.prems(3) by (cases n) auto
  let ?w = "if v = JUndef then JNull else v"
  have item: "reads b (read_value m s) (json_value ?w) q"
    if "skip s = pretty P i ?w @ q" "ends_value q" "length (pretty P i ?w) \<le> m" for q
  proof (cases "v = JUndef")
    case True
    with that show ?thesis by (cases m) (simp_all add: read_word_def)
  next
    case False
    with that cons.prems(1,5) cons.IH(1) [of m q s] show ?thesis by simp
  qed
  show ?case
  proof (cases "vs = []")
    case True
    then have "reads b (read_value m s) (json_value ?w) (newline l @ CHR '']'' # r)"
      using cons.prems(3,4) by (intro item) (auto simp: n)
    with True show ?thesis by (auto simp: n skip_mark intro: reads_then)
  next
    case False
    then have join: "join sep (pretty_items P i (v # vs)) = pretty P i ?w @ sep @ join sep (pretty_items P i vs)" for sep
      by (cases vs) simp_all
    let ?q = "CHR '','' # newline j @ join (CHR '','' # newline j) (pretty_items P i vs) @ newline l @ CHR '']'' # r"
    have "reads b (read_value m s) (json_value ?w) ?q"
      using cons.prems(3,4) unfolding join by (intro item) (auto simp: n)
    moreover have "length (join (CHR '','' # newline j) (pretty_items P i vs)) < m"
      using cons.prems(3) unfolding join by (simp add: n)
    moreover have "reads b (read_items m (drop 1 ?q)) (json_values vs) r"
      by (rule cons.IH(2) [of j]) (use cons.prems(1,5) False calculation(2) in \<open>auto simp: skip_items\<close>)
    ultimately show ?thesis by (simp add: n skip_mark reads_then)
  qed
next
  case (none P i)
  then show ?case by simp
next
  case (more P i k v kvs)
  show ?case
  proof (cases "v = JUndef")
    case True
    then show ?thesis using more.IH(1) [of j n s l r] more.prems by simp
  next
    case False
    obtain m where n: "n = Suc m" using more.prems(3) by (cases n) auto
    have read: "reads b (read_value m (CHR '' '' # pretty P i v @ q)) (json_value v) q" if "ends_value q" for q
      using more.IH(2) [OF False, of m q "CHR '' '' # pretty P i v @ q"] more.prems(1,3,5) False that
      by (simp add: n join_Cons skip_Cons skip_pretty is_blank_def split: if_splits)
    have member: "skip s = CHR 0x22 # concat (map escape_char k) @ CHR 0x22 # ('': '' @ pretty P i v @ q) \<Longrightarrow>
        ends_value q \<Longrightarrow>
        reads b (if next_is CHR '','' (skip q)
                 then then_read (read_members m (drop 1 (skip q))) (\<lambda>us r. Read ((k, json_value v) # us) r)
                 else if next_is CHR ''}'' (skip q) then Read [(k, json_value v)] (drop 1 (skip q)) else Syntax) us r \<Longrightarrow>
        reads b (read_members n s) us r" for q us
      using read [of q] by (simp add: n read_quoted skip_mark reads_then)
    show ?thesis
    proof (cases "pretty_fields P i kvs = []")
      case True
      then have "json_members kvs = []" by (simp add: json_members_empty)
      with True more.prems(4) member [of "newline l @ CHR ''}'' # r"] False show ?thesis
        by (simp add: quote_starts skip_mark)
    next
      case rest: False
      let ?q = "CHR '','' # newline j @ join (CHR '','' # newline j) (pretty_fields P i kvs) @ newline l @ CHR ''}'' # r"
      have "reads b (read_members m (drop 1 ?q)) (json_members kvs) r"
        by (rule more.IH(3) [OF False, of j]) (use more.prems(1,3,5) False rest in \<open>auto simp: n join_Cons skip_fields\<close>)
      then have "reads b (then_read (read_members m (drop 1 ?q)) (\<lambda>us r. Read ((k, json_value v) # us) r))
          ((k, json_value v) # json_members kvs) r"
        by (rule reads_then) simp
      with more.prems(4) member [of ?q] False rest show ?thesis
        by (simp add: quote_starts skip_mark join_Cons)
    qed
  qed
qed

text \<open>A printed value with a line break behind it is read back, whatever the engine does elsewhere: where
  the value has other numbers, the engine is relied on for the whole text.\<close>

lemma parse_printed:
  assumes "shaped b v" "v \<noteq> JUndef" "b \<longrightarrow> number_texts P"
    and "b \<longrightarrow> engine (pretty P 0 v @ newline 0) = Some (json_value v)"
  shows "json_parse engine (pretty P 0 v @ newline 0) = Some (json_value v)"
proof -
  have "reads b (read_value (Suc (2 * length (pretty P 0 v @ newline 0))) (pretty P 0 v @ newline 0)) (json_value v) (newline 0)"
    using assms(1-3) ends_value_simps(3) [of 0 "[]"] skip_pretty [OF assms(1,3)] by (intro read_pretty(1)) simp_all
  moreover have "skip (newline 0) = []" using skip_newline [of 0 "[]"] by simp
  ultimately show ?thesis using assms(4) by (auto simp: json_parse_def reads_def)
qed

end
