(* ===== verification/CognitiveStore.thy ===== *)
theory CognitiveStore
  imports JsonText
begin

text \<open>
  \<open>unified-quad/src/cognitive-state-store.mjs\<close>: the file of the cognitive state. A save is the list of
  its calls of the file system, so that a crash between or inside them, and other processes, can be
  put in between. \<open>dirname\<close> of \<open>node:path\<close> is an argument; a file holds its text (the encoding is
  injective, \<open>utf8_inj\<close>). Whether a call of the system succeeds is an argument, too.
\<close>

section \<open>The commitment\<close>

definition state_contract :: string where
  "state_contract = ''kindred.cognitive-state-store.v1''"

text \<open>\<open>canonical\<close>: an undefined item is joined as the empty text, an undefined property is printed.\<close>

fun state_text :: "platform \<Rightarrow> jsv \<Rightarrow> string"
  and state_items :: "platform \<Rightarrow> jsv list \<Rightarrow> string list"
  and state_fields :: "platform \<Rightarrow> (string \<times> jsv) list \<Rightarrow> (string \<times> string) list" where
  "state_text P (JArr vs) = ''['' @ join '','' (state_items P vs) @ '']''"
| "state_text P (JObj kvs) =
     ''{'' @ join '','' (map (\<lambda>(k, t). quote k @ '':'' @ t) (sort_key fst (state_fields P kvs))) @ ''}''"
| "state_text P v = json P v"
| "state_items P [] = []"
| "state_items P (v # vs) = (if v = JUndef then [] else state_text P v) # state_items P vs"
| "state_fields P [] = []"
| "state_fields P ((k, v) # kvs) = (k, state_text P v) # state_fields P kvs"

definition persistentStateRoot :: "platform \<Rightarrow> jsv \<Rightarrow> jsv \<Rightarrow> string result" where
  "persistentStateRoot P label v =
     (case label of
        JStr l \<Rightarrow> if l = [] then reject ''persistent_state_label_invalid''
                  else Inr (''sha256:'' @ hex_text (sha256 P (utf8 (l @ '':'' @ state_text P v))))
      | _ \<Rightarrow> reject ''persistent_state_label_invalid'')"

section \<open>What a state must be\<close>

definition validateGraphSnapshot :: "jsv \<Rightarrow> unit result" where
  "validateGraphSnapshot graph =
     (if \<not> truthy graph \<or> \<not> typeof_object graph \<or> \<not> is_string (jget graph ''state_root'')
      then reject ''persistent_graph_invalid'' else Inr ())"

definition validateSynapticSnapshot :: "jsv \<Rightarrow> unit result" where
  "validateSynapticSnapshot snapshot =
     (if \<not> truthy snapshot \<or> \<not> typeof_object snapshot \<or> \<not> is_string (jget snapshot ''state_root'') \<or>
         \<not> is_array (jget snapshot ''relationships'')
      then reject ''persistent_synaptic_state_invalid'' else Inr ())"

definition validateSequence :: "jsv \<Rightarrow> unit result" where
  "validateSequence sequence =
     (if \<not> is_safe_integer sequence \<or> num_of sequence < 1 then reject ''persistent_sequence_invalid'' else Inr ())"

definition new_store :: "jsv \<Rightarrow> string result" where
  "new_store path =
     (case path of
        JStr s \<Rightarrow> if s = [] then reject ''persistent_state_path_invalid'' else Inr s
      | _ \<Rightarrow> reject ''persistent_state_path_invalid'')"

section \<open>Saving\<close>

definition state_material :: "jsv \<Rightarrow> jsv \<Rightarrow> jsv \<Rightarrow> jsv \<Rightarrow> (string \<times> jsv) list" where
  "state_material sequence graph snapshot metadata =
     [(''contract_version'', JStr state_contract), (''sequence'', sequence), (''cognitive_graph'', graph),
      (''synaptic_snapshot'', snapshot), (''metadata'', metadata)]"

definition state_label :: jsv where
  "state_label = JStr ''persistent-cognitive-state''"

text \<open>The envelope a save writes and returns; an absent argument \<open>metadata\<close> is an empty object.\<close>

definition save_envelope :: "platform \<Rightarrow> jsv \<Rightarrow> jsv \<Rightarrow> jsv \<Rightarrow> jsv \<Rightarrow> jsv result" where
  "save_envelope P graph snapshot sequence metadata =
     and_then (validateGraphSnapshot graph) (\<lambda>_.
     and_then (validateSynapticSnapshot snapshot) (\<lambda>_.
     and_then (validateSequence sequence) (\<lambda>_.
       let state = state_material sequence graph snapshot (if metadata = JUndef then JObj [] else metadata)
       in and_then (persistentStateRoot P state_label (JObj state)) (\<lambda>root.
            Inr (JObj (state @ [(''state_root'', JStr root)]))))))"

record disk =
  directories :: "string set"
  files :: "string \<Rightarrow> string option"

datatype disk_call = MakeDirectory string | WriteFile string string | Rename string string

definition temporaryPath :: "string \<Rightarrow> nat \<Rightarrow> string" where
  "temporaryPath path pid = path @ ''.tmp-'' @ nat_text pid"

definition state_file :: "platform \<Rightarrow> jsv \<Rightarrow> string" where
  "state_file P envelope = pretty P 0 envelope @ newline 0"

definition save_calls :: "(string \<Rightarrow> string) \<Rightarrow> platform \<Rightarrow> string \<Rightarrow> nat \<Rightarrow> jsv \<Rightarrow> disk_call list" where
  "save_calls dirname P path pid envelope =
     [MakeDirectory (dirname path), WriteFile (temporaryPath path pid) (state_file P envelope),
      Rename (temporaryPath path pid) path]"

text \<open>A call that succeeds; writing needs the directory, renaming the file.\<close>

fun perform :: "(string \<Rightarrow> string) \<Rightarrow> disk_call \<Rightarrow> disk \<Rightarrow> disk option" where
  "perform dirname (MakeDirectory p) d = Some (d\<lparr>directories := insert p (directories d)\<rparr>)"
| "perform dirname (WriteFile p t) d =
     (if dirname p \<in> directories d then Some (d\<lparr>files := (files d)(p \<mapsto> t)\<rparr>) else None)"
| "perform dirname (Rename p q) d =
     (case files d p of
        Some t \<Rightarrow> Some (d\<lparr>files := (files d)(p := None, q := Some t)\<rparr>)
      | None \<Rightarrow> None)"

text \<open>A call that fails, or that the process does not survive: of a file some first part is written.\<close>

fun perform_part :: "nat \<Rightarrow> disk_call \<Rightarrow> disk \<Rightarrow> disk" where
  "perform_part n (WriteFile p t) d = d\<lparr>files := (files d)(p := (if n = 0 then files d p else Some (take (n - 1) t)))\<rparr>"
| "perform_part n _ d = d"

text \<open>\<open>save\<close> as one operation: \<open>broken\<close> tells which call fails, if one does, and how.\<close>

fun run_calls :: "(string \<Rightarrow> string) \<Rightarrow> (nat \<times> nat) option \<Rightarrow> disk_call list \<Rightarrow> disk \<Rightarrow> bool \<times> disk" where
  "run_calls dirname broken [] d = (True, d)"
| "run_calls dirname (Some (0, n)) (c # cs) d = (False, perform_part n c d)"
| "run_calls dirname broken (c # cs) d =
     (case perform dirname c d of
        None \<Rightarrow> (False, d)
      | Some d' \<Rightarrow> run_calls dirname (map_option (\<lambda>(i, n). (i - 1, n)) broken) cs d')"

definition save :: "(string \<Rightarrow> string) \<Rightarrow> platform \<Rightarrow> string \<Rightarrow> nat \<Rightarrow> (nat \<times> nat) option \<Rightarrow>
    jsv \<Rightarrow> jsv \<Rightarrow> jsv \<Rightarrow> jsv \<Rightarrow> disk \<Rightarrow> jsv result \<times> disk" where
  "save dirname P path pid broken graph snapshot sequence metadata d =
     (case save_envelope P graph snapshot sequence metadata of
        Inl e \<Rightarrow> (Inl e, d)
      | Inr envelope \<Rightarrow>
          (case run_calls dirname broken (save_calls dirname P path pid envelope) d of
             (ok, d') \<Rightarrow> (if ok then Inr envelope else Inl SystemErr, d')))"

section \<open>Loading\<close>

text \<open>The checks of a parsed file; null has no properties.\<close>

definition check_envelope :: "platform \<Rightarrow> jsv \<Rightarrow> jsv result" where
  "check_envelope P envelope =
     (if envelope = JNull then Inl TypeErr
      else if jget envelope ''contract_version'' \<noteq> JStr state_contract then reject ''persistent_state_contract_invalid''
      else and_then (validateSequence (jget envelope ''sequence'')) (\<lambda>_.
        and_then (validateGraphSnapshot (jget envelope ''cognitive_graph'')) (\<lambda>_.
        and_then (validateSynapticSnapshot (jget envelope ''synaptic_snapshot'')) (\<lambda>_.
          if \<not> is_string (jget envelope ''state_root'') then reject ''persistent_state_root_missing''
          else and_then (persistentStateRoot P state_label (JObj (state_material (jget envelope ''sequence'')
                 (jget envelope ''cognitive_graph'') (jget envelope ''synaptic_snapshot'')
                 (nullish_or (jget envelope ''metadata'') (JObj []))))) (\<lambda>expected.
            if JStr expected \<noteq> jget envelope ''state_root'' then reject ''persistent_state_integrity_mismatch''
            else Inr envelope)))))"

definition load :: "platform \<Rightarrow> (string \<Rightarrow> jsv option) \<Rightarrow> string \<Rightarrow> disk \<Rightarrow> jsv result" where
  "load P engine path d =
     (case files d path of
        None \<Rightarrow> reject ''persistent_state_read_failed''
      | Some raw \<Rightarrow>
          (case json_parse engine raw of
             None \<Rightarrow> reject ''persistent_state_json_invalid''
           | Some envelope \<Rightarrow> check_envelope P envelope))"

end
