(* ===== verification/CognitiveBody.thy ===== *)
theory CognitiveBody
  imports CognitiveStore
begin

text \<open>
  \<open>unified-quad/src/cognitive-body.mjs\<close>: Cognitons and their graph, the fabric of cognitive ports, the
  compiler of activation plans and their execution, and the attachment of a process boundary. The handlers
  of ports and the methods of a boundary are functions the caller brings: arguments of the model that act
  on a world \<open>'w\<close>.
\<close>

section \<open>State roots and frozen clones\<close>

definition cogniton_contract :: string where
  "cogniton_contract = ''kindred.cogniton.v1''"

definition graph_contract :: string where
  "graph_contract = ''kindred.cognitive-graph.v1''"

definition port_contract :: string where
  "port_contract = ''kindred.cognitive-port.v1''"

definition fabric_contract :: string where
  "fabric_contract = ''kindred.cognitive-port-fabric.v1''"

definition plan_contract :: string where
  "plan_contract = ''kindred.dcml-activation-plan.v1''"

definition attachment_contract :: string where
  "attachment_contract = ''kindred.process-port-attachment.v1''"

text \<open>\<open>canonicalize\<close> is the text \<open>canonical\<close> of the state store makes. The hash takes texts only, so an
  undefined value is a TypeError.\<close>

definition cognitiveStateRoot :: "platform \<Rightarrow> jsv \<Rightarrow> jsv \<Rightarrow> string result" where
  "cognitiveStateRoot P label v =
     (case label of
        JStr l \<Rightarrow> if l = [] then reject ''invalid_state_root_label''
                  else if v = JUndef then Inl TypeErr
                  else Inr (hex_text (sha256 P (utf8 (l @ [CHR 0x00] @ state_text P v))))
      | _ \<Rightarrow> reject ''invalid_state_root_label'')"

text \<open>The properties are assigned one by one, which gives no property of the name \<open>__proto__\<close>.\<close>

fun freezeClone :: "jsv \<Rightarrow> jsv"
  and freeze_fields :: "(string \<times> jsv) list \<Rightarrow> (string \<times> jsv) list" where
  "freezeClone (JArr vs) = JArr (map freezeClone vs)"
| "freezeClone (JObj kvs) =
     JObj (property_order (sort_key fst (filter (\<lambda>kv. fst kv \<noteq> ''__proto__'') (freeze_fields kvs))))"
| "freezeClone v = v"
| "freeze_fields [] = []"
| "freeze_fields ((k, v) # kvs) = (k, freezeClone v) # freeze_fields kvs"

text \<open>\<open>[...new Set(v.map(String))].sort()\<close>, and no texts for what is not an array.\<close>

definition text_set :: "platform \<Rightarrow> jsv \<Rightarrow> jsv" where
  "text_set P v = JArr (map JStr (sort (set_of_array (map (to_string P) (items v)))))"

section \<open>Cognitons\<close>

definition cogniton_material :: "platform \<Rightarrow> jsv \<Rightarrow> (string \<times> jsv) list" where
  "cogniton_material P input =
     [(''contract'', JStr cogniton_contract),
      (''version'', if is_integer (jget input ''version'') \<and> 0 < num_of (jget input ''version'')
         then jget input ''version'' else JInt 1),
      (''kind'', jget input ''kind''), (''value'', nullish_or (jget input ''value'') JNull),
      (''relations'', text_set P (jget input ''relations'')),
      (''provenance'', nullish_or (jget input ''provenance'') JNull)]"

definition createCogniton :: "platform \<Rightarrow> jsv \<Rightarrow> jsv result" where
  "createCogniton P input =
     (if \<not> truthy input \<or> \<not> typeof_object input then reject ''invalid_cogniton''
      else if \<not> is_string (jget input ''kind'') \<or> jget input ''kind'' = JStr [] then reject ''invalid_cogniton_kind''
      else
        let material = cogniton_material P input
        in and_then
          (if is_string (jget input ''cogniton_id'') \<and> jget input ''cogniton_id'' \<noteq> JStr []
           then Inr (text_of (jget input ''cogniton_id''))
           else cognitiveStateRoot P (JStr ''cogniton-address'') (JObj material)) (\<lambda>address.
          let addressed = material @ [(''cogniton_id'', JStr address)]
          in and_then (cognitiveStateRoot P (JStr ''cogniton-state'') (JObj addressed)) (\<lambda>root.
               Inr (freezeClone (JObj (addressed @ [(''state_root'', JStr root)]))))))"

section \<open>The cognitive graph\<close>

record graph =
  cognitons :: "(string \<times> jsv) list"
  active_cognitons :: "string list"

definition new_graph :: graph where
  "new_graph = \<lparr>cognitons = [], active_cognitons = []\<rparr>"

definition graph_add :: "jsv \<Rightarrow> graph \<Rightarrow> jsv result \<times> graph" where
  "graph_add cogniton g =
     (if \<not> truthy cogniton \<or> jget cogniton ''contract'' \<noteq> JStr cogniton_contract \<or>
         \<not> is_string (jget cogniton ''cogniton_id'')
      then (reject ''invalid_cogniton_contract'', g)
      else (Inr cogniton,
        g\<lparr>cognitons := AList.update (text_of (jget cogniton ''cogniton_id'')) cogniton (cognitons g)\<rparr>))"

definition graph_get :: "string \<Rightarrow> graph \<Rightarrow> jsv" where
  "graph_get cid g = (case map_of (cognitons g) cid of Some c \<Rightarrow> c | None \<Rightarrow> JNull)"

definition graph_state :: "platform \<Rightarrow> graph \<Rightarrow> (string \<times> jsv) list" where
  "graph_state P g =
     [(''contract'', JStr graph_contract),
      (''cognitons'', JArr (sort_by (\<lambda>a b. locale_le P (text_of (jget a ''cogniton_id'')) (text_of (jget b ''cogniton_id'')))
         (map snd (cognitons g)))),
      (''active_cogniton_ids'', JArr (map JStr (sort (active_cognitons g))))]"

definition graph_snapshot :: "platform \<Rightarrow> graph \<Rightarrow> jsv result" where
  "graph_snapshot P g =
     and_then (cognitiveStateRoot P (JStr ''cognitive-graph'') (JObj (graph_state P g))) (\<lambda>root.
       Inr (freezeClone (JObj (graph_state P g @ [(''state_root'', JStr root)]))))"

definition graph_activate :: "platform \<Rightarrow> string \<Rightarrow> graph \<Rightarrow> jsv result \<times> graph" where
  "graph_activate P cid g =
     (if map_of (cognitons g) cid = None then (reject ''unknown_cogniton'', g)
      else
        let g' = g\<lparr>active_cognitons := List.insert cid (active_cognitons g)\<rparr>
        in (graph_snapshot P g', g'))"

definition graph_deactivate :: "platform \<Rightarrow> string \<Rightarrow> graph \<Rightarrow> jsv result \<times> graph" where
  "graph_deactivate P cid g =
     (let g' = g\<lparr>active_cognitons := removeAll cid (active_cognitons g)\<rparr> in (graph_snapshot P g', g'))"

section \<open>The fabric of ports\<close>

type_synonym 'w handler = "jsv \<Rightarrow> 'w \<Rightarrow> jsv result \<times> 'w"

type_synonym 'w fabric = "(string \<times> jsv \<times> 'w handler) list"

definition COGNITIVE_PORT_TYPES :: "string list" where
  "COGNITIVE_PORT_TYPES = [''INTENT'', ''COGNITON'', ''PROCESS'', ''VERIFICATION'']"

definition validatePortDescriptor :: "jsv \<Rightarrow> unit result" where
  "validatePortDescriptor descriptor =
     (if \<not> truthy descriptor \<or> \<not> typeof_object descriptor then reject ''invalid_port''
      else if \<not> is_string (jget descriptor ''port_id'') \<or> jget descriptor ''port_id'' = JStr []
      then reject ''invalid_port_id''
      else if \<not> str_in (jget descriptor ''port_type'') COGNITIVE_PORT_TYPES then reject ''invalid_port_type''
      else if \<not> is_string (jget descriptor ''role'') \<or> jget descriptor ''role'' = JStr []
      then reject ''invalid_port_role''
      else if jget descriptor ''intent_classes'' \<noteq> JUndef \<and> \<not> is_array (jget descriptor ''intent_classes'')
      then reject ''invalid_intent_classes''
      else if jget descriptor ''evidence_targets'' \<noteq> JUndef \<and> \<not> is_array (jget descriptor ''evidence_targets'')
      then reject ''invalid_evidence_targets''
      else Inr ())"

definition normalized_port :: "platform \<Rightarrow> jsv \<Rightarrow> jsv" where
  "normalized_port P descriptor = freezeClone (JObj
     [(''contract'', JStr port_contract), (''port_id'', jget descriptor ''port_id''),
      (''port_type'', jget descriptor ''port_type''), (''role'', jget descriptor ''role''),
      (''priority'', if is_finite (jget descriptor ''priority'') then jget descriptor ''priority'' else JInt 0),
      (''intent_classes'', text_set P (jget descriptor ''intent_classes'')),
      (''evidence_targets'', text_set P (jget descriptor ''evidence_targets'')),
      (''verification_required'', JBool (jget descriptor ''verification_required'' = JBool True))])"

definition registerPort :: "platform \<Rightarrow> jsv \<Rightarrow> 'w handler option \<Rightarrow> 'w fabric \<Rightarrow> jsv result \<times> 'w fabric" where
  "registerPort P descriptor handler fabric =
     (case validatePortDescriptor descriptor of
        Inl e \<Rightarrow> (Inl e, fabric)
      | Inr _ \<Rightarrow>
          let pid = text_of (jget descriptor ''port_id'')
          in if map_of fabric pid \<noteq> None then (reject ''duplicate_port'', fabric)
             else case handler of
               None \<Rightarrow> (reject ''invalid_port_handler'', fabric)
             | Some h \<Rightarrow> (Inr (normalized_port P descriptor), fabric @ [(pid, normalized_port P descriptor, h)]))"

definition describePorts :: "platform \<Rightarrow> 'w fabric \<Rightarrow> jsv list" where
  "describePorts P fabric =
     sort_by (\<lambda>a b. locale_le P (text_of (jget a ''port_id'')) (text_of (jget b ''port_id''))) (map (fst \<circ> snd) fabric)"

definition activate_port :: "jsv \<Rightarrow> jsv \<Rightarrow> 'w fabric \<Rightarrow> 'w \<Rightarrow> jsv result \<times> 'w" where
  "activate_port pid envelope fabric w =
     (case pid of
        JStr p \<Rightarrow> (case map_of fabric p of Some (_, handler) \<Rightarrow> handler envelope w | None \<Rightarrow> (reject ''unknown_port'', w))
      | _ \<Rightarrow> (reject ''unknown_port'', w))"

definition fabric_snapshot :: "platform \<Rightarrow> 'w fabric \<Rightarrow> jsv result" where
  "fabric_snapshot P fabric =
     (let state = [(''contract'', JStr fabric_contract), (''ports'', JArr (describePorts P fabric))]
      in and_then (cognitiveStateRoot P (JStr ''cognitive-port-fabric'') (JObj state)) (\<lambda>root.
           Inr (freezeClone (JObj (state @ [(''state_root'', JStr root)])))))"

end
