(* ===== verification/ActivationPlans.thy ===== *)
theory ActivationPlans
  imports CognitiveBody "HOL-Library.Sublist"
begin

text \<open>
  \<open>unified-quad/src/cognitive-body.mjs\<close>, continued: the ranking of ports by priority and evidence, the
  compilation of an activation plan, its execution, and the attachment of a process boundary. Ports are
  those of a fabric's snapshot: their priorities are finite and their ids texts.
\<close>

section \<open>The ranking of ports\<close>

fun filter_results :: "('a \<Rightarrow> bool result) \<Rightarrow> 'a list \<Rightarrow> 'a list result" where
  "filter_results f [] = Inr []"
| "filter_results f (x # xs) =
     and_then (f x) (\<lambda>b. and_then (filter_results f xs) (\<lambda>ys. Inr (if b then x # ys else ys)))"

text \<open>A list, or any other value that answers \<open>length\<close>: an object of length 0 matches everything.\<close>

fun matchesIntent :: "jsv \<Rightarrow> string \<Rightarrow> bool result" where
  "matchesIntent (JArr vs) c = Inr (vs = [] \<or> JStr ''*'' \<in> set vs \<or> JStr c \<in> set vs)"
| "matchesIntent (JStr s) c = Inr (s = [] \<or> CHR ''*'' \<in> set s \<or> sublist c s)"
| "matchesIntent (JObj kvs) c = (if strict_eq (jget (JObj kvs) ''length'') (JInt 0) then Inr True else Inl TypeErr)"
| "matchesIntent v c = Inl TypeErr"

definition port_matches :: "string \<Rightarrow> string \<Rightarrow> jsv \<Rightarrow> bool result" where
  "port_matches type c port =
     (if port = JUndef \<or> port = JNull then Inl TypeErr
      else if jget port ''port_type'' \<noteq> JStr type then Inr False
      else matchesIntent (jget port ''intent_classes'') c)"

definition evidence_relates :: "jsv \<Rightarrow> jsv \<Rightarrow> jsv \<Rightarrow> bool result" where
  "evidence_relates targets ctx r =
     (if r = JUndef \<or> r = JNull then Inl TypeErr
      else Inr (array_includes targets (jget r ''target_component'') \<and>
        (ctx = JUndef \<or> ctx = JNull \<or> jget r ''context_ref'' = JNull \<or> strict_eq (jget r ''context_ref'') ctx)))"

definition synapticEvidenceScore :: "jsv \<Rightarrow> jsv \<Rightarrow> jsv \<Rightarrow> rat result" where
  "synapticEvidenceScore port snap ctx =
     (if \<not> truthy snap then Inr 0
      else if \<not> is_array (jget snap ''relationships'') then reject ''invalid_synaptic_snapshot''
      else if \<not> is_array (jget port ''evidence_targets'') \<or> items (jget port ''evidence_targets'') = [] then Inr 0
      else and_then (filter_results (evidence_relates (jget port ''evidence_targets'') ctx)
             (items (jget snap ''relationships''))) (\<lambda>rs.
        Inr (sum_list (map (\<lambda>r. if is_finite (jget r ''reinforcement'') then num_of (jget r ''reinforcement'') else 0) rs))))"

definition port_le :: "platform \<Rightarrow> jsv \<times> rat \<Rightarrow> jsv \<times> rat \<Rightarrow> bool" where
  "port_le P a b =
     (let pa = num_of (jget (fst a) ''priority''); pb = num_of (jget (fst b) ''priority'')
      in if pa \<noteq> pb then pb \<le> pa
         else if snd a \<noteq> snd b then snd b \<le> snd a
         else locale_le P (text_of (jget (fst a) ''port_id'')) (text_of (jget (fst b) ''port_id'')))"

definition rankPorts :: "platform \<Rightarrow> jsv list \<Rightarrow> string \<Rightarrow> string \<Rightarrow> jsv \<Rightarrow> jsv \<Rightarrow> (jsv \<times> rat) list result" where
  "rankPorts P ports type c snap ctx =
     and_then (filter_results (port_matches type c) ports) (\<lambda>matching.
     and_then (map_results (\<lambda>port. and_then (synapticEvidenceScore port snap ctx) (\<lambda>score. Inr (port, score))) matching)
       (\<lambda>scored. Inr (sort_by (port_le P) scored)))"

definition best :: "(jsv \<times> rat) list \<Rightarrow> jsv" where
  "best ranking = (case ranking of [] \<Rightarrow> JNull | (port, _) # _ \<Rightarrow> port)"

definition selectOne :: "platform \<Rightarrow> jsv list \<Rightarrow> string \<Rightarrow> string \<Rightarrow> jsv \<Rightarrow> jsv \<Rightarrow> jsv result" where
  "selectOne P ports type c snap ctx = and_then (rankPorts P ports type c snap ctx) (\<lambda>ranking. Inr (best ranking))"

section \<open>The compiler\<close>

definition check_input :: "jsv \<Rightarrow> unit result" where
  "check_input input =
     (if \<not> truthy input \<or> \<not> typeof_object input then reject ''invalid_dcml_input''
      else if \<not> is_string (jget input ''intent_class'') \<or> jget input ''intent_class'' = JStr []
      then reject ''missing_intent_class''
      else if \<not> truthy (jget input ''graph'') \<or> \<not> is_string (jget (jget input ''graph'') ''state_root'')
      then reject ''missing_cognitive_graph''
      else if \<not> truthy (jget input ''fabric'') \<or> \<not> is_string (jget (jget input ''fabric'') ''state_root'') \<or>
        \<not> is_array (jget (jget input ''fabric'') ''ports'')
      then reject ''missing_port_fabric''
      else if jget input ''synaptic_snapshot'' \<noteq> JUndef \<and> jget input ''synaptic_snapshot'' \<noteq> JNull \<and>
        (\<not> typeof_object (jget input ''synaptic_snapshot'') \<or>
         \<not> is_array (jget (jget input ''synaptic_snapshot'') ''relationships'') \<or>
         \<not> is_string (jget (jget input ''synaptic_snapshot'') ''state_root''))
      then reject ''invalid_synaptic_snapshot''
      else Inr ())"

text \<open>The ports a plan activates, in order.\<close>

record selection =
  intent_port :: jsv
  cogniton_port :: jsv
  process_ranking :: "(jsv \<times> rat) list"
  verification_port :: jsv

definition select_ports :: "platform \<Rightarrow> jsv \<Rightarrow> selection result" where
  "select_ports P input =
     (let ports = items (jget (jget input ''fabric'') ''ports''); c = text_of (jget input ''intent_class'');
          snap = nullish_or (jget input ''synaptic_snapshot'') JNull; ctx = nullish_or (jget input ''context_ref'') JNull
      in and_then (selectOne P ports ''INTENT'' c snap ctx) (\<lambda>intent.
         and_then (selectOne P ports ''COGNITON'' c snap ctx) (\<lambda>cogniton.
         and_then (rankPorts P ports ''PROCESS'' c snap ctx) (\<lambda>ranking.
         and_then (selectOne P ports ''VERIFICATION'' c snap ctx) (\<lambda>verification.
           Inr \<lparr>intent_port = intent, cogniton_port = cogniton, process_ranking = ranking,
             verification_port = verification\<rparr>)))))"

definition verificationRequired :: "jsv \<Rightarrow> selection \<Rightarrow> bool" where
  "verificationRequired input sel \<longleftrightarrow> jget input ''verification_required'' \<noteq> JBool False \<or>
     jget (best (process_ranking sel)) ''verification_required'' = JBool True"

definition check_selection :: "jsv \<Rightarrow> selection \<Rightarrow> unit result" where
  "check_selection input sel =
     (if \<not> truthy (intent_port sel) then reject ''intent_port_unavailable''
      else if \<not> truthy (best (process_ranking sel)) then reject ''process_port_unavailable''
      else if verificationRequired input sel \<and> \<not> truthy (verification_port sel)
      then reject ''verification_port_unavailable''
      else Inr ())"

definition active_ports :: "selection \<Rightarrow> jsv list" where
  "active_ports sel =
     filter truthy [intent_port sel, cogniton_port sel, best (process_ranking sel), verification_port sel]"

definition activation_plan :: "jsv \<Rightarrow> selection \<Rightarrow> (string \<times> jsv) list" where
  "activation_plan input sel =
     [(''contract'', JStr plan_contract), (''intent_class'', jget input ''intent_class''),
      (''graph_state_root'', jget (jget input ''graph'') ''state_root''),
      (''fabric_state_root'', jget (jget input ''fabric'') ''state_root''),
      (''selection_evidence_root'', nullish_or (jget (jget input ''synaptic_snapshot'') ''state_root'') JNull),
      (''process_selection_trace'', JArr (map (\<lambda>(port, score). JObj
         [(''port_id'', jget port ''port_id''), (''priority'', jget port ''priority''),
          (''synaptic_score'', JNum (Fin score)), (''evidence_targets'', jget port ''evidence_targets'')])
         (process_ranking sel))),
      (''active_port_ids'', JArr (map (\<lambda>port. jget port ''port_id'') (active_ports sel))),
      (''process_port_id'', jget (best (process_ranking sel)) ''port_id''),
      (''verification_port_id'', nullish_or (jget (verification_port sel) ''port_id'') JNull),
      (''verification_required'', JBool (verificationRequired input sel)),
      (''authority_scope'', nullish_or (jget input ''authority_scope'') JNull)]"

definition compile :: "platform \<Rightarrow> jsv \<Rightarrow> jsv result" where
  "compile P input =
     and_then (check_input input) (\<lambda>_.
     and_then (select_ports P input) (\<lambda>sel.
     and_then (check_selection input sel) (\<lambda>_.
     and_then (cognitiveStateRoot P (JStr ''dcml-activation-plan'') (JObj (activation_plan input sel))) (\<lambda>root.
       Inr (freezeClone (JObj (activation_plan input sel @ [(''state_root'', JStr root)])))))))"

section \<open>The execution of a plan\<close>

fun run_ports :: "'w fabric \<Rightarrow> jsv \<Rightarrow> jsv list \<Rightarrow> jsv \<Rightarrow> 'w \<Rightarrow> jsv result \<times> 'w" where
  "run_ports fabric plan [] state w = (Inr state, w)"
| "run_ports fabric plan (p # ps) state w =
     (case activate_port p (JObj [(''plan'', plan), (''state'', state)]) fabric w of
        (Inl e, w') \<Rightarrow> (Inl e, w')
      | (Inr state', w') \<Rightarrow> run_ports fabric plan ps state' w')"

definition executeActivationPlan :: "jsv \<Rightarrow> 'w fabric option \<Rightarrow> jsv \<Rightarrow> 'w \<Rightarrow> jsv result \<times> 'w" where
  "executeActivationPlan plan fabric payload w =
     (if \<not> truthy plan \<or> jget plan ''contract'' \<noteq> JStr plan_contract then (reject ''invalid_activation_plan'', w)
      else case fabric of
        None \<Rightarrow> (reject ''invalid_fabric_runtime'', w)
      | Some f \<Rightarrow>
          (case iterate (jget plan ''active_port_ids'') of
             Inl e \<Rightarrow> (Inl e, w)
           | Inr ids \<Rightarrow> run_ports f plan ids payload w))"

section \<open>The attachment of a process boundary\<close>

record 'w boundary =
  request_method :: "(string \<Rightarrow> jsv \<Rightarrow> 'w \<Rightarrow> jsv result \<times> 'w) option"
  boundary_method :: "string \<Rightarrow> 'w handler option"

definition requiredMethods :: "string list" where
  "requiredMethods = [''request'', ''mapPort'', ''discoverProcessSkills'', ''discoverProsynthesizedCapability'',
     ''requestCandidate'', ''executeCapability'', ''requestRecomposition'']"

definition has_method :: "'w boundary \<Rightarrow> string \<Rightarrow> bool" where
  "has_method b m = (if m = ''request'' then request_method b \<noteq> None else boundary_method b m \<noteq> None)"

definition dispatchers :: "(string \<times> string) list" where
  "dispatchers =
     [(''DISCOVER_PROCESS_SKILLS'', ''discoverProcessSkills''),
      (''DISCOVER_PROSYNTHESIZED_CAPABILITY'', ''discoverProsynthesizedCapability''),
      (''REQUEST_PROSYNTHESINE_CANDIDATE'', ''requestCandidate''),
      (''EXECUTE_CAPABILITY'', ''executeCapability''),
      (''REQUEST_POST_SYNTHESIS_RECOMPOSITION'', ''requestRecomposition'')]"

text \<open>An attachment is the boundary its functions call.\<close>

definition createProcessPortAttachment :: "'w boundary option \<Rightarrow> 'w boundary result" where
  "createProcessPortAttachment boundary =
     (case boundary of
        None \<Rightarrow> reject ''invalid_process_boundary''
      | Some b \<Rightarrow> if filter (\<lambda>m. \<not> has_method b m) requiredMethods \<noteq> [] then reject ''incompatible_process_boundary''
                  else Inr b)"

definition check_receipt :: "string \<Rightarrow> jsv \<Rightarrow> jsv result" where
  "check_receipt t receipt =
     (if \<not> truthy receipt \<or> \<not> typeof_object receipt \<or> jget receipt ''request_type'' \<noteq> JStr t
      then reject ''invalid_process_boundary_receipt''
      else if jget receipt ''external_effects_authorized'' \<noteq> JBool False \<or>
        jget receipt ''authority_escalation_authorized'' \<noteq> JBool False
      then reject ''unsafe_process_boundary_receipt''
      else Inr receipt)"

definition prepare_request :: "'w boundary \<Rightarrow> jsv \<Rightarrow> jsv \<Rightarrow> 'w \<Rightarrow> jsv result \<times> 'w" where
  "prepare_request b type payload w =
     (if \<not> str_in type (map fst dispatchers) then (reject ''unsupported_process_request_type'', w)
      else case request_method b of
        None \<Rightarrow> (Inl TypeErr, w)
      | Some f \<Rightarrow>
          (case f (text_of type) payload w of
             (Inl e, w') \<Rightarrow> (Inl e, w')
           | (Inr receipt, w') \<Rightarrow> (check_receipt (text_of type) receipt, w')))"

definition attachment_request :: "'w boundary \<Rightarrow> jsv \<Rightarrow> jsv \<Rightarrow> 'w \<Rightarrow> jsv result \<times> 'w" where
  "attachment_request b type payload w = prepare_request b type (default_to payload (JObj [])) w"

definition attachment_dispatch :: "'w boundary \<Rightarrow> jsv \<Rightarrow> jsv \<Rightarrow> jsv \<Rightarrow> 'w \<Rightarrow> jsv result \<times> 'w" where
  "attachment_dispatch b type payload receiptPayload w =
     (let payload = default_to payload (JObj [])
      in case prepare_request b type (default_to receiptPayload payload) w of
           (Inl e, w') \<Rightarrow> (Inl e, w')
         | (Inr receipt, w') \<Rightarrow>
             (case map_of dispatchers (text_of type) of
                None \<Rightarrow> (Inl TypeErr, w')
              | Some m \<Rightarrow>
                  (case boundary_method b m of
                     None \<Rightarrow> (Inl TypeErr, w')
                   | Some f \<Rightarrow>
                       (case f payload w' of
                          (Inl e, w'') \<Rightarrow> (Inl e, w'')
                        | (Inr res, w'') \<Rightarrow>
                            (Inr (freezeClone (JObj [(''request'', receipt), (''result'', res)])), w'')))))"

end
