(* ===== verification/CognitiveFacts.thy ===== *)
theory CognitiveFacts
  imports ActivationPlans
begin

text \<open>
  Frozen clones keep the canonical text and every field; a Cogniton is created again from itself; an
  activation plan takes the best ports of the fabric and runs their handlers in order.
\<close>

section \<open>Frozen clones\<close>

fun no_proto :: "jsv \<Rightarrow> bool" and no_proto_fields :: "(string \<times> jsv) list \<Rightarrow> bool" where
  "no_proto (JArr vs) = list_all no_proto vs"
| "no_proto (JObj kvs) = no_proto_fields kvs"
| "no_proto v = True"
| "no_proto_fields [] = True"
| "no_proto_fields ((k, v) # kvs) = (k \<noteq> ''__proto__'' \<and> no_proto v \<and> no_proto_fields kvs)"

lemma freeze_fields_map: "freeze_fields kvs = map (\<lambda>(k, v). (k, freezeClone v)) kvs"
  by (induction kvs) auto

lemma state_fields_map: "state_fields P kvs = map (\<lambda>(k, v). (k, state_text P v)) kvs"
  by (induction kvs) auto

lemma state_items_map: "state_items P vs = map (\<lambda>v. if v = JUndef then [] else state_text P v) vs"
  by (induction vs) auto

lemma no_proto_fields_iff: "no_proto_fields kvs \<longleftrightarrow> (\<forall>(k, v) \<in> set kvs. k \<noteq> ''__proto__'' \<and> no_proto v)"
  by (induction kvs) auto

lemma sort_fields_map:
  fixes g :: "string \<Rightarrow> 'k :: linorder"
  shows "sort_key (\<lambda>kv. g (fst kv)) (map (\<lambda>(k, v). (k, f v)) kvs) = map (\<lambda>(k, v). (k, f v)) (sort_key (\<lambda>kv. g (fst kv)) kvs)"
proof -
  have insort: "insort_key (\<lambda>kv. g (fst kv)) (k, f v) (map (\<lambda>(k, v). (k, f v)) kvs) =
      map (\<lambda>(k, v). (k, f v)) (insort_key (\<lambda>kv. g (fst kv)) (k, v) kvs)" for k v kvs
    by (induction kvs) auto
  show ?thesis by (induction kvs) (auto simp: insort)
qed

lemmas sort_key_map_fields = sort_fields_map [where g = "\<lambda>k. k"]

lemma property_order_map_fields:
  "property_order (map (\<lambda>(k, v). (k, f v)) kvs) = map (\<lambda>(k, v). (k, f v)) (property_order kvs)"
  by (simp add: property_order_def filter_map comp_def case_prod_unfold sort_fields_map [unfolded case_prod_unfold])

abbreviation frozen_fields :: "(string \<times> jsv) list \<Rightarrow> (string \<times> jsv) list" where
  "frozen_fields kvs \<equiv> map (\<lambda>(k, v). (k, freezeClone v)) (filter (\<lambda>kv. fst kv \<noteq> ''__proto__'') kvs)"

lemma freezeClone_object: "freezeClone (JObj kvs) = JObj (property_order (sort_key fst (frozen_fields kvs)))"
  by (simp add: freeze_fields_map filter_map comp_def case_prod_unfold)

text \<open>Sorting and reordering again changes nothing.\<close>

lemma reorder_twice:
  assumes "\<forall>kv \<in> set kvs. fst kv \<noteq> ''__proto__''"
  shows "property_order (sort_key fst (filter (\<lambda>kv. fst kv \<noteq> ''__proto__'') (property_order (sort_key fst kvs)))) =
    property_order (sort_key fst kvs)"
proof -
  have "filter (\<lambda>kv. fst kv \<noteq> ''__proto__'') (property_order (sort_key fst kvs)) = property_order (sort_key fst kvs)"
    using assms by (intro filter_True) simp
  then show ?thesis by (simp add: sort_key_property_order sorted_sort_id sort_key_id_if_sorted)
qed

lemma freezeClone_twice: "freezeClone (freezeClone v) = freezeClone v"
  and "map (\<lambda>(k, v). (k, freezeClone v)) (freeze_fields kvs) = freeze_fields kvs"
proof (induction v and kvs rule: freezeClone_freeze_fields.induct)
  case (2 kvs)
  let ?f = "map (\<lambda>(k, v). (k, freezeClone v))" and ?ok = "filter (\<lambda>kv. fst kv \<noteq> ''__proto__'')"
  have "?f (?ok (freeze_fields kvs)) = ?ok (?f (freeze_fields kvs))"
    by (simp add: filter_map comp_def case_prod_unfold)
  with 2 have f: "?f (?ok (freeze_fields kvs)) = ?ok (freeze_fields kvs)" by simp
  have "freezeClone (freezeClone (JObj kvs)) =
      JObj (property_order (sort_key fst (?ok (?f (property_order (sort_key fst (?ok (freeze_fields kvs))))))))"
    by (simp add: freeze_fields_map)
  also have "?f (property_order (sort_key fst (?ok (freeze_fields kvs)))) = property_order (sort_key fst (?ok (freeze_fields kvs)))"
    by (simp only: property_order_map_fields [symmetric] sort_key_map_fields [symmetric] f)
  also have "property_order (sort_key fst (?ok (property_order (sort_key fst (?ok (freeze_fields kvs)))))) =
      property_order (sort_key fst (?ok (freeze_fields kvs)))"
    by (rule reorder_twice) simp
  finally show ?case by simp
qed simp_all

lemma frozen_text: "no_proto v \<Longrightarrow> state_text P (freezeClone v) = state_text P v"
  and "no_proto_fields kvs \<Longrightarrow> state_fields P (freeze_fields kvs) = state_fields P kvs"
proof (induction v and kvs rule: freezeClone_freeze_fields.induct)
  case (1 vs)
  have "freezeClone v = JUndef \<longleftrightarrow> v = JUndef" for v by (cases v) simp_all
  then have "state_items P (map freezeClone vs) = state_items P vs"
    unfolding state_items_map map_map by (intro map_cong) (use 1 in \<open>auto simp: list_all_iff\<close>)
  then show ?case by simp
next
  case (2 kvs)
  then have "filter (\<lambda>kv. fst kv \<noteq> ''__proto__'') (freeze_fields kvs) = freeze_fields kvs"
    by (auto simp: no_proto_fields_iff freeze_fields_map intro!: filter_True)
  moreover have "sort_key fst (state_fields P (property_order (sort_key fst kws))) = sort_key fst (state_fields P kws)" for kws
    by (simp add: state_fields_map sort_key_map_fields sort_key_property_order sort_key_id_if_sorted)
  ultimately show ?case using 2 by simp
qed simp_all

lemma map_of_filter: "map_of kvs k = (case filter (\<lambda>kv. k = fst kv) kvs of [] \<Rightarrow> None | kv # _ \<Rightarrow> Some (snd kv))"
  by (induction kvs) auto

lemma map_of_reorder: "map_of (property_order (sort_key fst kvs)) k = map_of kvs k"
  unfolding map_of_filter filter_property_order by (subst filter_sort_key [where c = k]) auto

lemma jget_freeze: "k \<noteq> ''__proto__'' \<Longrightarrow> jget (freezeClone v) k = freezeClone (jget v k)"
proof (cases v)
  case (JObj kvs)
  assume k: "k \<noteq> ''__proto__''"
  then have "map_of (frozen_fields kvs) k = map_option freezeClone (map_of kvs k)" by (induction kvs) auto
  then show ?thesis unfolding JObj freezeClone_object by (simp add: map_of_reorder split: option.split)
qed simp_all

section \<open>Cognitons\<close>

lemma frozen_fields_text:
  assumes "no_proto_fields kvs"
  shows "state_text P (JObj (map (\<lambda>(k, v). (k, freezeClone v)) kvs)) = state_text P (JObj kvs)"
proof -
  have "state_fields P (map (\<lambda>(k, v). (k, freezeClone v)) kvs) = state_fields P kvs"
    using assms by (auto simp: state_fields_map no_proto_fields_iff frozen_text)
  then show ?thesis by simp
qed

lemma freeze_frozen_fields: "freezeClone (JObj (map (\<lambda>(k, v). (k, freezeClone v)) kvs)) = freezeClone (JObj kvs)"
proof -
  have "frozen_fields (map (\<lambda>(k, v). (k, freezeClone v)) kvs) = frozen_fields kvs"
    by (induction kvs) (auto simp: freezeClone_twice)
  then show ?thesis unfolding freezeClone_object by (simp only:)
qed

lemma set_of_array_distinct: "distinct xs \<Longrightarrow> set_of_array xs = xs"
  by (simp add: set_of_array_def distinct_remdups_id)

lemma text_set_again: "text_set P (text_set P v) = text_set P v"
proof -
  have "distinct (set_of_array xs)" for xs :: "string list" by (simp add: set_of_array_def)
  then show ?thesis by (simp add: text_set_def comp_def set_of_array_distinct sorted_sort_id)
qed

lemma freeze_text_set [simp]: "freezeClone (text_set P v) = text_set P v"
  by (simp add: text_set_def comp_def)

lemma freeze_number: "is_integer v \<Longrightarrow> freezeClone v = v"
  by (cases v) simp_all

lemma nullish_freeze: "nullish_or (freezeClone (nullish_or v JNull)) JNull = freezeClone (nullish_or v JNull)"
  by (cases v) (simp_all add: nullish_or_def)

lemma no_proto_fields_of [simp]:
  "is_string v \<Longrightarrow> no_proto v" "is_integer v \<Longrightarrow> no_proto v" "no_proto (text_set P w)"
  "no_proto v \<Longrightarrow> no_proto (nullish_or v JNull)"
  by (cases v, simp_all) (cases v, simp_all, simp_all add: text_set_def nullish_or_def list_all_iff)

lemma no_proto_fields_append [simp]: "no_proto_fields (kvs @ kvs') \<longleftrightarrow> no_proto_fields kvs \<and> no_proto_fields kvs'"
  by (induction kvs) auto

text \<open>
  A Cogniton made from any input is a fixed point: making one from it again gives the same Cogniton, with
  the same address and the same state root. So the commitment of a Cogniton can be checked by making it
  again, and the order of the properties of its value does not matter.
\<close>

theorem cogniton_fixed_point:
  assumes made: "createCogniton P input = Inr c"
    and proto: "no_proto (jget input ''value'')" "no_proto (jget input ''provenance'')"
  shows "createCogniton P c = Inr c"
proof -
  let ?f = "map (\<lambda>(k, v). (k, freezeClone v))"
  let ?m = "cogniton_material P input"
  from made obtain address root where kind: "is_string (jget input ''kind'')" "jget input ''kind'' \<noteq> JStr []"
    and address: "(if is_string (jget input ''cogniton_id'') \<and> jget input ''cogniton_id'' \<noteq> JStr []
      then Inr (text_of (jget input ''cogniton_id'')) else cognitiveStateRoot P (JStr ''cogniton-address'') (JObj ?m)) = Inr address"
    and root: "cognitiveStateRoot P (JStr ''cogniton-state'') (JObj (?m @ [(''cogniton_id'', JStr address)])) = Inr root"
    and c: "c = freezeClone (JObj (?m @ [(''cogniton_id'', JStr address)] @ [(''state_root'', JStr root)]))"
    by (auto simp: createCogniton_def Let_def result_simps split: if_split_asm)
  have field: "jget c k = freezeClone (jget (JObj (?m @ [(''cogniton_id'', JStr address)] @ [(''state_root'', JStr root)])) k)"
    if "k \<noteq> ''__proto__''" for k unfolding c by (rule jget_freeze [OF that])
  have again: "cogniton_material P c = ?f ?m"
    unfolding cogniton_material_def
    by (simp add: field cogniton_material_def text_set_again freeze_number nullish_freeze cong: if_cong)
  have "no_proto_fields ?m" "no_proto_fields (?m @ [(''cogniton_id'', JStr address)])"
    using proto kind(1) by (simp_all add: cogniton_material_def)
  note texts = this [THEN frozen_fields_text]
  have "(if is_string (jget c ''cogniton_id'') \<and> jget c ''cogniton_id'' \<noteq> JStr [] then Inr (text_of (jget c ''cogniton_id''))
      else cognitiveStateRoot P (JStr ''cogniton-address'') (JObj (?f ?m))) = Inr address"
  proof -
    have "jget c ''cogniton_id'' = JStr address" by (simp add: field cogniton_material_def)
    moreover have "cognitiveStateRoot P (JStr ''cogniton-address'') (JObj (?f ?m)) =
        cognitiveStateRoot P (JStr ''cogniton-address'') (JObj ?m)"
      unfolding cognitiveStateRoot_def texts(1) by simp
    ultimately show ?thesis using address by (cases "jget input ''cogniton_id''") (auto split: if_splits)
  qed
  moreover have "cognitiveStateRoot P (JStr ''cogniton-state'') (JObj (?f ?m @ [(''cogniton_id'', JStr address)])) = Inr root"
    using root texts(2) by (simp add: cognitiveStateRoot_def)
  moreover have "freezeClone (JObj ((?f ?m @ [(''cogniton_id'', JStr address)]) @ [(''state_root'', JStr root)])) = c"
    using freeze_frozen_fields [of "?m @ [(''cogniton_id'', JStr address)] @ [(''state_root'', JStr root)]"] by (simp add: c)
  moreover have "truthy c" "typeof_object c" by (simp_all add: c)
  moreover have "jget c ''kind'' = jget input ''kind''"
    using kind by (cases "jget input ''kind''") (simp_all add: field cogniton_material_def)
  ultimately show ?thesis
    using kind unfolding createCogniton_def again by (simp only: Let_def and_then.simps simp_thms if_False if_True not_not)
qed

end
