(* ===== verification/Synaptizer.thy ===== *)
theory Synaptizer
  imports CognitiveStore
begin

text \<open>
  \<open>unified-quad/src/synaptizer.mjs\<close>: relationships between processes, learned from the evidence of
  verified executions. A record is kept as the object of the code. Its counts are numbers when the
  Synaptizer made the record; a record taken from a snapshot is checked by its commitment only, so adding
  to its fields is the addition of the language.
\<close>

section \<open>Commitments and operations of the language\<close>

definition relationship_contract :: string where
  "relationship_contract = ''kindred.synaptic-relationship.v1''"

definition snapshot_contract :: string where
  "snapshot_contract = ''kindred.synaptizer-snapshot.v1''"

definition synapticStateRoot :: "platform \<Rightarrow> jsv \<Rightarrow> jsv \<Rightarrow> string result" where
  "synapticStateRoot P label v =
     (case label of
        JStr l \<Rightarrow> if l = [] then reject ''invalid_state_root_label''
                  else Inr (''sha256:'' @ hex_text (sha256 P (utf8 (l @ '':'' @ state_text P v))))
      | _ \<Rightarrow> reject ''invalid_state_root_label'')"

definition nonEmpty :: "jsv \<Rightarrow> string \<Rightarrow> unit result" where
  "nonEmpty v why = (if \<not> is_string v \<or> v = JStr [] then reject why else Inr ())"

text \<open>\<open>v + q\<close> for a number \<open>q\<close>\<close>

fun plus :: "platform \<Rightarrow> jsv \<Rightarrow> rat \<Rightarrow> jsv" where
  "plus P JUndef q = JNum NaN"
| "plus P JNull q = JNum (Fin q)"
| "plus P (JBool b) q = JNum (Fin ((if b then 1 else 0) + q))"
| "plus P (JNum (Fin p)) q = JNum (Fin (p + q))"
| "plus P (JNum n) q = JNum n"
| "plus P v q = JStr (to_string P v @ rat_text P q)"

text \<open>\<open>new Set(v)\<close>, \<open>add\<close>, and \<open>[...set].sort()\<close>: by the text of the items, undefined at the end.\<close>

definition set_add :: "jsv list \<Rightarrow> jsv \<Rightarrow> jsv list" where
  "set_add vs v = (if primitive v \<and> v \<in> set vs then vs else vs @ [v])"

fun set_of :: "jsv \<Rightarrow> jsv list result" where
  "set_of JUndef = Inr []"
| "set_of JNull = Inr []"
| "set_of (JArr vs) = Inr (foldl set_add [] vs)"
| "set_of (JStr s) = Inr (foldl set_add [] (map (\<lambda>c. JStr [c]) s))"
| "set_of v = Inl TypeErr"

definition text_le :: "platform \<Rightarrow> jsv \<Rightarrow> jsv \<Rightarrow> bool" where
  "text_le P v w \<longleftrightarrow> w = JUndef \<or> (v \<noteq> JUndef \<and> to_string P v \<le> to_string P w)"

section \<open>Evidence\<close>

definition is_true :: "jsv \<Rightarrow> bool" where
  "is_true v \<longleftrightarrow> v = JBool True"

definition identity_parts :: "jsv \<Rightarrow> jsv \<Rightarrow> (string \<times> jsv) list result" where
  "identity_parts edge context =
     and_then (nonEmpty (jget edge ''source_component'') ''synaptic_source_component_invalid'') (\<lambda>_.
     and_then (nonEmpty (jget edge ''target_component'') ''synaptic_target_component_invalid'') (\<lambda>_.
     and_then (nonEmpty (jget edge ''source_role'') ''synaptic_source_role_invalid'') (\<lambda>_.
     and_then (nonEmpty (jget edge ''target_role'') ''synaptic_target_role_invalid'') (\<lambda>_.
       Inr [(''source_component'', jget edge ''source_component''), (''target_component'', jget edge ''target_component''),
            (''source_role'', jget edge ''source_role''), (''target_role'', jget edge ''target_role''),
            (''context_ref'', nullish_or context JNull)]))))"

definition relationshipIdentity :: "jsv \<Rightarrow> (string \<times> jsv) list result" where
  "relationshipIdentity event = identity_parts (jget event ''edge_relationship'') (jget event ''context_ref'')"

definition reinforcement :: "jsv \<Rightarrow> rat" where
  "reinforcement event =
     (if is_true (jget event ''failure'') \<and> is_true (jget (jget event ''fitness_evidence'') ''verified'') then -1
      else if is_true (jget event ''recovery'') then 3 / 2
      else if is_true (jget event ''verification_contribution'') then 5 / 4
      else if is_true (jget event ''success'') then 1
      else 1 / 4)"

text \<open>The checks of an event before anything is counted.\<close>

definition check_event :: "platform \<Rightarrow> jsv \<Rightarrow> unit result" where
  "check_event P event =
     (if \<not> truthy event \<or> \<not> typeof_object event then reject ''synaptic_event_invalid''
      else if jget event ''event_type'' \<noteq> JStr ''PROCESS_EDGE_EVIDENCE'' then reject ''synaptic_event_type_invalid''
      else and_then (nonEmpty (jget event ''contract_version'') ''synaptic_contract_version_invalid'') (\<lambda>_.
        and_then (nonEmpty (jget event ''edge_execution_id'') ''synaptic_edge_execution_id_invalid'') (\<lambda>_.
          if \<not> is_string (jget event ''state_root'') \<or> \<not> test P sha_root_shape (jget event ''state_root'')
          then reject ''synaptic_evidence_root_invalid''
          else if \<not> truthy (jget event ''edge_relationship'') \<or> \<not> typeof_object (jget event ''edge_relationship'')
          then reject ''synaptic_relationship_invalid''
          else if \<not> truthy (jget event ''fitness_evidence'') \<or> \<not> typeof_object (jget event ''fitness_evidence'')
          then reject ''synaptic_fitness_evidence_invalid''
          else Inr ())))"

section \<open>The Synaptizer\<close>

record synaptizer =
  relationships :: "(string \<times> jsv) list"
  seenEvents :: "string list"
  receivedEvents :: int
  learnedEvents :: int
  ignoredEvents :: int
  duplicateEvents :: int

definition new_synaptizer :: synaptizer where
  "new_synaptizer = \<lparr>relationships = [], seenEvents = [], receivedEvents = 0, learnedEvents = 0, ignoredEvents = 0,
     duplicateEvents = 0\<rparr>"

definition fresh_relationship :: "string \<Rightarrow> (string \<times> jsv) list \<Rightarrow> jsv" where
  "fresh_relationship rid identity = JObj
     ([(''contract'', JStr relationship_contract), (''relationship_id'', JStr rid)] @ identity @
      [(''observations'', JInt 0), (''verified_successes'', JInt 0), (''verified_failures'', JInt 0),
       (''recoveries'', JInt 0), (''verification_contributions'', JInt 0), (''reinforcement'', JInt 0),
       (''evidence_state_roots'', JArr [])])"

definition relationship_id :: "platform \<Rightarrow> (string \<times> jsv) list \<Rightarrow> string result" where
  "relationship_id P identity = synapticStateRoot P (JStr ''synaptic-relationship-identity'') (JObj identity)"

definition one_if :: "jsv \<Rightarrow> rat" where
  "one_if v = (if is_true v then 1 else 0)"

text \<open>\<open>updated\<close> and \<open>committed\<close>\<close>

definition observe :: "platform \<Rightarrow> jsv \<Rightarrow> jsv list \<Rightarrow> jsv \<Rightarrow> jsv" where
  "observe P event roots existing =
     fold (\<lambda>(k, v). jset k v)
       [(''observations'', plus P (jget existing ''observations'') 1),
        (''verified_successes'', plus P (jget existing ''verified_successes'') (one_if (jget event ''success''))),
        (''verified_failures'', plus P (jget existing ''verified_failures'') (one_if (jget event ''failure''))),
        (''recoveries'', plus P (jget existing ''recoveries'') (one_if (jget event ''recovery''))),
        (''verification_contributions'', plus P (jget existing ''verification_contributions'')
           (one_if (jget event ''verification_contribution''))),
        (''reinforcement'', plus P (jget existing ''reinforcement'') (reinforcement event)),
        (''evidence_state_roots'', JArr (sort_by (text_le P) (set_add roots (jget event ''state_root''))))] existing"

definition committed :: "platform \<Rightarrow> jsv \<Rightarrow> jsv result" where
  "committed P updated =
     and_then (synapticStateRoot P (JStr ''synaptic-relationship-state'') updated) (\<lambda>root.
       Inr (jset ''state_root'' (JStr root) updated))"

definition learn :: "platform \<Rightarrow> jsv \<Rightarrow> (string \<times> jsv) list \<Rightarrow> (jsv \<times> string) result" where
  "learn P event known =
     and_then (relationshipIdentity event) (\<lambda>identity.
     and_then (relationship_id P identity) (\<lambda>rid.
       let existing = (case map_of known rid of Some r \<Rightarrow> r | None \<Rightarrow> fresh_relationship rid identity)
       in and_then (set_of (jget existing ''evidence_state_roots'')) (\<lambda>roots.
          and_then (committed P (observe P event roots existing)) (\<lambda>r. Inr (r, rid)))))"

definition consume_event :: "platform \<Rightarrow> jsv \<Rightarrow> synaptizer \<Rightarrow> jsv result \<times> synaptizer" where
  "consume_event P event s =
     (case check_event P event of
        Inl e \<Rightarrow> (Inl e, s)
      | Inr _ \<Rightarrow>
          let s1 = s\<lparr>receivedEvents := receivedEvents s + 1\<rparr>; eid = text_of (jget event ''edge_execution_id'')
          in if eid \<in> set (seenEvents s1)
             then (Inr (JObj [(''accepted'', JBool False), (''duplicate'', JBool True), (''learned'', JBool False)]),
                   s1\<lparr>duplicateEvents := duplicateEvents s1 + 1\<rparr>)
             else
               let s2 = s1\<lparr>seenEvents := seenEvents s1 @ [eid]\<rparr>
               in if \<not> is_true (jget (jget event ''fitness_evidence'') ''verified'')
                  then (Inr (JObj [(''accepted'', JBool True), (''duplicate'', JBool False), (''learned'', JBool False),
                          (''reason'', JStr ''UNVERIFIED_EXECUTION_EVIDENCE'')]),
                        s2\<lparr>ignoredEvents := ignoredEvents s2 + 1\<rparr>)
                  else case learn P event (relationships s2) of
                    Inl e \<Rightarrow> (Inl e, s2)
                  | Inr (r, rid) \<Rightarrow>
                      (Inr (JObj [(''accepted'', JBool True), (''duplicate'', JBool False), (''learned'', JBool True),
                          (''relationship'', r)]),
                       s2\<lparr>relationships := AList.update rid r (relationships s2), learnedEvents := learnedEvents s2 + 1\<rparr>))"

definition relationship :: "string \<Rightarrow> synaptizer \<Rightarrow> jsv" where
  "relationship rid s = (case map_of (relationships s) rid of Some r \<Rightarrow> r | None \<Rightarrow> JNull)"

definition describeRelationships :: "platform \<Rightarrow> synaptizer \<Rightarrow> jsv list" where
  "describeRelationships P s =
     sort_by (\<lambda>a b. locale_le P (text_of (jget a ''relationship_id'')) (text_of (jget b ''relationship_id'')))
       (map snd (relationships s))"

definition snapshot_state :: "platform \<Rightarrow> synaptizer \<Rightarrow> (string \<times> jsv) list" where
  "snapshot_state P s =
     [(''contract'', JStr snapshot_contract), (''relationships'', JArr (describeRelationships P s)),
      (''received_events'', JInt (receivedEvents s)), (''learned_events'', JInt (learnedEvents s)),
      (''ignored_unverified_events'', JInt (ignoredEvents s)), (''duplicate_events'', JInt (duplicateEvents s)),
      (''seen_event_ids'', JArr (map JStr (sort (seenEvents s))))]"

definition snapshot :: "platform \<Rightarrow> synaptizer \<Rightarrow> jsv result" where
  "snapshot P s =
     and_then (synapticStateRoot P (JStr ''synaptizer-state'') (JObj (snapshot_state P s))) (\<lambda>root.
       Inr (JObj (snapshot_state P s @ [(''state_root'', JStr root)])))"

section \<open>Hydration\<close>

definition check_relationship :: "platform \<Rightarrow> jsv \<Rightarrow> string result" where
  "check_relationship P r =
     (if \<not> truthy r \<or> \<not> typeof_object r then reject ''synaptizer_relationship_snapshot_invalid''
      else if jget r ''contract'' \<noteq> JStr relationship_contract then reject ''synaptizer_relationship_contract_invalid''
      else and_then (identity_parts r (jget r ''context_ref'')) (\<lambda>identity.
        and_then (relationship_id P identity) (\<lambda>rid.
          if jget r ''relationship_id'' \<noteq> JStr rid then reject ''synaptizer_relationship_identity_mismatch''
          else if \<not> is_string (jget r ''state_root'') then reject ''synaptizer_relationship_root_missing''
          else and_then (synapticStateRoot P (JStr ''synaptic-relationship-state'') (jdelete ''state_root'' r)) (\<lambda>root.
            if jget r ''state_root'' \<noteq> JStr root then reject ''synaptizer_relationship_integrity_mismatch''
            else Inr rid))))"

fun restore_relationships :: "platform \<Rightarrow> jsv list \<Rightarrow> (string \<times> jsv) list \<Rightarrow> (string \<times> jsv) list result" where
  "restore_relationships P [] restored = Inr restored"
| "restore_relationships P (r # rs) restored =
     and_then (check_relationship P r) (\<lambda>rid.
       if rid \<in> fst ` set restored then reject ''synaptizer_relationship_duplicate''
       else restore_relationships P rs (restored @ [(rid, r)]))"

definition counter_fields :: "string list" where
  "counter_fields = [''received_events'', ''learned_events'', ''ignored_unverified_events'', ''duplicate_events'']"

definition check_snapshot :: "platform \<Rightarrow> jsv \<Rightarrow> unit result" where
  "check_snapshot P snap =
     (if \<not> truthy snap \<or> \<not> typeof_object snap then reject ''synaptizer_snapshot_invalid''
      else if jget snap ''contract'' \<noteq> JStr snapshot_contract then reject ''synaptizer_snapshot_contract_invalid''
      else if \<not> is_array (jget snap ''relationships'') then reject ''synaptizer_snapshot_relationships_invalid''
      else if \<not> is_string (jget snap ''state_root'') \<or> \<not> test P sha_root_shape (jget snap ''state_root'')
      then reject ''synaptizer_snapshot_root_invalid''
      else and_then (synapticStateRoot P (JStr ''synaptizer-state'') (jdelete ''state_root'' snap)) (\<lambda>root.
        if jget snap ''state_root'' \<noteq> JStr root then reject ''synaptizer_snapshot_integrity_mismatch''
        else if \<not> list_all (\<lambda>k. is_safe_integer (jget snap k) \<and> 0 \<le> num_of (jget snap k)) counter_fields
        then reject ''synaptizer_snapshot_counter_invalid''
        else Inr ()))"

definition check_seen :: "jsv \<Rightarrow> string list result" where
  "check_seen v =
     (if \<not> is_array v \<or> list_ex (\<lambda>i. \<not> is_string i \<or> i = JStr []) (items v) then reject ''synaptizer_seen_events_invalid''
      else if \<not> distinct (map text_of (items v)) then reject ''synaptizer_seen_events_duplicate''
      else Inr (map text_of (items v)))"

definition hydrate :: "platform \<Rightarrow> jsv \<Rightarrow> synaptizer \<Rightarrow> jsv result \<times> synaptizer" where
  "hydrate P snap s =
     (case and_then (check_snapshot P snap) (\<lambda>_.
           and_then (restore_relationships P (items (jget snap ''relationships'')) []) (\<lambda>restored.
           and_then (check_seen (nullish_or (jget snap ''seen_event_ids'') (JArr []))) (\<lambda>seen.
             Inr \<lparr>relationships = restored, seenEvents = seen,
                  receivedEvents = \<lfloor>num_of (jget snap ''received_events'')\<rfloor>,
                  learnedEvents = \<lfloor>num_of (jget snap ''learned_events'')\<rfloor>,
                  ignoredEvents = \<lfloor>num_of (jget snap ''ignored_unverified_events'')\<rfloor>,
                  duplicateEvents = \<lfloor>num_of (jget snap ''duplicate_events'')\<rfloor>\<rparr>))) of
        Inl e \<Rightarrow> (Inl e, s)
      | Inr s' \<Rightarrow> (snapshot P s', s'))"

end
