(* ===== verification/SynaptizerFacts.thy ===== *)
theory SynaptizerFacts
  imports Synaptizer
begin

text \<open>
  What the Synaptizer knows after some events: each relationship is the summary of the verified evidence
  of its identity, each execution counted once, and the counters add up. A snapshot is taken back by
  \<open>hydrate\<close> exactly if every relationship in it was observed once.
\<close>

section \<open>The evidence of a run\<close>

text \<open>The events that count: those that pass the checks, are the first of their execution id, and are
  verified evidence of a relationship that can be named.\<close>

definition event_id :: "jsv \<Rightarrow> string" where
  "event_id event = text_of (jget event ''edge_execution_id'')"

definition verified :: "jsv \<Rightarrow> bool" where
  "verified event \<longleftrightarrow> is_true (jget (jget event ''fitness_evidence'') ''verified'')"

fun evidence :: "platform \<Rightarrow> string set \<Rightarrow> jsv list \<Rightarrow> jsv list" where
  "evidence P seen [] = []"
| "evidence P seen (e # es) =
     (if \<not> succeeds (check_event P e) \<or> event_id e \<in> seen then evidence P seen es
      else (if verified e \<and> succeeds (relationshipIdentity e) then [e] else []) @
        evidence P (insert (event_id e) seen) es)"

definition identity_root :: "platform \<Rightarrow> jsv \<Rightarrow> string" where
  "identity_root P e =
     (case and_then (relationshipIdentity e) (relationship_id P) of Inr rid \<Rightarrow> rid | Inl _ \<Rightarrow> [])"

definition count_true :: "string \<Rightarrow> jsv list \<Rightarrow> nat" where
  "count_true k es = length (filter (\<lambda>e. is_true (jget e k)) es)"

text \<open>A record that sums up a list of events.\<close>

definition summary :: "jsv \<Rightarrow> jsv list \<Rightarrow> bool" where
  "summary r es \<longleftrightarrow>
     jget r ''observations'' = JNum (Fin (of_nat (length es))) \<and>
     jget r ''verified_successes'' = JNum (Fin (of_nat (count_true ''success'' es))) \<and>
     jget r ''verified_failures'' = JNum (Fin (of_nat (count_true ''failure'' es))) \<and>
     jget r ''recoveries'' = JNum (Fin (of_nat (count_true ''recovery'' es))) \<and>
     jget r ''verification_contributions'' = JNum (Fin (of_nat (count_true ''verification_contribution'' es))) \<and>
     jget r ''reinforcement'' = JNum (Fin (sum_list (map reinforcement es))) \<and>
     (\<exists>roots. jget r ''evidence_state_roots'' = JArr (map JStr roots) \<and> distinct roots \<and> sorted roots \<and>
        set roots = (\<lambda>e. text_of (jget e ''state_root'')) ` set es)"

section \<open>One observation\<close>

lemma text_le_JStr [simp]: "text_le P (JStr a) (JStr b) \<longleftrightarrow> a \<le> b"
  by (simp add: text_le_def)

lemma sort_by_strings: "sort_by (text_le P) (map JStr xs) = map JStr (sort_by (\<le>) xs)"
proof -
  have "insert_by (text_le P) (JStr x) (map JStr ys) = map JStr (insert_by (\<le>) x ys)" for x ys
    by (induction ys) simp_all
  then show ?thesis by (induction xs) simp_all
qed

lemma sorted_sort_by: "sorted (sort_by (\<le>) (xs :: string list))"
  by (rule sorted_wrt_sort_by) auto

lemma set_add_strings: "set_add (map JStr xs) (JStr x) = map JStr (if x \<in> set xs then xs else xs @ [x])"
  by (auto simp: set_add_def)

lemma set_of_strings: "distinct xs \<Longrightarrow> set_of (JArr (map JStr xs)) = Inr (map JStr xs)"
proof -
  have "distinct (xs @ ys) \<Longrightarrow> foldl set_add (map JStr xs) (map JStr ys) = map JStr (xs @ ys)" for xs ys
  proof (induction ys arbitrary: xs)
    case (Cons y ys)
    from Cons.IH [of "xs @ [y]"] Cons.prems show ?case by (auto simp: set_add_strings)
  qed simp
  from this [of "[]" xs] show "distinct xs \<Longrightarrow> set_of (JArr (map JStr xs)) = Inr (map JStr xs)" by simp
qed

lemma is_record_observe [simp]: "is_record (observe P e roots r)"
  by (simp add: observe_def)

lemma committed_Inr:
  "\<exists>root. synapticStateRoot P (JStr ''synaptic-relationship-state'') u = Inr root \<and> committed P u = Inr (jset ''state_root'' (JStr root) u)"
  by (simp add: committed_def synapticStateRoot_def)

lemma summary_observe:
  assumes "is_record r" "summary r es" "jget r ''evidence_state_roots'' = JArr (map JStr roots)"
    and "jget e ''state_root'' = JStr x"
  shows "summary (jset ''state_root'' w (observe P e (map JStr roots) r)) (es @ [e])"
proof -
  have roots: "distinct roots" "set roots = (\<lambda>e. text_of (jget e ''state_root'')) ` set es"
    using assms(2,3) by (auto simp: summary_def inj_map_eq_map inj_on_def)
  define new where "new = sort_by (\<le>) (if x \<in> set roots then roots else roots @ [x])"
  have "distinct new" "sorted new" "set new = (\<lambda>e. text_of (jget e ''state_root'')) ` set (es @ [e])"
    using roots assms(4) by (auto simp: new_def intro: distinct_sort_by sorted_sort_by)
  moreover have "sort_by (text_le P) (set_add (map JStr roots) (JStr x)) = map JStr new"
    unfolding new_def by (simp only: set_add_strings sort_by_strings)
  then have "jget (jset ''state_root'' w (observe P e (map JStr roots) r)) ''evidence_state_roots'' = JArr (map JStr new)"
    using assms(1,4) by (simp add: observe_def)
  ultimately show ?thesis
    using assms(1,2) unfolding summary_def
    by (intro conjI exI [of _ new]) (simp_all add: observe_def count_true_def one_if_def)
qed

lemma check_event_Inr:
  assumes "check_event P e = Inr ()"
  obtains x i where "jget e ''state_root'' = JStr x" "jget e ''edge_execution_id'' = JStr i" "i \<noteq> []"
proof -
  have "is_string (jget e ''state_root'')" "is_string (jget e ''edge_execution_id'')" "jget e ''edge_execution_id'' \<noteq> JStr []"
    using assms by (auto simp: check_event_def nonEmpty_def result_simps split: if_splits)
  then show thesis
    using that by (cases "jget e ''state_root''"; cases "jget e ''edge_execution_id''") auto
qed

lemma relationship_id_Inr: "\<exists>rid. relationship_id P identity = Inr rid"
  by (simp add: relationship_id_def synapticStateRoot_def)

lemma identity_parts_shape:
  assumes "identity_parts edge context = Inr identity"
  obtains a b c d x where "identity = [(''source_component'', a), (''target_component'', b), (''source_role'', c),
    (''target_role'', d), (''context_ref'', x)]"
  using assms by (auto simp: identity_parts_def result_simps)

lemma fresh_fields:
  assumes "identity_parts edge context = Inr identity"
  shows "is_record (fresh_relationship rid identity)" "summary (fresh_relationship rid identity) []"
    "jget (fresh_relationship rid identity) ''evidence_state_roots'' = JArr []"
proof -
  from assms obtain a b c d x where identity: "identity = [(''source_component'', a), (''target_component'', b),
      (''source_role'', c), (''target_role'', d), (''context_ref'', x)]" by (rule identity_parts_shape)
  show "is_record (fresh_relationship rid identity)" "jget (fresh_relationship rid identity) ''evidence_state_roots'' = JArr []"
    by (simp_all add: fresh_relationship_def identity)
  show "summary (fresh_relationship rid identity) []"
    by (simp add: fresh_relationship_def identity summary_def count_true_def)
qed

text \<open>The records sum up the list of the events learned from.\<close>

definition sums_up :: "platform \<Rightarrow> (string \<times> jsv) list \<Rightarrow> jsv list \<Rightarrow> bool" where
  "sums_up P known learnt \<longleftrightarrow>
     (\<forall>rid. case map_of known rid of
        None \<Rightarrow> filter (\<lambda>e. identity_root P e = rid) learnt = []
      | Some r \<Rightarrow> is_record r \<and> filter (\<lambda>e. identity_root P e = rid) learnt \<noteq> [] \<and>
          summary r (filter (\<lambda>e. identity_root P e = rid) learnt))"

lemma learn_sums:
  assumes sums: "sums_up P known learnt" and e: "check_event P e = Inr ()" "relationshipIdentity e = Inr identity"
  obtains r where "learn P e known = Inr (r, identity_root P e)"
    "sums_up P (AList.update (identity_root P e) r known) (learnt @ [e])"
proof -
  let ?rid = "identity_root P e" and ?L = "filter (\<lambda>e'. identity_root P e' = identity_root P e) learnt"
  define existing where "existing = (case map_of known ?rid of Some r \<Rightarrow> r | None \<Rightarrow> fresh_relationship ?rid identity)"
  have rid: "relationship_id P identity = Inr ?rid"
    using relationship_id_Inr [of P identity] e(2) by (auto simp: identity_root_def)
  from e(2) have parts: "identity_parts (jget e ''edge_relationship'') (jget e ''context_ref'') = Inr identity"
    by (simp add: relationshipIdentity_def)
  have existing: "is_record existing" "summary existing ?L"
    using sums [unfolded sums_up_def, THEN spec, of ?rid] fresh_fields [OF parts, of ?rid] unfolding existing_def
    by (auto split: option.splits)
  then obtain roots where roots: "jget existing ''evidence_state_roots'' = JArr (map JStr roots)" "distinct roots"
    by (auto simp: summary_def)
  from e(1) obtain x where x: "jget e ''state_root'' = JStr x" by (rule check_event_Inr)
  obtain w where w: "committed P (observe P e (map JStr roots) existing) =
      Inr (jset ''state_root'' (JStr w) (observe P e (map JStr roots) existing))"
    using committed_Inr by blast
  let ?r = "jset ''state_root'' (JStr w) (observe P e (map JStr roots) existing)"
  have "learn P e known = Inr (?r, ?rid)"
    by (simp add: learn_def e(2) rid existing_def [symmetric] roots set_of_strings w del: set_of.simps)
  moreover have "summary ?r (?L @ [e])"
    by (rule summary_observe [OF existing roots(1) x])
  then have new: "is_record ?r \<and> filter (\<lambda>e'. identity_root P e' = ?rid) (learnt @ [e]) \<noteq> [] \<and>
      summary ?r (filter (\<lambda>e'. identity_root P e' = ?rid) (learnt @ [e]))" by simp
  have old: "filter (\<lambda>e'. identity_root P e' = rid) (learnt @ [e]) = filter (\<lambda>e'. identity_root P e' = rid) learnt"
    if "rid \<noteq> ?rid" for rid using that by simp
  have "sums_up P (AList.update ?rid ?r known) (learnt @ [e])"
    unfolding sums_up_def
  proof
    fix rid
    show "case map_of (AList.update ?rid ?r known) rid of
        None \<Rightarrow> filter (\<lambda>e'. identity_root P e' = rid) (learnt @ [e]) = []
      | Some r \<Rightarrow> is_record r \<and> filter (\<lambda>e'. identity_root P e' = rid) (learnt @ [e]) \<noteq> [] \<and>
          summary r (filter (\<lambda>e'. identity_root P e' = rid) (learnt @ [e]))"
    proof (cases "rid = ?rid")
      case True
      with new show ?thesis by (simp only: update_conv' fun_upd_same option.case simp_thms)
    next
      case False
      with sums [unfolded sums_up_def, THEN spec, of rid] show ?thesis
        by (simp only: update_conv' fun_upd_other old not_False_eq_True)
    qed
  qed
  ultimately show thesis by (rule that)
qed

definition consume_events :: "platform \<Rightarrow> jsv list \<Rightarrow> synaptizer \<Rightarrow> synaptizer" where
  "consume_events P es s = fold (\<lambda>e s. snd (consume_event P e s)) es s"

lemma consume_events_simps [simp]:
  "consume_events P [] s = s" "consume_events P (e # es) s = consume_events P es (snd (consume_event P e s))"
  by (simp_all add: consume_events_def)

lemma learn_refused: "relationshipIdentity e = Inl err \<Longrightarrow> learn P e known = Inl err"
  by (simp add: learn_def)

text \<open>What an event does to the state.\<close>

lemma consume_cases:
  assumes sums: "sums_up P (relationships s) learnt" and s': "s' = snd (consume_event P e s)"
  obtains (refused) "\<not> succeeds (check_event P e)" "s' = s"
  | (duplicate) "check_event P e = Inr ()" "event_id e \<in> set (seenEvents s)"
      "s' = s\<lparr>receivedEvents := receivedEvents s + 1, duplicateEvents := duplicateEvents s + 1\<rparr>"
  | (unverified) "check_event P e = Inr ()" "event_id e \<notin> set (seenEvents s)" "\<not> verified e"
      "s' = s\<lparr>receivedEvents := receivedEvents s + 1, seenEvents := seenEvents s @ [event_id e],
        ignoredEvents := ignoredEvents s + 1\<rparr>"
  | (unnamed) err where "check_event P e = Inr ()" "event_id e \<notin> set (seenEvents s)" "verified e"
      "relationshipIdentity e = Inl err" "fst (consume_event P e s) = Inl err"
      "s' = s\<lparr>receivedEvents := receivedEvents s + 1, seenEvents := seenEvents s @ [event_id e]\<rparr>"
  | (learned) r identity where "check_event P e = Inr ()" "event_id e \<notin> set (seenEvents s)" "verified e"
      "relationshipIdentity e = Inr identity" "learn P e (relationships s) = Inr (r, identity_root P e)"
      "sums_up P (AList.update (identity_root P e) r (relationships s)) (learnt @ [e])"
      "s' = s\<lparr>receivedEvents := receivedEvents s + 1, seenEvents := seenEvents s @ [event_id e],
        relationships := AList.update (identity_root P e) r (relationships s), learnedEvents := learnedEvents s + 1\<rparr>"
proof (cases "check_event P e")
  case (Inr u)
  then have ok: "check_event P e = Inr ()" by simp
  consider "event_id e \<in> set (seenEvents s)" | "event_id e \<notin> set (seenEvents s)" "\<not> verified e"
    | err where "event_id e \<notin> set (seenEvents s)" "verified e" "relationshipIdentity e = Inl err"
    | identity where "event_id e \<notin> set (seenEvents s)" "verified e" "relationshipIdentity e = Inr identity"
    by (cases "relationshipIdentity e") auto
  then show thesis
  proof cases
    case 1
    with ok show ?thesis by (intro duplicate) (simp_all add: s' consume_event_def event_id_def Let_def)
  next
    case 2
    with ok show ?thesis by (intro unverified) (simp_all add: s' consume_event_def event_id_def verified_def Let_def)
  next
    case 3
    with ok show ?thesis
      by (intro unnamed [of err]) (simp_all add: s' consume_event_def event_id_def verified_def Let_def learn_refused)
  next
    case 4
    from learn_sums [OF sums ok 4(3)] obtain r where r: "learn P e (relationships s) = Inr (r, identity_root P e)"
      "sums_up P (AList.update (identity_root P e) r (relationships s)) (learnt @ [e])" .
    show ?thesis
      by (rule learned [OF ok 4(1,2,3) r]) (use ok 4 r in \<open>simp add: s' consume_event_def event_id_def verified_def Let_def\<close>)
  qed
qed (use refused in \<open>simp add: s' consume_event_def\<close>)

lemma sums_run:
  assumes "sums_up P (relationships s) learnt"
  shows "sums_up P (relationships (consume_events P es s)) (learnt @ evidence P (set (seenEvents s)) es) \<and>
    learnedEvents (consume_events P es s) = learnedEvents s + int (length (evidence P (set (seenEvents s)) es))"
  using assms
proof (induction es arbitrary: s learnt)
  case (Cons e es)
  obtain s' where s': "s' = snd (consume_event P e s)" by simp
  show ?case
    using Cons.prems s'
  proof (cases rule: consume_cases)
    case refused
    then show ?thesis using Cons.IH [OF Cons.prems] by (simp add: s' [symmetric])
  next
    case duplicate
    then show ?thesis using Cons.IH [of s' learnt] Cons.prems by (simp add: s' [symmetric])
  next
    case unverified
    then show ?thesis using Cons.IH [of s' learnt] Cons.prems by (simp add: s' [symmetric])
  next
    case (unnamed err)
    then show ?thesis using Cons.IH [of s' learnt] Cons.prems by (simp add: s' [symmetric])
  next
    case (learned r identity)
    then show ?thesis using Cons.IH [of s' "learnt @ [e]"] by (simp add: s' [symmetric])
  qed
qed simp

lemma sums_new [simp]: "sums_up P (relationships new_synaptizer) []"
  by (simp add: sums_up_def new_synaptizer_def)

text \<open>
  C25: After any events, a fresh Synaptizer knows exactly the relationships of the verified evidence, and
  each record sums it up: the observations, successes, failures, recoveries and contributions are counts,
  the reinforcement is the sum of the weights, and the evidence roots are the set of roots in order. An
  execution counts once, however often its event arrives.
\<close>

theorem relationships_sum_up_evidence:
  "case map_of (relationships (consume_events P es new_synaptizer)) rid of
     None \<Rightarrow> rid \<notin> identity_root P ` set (evidence P {} es)
   | Some r \<Rightarrow> rid \<in> identity_root P ` set (evidence P {} es) \<and>
       summary r (filter (\<lambda>e. identity_root P e = rid) (evidence P {} es))"
proof -
  from sums_run [OF sums_new, of P es] have "sums_up P (relationships (consume_events P es new_synaptizer)) (evidence P {} es)"
    by (simp add: new_synaptizer_def)
  then show ?thesis
    unfolding sums_up_def by (auto simp: filter_empty_conv dest!: spec [of _ rid] split: option.splits)
qed

section \<open>The counters\<close>

definition accepted :: "platform \<Rightarrow> jsv list \<Rightarrow> jsv list" where
  "accepted P es = filter (\<lambda>e. succeeds (check_event P e)) es"

fun unverified_first :: "platform \<Rightarrow> string set \<Rightarrow> jsv list \<Rightarrow> nat" where
  "unverified_first P seen [] = 0"
| "unverified_first P seen (e # es) =
     (if \<not> succeeds (check_event P e) \<or> event_id e \<in> seen then unverified_first P seen es
      else (if verified e then 0 else 1) + unverified_first P (insert (event_id e) seen) es)"

lemma counters_run:
  assumes "sums_up P (relationships s) learnt" "distinct (seenEvents s)"
  shows "distinct (seenEvents (consume_events P es s)) \<and>
    set (seenEvents (consume_events P es s)) = set (seenEvents s) \<union> event_id ` set (accepted P es) \<and>
    receivedEvents (consume_events P es s) = receivedEvents s + int (length (accepted P es)) \<and>
    duplicateEvents (consume_events P es s) = duplicateEvents s + int (length (accepted P es)) -
      (int (length (seenEvents (consume_events P es s))) - int (length (seenEvents s))) \<and>
    ignoredEvents (consume_events P es s) = ignoredEvents s + int (unverified_first P (set (seenEvents s)) es)"
  using assms
proof (induction es arbitrary: s learnt)
  case (Cons e es)
  obtain s' where s': "s' = snd (consume_event P e s)" by simp
  show ?case
    using Cons.prems(1) s'
  proof (cases rule: consume_cases)
    case refused
    then show ?thesis using Cons.IH [OF Cons.prems] by (simp add: s' [symmetric] accepted_def)
  next
    case duplicate
    then show ?thesis using Cons.IH [of s' learnt] Cons.prems by (auto simp: s' [symmetric] accepted_def)
  next
    case unverified
    then show ?thesis using Cons.IH [of s' learnt] Cons.prems by (auto simp: s' [symmetric] accepted_def)
  next
    case (unnamed err)
    then show ?thesis using Cons.IH [of s' learnt] Cons.prems by (auto simp: s' [symmetric] accepted_def)
  next
    case (learned r identity)
    then show ?thesis using Cons.IH [of s' "learnt @ [e]"] Cons.prems by (auto simp: s' [symmetric] accepted_def)
  qed
qed (simp add: accepted_def)

text \<open>
  The counters of a Synaptizer account for every event since it was made: received are the events that
  pass the checks, seen the distinct executions among them, duplicates the difference, learned the verified
  evidence of a named relationship, ignored the first events of an execution without verification. Events
  that fail a check leave no trace.
\<close>

theorem counters_account_for_events:
  "distinct (seenEvents (consume_events P es new_synaptizer)) \<and>
   set (seenEvents (consume_events P es new_synaptizer)) = event_id ` set (accepted P es) \<and>
   receivedEvents (consume_events P es new_synaptizer) = int (length (accepted P es)) \<and>
   duplicateEvents (consume_events P es new_synaptizer) =
     int (length (accepted P es)) - int (card (event_id ` set (accepted P es))) \<and>
   learnedEvents (consume_events P es new_synaptizer) = int (length (evidence P {} es)) \<and>
   ignoredEvents (consume_events P es new_synaptizer) = int (unverified_first P {} es)"
proof -
  have new: "seenEvents new_synaptizer = []" "receivedEvents new_synaptizer = 0" "duplicateEvents new_synaptizer = 0"
    "learnedEvents new_synaptizer = 0" "ignoredEvents new_synaptizer = 0"
    by (simp_all add: new_synaptizer_def)
  have counters: "distinct (seenEvents (consume_events P es new_synaptizer))"
    "set (seenEvents (consume_events P es new_synaptizer)) = event_id ` set (accepted P es)"
    "receivedEvents (consume_events P es new_synaptizer) = int (length (accepted P es))"
    "duplicateEvents (consume_events P es new_synaptizer) =
      int (length (accepted P es)) - int (length (seenEvents (consume_events P es new_synaptizer)))"
    "ignoredEvents (consume_events P es new_synaptizer) = int (unverified_first P {} es)"
    using counters_run [OF sums_new, of P es] by (simp_all add: new)
  moreover from counters(1,2) have "length (seenEvents (consume_events P es new_synaptizer)) =
      card (event_id ` set (accepted P es))" by (metis distinct_card)
  ultimately show ?thesis using sums_run [OF sums_new, of P es] by (simp add: new)
qed

end
