(* ===== verification/SynaptizerSnapshots.thy ===== *)
theory SynaptizerSnapshots
  imports SynaptizerFacts Digests "HOL-Library.Multiset"
begin

text \<open>
  Snapshots of a Synaptizer: the records it keeps have one shape, a snapshot of records observed once is
  taken back by \<open>hydrate\<close>, and one that holds a record observed again is refused.
\<close>

section \<open>The shape of the records\<close>

definition count_fields :: "string list" where
  "count_fields = [''observations'', ''verified_successes'', ''verified_failures'', ''recoveries'',
     ''verification_contributions'', ''reinforcement'']"

text \<open>A record before its commitment: \<open>a b c d\<close> name the components and roles, \<open>x\<close> is the context.\<close>

definition record_of ::
    "string \<Rightarrow> string \<Rightarrow> string \<Rightarrow> string \<Rightarrow> string \<Rightarrow> jsv \<Rightarrow> (string \<Rightarrow> rat) \<Rightarrow> string list \<Rightarrow> jsv" where
  "record_of rid a b c d x counts roots = JObj
     ([(''contract'', JStr relationship_contract), (''relationship_id'', JStr rid), (''source_component'', JStr a),
       (''target_component'', JStr b), (''source_role'', JStr c), (''target_role'', JStr d), (''context_ref'', x)] @
      map (\<lambda>k. (k, JNum (Fin (counts k)))) count_fields @ [(''evidence_state_roots'', JArr (map JStr roots))])"

definition gain :: "jsv \<Rightarrow> string \<Rightarrow> rat" where
  "gain e k =
     (if k = ''observations'' then 1
      else if k = ''verified_successes'' then one_if (jget e ''success'')
      else if k = ''verified_failures'' then one_if (jget e ''failure'')
      else if k = ''recoveries'' then one_if (jget e ''recovery'')
      else if k = ''verification_contributions'' then one_if (jget e ''verification_contribution'')
      else if k = ''reinforcement'' then reinforcement e else 0)"

definition add_root :: "string \<Rightarrow> string list \<Rightarrow> string list" where
  "add_root y roots = sort_by (\<le>) (if y \<in> set roots then roots else roots @ [y])"

definition with_root :: "string \<Rightarrow> jsv \<Rightarrow> jsv" where
  "with_root w u = jset ''state_root'' (JStr w) u"

definition state_digest :: "platform \<Rightarrow> jsv \<Rightarrow> string" where
  "state_digest P u = ''sha256:'' @ hex_text (sha256 P (utf8 (''synaptic-relationship-state:'' @ state_text P u)))"

lemma state_digest: "synapticStateRoot P (JStr ''synaptic-relationship-state'') u = Inr (state_digest P u)"
  by (simp add: synapticStateRoot_def state_digest_def)

lemma committed_digest: "committed P u = Inr (with_root (state_digest P u) u)"
  by (simp add: committed_def state_digest with_root_def)

lemma fresh_record:
  "fresh_relationship rid [(''source_component'', JStr a), (''target_component'', JStr b), (''source_role'', JStr c),
     (''target_role'', JStr d), (''context_ref'', x)] = record_of rid a b c d x (\<lambda>_. 0) []"
  by (simp add: fresh_relationship_def record_of_def count_fields_def)

lemma observe_record:
  assumes "jget e ''state_root'' = JStr y"
  shows "observe P e (map JStr roots) (record_of rid a b c d x counts roots) =
    record_of rid a b c d x (\<lambda>k. counts k + gain e k) (add_root y roots)"
  by (simp add: observe_def record_of_def count_fields_def gain_def assms set_add_strings sort_by_strings add_root_def)

lemma observe_record_again:
  assumes "jget e ''state_root'' = JStr y"
  shows "observe P e (map JStr roots) (with_root w (record_of rid a b c d x counts roots)) =
    with_root w (record_of rid a b c d x (\<lambda>k. counts k + gain e k) (add_root y roots))"
  by (simp add: observe_def record_of_def count_fields_def gain_def assms set_add_strings sort_by_strings add_root_def
    with_root_def)

lemma with_root_twice [simp]: "with_root w (with_root v (record_of rid a b c d x counts roots)) =
    with_root w (record_of rid a b c d x counts roots)"
  by (simp add: record_of_def count_fields_def with_root_def)

lemma delete_root [simp]: "jdelete ''state_root'' (with_root w (record_of rid a b c d x counts roots)) =
    record_of rid a b c d x counts roots"
  by (simp add: record_of_def count_fields_def with_root_def)

lemma record_fields [simp]:
  "jget (record_of rid a b c d x counts roots) ''contract'' = JStr relationship_contract"
  "jget (record_of rid a b c d x counts roots) ''relationship_id'' = JStr rid"
  "jget (record_of rid a b c d x counts roots) ''source_component'' = JStr a"
  "jget (record_of rid a b c d x counts roots) ''target_component'' = JStr b"
  "jget (record_of rid a b c d x counts roots) ''source_role'' = JStr c"
  "jget (record_of rid a b c d x counts roots) ''target_role'' = JStr d"
  "jget (record_of rid a b c d x counts roots) ''context_ref'' = x"
  "jget (record_of rid a b c d x counts roots) ''observations'' = JNum (Fin (counts ''observations''))"
  "jget (record_of rid a b c d x counts roots) ''evidence_state_roots'' = JArr (map JStr roots)"
  "is_record (record_of rid a b c d x counts roots)"
  by (simp_all add: record_of_def count_fields_def)

lemma with_root_fields [simp]:
  "is_record u \<Longrightarrow> jget (with_root w u) k = (if k = ''state_root'' then JStr w else jget u k)"
  "is_record (with_root w u)"
  by (simp_all add: with_root_def)

section \<open>The records of a run\<close>

text \<open>The commitment of a record observed once is of its fields. When it is observed again, the object that is
  committed still holds the commitment before (\<open>old\<close>).\<close>

definition committed_material :: "string set \<Rightarrow> jsv \<Rightarrow> jsv set" where
  "committed_material met u =
     (if jget u ''observations'' = JInt 1 then {u}
      else if \<exists>q > 1. jget u ''observations'' = JNum (Fin q) then (\<lambda>old. with_root old u) ` met else {})"

definition kept :: "platform \<Rightarrow> string set \<Rightarrow> string \<Rightarrow> jsv \<Rightarrow> bool" where
  "kept P met rid r \<longleftrightarrow> (\<exists>a b c d x counts roots m.
     r = with_root (state_digest P m) (record_of rid a b c d x counts roots) \<and>
     m \<in> committed_material met (record_of rid a b c d x counts roots) \<and>
     a \<noteq> [] \<and> b \<noteq> [] \<and> c \<noteq> [] \<and> d \<noteq> [] \<and> x \<noteq> JUndef \<and>
     relationship_id P [(''source_component'', JStr a), (''target_component'', JStr b), (''source_role'', JStr c),
       (''target_role'', JStr d), (''context_ref'', x)] = Inr rid)"

definition roots_of :: "(string \<times> jsv) list \<Rightarrow> string set" where
  "roots_of known = {w. \<exists>rid r. map_of known rid = Some r \<and> jget r ''state_root'' = JStr w}"

lemma committed_material_mono: "met \<subseteq> met' \<Longrightarrow> m \<in> committed_material met u \<Longrightarrow> m \<in> committed_material met' u"
  unfolding committed_material_def by (auto split: if_split_asm)

lemma kept_mono: "kept P met rid r \<Longrightarrow> met \<subseteq> met' \<Longrightarrow> kept P met' rid r"
  unfolding kept_def using committed_material_mono by blast

lemma identity_parts_Inr:
  assumes "identity_parts edge context = Inr identity"
  obtains a b c d where "identity = [(''source_component'', JStr a), (''target_component'', JStr b),
    (''source_role'', JStr c), (''target_role'', JStr d), (''context_ref'', nullish_or context JNull)]"
    "a \<noteq> []" "b \<noteq> []" "c \<noteq> []" "d \<noteq> []"
proof -
  have named: "\<exists>s. v = JStr s \<and> s \<noteq> []" if "nonEmpty v why = Inr u" for v why u
    using that by (cases v) (auto simp: nonEmpty_def split: if_splits)
  from assms have checked: "nonEmpty (jget edge ''source_component'') ''synaptic_source_component_invalid'' = Inr ()"
      "nonEmpty (jget edge ''target_component'') ''synaptic_target_component_invalid'' = Inr ()"
      "nonEmpty (jget edge ''source_role'') ''synaptic_source_role_invalid'' = Inr ()"
      "nonEmpty (jget edge ''target_role'') ''synaptic_target_role_invalid'' = Inr ()"
    and identity: "identity = [(''source_component'', jget edge ''source_component''),
      (''target_component'', jget edge ''target_component''), (''source_role'', jget edge ''source_role''),
      (''target_role'', jget edge ''target_role''), (''context_ref'', nullish_or context JNull)]"
    by (auto simp: identity_parts_def result_simps)
  from checked [THEN named] obtain a b c d where "jget edge ''source_component'' = JStr a" "a \<noteq> []"
    "jget edge ''target_component'' = JStr b" "b \<noteq> []" "jget edge ''source_role'' = JStr c" "c \<noteq> []"
    "jget edge ''target_role'' = JStr d" "d \<noteq> []" by blast
  then show thesis by (intro that [of a b c d]) (simp_all add: identity)
qed

lemma observe_once:
  assumes "jget e ''state_root'' = JStr y" and "a \<noteq> []" "b \<noteq> []" "c \<noteq> []" "d \<noteq> []" "x \<noteq> JUndef"
    "relationship_id P [(''source_component'', JStr a), (''target_component'', JStr b), (''source_role'', JStr c),
       (''target_role'', JStr d), (''context_ref'', x)] = Inr rid"
    and "committed P (observe P e [] (record_of rid a b c d x (\<lambda>_. 0) [])) = Inr r"
  shows "kept P met rid r"
proof -
  let ?u = "record_of rid a b c d x (\<lambda>k. 0 + gain e k) (add_root y [])"
  have "r = with_root (state_digest P ?u) ?u"
    using assms(8) observe_record [OF assms(1), of P "[]"] by (simp add: committed_digest)
  moreover have "?u \<in> committed_material met ?u" by (simp add: committed_material_def gain_def)
  ultimately show ?thesis unfolding kept_def using assms(2-7) by blast
qed

lemma observe_again:
  assumes "kept P met rid r" "jget e ''state_root'' = JStr y" "set_of (jget r ''evidence_state_roots'') = Inr vs"
    and "distinct (items (jget r ''evidence_state_roots''))"
    and "jget r ''state_root'' = JStr w" "w \<in> met" "committed P (observe P e vs r) = Inr r'"
  shows "kept P met rid r'"
proof -
  from assms(1) obtain a b c d x counts roots m where r: "r = with_root (state_digest P m) (record_of rid a b c d x counts roots)"
    and m: "m \<in> committed_material met (record_of rid a b c d x counts roots)"
    and id: "a \<noteq> []" "b \<noteq> []" "c \<noteq> []" "d \<noteq> []" "x \<noteq> JUndef"
      "relationship_id P [(''source_component'', JStr a), (''target_component'', JStr b), (''source_role'', JStr c),
       (''target_role'', JStr d), (''context_ref'', x)] = Inr rid"
    unfolding kept_def by blast
  have "distinct roots" using assms(4) by (simp add: r distinct_map)
  then have vs: "vs = map JStr roots" using assms(3) by (simp add: r set_of_strings del: set_of.simps)
  let ?u = "record_of rid a b c d x (\<lambda>k. counts k + gain e k) (add_root y roots)"
  have "observe P e vs r = with_root w ?u" using assms(5) by (simp add: r vs observe_record_again [OF assms(2)])
  then have "r' = with_root (state_digest P (with_root w ?u)) ?u" using assms(7) by (simp add: committed_digest)
  moreover have "counts ''observations'' \<ge> 1" using m by (auto simp: committed_material_def split: if_splits)
  then have "with_root w ?u \<in> committed_material met ?u"
    using assms(6) by (simp add: committed_material_def gain_def)
  ultimately show ?thesis unfolding kept_def using id by blast
qed

lemma learn_kept:
  assumes known: "sums_up P known learnt" "\<And>rid r. map_of known rid = Some r \<Longrightarrow> kept P met rid r" "roots_of known \<subseteq> met"
    and e: "check_event P e = Inr ()" "learn P e known = Inr (r, rid)"
  shows "kept P met rid r"
proof -
  from e(1) obtain y where y: "jget e ''state_root'' = JStr y" by (rule check_event_Inr)
  from e(2) obtain identity where identity: "relationshipIdentity e = Inr identity" "relationship_id P identity = Inr rid"
    by (auto simp: learn_def Let_def result_simps)
  from identity(1) [unfolded relationshipIdentity_def] obtain a b c d where parts: "identity =
      [(''source_component'', JStr a), (''target_component'', JStr b), (''source_role'', JStr c),
       (''target_role'', JStr d), (''context_ref'', nullish_or (jget e ''context_ref'') JNull)]"
    and nonempty: "a \<noteq> []" "b \<noteq> []" "c \<noteq> []" "d \<noteq> []" by (rule identity_parts_Inr)
  have ctx: "nullish_or (jget e ''context_ref'') JNull \<noteq> JUndef" by (simp add: nullish_or_def)
  show ?thesis
  proof (cases "map_of known rid")
    case None
    then have "committed P (observe P e [] (fresh_relationship rid identity)) = Inr r"
      using e(2) identity fresh_fields(3) [OF identity(1) [unfolded relationshipIdentity_def], of rid]
      by (simp add: learn_def result_simps)
    then show ?thesis
      by (intro observe_once [OF y nonempty ctx identity(2) [unfolded parts]]) (simp add: parts fresh_record)
  next
    case (Some r0)
    then obtain vs where vs: "set_of (jget r0 ''evidence_state_roots'') = Inr vs" "committed P (observe P e vs r0) = Inr r"
      using e(2) identity by (auto simp: learn_def result_simps)
    have "summary r0 (filter (\<lambda>e. identity_root P e = rid) learnt)"
      using known(1) [unfolded sums_up_def, THEN spec, of rid] Some by simp
    then have "distinct (items (jget r0 ''evidence_state_roots''))" by (auto simp: summary_def distinct_map inj_on_def)
    moreover from known(2) [OF Some] obtain w where w: "jget r0 ''state_root'' = JStr w" by (auto simp: kept_def)
    moreover have "w \<in> met" using w Some known(3) by (auto simp: roots_of_def)
    ultimately show ?thesis by (intro observe_again [OF known(2) [OF Some] y vs(1) _ _ _ vs(2)])
  qed
qed

text \<open>The commitments met in a run.\<close>

definition roots_met :: "platform \<Rightarrow> jsv list \<Rightarrow> string set" where
  "roots_met P es = (\<Union>n \<le> length es. roots_of (relationships (consume_events P (take n es) new_synaptizer)))"

lemma roots_met_append: "roots_met P (es @ [e]) =
    roots_met P es \<union> roots_of (relationships (consume_events P (es @ [e]) new_synaptizer))"
proof -
  have "{..length (es @ [e])} = insert (length (es @ [e])) {..length es}" by auto
  moreover have "take n (es @ [e]) = take n es" if "n \<le> length es" for n using that by simp
  ultimately show ?thesis by (auto simp: roots_met_def)
qed

lemma roots_of_met: "roots_of (relationships (consume_events P es new_synaptizer)) \<subseteq> roots_met P es"
  by (auto simp: roots_met_def)

lemma consume_events_append: "consume_events P (es @ [e]) s = snd (consume_event P e (consume_events P es s))"
  by (simp add: consume_events_def)

lemma run_kept:
  "distinct (map fst (relationships (consume_events P es new_synaptizer))) \<and>
   (\<forall>rid r. map_of (relationships (consume_events P es new_synaptizer)) rid = Some r \<longrightarrow> kept P (roots_met P es) rid r)"
proof (induction es rule: rev_induct)
  case (snoc e es)
  let ?s = "consume_events P es new_synaptizer"
  have sums: "sums_up P (relationships ?s) (evidence P {} es)"
    using sums_run [OF sums_new, of P es] by (simp add: new_synaptizer_def)
  have more: "roots_met P es \<subseteq> roots_met P (es @ [e])" by (simp add: roots_met_append)
  from snoc have old: "kept P (roots_met P (es @ [e])) rid r" if "map_of (relationships ?s) rid = Some r" for rid r
    using that kept_mono [OF _ more] by blast
  obtain s' where s': "s' = snd (consume_event P e ?s)" by simp
  from sums s' show ?case
  proof (cases rule: consume_cases)
    case (learned r identity)
    have "kept P (roots_met P (es @ [e])) (identity_root P e) r"
      by (rule learn_kept [OF sums old _ learned(1,5)]) (use more roots_of_met in auto)
    with learned old snoc show ?thesis
      by (auto simp: consume_events_append s' [symmetric] update_conv' distinct_update)
  qed (use old snoc in \<open>auto simp: consume_events_append s' [symmetric]\<close>)
qed (simp add: new_synaptizer_def)

section \<open>Well-formed records\<close>

text \<open>Fields in the order of the code, with strings that are not empty for the identity, counts that are natural
  numbers up to the observations, a reinforcement within its bounds, the roots in order, and the commitment.\<close>

definition well_formed :: "platform \<Rightarrow> string \<Rightarrow> jsv \<Rightarrow> bool" where
  "well_formed P rid r \<longleftrightarrow> (\<exists>a b c d x counts roots w n.
     r = with_root w (record_of rid a b c d x counts roots) \<and>
     a \<noteq> [] \<and> b \<noteq> [] \<and> c \<noteq> [] \<and> d \<noteq> [] \<and> x \<noteq> JUndef \<and>
     relationship_id P [(''source_component'', JStr a), (''target_component'', JStr b), (''source_role'', JStr c),
       (''target_role'', JStr d), (''context_ref'', x)] = Inr rid \<and>
     1 \<le> n \<and> counts ''observations'' = of_nat n \<and>
     list_all (\<lambda>k. \<exists>i \<le> n. counts k = of_nat i)
       [''verified_successes'', ''verified_failures'', ''recoveries'', ''verification_contributions''] \<and>
     - of_nat n \<le> counts ''reinforcement'' \<and> counts ''reinforcement'' \<le> 3 / 2 * of_nat n \<and>
     roots \<noteq> [] \<and> length roots \<le> n \<and> distinct roots \<and> sorted roots \<and> list_all sha_root_shape roots)"

lemma evidence_checked: "e \<in> set (evidence P seen es) \<Longrightarrow> check_event P e = Inr ()"
  by (induction P seen es rule: evidence.induct) (auto simp: succeeds_iff split: if_splits)

lemma check_event_root: "check_event P e = Inr () \<Longrightarrow> sha_root_shape (text_of (jget e ''state_root''))"
  by (cases "jget e ''state_root''") (auto simp: check_event_def result_simps split: if_splits)

lemma reinforcement_bounds: "- 1 \<le> reinforcement e" "reinforcement e \<le> 3 / 2"
  by (simp_all add: reinforcement_def)

lemma reinforcement_sum_bounds:
  "- of_nat (length es) \<le> sum_list (map reinforcement es)" "sum_list (map reinforcement es) \<le> 3 / 2 * of_nat (length es)"
proof (induction es)
  case (Cons e es)
  { case 1 with Cons.IH(1) reinforcement_bounds(1) [of e] show ?case by simp }
  { case 2 with Cons.IH(2) reinforcement_bounds(2) [of e] show ?case by (simp add: algebra_simps) }
qed simp_all

lemma count_field: "k \<in> set count_fields \<Longrightarrow> jget (record_of rid a b c d x counts roots) k = JNum (Fin (counts k))"
  by (auto simp: record_of_def count_fields_def)

lemma kept_well_formed:
  assumes "kept P met rid r" "summary r es" "es \<noteq> []" "\<And>e. e \<in> set es \<Longrightarrow> check_event P e = Inr ()"
  shows "well_formed P rid r"
proof -
  from assms(1) obtain a b c d x counts roots w where r: "r = with_root w (record_of rid a b c d x counts roots)"
    and id: "a \<noteq> []" "b \<noteq> []" "c \<noteq> []" "d \<noteq> []" "x \<noteq> JUndef"
      "relationship_id P [(''source_component'', JStr a), (''target_component'', JStr b), (''source_role'', JStr c),
        (''target_role'', JStr d), (''context_ref'', x)] = Inr rid"
    unfolding kept_def by blast
  have count: "count_true k es \<le> length es" for k by (simp add: count_true_def)
  have counts: "counts ''observations'' = of_nat (length es)"
    "counts ''verified_successes'' = of_nat (count_true ''success'' es)"
    "counts ''verified_failures'' = of_nat (count_true ''failure'' es)"
    "counts ''recoveries'' = of_nat (count_true ''recovery'' es)"
    "counts ''verification_contributions'' = of_nat (count_true ''verification_contribution'' es)"
    "counts ''reinforcement'' = sum_list (map reinforcement es)"
    using assms(2) unfolding summary_def r by (simp_all add: count_field count_fields_def)
  from assms(2) have roots: "distinct roots" "sorted roots"
    "set roots = (\<lambda>e. text_of (jget e ''state_root'')) ` set es"
    by (auto simp: summary_def r inj_map_eq_map inj_on_def)
  then have "length roots \<le> length es" using card_image_le [of "set es"] card_length [of es]
    by (metis distinct_card List.finite_set le_trans)
  moreover have "list_all sha_root_shape roots" "roots \<noteq> []"
    using assms(3,4) roots(3) check_event_root by (auto simp: list_all_iff)
  moreover have "1 \<le> length es" using assms(3) by (cases es) simp_all
  moreover have "list_all (\<lambda>k. \<exists>i \<le> length es. counts k = of_nat i)
      [''verified_successes'', ''verified_failures'', ''recoveries'', ''verification_contributions'']"
    unfolding list.pred_inject counts using count by (intro conjI) (blast | simp)+
  moreover note r id counts(1) roots(1,2) reinforcement_sum_bounds [of es, folded counts(6)]
  ultimately show ?thesis unfolding well_formed_def by (intro exI conjI) assumption+
qed

text \<open>
  C26: Every record a Synaptizer has learned is well-formed, under the id of its identity: no identity has two
  records, the counts are natural numbers up to the number of observations, of which there is at least one,
  the reinforcement is between -1 and 3/2 of it, and the evidence roots are distinct, in order and of the
  shape of a commitment.
\<close>

theorem relationship_records_well_formed:
  "distinct (map fst (relationships (consume_events P es new_synaptizer))) \<and>
   list_all (\<lambda>(rid, r). well_formed P rid r) (relationships (consume_events P es new_synaptizer))"
proof -
  let ?s = "consume_events P es new_synaptizer"
  have kept: "distinct (map fst (relationships ?s))"
    "\<And>rid r. map_of (relationships ?s) rid = Some r \<Longrightarrow> kept P (roots_met P es) rid r"
    using run_kept [of P es] by blast+
  have sums: "sums_up P (relationships ?s) (evidence P {} es)"
    using sums_run [OF sums_new, of P es] by (simp add: new_synaptizer_def)
  have "well_formed P rid r" if "(rid, r) \<in> set (relationships ?s)" for rid r
  proof -
    from that kept(1) have known: "map_of (relationships ?s) rid = Some r" by simp
    with sums [unfolded sums_up_def, THEN spec, of rid] have
      "filter (\<lambda>e. identity_root P e = rid) (evidence P {} es) \<noteq> []"
      "summary r (filter (\<lambda>e. identity_root P e = rid) (evidence P {} es))" by simp_all
    then show ?thesis by (intro kept_well_formed [OF kept(2) [OF known]]) (auto dest: evidence_checked)
  qed
  with kept(1) show ?thesis by (auto simp: list_all_iff)
qed

lemma sha_root_digest: "hash_width P \<Longrightarrow> sha_root_shape (''sha256:'' @ hex_text (sha256 P s))"
  unfolding sha_root_shape_def by (simp only: prefixed_append) (simp add: hex_text_class length_hex_text hash_width_def)

lemma length_join: "length (join '','' ts) = sum_list (map length ts) + (length ts - 1)"
proof (induction ts)
  case (Cons t ts)
  then show ?case by (cases ts) (simp_all add: join_Cons)
qed simp

lemma length_object_text: "length (state_text P (JObj kvs)) =
    sum_list (map (\<lambda>(k, t). length (quote k) + 1 + length t) (state_fields P kvs)) + (length (state_fields P kvs) - 1) + 2"
proof -
  have "sum_list (map f (sort_key fst fs)) = sum_list (map f fs)" for f :: "string \<times> string \<Rightarrow> nat" and fs
    by (metis mset_map mset_sort sum_mset_sum_list)
  then show ?thesis by (simp add: length_join case_prod_unfold comp_def)
qed

lemma state_fields_append: "state_fields P (kvs @ kvs') = state_fields P kvs @ state_fields P kvs'"
  by (induction kvs) auto

lemma with_root_text:
  assumes "map_of kvs ''state_root'' = None"
  shows "state_text P (with_root old (JObj kvs)) \<noteq> state_text P (JObj kvs)"
proof -
  from assms have "''state_root'' \<notin> fst ` set kvs" by (simp add: map_of_eq_None_iff)
  then have "AList.update ''state_root'' v kvs = kvs @ [(''state_root'', v)]" for v
    by (induction kvs) auto
  then have "length (state_text P (JObj kvs)) < length (state_text P (with_root old (JObj kvs)))"
    unfolding with_root_def jset.simps length_object_text by (simp add: state_fields_append quote_def)
  then show ?thesis by auto
qed

section \<open>Taking a snapshot back\<close>

lemma relationship_root: "synapticStateRoot P (JStr ''synaptizer-state'') v =
    Inr (''sha256:'' @ hex_text (sha256 P (utf8 (''synaptizer-state:'' @ state_text P v))))"
  by (simp add: synapticStateRoot_def)

definition snapshot_of :: "platform \<Rightarrow> synaptizer \<Rightarrow> jsv" where
  "snapshot_of P s = JObj (snapshot_state P s @ [(''state_root'',
     JStr (''sha256:'' @ hex_text (sha256 P (utf8 (''synaptizer-state:'' @ state_text P (JObj (snapshot_state P s)))))))])"

lemma snapshot_eq: "snapshot P s = Inr (snapshot_of P s)"
  by (simp add: snapshot_def relationship_root snapshot_of_def)

lemma snapshot_of_fields:
  "jget (snapshot_of P s) ''relationships'' = JArr (describeRelationships P s)"
  "jget (snapshot_of P s) ''seen_event_ids'' = JArr (map JStr (sort (seenEvents s)))"
  "jget (snapshot_of P s) ''received_events'' = JInt (receivedEvents s)"
  "jget (snapshot_of P s) ''learned_events'' = JInt (learnedEvents s)"
  "jget (snapshot_of P s) ''ignored_unverified_events'' = JInt (ignoredEvents s)"
  "jget (snapshot_of P s) ''duplicate_events'' = JInt (duplicateEvents s)"
  "jget (snapshot_of P s) ''contract'' = JStr snapshot_contract"
  "jdelete ''state_root'' (snapshot_of P s) = JObj (snapshot_state P s)"
  "jget (snapshot_of P s) ''state_root'' =
    JStr (''sha256:'' @ hex_text (sha256 P (utf8 (''synaptizer-state:'' @ state_text P (JObj (snapshot_state P s))))))"
  by (simp_all add: snapshot_of_def snapshot_state_def)

definition counters_safe :: "synaptizer \<Rightarrow> bool" where
  "counters_safe s \<longleftrightarrow> list_all (\<lambda>n. 0 \<le> n \<and> n \<le> max_safe)
     [receivedEvents s, learnedEvents s, ignoredEvents s, duplicateEvents s]"

lemma check_snapshot_of:
  assumes "hash_width P" "counters_safe s"
  shows "check_snapshot P (snapshot_of P s) = Inr ()"
proof -
  have "truthy (snapshot_of P s)" "typeof_object (snapshot_of P s)" by (simp_all add: snapshot_of_def)
  moreover have "list_all (\<lambda>k. is_safe_integer (jget (snapshot_of P s) k) \<and> 0 \<le> num_of (jget (snapshot_of P s) k)) counter_fields"
    using assms(2) by (simp add: counter_fields_def counters_safe_def snapshot_of_fields)
  ultimately show ?thesis
    by (simp add: check_snapshot_def snapshot_of_fields relationship_root sha_root_digest [OF assms(1), simplified])
qed

lemma check_kept:
  assumes "kept P met rid r"
  shows "check_relationship P r =
    (if jget r ''state_root'' = JStr (state_digest P (jdelete ''state_root'' r)) then Inr rid
     else reject ''synaptizer_relationship_integrity_mismatch'')"
proof -
  from assms obtain a b c d x counts roots m where r: "r = with_root (state_digest P m) (record_of rid a b c d x counts roots)"
    and id: "a \<noteq> []" "b \<noteq> []" "c \<noteq> []" "d \<noteq> []" "x \<noteq> JUndef"
      "relationship_id P [(''source_component'', JStr a), (''target_component'', JStr b), (''source_role'', JStr c),
       (''target_role'', JStr d), (''context_ref'', x)] = Inr rid"
    unfolding kept_def by blast
  have "nullish_or x JNull = x" using id(5) by (auto simp: nullish_or_def)
  then have "identity_parts r (jget r ''context_ref'') = Inr [(''source_component'', JStr a),
      (''target_component'', JStr b), (''source_role'', JStr c), (''target_role'', JStr d), (''context_ref'', x)]"
    using id(1-4) by (simp add: identity_parts_def nonEmpty_def r)
  moreover have "truthy r" "typeof_object r" by (simp_all add: r with_root_def record_of_def)
  ultimately show ?thesis using id(6) by (simp add: check_relationship_def state_digest r)
qed

lemma restore_kept:
  assumes "\<And>r. r \<in> set rs \<Longrightarrow> kept P met (text_of (jget r ''relationship_id'')) r"
    and "distinct (map fst restored @ map (\<lambda>r. text_of (jget r ''relationship_id'')) rs)"
  shows "restore_relationships P rs restored =
    (if list_all (\<lambda>r. jget r ''state_root'' = JStr (state_digest P (jdelete ''state_root'' r))) rs
     then Inr (restored @ map (\<lambda>r. (text_of (jget r ''relationship_id''), r)) rs)
     else reject ''synaptizer_relationship_integrity_mismatch'')"
  using assms
proof (induction rs arbitrary: restored)
  case (Cons r rs)
  have "check_relationship P r = (if jget r ''state_root'' = JStr (state_digest P (jdelete ''state_root'' r))
      then Inr (text_of (jget r ''relationship_id'')) else reject ''synaptizer_relationship_integrity_mismatch'')"
    by (rule check_kept [where met = met]) (use Cons.prems(1) in simp)
  moreover have "text_of (jget r ''relationship_id'') \<notin> fst ` set restored" using Cons.prems(2) by auto
  moreover have "restore_relationships P rs (restored @ [(text_of (jget r ''relationship_id''), r)]) =
      (if list_all (\<lambda>r. jget r ''state_root'' = JStr (state_digest P (jdelete ''state_root'' r))) rs
       then Inr ((restored @ [(text_of (jget r ''relationship_id''), r)]) @ map (\<lambda>r. (text_of (jget r ''relationship_id''), r)) rs)
       else reject ''synaptizer_relationship_integrity_mismatch'')"
    by (rule Cons.IH) (use Cons.prems in auto)
  ultimately show ?case by simp
qed simp

text \<open>The state a snapshot stands for.\<close>

definition hydrated :: "platform \<Rightarrow> synaptizer \<Rightarrow> synaptizer" where
  "hydrated P s = s\<lparr>relationships := map (\<lambda>r. (text_of (jget r ''relationship_id''), r)) (describeRelationships P s),
     seenEvents := sort (seenEvents s)\<rparr>"

lemma hydrate_snapshot:
  assumes "hash_width P" "counters_safe s" "distinct (seenEvents s)" "[] \<notin> set (seenEvents s)"
    and kept: "\<And>rid r. (rid, r) \<in> set (relationships s) \<Longrightarrow> kept P met rid r" "distinct (map fst (relationships s))"
  shows "hydrate P (snapshot_of P s) s0 =
    (if list_all (\<lambda>(rid, r). jget r ''state_root'' = JStr (state_digest P (jdelete ''state_root'' r))) (relationships s)
     then (Inr (snapshot_of P (hydrated P s)), hydrated P s)
     else (reject ''synaptizer_relationship_integrity_mismatch'', s0))"
proof -
  let ?rs = "describeRelationships P s" and ?rid = "\<lambda>r. text_of (jget r ''relationship_id'')"
  have rid: "?rid r = rid" if "(rid, r) \<in> set (relationships s)" for rid r
    using kept(1) [OF that] by (auto simp: kept_def)
  then have "map ?rid (map snd (relationships s)) = map fst (relationships s)" by auto
  then have "distinct (map ?rid ?rs)"
    unfolding describeRelationships_def by (intro distinct_map_sort_by) (simp only: kept(2))
  moreover have "kept P met (?rid r) r" if r: "r \<in> set ?rs" for r
  proof -
    from r obtain rid where "(rid, r) \<in> set (relationships s)" by (auto simp: describeRelationships_def)
    then show ?thesis using kept(1) rid by simp
  qed
  moreover have "list_all Q ?rs \<longleftrightarrow> list_all (\<lambda>(rid, r). Q r) (relationships s)" for Q
    by (auto simp: describeRelationships_def list_all_iff)
  ultimately have restored: "restore_relationships P ?rs [] =
      (if list_all (\<lambda>(rid, r). jget r ''state_root'' = JStr (state_digest P (jdelete ''state_root'' r))) (relationships s)
       then Inr (map (\<lambda>r. (?rid r, r)) ?rs) else reject ''synaptizer_relationship_integrity_mismatch'')"
    using restore_kept [of ?rs P met "[]"] by simp
  have "check_seen (JArr (map JStr (sort (seenEvents s)))) = Inr (sort (seenEvents s))"
    using assms(3,4) by (auto simp: check_seen_def list_ex_iff comp_def)
  moreover have "\<lparr>relationships = map (\<lambda>r. (?rid r, r)) ?rs, seenEvents = sort (seenEvents s),
      receivedEvents = receivedEvents s, learnedEvents = learnedEvents s, ignoredEvents = ignoredEvents s,
      duplicateEvents = duplicateEvents s\<rparr> = hydrated P s" by (cases s) (simp add: hydrated_def)
  ultimately show ?thesis
    by (simp add: hydrate_def check_snapshot_of [OF assms(1,2)] snapshot_of_fields restored snapshot_eq nullish_or_def)
qed

section \<open>Snapshots of a run\<close>

lemma sort_by_sorted: "sorted_wrt le xs \<Longrightarrow> sort_by le xs = xs"
proof (induction xs)
  case (Cons x xs)
  then show ?case by (cases xs) simp_all
qed simp

lemma relationships_hydrated:
  "relationships (hydrated P s) = map (\<lambda>r. (text_of (jget r ''relationship_id''), r)) (describeRelationships P s)"
  by (simp add: hydrated_def)

lemma describe_hydrated:
  assumes "collation P"
  shows "describeRelationships P (hydrated P s) = describeRelationships P s"
proof -
  let ?le = "\<lambda>a b. locale_le P (text_of (jget a ''relationship_id'')) (text_of (jget b ''relationship_id''))"
  have "sorted_wrt ?le (sort_by ?le rs)" for rs
    by (rule sorted_wrt_sort_by) (use assms in \<open>unfold collation_def, blast+\<close>)
  from sort_by_sorted [OF this] show ?thesis
    by (simp add: describeRelationships_def hydrated_def comp_def)
qed

lemma snapshot_hydrated: "collation P \<Longrightarrow> snapshot_of P (hydrated P s) = snapshot_of P s"
  by (simp add: snapshot_of_def snapshot_state_def describe_hydrated) (simp add: hydrated_def sorted_sort_id)

lemma evidence_length: "length (evidence P seen es) \<le> length es"
  by (induction P seen es rule: evidence.induct) auto

lemma unverified_length: "unverified_first P seen es \<le> length es"
  by (induction P seen es rule: unverified_first.induct) auto

lemma run_counters:
  assumes "int (length es) \<le> max_safe"
  shows "counters_safe (consume_events P es new_synaptizer)" "distinct (seenEvents (consume_events P es new_synaptizer))"
    "[] \<notin> set (seenEvents (consume_events P es new_synaptizer))"
proof -
  let ?s = "consume_events P es new_synaptizer"
  have new: "seenEvents new_synaptizer = []" "receivedEvents new_synaptizer = 0" "duplicateEvents new_synaptizer = 0"
    "learnedEvents new_synaptizer = 0" "ignoredEvents new_synaptizer = 0"
    by (simp_all add: new_synaptizer_def)
  have counters: "distinct (seenEvents ?s)" "set (seenEvents ?s) = event_id ` set (accepted P es)"
    "receivedEvents ?s = int (length (accepted P es))"
    "duplicateEvents ?s = int (length (accepted P es)) - int (length (seenEvents ?s))"
    "ignoredEvents ?s = int (unverified_first P {} es)" "learnedEvents ?s = int (length (evidence P {} es))"
    using counters_run [OF sums_new, of P es] sums_run [OF sums_new, of P es] by (simp_all add: new)
  have "length (seenEvents ?s) \<le> length (accepted P es)"
    using distinct_card [OF counters(1)] card_image_le [of "set (accepted P es)" event_id] card_length [of "accepted P es"]
    by (simp add: counters(2))
  moreover have "length (accepted P es) \<le> length es" by (simp add: accepted_def)
  ultimately show "counters_safe ?s"
    using assms evidence_length [of P "{}" es] unverified_length [of P "{}" es]
    unfolding counters_safe_def counters by simp
  show "distinct (seenEvents ?s)" by (rule counters(1))
  have "event_id e \<noteq> []" if "e \<in> set (accepted P es)" for e
    proof -
    from that have "check_event P e = Inr ()" by (simp add: accepted_def succeeds_iff)
    then obtain x i where "jget e ''edge_execution_id'' = JStr i" "i \<noteq> []" by (rule check_event_Inr)
    then show ?thesis by (simp add: event_id_def)
  qed
  then show "[] \<notin> set (seenEvents ?s)" by (simp add: counters(2) image_iff) metis
qed

text \<open>The texts whose digests a run and the check of its snapshot compare.\<close>

definition committed_texts :: "platform \<Rightarrow> jsv list \<Rightarrow> string set" where
  "committed_texts P es = (\<Union>(rid, r) \<in> set (relationships (consume_events P es new_synaptizer)).
     \<Union>u \<in> insert (jdelete ''state_root'' r) ((\<lambda>old. with_root old r) ` roots_met P es).
       {utf8 (''synaptic-relationship-state:'' @ state_text P u)})"

lemma observations:
  assumes "map_of (relationships (consume_events P es new_synaptizer)) rid = Some r"
  shows "jget r ''observations'' = JNum (Fin (of_nat (length (filter (\<lambda>e. identity_root P e = rid) (evidence P {} es)))))"
proof -
  have "sums_up P (relationships (consume_events P es new_synaptizer)) (evidence P {} es)"
    using sums_run [OF sums_new, of P es] by (simp add: new_synaptizer_def)
  from this [unfolded sums_up_def, THEN spec, of rid] assms show ?thesis by (simp add: summary_def)
qed

lemma kept_once:
  assumes "kept P met rid r" "jget r ''observations'' = JInt 1"
  shows "jget r ''state_root'' = JStr (state_digest P (jdelete ''state_root'' r))"
  using assms by (auto simp: kept_def committed_material_def)

lemma kept_again:
  assumes "kept P (roots_met P es) rid r" "jget r ''observations'' \<noteq> JInt 1"
    and "(rid, r) \<in> set (relationships (consume_events P es new_synaptizer))" "inj_on (sha256 P) (committed_texts P es)"
  shows "jget r ''state_root'' \<noteq> JStr (state_digest P (jdelete ''state_root'' r))"
proof -
  from assms(1) obtain a b c d x counts roots m where r: "r = with_root (state_digest P m) (record_of rid a b c d x counts roots)"
    and m: "m \<in> committed_material (roots_met P es) (record_of rid a b c d x counts roots)" (is "m \<in> committed_material _ ?u")
    unfolding kept_def by blast
  from m assms(2) obtain old where old: "old \<in> roots_met P es" "m = with_root old ?u"
    by (auto simp: committed_material_def r split: if_splits)
  have texts: "utf8 (''synaptic-relationship-state:'' @ state_text P m) \<in> committed_texts P es"
    "utf8 (''synaptic-relationship-state:'' @ state_text P ?u) \<in> committed_texts P es"
    using assms(3) old unfolding committed_texts_def by (auto simp: r intro!: bexI [of _ "(rid, r)"])
  have "state_text P m \<noteq> state_text P ?u"
    unfolding old(2) record_of_def by (rule with_root_text) (simp add: count_fields_def)
  then have "sha256 P (utf8 (''synaptic-relationship-state:'' @ state_text P m)) \<noteq>
      sha256 P (utf8 (''synaptic-relationship-state:'' @ state_text P ?u))"
    using inj_onD [OF assms(4) _ texts] by (auto dest: utf8_inj)
  then have "state_digest P m \<noteq> state_digest P ?u" by (auto simp: state_digest_def dest: hex_text_inj)
  then show ?thesis by (simp add: r)
qed

lemma once_distinct:
  assumes "distinct (map f xs)"
  shows "length (filter (\<lambda>x. f x = y) xs) \<le> 1"
  using assms by (induction xs) (auto simp: filter_empty_conv, metis imageI)

lemma twice_not_distinct:
  assumes "\<not> distinct (map f xs)"
  obtains y where "2 \<le> length (filter (\<lambda>x. f x = y) xs)"
  using assms
proof (induction xs arbitrary: thesis)
  case (Cons x xs)
  show ?case
  proof (cases "f x \<in> f ` set xs")
    case True
    then have "filter (\<lambda>z. f z = f x) xs \<noteq> []" by (auto simp: filter_empty_conv)
    then show ?thesis by (intro Cons.prems(1) [of "f x"]) (cases "filter (\<lambda>z. f z = f x) xs"; simp)
  next
    case False
    with Cons.prems(2) obtain y where "2 \<le> length (filter (\<lambda>x. f x = y) xs)" using Cons.IH by auto
    then show ?thesis by (intro Cons.prems(1) [of y]) simp
  qed
qed simp

lemma run_hydrates:
  assumes "hash_width P" "int (length es) \<le> max_safe"
  shows "hydrate P (snapshot_of P (consume_events P es new_synaptizer)) s0 =
    (if list_all (\<lambda>(rid, r). jget r ''state_root'' = JStr (state_digest P (jdelete ''state_root'' r)))
          (relationships (consume_events P es new_synaptizer))
     then (Inr (snapshot_of P (hydrated P (consume_events P es new_synaptizer))),
       hydrated P (consume_events P es new_synaptizer))
     else (reject ''synaptizer_relationship_integrity_mismatch'', s0))"
proof (rule hydrate_snapshot [OF assms(1) run_counters [OF assms(2)]])
  show "distinct (map fst (relationships (consume_events P es new_synaptizer)))" using run_kept [of P es] by blast
  then show "kept P (roots_met P es) rid r" if "(rid, r) \<in> set (relationships (consume_events P es new_synaptizer))" for rid r
    using that run_kept [of P es] by simp
qed

text \<open>
  C27: A Synaptizer whose relationships were each learned from one piece of evidence is taken back from its
  snapshot, by any Synaptizer: hydration returns the snapshot it was given, and the state after it has the
  same relationships, seen executions and counters.
\<close>

theorem snapshot_hydrates:
  assumes "hash_width P" "collation P" "int (length es) \<le> max_safe"
    and once: "distinct (map (identity_root P) (evidence P {} es))"
  shows "\<exists>snap s'. snapshot P (consume_events P es new_synaptizer) = Inr snap \<and>
    hydrate P snap s0 = (Inr snap, s') \<and>
    mset (relationships s') = mset (relationships (consume_events P es new_synaptizer)) \<and>
    set (seenEvents s') = event_id ` set (accepted P es) \<and>
    receivedEvents s' = int (length (accepted P es)) \<and> learnedEvents s' = int (length (evidence P {} es))"
proof -
  let ?s = "consume_events P es new_synaptizer"
  have kept: "distinct (map fst (relationships ?s))"
    "\<And>rid r. map_of (relationships ?s) rid = Some r \<Longrightarrow> kept P (roots_met P es) rid r"
    using run_kept [of P es] by blast+
  have one: "jget r ''observations'' = JInt 1 \<and> text_of (jget r ''relationship_id'') = rid"
    if "(rid, r) \<in> set (relationships ?s)" for rid r
  proof -
    from that kept(1) have known: "map_of (relationships ?s) rid = Some r" by simp
    have "filter (\<lambda>e. identity_root P e = rid) (evidence P {} es) \<noteq> []"
      using sums_run [OF sums_new, of P es, THEN conjunct1, unfolded sums_up_def, THEN spec, of rid] known
      by (simp add: new_synaptizer_def)
    with once_distinct [OF once, of rid] observations [OF known] have "jget r ''observations'' = JInt 1"
      by (cases "filter (\<lambda>e. identity_root P e = rid) (evidence P {} es)") simp_all
    with kept(2) [OF known] show ?thesis by (auto simp: kept_def)
  qed
  have "list_all (\<lambda>(rid, r). jget r ''state_root'' = JStr (state_digest P (jdelete ''state_root'' r))) (relationships ?s)"
    using one kept by (auto simp: list_all_iff intro!: kept_once)
  then have "hydrate P (snapshot_of P ?s) s0 = (Inr (snapshot_of P ?s), hydrated P ?s)"
    using run_hydrates [OF assms(1,3), of s0] by (simp add: snapshot_hydrated [OF assms(2)])
  moreover have "map (\<lambda>r. (text_of (jget r ''relationship_id''), r)) (map snd (relationships ?s)) = relationships ?s"
    using one by (auto intro!: map_idI)
  then have "mset (relationships (hydrated P ?s)) = mset (relationships ?s)"
    by (simp only: relationships_hydrated describeRelationships_def mset_map_sort_by)
  moreover have "set (seenEvents (hydrated P ?s)) = event_id ` set (accepted P es)"
    "receivedEvents (hydrated P ?s) = int (length (accepted P es))"
    "learnedEvents (hydrated P ?s) = int (length (evidence P {} es))"
    using counters_run [OF sums_new, of P es] sums_run [OF sums_new, of P es]
    by (simp_all add: hydrated_def) (simp_all add: new_synaptizer_def)
  ultimately show ?thesis by (auto simp: snapshot_eq)
qed

text \<open>
  C28: When some relationship was observed a second time, the snapshot of the Synaptizer cannot be taken back:
  hydration refuses the relationship's commitment and leaves the state alone. The new commitment covers the
  record with the commitment before it, while hydration removes the commitment from the record it checks.
\<close>

theorem repeated_evidence_unloadable:
  assumes "hash_width P" "int (length es) \<le> max_safe"
    and again: "\<not> distinct (map (identity_root P) (evidence P {} es))"
    and no_collision: "inj_on (sha256 P) (committed_texts P es)"
  shows "\<exists>snap. snapshot P (consume_events P es new_synaptizer) = Inr snap \<and>
    hydrate P snap s0 = (reject ''synaptizer_relationship_integrity_mismatch'', s0)"
proof -
  let ?s = "consume_events P es new_synaptizer"
  from again obtain rid where rid: "2 \<le> length (filter (\<lambda>e. identity_root P e = rid) (evidence P {} es))"
    by (rule twice_not_distinct)
  have "map_of (relationships ?s) rid \<noteq> None"
    using sums_run [OF sums_new, of P es, THEN conjunct1, unfolded sums_up_def, THEN spec, of rid] rid
    by (auto simp: new_synaptizer_def split: option.splits)
  then obtain r where r: "map_of (relationships ?s) rid = Some r" by blast
  with rid observations [OF r] have "jget r ''observations'' \<noteq> JInt 1" by simp
  then have "jget r ''state_root'' \<noteq> JStr (state_digest P (jdelete ''state_root'' r))"
    using run_kept [of P es] r by (intro kept_again [OF _ _ map_of_SomeD [OF r] no_collision]) blast+
  then have "\<not> list_all (\<lambda>(rid, r). jget r ''state_root'' = JStr (state_digest P (jdelete ''state_root'' r))) (relationships ?s)"
    using map_of_SomeD [OF r] by (auto simp: list_all_iff)
  then show ?thesis using run_hydrates [OF assms(1,2), of s0] by (simp add: snapshot_eq)
qed

end
