(* ===== verification/PlanFacts.thy ===== *)
theory PlanFacts
  imports CognitiveFacts SynaptizerSnapshots
begin

text \<open>
  The compiler takes the best matching process port of a fabric and the verification the plan needs; the plan
  of a fabric's own snapshot always finds its ports when it is executed.
\<close>

section \<open>Rankings\<close>

lemma filter_results_Inr: "filter_results f xs = Inr ys \<Longrightarrow> ys = filter (\<lambda>x. f x = Inr True) xs"
  by (induction xs arbitrary: ys) (auto simp: result_simps split: if_splits)

lemma filter_results_total: "(\<And>x. x \<in> set xs \<Longrightarrow> f x = Inr (g x)) \<Longrightarrow> filter_results f xs = Inr (filter g xs)"
  by (induction xs) auto

lemma map_results_total: "(\<And>x. x \<in> set xs \<Longrightarrow> f x = Inr (g x)) \<Longrightarrow> map_results f xs = Inr (map g xs)"
  by (induction xs) auto

definition port_score :: "jsv \<Rightarrow> jsv \<Rightarrow> jsv \<Rightarrow> rat" where
  "port_score snap ctx port = (case synapticEvidenceScore port snap ctx of Inr q \<Rightarrow> q | Inl _ \<Rightarrow> 0)"

definition candidates :: "jsv list \<Rightarrow> string \<Rightarrow> string \<Rightarrow> jsv list" where
  "candidates ports type c = filter (\<lambda>port. port_matches type c port = Inr True) ports"

lemma rankPorts_Inr:
  assumes "rankPorts P ports type c snap ctx = Inr ranking"
  shows "ranking = sort_by (port_le P) (map (\<lambda>p. (p, port_score snap ctx p)) (candidates ports type c))"
proof -
  from assms obtain ms ss where ms: "filter_results (port_matches type c) ports = Inr ms"
    and ss: "map_results (\<lambda>port. and_then (synapticEvidenceScore port snap ctx) (\<lambda>score. Inr (port, score))) ms = Inr ss"
    and ranking: "ranking = sort_by (port_le P) ss"
    by (auto simp: rankPorts_def result_simps)
  have "ms = candidates ports type c" using filter_results_Inr [OF ms] by (simp add: candidates_def)
  moreover have "ss = map (\<lambda>p. (p, port_score snap ctx p)) ms"
    by (rule map_results_Inr_map [OF ss]) (auto simp: port_score_def result_simps)
  ultimately show ?thesis by (simp add: ranking)
qed

lemma port_le_order:
  assumes "collation P"
  shows "port_le P a b \<or> port_le P b a" "port_le P a b \<Longrightarrow> port_le P b c \<Longrightarrow> port_le P a c"
  using assms unfolding collation_def port_le_def Let_def by (auto split: if_splits)

lemma sorted_ranking:
  assumes "collation P"
  shows "sorted_wrt (port_le P) (sort_by (port_le P) ps)"
  by (rule sorted_wrt_sort_by) (use port_le_order [OF assms] in blast)+

lemma best_Cons [simp]: "best ((p, q) # ps) = p"
  by (simp add: best_def)

lemma best_ranked:
  assumes "rankPorts P ports type c snap ctx = Inr ranking" "best ranking \<noteq> JNull" "collation P"
  shows "best ranking \<in> set (candidates ports type c) \<and>
    (\<forall>p \<in> set (candidates ports type c).
       port_le P (best ranking, port_score snap ctx (best ranking)) (p, port_score snap ctx p) \<or> p = best ranking)"
proof -
  from assms(2) obtain p q rest where ranking: "ranking = (p, q) # rest"
    by (cases ranking) (auto simp: best_def)
  have set: "set ranking = (\<lambda>p. (p, port_score snap ctx p)) ` set (candidates ports type c)"
    unfolding rankPorts_Inr [OF assms(1)] by simp
  then have p: "p \<in> set (candidates ports type c)" "q = port_score snap ctx p" by (auto simp: ranking)
  have sorted: "sorted_wrt (port_le P) ranking" unfolding rankPorts_Inr [OF assms(1)] by (rule sorted_ranking [OF assms(3)])
  have "port_le P (p, q) (p', port_score snap ctx p') \<or> p' = p" if "p' \<in> set (candidates ports type c)" for p'
  proof -
    from that set have "(p', port_score snap ctx p') \<in> set ranking" by blast
    then show ?thesis using sorted by (auto simp: ranking)
  qed
  with p show ?thesis by (simp add: ranking)
qed

lemma candidate_truthy: "p \<in> set (candidates ports type c) \<Longrightarrow> truthy p"
  by (cases p) (auto simp: candidates_def port_matches_def split: if_splits)

lemma ranked_empty: "rankPorts P ports type c snap ctx = Inr [] \<Longrightarrow> candidates ports type c = []"
  by (drule rankPorts_Inr) (metis length_0_conv length_map length_sort_by)

lemma ranked_first:
  assumes "rankPorts P ports type c snap ctx = Inr ranking" "ranking \<noteq> []"
  shows "truthy (best ranking)"
proof -
  obtain p q rest where ranking: "ranking = (p, q) # rest" using assms(2) by (cases ranking) auto
  have "set ranking = (\<lambda>p. (p, port_score snap ctx p)) ` set (candidates ports type c)"
    unfolding rankPorts_Inr [OF assms(1)] by simp
  then have "p \<in> set (candidates ports type c)" by (auto simp: ranking)
  then show ?thesis by (simp add: ranking candidate_truthy)
qed

lemma port_leD:
  "port_le P (p, a) (q, b) \<Longrightarrow> num_of (jget q ''priority'') < num_of (jget p ''priority'') \<or>
     num_of (jget q ''priority'') = num_of (jget p ''priority'') \<and>
       (b < a \<or> b = a \<and> locale_le P (text_of (jget p ''port_id'')) (text_of (jget q ''port_id'')))"
  by (auto simp: port_le_def Let_def split: if_splits)

section \<open>Plans\<close>

abbreviation fabric_ports :: "jsv \<Rightarrow> jsv list" where
  "fabric_ports input \<equiv> items (jget (jget input ''fabric'') ''ports'')"

abbreviation intent_of :: "jsv \<Rightarrow> string" where
  "intent_of input \<equiv> text_of (jget input ''intent_class'')"

abbreviation score_in :: "jsv \<Rightarrow> jsv \<Rightarrow> rat" where
  "score_in input \<equiv> port_score (nullish_or (jget input ''synaptic_snapshot'') JNull) (nullish_or (jget input ''context_ref'') JNull)"

text \<open>The best port of a type: it matches the intent, and every other port that does has a lower priority,
  or the same priority and a lower score of synaptic evidence, or the same of both and a name no earlier. A
  plan takes it, or no port of the type where none matches.\<close>

definition best_port :: "platform \<Rightarrow> jsv \<Rightarrow> string \<Rightarrow> jsv \<Rightarrow> bool" where
  "best_port P input type p \<longleftrightarrow> p \<in> set (candidates (fabric_ports input) type (intent_of input)) \<and>
     (\<forall>q \<in> set (candidates (fabric_ports input) type (intent_of input)). q \<noteq> p \<longrightarrow>
        num_of (jget q ''priority'') < num_of (jget p ''priority'') \<or>
        num_of (jget q ''priority'') = num_of (jget p ''priority'') \<and>
          (score_in input q < score_in input p \<or>
           score_in input q = score_in input p \<and>
             locale_le P (text_of (jget p ''port_id'')) (text_of (jget q ''port_id''))))"

definition best_ports :: "platform \<Rightarrow> jsv \<Rightarrow> string \<Rightarrow> jsv list \<Rightarrow> bool" where
  "best_ports P input type ps \<longleftrightarrow>
     (ps = [] \<and> candidates (fabric_ports input) type (intent_of input) = []) \<or> (\<exists>p. ps = [p] \<and> best_port P input type p)"

lemma best_port_truthy: "best_port P input type p \<Longrightarrow> truthy p"
  unfolding best_port_def using candidate_truthy by blast

text \<open>The ranking of a type has its best port first.\<close>

lemma ranked_best:
  assumes "rankPorts P (fabric_ports input) type (intent_of input) (nullish_or (jget input ''synaptic_snapshot'') JNull)
      (nullish_or (jget input ''context_ref'') JNull) = Inr ranking" "collation P"
  shows "best_ports P input type (filter truthy [best ranking])"
    and "truthy (best ranking) \<Longrightarrow> best_port P input type (best ranking)"
proof -
  have best: "best_port P input type (best ranking)" if "best ranking \<noteq> JNull"
    unfolding best_port_def using best_ranked [OF assms(1) that assms(2)] by (blast dest: port_leD)
  then show "truthy (best ranking) \<Longrightarrow> best_port P input type (best ranking)" by (cases "best ranking = JNull") auto
  show "best_ports P input type (filter truthy [best ranking])"
  proof (cases "ranking = []")
    case True
    then show ?thesis using ranked_empty assms(1) by (simp add: best_ports_def best_def)
  next
    case False
    from ranked_first [OF assms(1) False] have "truthy (best ranking)" "best ranking \<noteq> JNull" by auto
    then show ?thesis using best by (simp add: best_ports_def)
  qed
qed

lemma select_ports_Inr:
  assumes "select_ports P input = Inr sel"
  obtains ri rc rv where
    "rankPorts P (fabric_ports input) ''INTENT'' (intent_of input) (nullish_or (jget input ''synaptic_snapshot'') JNull)
       (nullish_or (jget input ''context_ref'') JNull) = Inr ri" "intent_port sel = best ri"
    "rankPorts P (fabric_ports input) ''COGNITON'' (intent_of input) (nullish_or (jget input ''synaptic_snapshot'') JNull)
       (nullish_or (jget input ''context_ref'') JNull) = Inr rc" "cogniton_port sel = best rc"
    "rankPorts P (fabric_ports input) ''PROCESS'' (intent_of input) (nullish_or (jget input ''synaptic_snapshot'') JNull)
       (nullish_or (jget input ''context_ref'') JNull) = Inr (process_ranking sel)"
    "rankPorts P (fabric_ports input) ''VERIFICATION'' (intent_of input) (nullish_or (jget input ''synaptic_snapshot'') JNull)
       (nullish_or (jget input ''context_ref'') JNull) = Inr rv" "verification_port sel = best rv"
  using assms that by (auto simp: select_ports_def selectOne_def Let_def result_simps)

lemma compile_Inr:
  assumes "compile P input = Inr plan"
  obtains sel where "check_input input = Inr ()" "select_ports P input = Inr sel" "check_selection input sel = Inr ()"
    "\<forall>k. k \<notin> {''__proto__'', ''state_root''} \<longrightarrow> jget plan k = freezeClone (jget (JObj (activation_plan input sel)) k)"
proof -
  from assms obtain sel root where sel: "check_input input = Inr ()" "select_ports P input = Inr sel"
      "check_selection input sel = Inr ()"
    and plan: "plan = freezeClone (JObj (activation_plan input sel @ [(''state_root'', JStr root)]))"
    by (auto simp: compile_def result_simps)
  have "jget plan k = freezeClone (jget (JObj (activation_plan input sel)) k)"
    if "k \<noteq> ''__proto__''" "k \<noteq> ''state_root''" for k
    unfolding plan jget_freeze [OF that(1)] by (simp add: map_add_def that(2) split: option.split)
  with sel show thesis by (intro that) blast+
qed

lemma plan_fields:
  "jget (JObj (activation_plan input sel)) ''contract'' = JStr plan_contract"
  "jget (JObj (activation_plan input sel)) ''process_port_id'' = jget (best (process_ranking sel)) ''port_id''"
  "jget (JObj (activation_plan input sel)) ''verification_port_id'' = nullish_or (jget (verification_port sel) ''port_id'') JNull"
  "jget (JObj (activation_plan input sel)) ''verification_required'' = JBool (verificationRequired input sel)"
  "jget (JObj (activation_plan input sel)) ''active_port_ids'' = JArr (map (\<lambda>port. jget port ''port_id'') (active_ports sel))"
  by (simp_all add: activation_plan_def)

text \<open>
  C30: Each port a compiled plan activates is the best of its type: of the intent ports, of the cogniton
  ports, of the process ports and of the verification ports that match the intent, in this order, none has a
  higher priority, none of the same priority a higher score of synaptic evidence, and none of the same of
  both an earlier name; a type is left out only where no port of it matches. Verification is required unless
  the caller waives it and the process port does not ask for it; when it is, a verification port is active.
\<close>

theorem plan_takes_best_ports:
  assumes "collation P" "compile P input = Inr plan"
  shows "\<exists>i cs p vs. best_port P input ''INTENT'' i \<and> best_ports P input ''COGNITON'' cs \<and>
    best_port P input ''PROCESS'' p \<and> best_ports P input ''VERIFICATION'' vs \<and>
    jget plan ''active_port_ids'' = JArr (map (\<lambda>d. freezeClone (jget d ''port_id'')) (i # cs @ p # vs)) \<and>
    jget plan ''process_port_id'' = freezeClone (jget p ''port_id'') \<and>
    jget plan ''verification_port_id'' =
      (case vs of [] \<Rightarrow> JNull | v # _ \<Rightarrow> freezeClone (nullish_or (jget v ''port_id'') JNull)) \<and>
    jget plan ''verification_required'' =
      JBool (jget input ''verification_required'' \<noteq> JBool False \<or> jget p ''verification_required'' = JBool True) \<and>
    (jget plan ''verification_required'' = JBool True \<longrightarrow> vs \<noteq> [])"
proof -
  from assms(2) obtain sel where "check_input input = Inr ()" and sel: "select_ports P input = Inr sel"
    and checked: "check_selection input sel = Inr ()"
    and plan: "\<forall>k. k \<notin> {''__proto__'', ''state_root''} \<longrightarrow> jget plan k = freezeClone (jget (JObj (activation_plan input sel)) k)"
    by (rule compile_Inr)
  let ?p = "best (process_ranking sel)" and ?v = "verification_port sel"
  have fields: "jget plan ''process_port_id'' = freezeClone (jget ?p ''port_id'')"
    "jget plan ''verification_port_id'' = freezeClone (nullish_or (jget ?v ''port_id'') JNull)"
    "jget plan ''verification_required'' = JBool (verificationRequired input sel)"
    "jget plan ''active_port_ids'' = JArr (map freezeClone (map (\<lambda>port. jget port ''port_id'') (active_ports sel)))"
    using plan plan_fields by simp_all
  have found: "truthy (intent_port sel)" "truthy ?p" "verificationRequired input sel \<Longrightarrow> truthy ?v"
    using checked by (auto simp: check_selection_def split: if_splits)
  from sel have ranked: "best_port P input ''INTENT'' (intent_port sel)" "best_port P input ''PROCESS'' ?p"
    "best_ports P input ''COGNITON'' (filter truthy [cogniton_port sel])" "best_ports P input ''VERIFICATION'' (filter truthy [?v])"
    by (rule select_ports_Inr; use ranked_best assms(1) found in metis)+
  have "?v = JNull" if "\<not> truthy ?v"
    using sel by (rule select_ports_Inr) (use ranked_first that in \<open>fastforce simp: best_def\<close>)
  then have verification: "jget plan ''verification_port_id'' =
      (case filter truthy [?v] of [] \<Rightarrow> JNull | v # _ \<Rightarrow> freezeClone (nullish_or (jget v ''port_id'') JNull))"
    unfolding fields by (auto simp: nullish_or_def)
  show ?thesis
    by (rule exI [of _ "intent_port sel"], rule exI [of _ "filter truthy [cogniton_port sel]"], rule exI [of _ ?p],
      rule exI [of _ "filter truthy [?v]"])
     (use ranked found verification fields(1,3,4) in \<open>simp add: active_ports_def verificationRequired_def\<close>)
qed

section \<open>Fabrics\<close>

definition register_all :: "platform \<Rightarrow> (jsv \<times> 'w handler option) list \<Rightarrow> 'w fabric" where
  "register_all P regs = fold (\<lambda>(d, h) fabric. snd (registerPort P d h fabric)) regs []"

definition port_ok :: "string \<Rightarrow> jsv \<Rightarrow> bool" where
  "port_ok pid d \<longleftrightarrow> is_record d \<and> freezeClone d = d \<and> jget d ''port_id'' = JStr pid \<and> is_string (jget d ''port_type'') \<and>
     is_array (jget d ''intent_classes'') \<and> truthy d"

definition fabric_ok :: "'w fabric \<Rightarrow> bool" where
  "fabric_ok fabric \<longleftrightarrow> distinct (map fst fabric) \<and> (\<forall>(pid, d, h) \<in> set fabric. port_ok pid d)"

lemma normalized_fields:
  "k \<noteq> ''__proto__'' \<Longrightarrow> jget (normalized_port P descriptor) k = freezeClone (jget (JObj
     [(''contract'', JStr port_contract), (''port_id'', jget descriptor ''port_id''),
      (''port_type'', jget descriptor ''port_type''), (''role'', jget descriptor ''role''),
      (''priority'', if is_finite (jget descriptor ''priority'') then jget descriptor ''priority'' else JInt 0),
      (''intent_classes'', text_set P (jget descriptor ''intent_classes'')),
      (''evidence_targets'', text_set P (jget descriptor ''evidence_targets'')),
      (''verification_required'', JBool (jget descriptor ''verification_required'' = JBool True))]) k)"
  unfolding normalized_port_def by (rule jget_freeze)

lemma normalized_port_ok:
  assumes "validatePortDescriptor descriptor = Inr ()"
  shows "port_ok (text_of (jget descriptor ''port_id'')) (normalized_port P descriptor)"
proof -
  have "is_string (jget descriptor ''port_id'')" "is_string (jget descriptor ''port_type'')"
    using assms by (auto simp: validatePortDescriptor_def str_in_iff split: if_splits)
  then obtain i t where i: "jget descriptor ''port_id'' = JStr i" "jget descriptor ''port_type'' = JStr t"
    by (auto elim!: is_string.elims)
  have "is_array (text_set P v)" for v by (simp add: text_set_def)
  moreover have "is_record (normalized_port P descriptor)" "truthy (normalized_port P descriptor)"
    by (simp_all add: normalized_port_def)
  moreover have "freezeClone (normalized_port P descriptor) = normalized_port P descriptor"
    unfolding normalized_port_def by (rule freezeClone_twice)
  ultimately show ?thesis unfolding port_ok_def by (simp add: normalized_fields i)
qed

lemma registerPort_ok: "fabric_ok fabric \<Longrightarrow> fabric_ok (snd (registerPort P descriptor handler fabric))"
  by (cases "validatePortDescriptor descriptor")
    (auto simp: registerPort_def fabric_ok_def Let_def map_of_eq_None_iff intro: normalized_port_ok split: option.split)

lemma register_all_ok: "fabric_ok (register_all P regs)"
proof -
  have "fabric_ok fabric \<Longrightarrow> fabric_ok (fold (\<lambda>(d, h) fabric. snd (registerPort P d h fabric)) regs fabric)" for fabric
    by (induction regs arbitrary: fabric) (auto intro: registerPort_ok)
  moreover have "fabric_ok []" by (simp add: fabric_ok_def)
  ultimately show ?thesis unfolding register_all_def by blast
qed

lemma port_of_fabric:
  assumes "fabric_ok fabric" "d \<in> set (describePorts P fabric)"
  obtains pid h where "(pid, d, h) \<in> set fabric" "map_of fabric pid = Some (d, h)" "port_ok pid d"
proof -
  from assms(2) obtain pid h where entry: "(pid, d, h) \<in> set fabric" by (auto simp: describePorts_def)
  moreover have "map_of fabric pid = Some (d, h)" using assms(1) entry by (simp add: fabric_ok_def)
  moreover have "port_ok pid d" using assms(1) entry by (auto simp: fabric_ok_def)
  ultimately show thesis by (rule that)
qed

lemma fabric_snapshot_fields:
  assumes "fabric_ok fabric" "fabric_snapshot P fabric = Inr snap"
  shows "truthy snap" "is_string (jget snap ''state_root'')" "jget snap ''ports'' = JArr (describePorts P fabric)"
proof -
  from assms(2) obtain root where snap: "snap = freezeClone (JObj [(''contract'', JStr fabric_contract),
      (''ports'', JArr (describePorts P fabric)), (''state_root'', JStr root)])"
    by (auto simp: fabric_snapshot_def Let_def result_simps)
  have "map freezeClone (describePorts P fabric) = describePorts P fabric"
    using port_of_fabric [OF assms(1)] by (intro map_idI) (metis port_ok_def)
  then show "jget snap ''ports'' = JArr (describePorts P fabric)" unfolding snap by (simp add: jget_freeze del: freezeClone.simps(2))
  show "truthy snap" "is_string (jget snap ''state_root'')"
    by (simp add: snap) (simp add: snap jget_freeze del: freezeClone.simps(2))
qed

text \<open>Handlers one after the other, the first failure being the last.\<close>

fun run_handlers :: "'w handler list \<Rightarrow> jsv \<Rightarrow> jsv \<Rightarrow> 'w \<Rightarrow> jsv result \<times> 'w" where
  "run_handlers [] plan state w = (Inr state, w)"
| "run_handlers (h # hs) plan state w =
     (case h (JObj [(''plan'', plan), (''state'', state)]) w of
        (Inl e, w') \<Rightarrow> (Inl e, w')
      | (Inr state', w') \<Rightarrow> run_handlers hs plan state' w')"

lemma run_ports_handlers:
  assumes "\<forall>(pid, d, h) \<in> set chosen. map_of fabric pid = Some (d, h)"
  shows "run_ports fabric plan (map (JStr \<circ> fst) chosen) state w = run_handlers (map (snd \<circ> snd) chosen) plan state w"
  using assms
proof (induction chosen arbitrary: state w)
  case (Cons entry chosen)
  then show ?case by (cases entry) (auto simp: activate_port_def split: prod.split sum.split)
qed simp

section \<open>Compiling for a fabric\<close>

definition relations_ok :: "jsv \<Rightarrow> bool" where
  "relations_ok snap \<longleftrightarrow> (truthy snap \<longrightarrow> is_array (jget snap ''relationships'') \<and> list_all is_record (items (jget snap ''relationships'')))"

lemma score_total:
  assumes "relations_ok snap"
  shows "synapticEvidenceScore port snap ctx = Inr (port_score snap ctx port)"
proof -
  have "filter_results (evidence_relates t ctx) rs =
      Inr (filter (\<lambda>r. evidence_relates t ctx r = Inr True) rs)" if "list_all is_record rs" for t rs
    by (rule filter_results_total) (use that in \<open>auto simp: list_all_iff evidence_relates_def\<close>)
  then show ?thesis using assms by (simp add: relations_ok_def port_score_def synapticEvidenceScore_def)
qed

lemma rank_total:
  assumes "fabric_ok fabric" "relations_ok snap"
  shows "rankPorts P (describePorts P fabric) type c snap ctx =
    Inr (sort_by (port_le P) (map (\<lambda>p. (p, port_score snap ctx p)) (candidates (describePorts P fabric) type c)))"
proof -
  have "\<exists>b. port_matches type c d = Inr b" if "d \<in> set (describePorts P fabric)" for d
    using port_of_fabric [OF assms(1) that] unfolding port_ok_def port_matches_def
    by (metis is_array.elims(2) is_record.simps(2,3) matchesIntent.simps(1))
  then have "port_matches type c d = Inr (port_matches type c d = Inr True)" if "d \<in> set (describePorts P fabric)" for d
    using that by (cases "port_matches type c d") fastforce+
  then have "filter_results (port_matches type c) (describePorts P fabric) =
      Inr (filter (\<lambda>d. port_matches type c d = Inr True) (describePorts P fabric))"
    by (rule filter_results_total)
  then show ?thesis
    by (simp add: rankPorts_def candidates_def score_total [OF assms(2)] map_results_total [where g = "\<lambda>p. (p, port_score snap ctx p)"])
qed

lemma best_candidate:
  assumes "fabric_ok fabric" "candidates (describePorts P fabric) type c \<noteq> []"
  shows "best (sort_by le (map (\<lambda>p. (p, f p)) (candidates (describePorts P fabric) type c)))
    \<in> set (candidates (describePorts P fabric) type c)"
proof -
  obtain p q rest where ranking: "sort_by le (map (\<lambda>p. (p, f p)) (candidates (describePorts P fabric) type c)) = (p, q) # rest"
    using assms(2) by (metis length_0_conv length_map length_sort_by list.exhaust surj_pair)
  then have "(p, q) \<in> (\<lambda>p. (p, f p)) ` set (candidates (describePorts P fabric) type c)"
    by (metis list.set_intros(1) list.set_map set_sort_by)
  then show ?thesis by (auto simp: ranking)
qed

lemma candidate_entry:
  assumes "fabric_ok fabric" "d \<in> set (candidates (describePorts P fabric) type c)"
  shows "\<exists>pid h. map_of fabric pid = Some (d, h) \<and> jget d ''port_id'' = JStr pid \<and> jget d ''port_type'' = JStr type \<and> truthy d"
proof -
  from assms(2) have d: "d \<in> set (describePorts P fabric)" "port_matches type c d = Inr True"
    by (auto simp: candidates_def)
  from d(2) have "jget d ''port_type'' = JStr type" by (auto simp: port_matches_def split: if_splits)
  with port_of_fabric [OF assms(1) d(1)] show ?thesis unfolding port_ok_def by metis
qed

lemma best_empty: "ps = [] \<Longrightarrow> best (sort_by le (map f ps)) = JNull"
  by (simp add: best_def)

lemma kept_record: "kept P met rid r \<Longrightarrow> is_record r"
  unfolding kept_def using record_fields(10) with_root_fields(2) by blast

lemma snapshot_relations: "snapshot P (consume_events P es new_synaptizer) = Inr snap \<Longrightarrow> relations_ok snap"
proof -
  let ?s = "consume_events P es new_synaptizer"
  assume "snapshot P ?s = Inr snap"
  then have snap: "snap = snapshot_of P ?s" by (simp add: snapshot_eq)
  have "is_record r" if "(rid, r) \<in> set (relationships ?s)" for rid r
    using run_kept [of P es] that kept_record by fastforce
  then show ?thesis
    by (auto simp: relations_ok_def snap snapshot_of_fields describeRelationships_def list_all_iff)
qed

lemma snapshot_shape:
  assumes "snapshot P s = Inr snap"
  shows "typeof_object snap \<and> is_array (jget snap ''relationships'') \<and> is_string (jget snap ''state_root'')"
proof -
  have "snap = snapshot_of P s" using assms by (simp add: snapshot_eq)
  moreover have "typeof_object (snapshot_of P s)" by (simp add: snapshot_of_def)
  ultimately show ?thesis by (simp add: snapshot_of_fields)
qed

text \<open>The input of a compilation: an intent, the snapshots of a graph and of a fabric, and the evidence of a
  Synaptizer or none.\<close>

definition compile_input :: "platform \<Rightarrow> graph \<Rightarrow> 'w fabric \<Rightarrow> jsv \<Rightarrow> bool" where
  "compile_input P g fabric input \<longleftrightarrow> is_record input \<and> is_string (jget input ''intent_class'') \<and>
     jget input ''intent_class'' \<noteq> JStr [] \<and> graph_snapshot P g = Inr (jget input ''graph'') \<and>
     fabric_snapshot P fabric = Inr (jget input ''fabric'') \<and>
     (jget input ''synaptic_snapshot'' = JUndef \<or>
      (\<exists>es. snapshot P (consume_events P es new_synaptizer) = Inr (jget input ''synaptic_snapshot'')))"

lemma graph_snapshot_fields:
  assumes "graph_snapshot P g = Inr snap"
  shows "truthy snap" "is_string (jget snap ''state_root'')"
proof -
  from assms obtain root where snap: "snap = freezeClone (JObj (graph_state P g @ [(''state_root'', JStr root)]))"
    by (auto simp: graph_snapshot_def result_simps)
  show "truthy snap" by (simp add: snap)
  show "is_string (jget snap ''state_root'')" unfolding snap by (subst jget_freeze) (simp_all add: graph_state_def)
qed

lemma check_compile_input:
  assumes "fabric_ok fabric" "compile_input P g fabric input"
  shows "check_input input = Inr ()" "relations_ok (nullish_or (jget input ''synaptic_snapshot'') JNull)"
    "fabric_ports input = describePorts P fabric"
proof -
  from assms(2) have g: "graph_snapshot P g = Inr (jget input ''graph'')"
    and f: "fabric_snapshot P fabric = Inr (jget input ''fabric'')"
    and i: "is_record input" "is_string (jget input ''intent_class'')" "jget input ''intent_class'' \<noteq> JStr []"
    and s: "jget input ''synaptic_snapshot'' = JUndef \<or>
      (\<exists>es. snapshot P (consume_events P es new_synaptizer) = Inr (jget input ''synaptic_snapshot''))"
    by (auto simp: compile_input_def)
  note fields = graph_snapshot_fields [OF g] fabric_snapshot_fields [OF assms(1) f]
  show "fabric_ports input = describePorts P fabric" by (simp add: fields)
  have snap: "jget input ''synaptic_snapshot'' = JUndef \<or> typeof_object (jget input ''synaptic_snapshot'') \<and>
      is_array (jget (jget input ''synaptic_snapshot'') ''relationships'') \<and>
      is_string (jget (jget input ''synaptic_snapshot'') ''state_root'')"
    using s snapshot_shape by blast
  have "truthy input" "typeof_object input" using i(1) by (cases input; simp)+
  with i fields snap show "check_input input = Inr ()" by (auto simp: check_input_def)
  show "relations_ok (nullish_or (jget input ''synaptic_snapshot'') JNull)"
    using s snapshot_relations by (auto simp: nullish_or_def relations_ok_def)
qed

lemma compile_selects:
  assumes ok: "fabric_ok fabric" and input: "compile_input P g fabric input"
    and ports: "candidates (describePorts P fabric) ''INTENT'' (intent_of input) \<noteq> []"
      "candidates (describePorts P fabric) ''PROCESS'' (intent_of input) \<noteq> []"
      "candidates (describePorts P fabric) ''VERIFICATION'' (intent_of input) \<noteq> []"
  defines "rank type \<equiv> sort_by (port_le P) (map (\<lambda>p. (p, score_in input p))
    (candidates (describePorts P fabric) type (intent_of input)))"
  shows "select_ports P input = Inr \<lparr>intent_port = best (rank ''INTENT''), cogniton_port = best (rank ''COGNITON''),
      process_ranking = rank ''PROCESS'', verification_port = best (rank ''VERIFICATION'')\<rparr>"
    "candidates (describePorts P fabric) type (intent_of input) \<noteq> [] \<Longrightarrow>
      \<exists>pid h. map_of fabric pid = Some (best (rank type), h) \<and> jget (best (rank type)) ''port_id'' = JStr pid \<and>
        jget (best (rank type)) ''port_type'' = JStr type \<and> truthy (best (rank type))"
    "\<exists>plan. compile P input = Inr plan"
proof -
  note checked = check_compile_input [OF ok input]
  show sel: "select_ports P input = Inr \<lparr>intent_port = best (rank ''INTENT''), cogniton_port = best (rank ''COGNITON''),
      process_ranking = rank ''PROCESS'', verification_port = best (rank ''VERIFICATION'')\<rparr>"
    by (simp add: select_ports_def Let_def selectOne_def checked(3) rank_total [OF ok checked(2)] rank_def)
  show entry: "\<exists>pid h. map_of fabric pid = Some (best (rank type), h) \<and> jget (best (rank type)) ''port_id'' = JStr pid \<and>
      jget (best (rank type)) ''port_type'' = JStr type \<and> truthy (best (rank type))"
    if "candidates (describePorts P fabric) type (intent_of input) \<noteq> []" for type
    unfolding rank_def by (rule candidate_entry [OF ok best_candidate [OF ok that]])
  show "\<exists>plan. compile P input = Inr plan"
    using entry [OF ports(1)] entry [OF ports(2)] entry [OF ports(3)]
    by (auto simp: compile_def checked(1) sel check_selection_def cognitiveStateRoot_def)
qed

lemmas compile_succeeds = compile_selects(3)

lemma selected_best:
  assumes "fabric_ok fabric" "compile_input P g fabric input" "collation P"
    and "candidates (describePorts P fabric) type (intent_of input) \<noteq> []"
  shows "best_port P input type (best (sort_by (port_le P) (map (\<lambda>p. (p, score_in input p))
    (candidates (describePorts P fabric) type (intent_of input)))))"
proof -
  note checked = check_compile_input [OF assms(1,2)]
  show ?thesis
    by (rule ranked_best(2) [OF _ assms(3)])
      (use rank_total [OF assms(1) checked(2)] candidate_truthy [OF best_candidate [OF assms(1,4)]] in \<open>simp_all add: checked(3)\<close>)
qed

text \<open>
  C29: Composition: for a fabric made by registrations, the snapshot of a graph and the evidence of a
  Synaptizer (or none), compilation succeeds whenever an intent, a process and a verification port match, and
  executing the plan in the fabric never misses a port: the plan names, in this order, the best intent port,
  the best cogniton port if one matches, the best process port and the best verification port, and what runs
  are the handlers those very ports were registered with, each on the state the one before it left, up to the
  first that fails.
\<close>

theorem compiled_plan_runs:
  assumes fabric: "fabric = register_all P regs" and input: "compile_input P g fabric input" and order: "collation P"
    and ports: "candidates (describePorts P fabric) ''INTENT'' (intent_of input) \<noteq> []"
      "candidates (describePorts P fabric) ''PROCESS'' (intent_of input) \<noteq> []"
      "candidates (describePorts P fabric) ''VERIFICATION'' (intent_of input) \<noteq> []"
  shows "\<exists>plan chosen. compile P input = Inr plan \<and> set chosen \<subseteq> set fabric \<and>
    jget plan ''active_port_ids'' = JArr (map (JStr \<circ> fst) chosen) \<and>
    list_all2 (\<lambda>type (pid, d, h). best_port P input type d \<and> jget d ''port_id'' = JStr pid)
      ([''INTENT''] @
        (if candidates (describePorts P fabric) ''COGNITON'' (intent_of input) = [] then [] else [''COGNITON'']) @
        [''PROCESS'', ''VERIFICATION'']) chosen \<and>
    executeActivationPlan plan (Some fabric) payload w = run_handlers (map (snd \<circ> snd) chosen) plan payload w"
proof -
  have ok: "fabric_ok fabric" by (simp add: fabric register_all_ok)
  note selected = compile_selects [OF ok input ports]
  let ?rank = "\<lambda>type. sort_by (port_le P) (map (\<lambda>p. (p, score_in input p))
    (candidates (describePorts P fabric) type (intent_of input)))"
  define sel where "sel = \<lparr>intent_port = best (?rank ''INTENT''), cogniton_port = best (?rank ''COGNITON''),
    process_ranking = ?rank ''PROCESS'', verification_port = best (?rank ''VERIFICATION'')\<rparr>"
  note sel = selected(1) [folded sel_def]
  obtain i hi p hp v hv where entries:
    "map_of fabric i = Some (intent_port sel, hi)" "jget (intent_port sel) ''port_id'' = JStr i"
      "jget (intent_port sel) ''port_type'' = JStr ''INTENT''" "truthy (intent_port sel)"
    "map_of fabric p = Some (best (process_ranking sel), hp)" "jget (best (process_ranking sel)) ''port_id'' = JStr p"
      "jget (best (process_ranking sel)) ''port_type'' = JStr ''PROCESS''" "truthy (best (process_ranking sel))"
    "map_of fabric v = Some (verification_port sel, hv)" "jget (verification_port sel) ''port_id'' = JStr v"
      "jget (verification_port sel) ''port_type'' = JStr ''VERIFICATION''" "truthy (verification_port sel)"
    using selected(2) [OF ports(1)] selected(2) [OF ports(2)] selected(2) [OF ports(3)] by (auto simp: sel_def)
  obtain plan where plan: "compile P input = Inr plan" "jget plan ''contract'' = JStr plan_contract"
      "jget plan ''active_port_ids'' = JArr (map freezeClone (map (\<lambda>port. jget port ''port_id'') (active_ports sel)))"
  proof -
    obtain plan where plan: "compile P input = Inr plan" using selected(3) by blast
    then obtain sel' where "check_input input = Inr ()" "select_ports P input = Inr sel'" "check_selection input sel' = Inr ()"
      "\<forall>k. k \<notin> {''__proto__'', ''state_root''} \<longrightarrow> jget plan k = freezeClone (jget (JObj (activation_plan input sel')) k)"
      by (rule compile_Inr)
    with sel plan_fields [of input sel] show thesis by (intro that [OF plan]) auto
  qed
  note best = selected_best [OF ok input order]
  define middle where "middle = (if candidates (describePorts P fabric) ''COGNITON'' (intent_of input) = [] then []
    else map (\<lambda>pid. (pid, the (map_of fabric pid))) [text_of (jget (cogniton_port sel) ''port_id'')])"
  have middle: "\<forall>(pid, d, h) \<in> set middle. map_of fabric pid = Some (d, h)"
    "map (JStr \<circ> fst) middle = map (\<lambda>port. freezeClone (jget port ''port_id'')) (filter truthy [cogniton_port sel])"
    "list_all2 (\<lambda>type (pid, d, h). best_port P input type d \<and> jget d ''port_id'' = JStr pid)
      (if candidates (describePorts P fabric) ''COGNITON'' (intent_of input) = [] then [] else [''COGNITON'']) middle"
    using selected(2) [of "''COGNITON''"] best [of "''COGNITON''"] best_empty [of "map (\<lambda>p. (p, score_in input p)) []"]
    by (auto simp: middle_def sel_def best_empty)
  let ?chosen = "[(i, intent_port sel, hi)] @ middle @ [(p, best (process_ranking sel), hp), (v, verification_port sel, hv)]"
  have chosen: "\<forall>(pid, d, h) \<in> set ?chosen. map_of fabric pid = Some (d, h)" using middle(1) entries by auto
  have ids: "iterate (jget plan ''active_port_ids'') = Inr (map (JStr \<circ> fst) ?chosen)"
    using entries middle(2) by (simp add: plan(3) active_ports_def)
  have "truthy plan" using plan(2) by (cases plan) auto
  then have "executeActivationPlan plan (Some fabric) payload w = run_handlers (map (snd \<circ> snd) ?chosen) plan payload w"
    by (simp only: executeActivationPlan_def plan(2) ids run_ports_handlers [OF chosen] option.case sum.case simp_thms if_False)
  moreover have "set ?chosen \<subseteq> set fabric" using chosen by (auto dest: map_of_SomeD)
  moreover have "list_all2 (\<lambda>type (pid, d, h). best_port P input type d \<and> jget d ''port_id'' = JStr pid)
      ([''INTENT''] @
        (if candidates (describePorts P fabric) ''COGNITON'' (intent_of input) = [] then [] else [''COGNITON'']) @
        [''PROCESS'', ''VERIFICATION'']) ?chosen"
    using best [OF ports(1)] best [OF ports(2)] best [OF ports(3)] entries(2,6,10)
    by (intro list_all2_appendI middle(3)) (simp_all add: sel_def)
  moreover have "jget plan ''active_port_ids'' = JArr (map (JStr \<circ> fst) ?chosen)"
    using entries middle(2) by (simp add: plan(3) active_ports_def)
  ultimately show ?thesis using plan(1) by blast
qed

end
