(* ===== verification/AgentWitnesses.thy ===== *)
theory AgentWitnesses
  imports GatewayProperties DiscoveryFacts CompanionFacts PlanFacts
begin

text \<open>
  Concrete agents, companions and plans, and what the properties of the gateway, of discovery, of the
  decisions and of plans say of them.
\<close>

section \<open>Contracts of agents\<close>

text \<open>
  Concrete contracts the witnesses of the gateway's properties are evaluated on: a platform, an agent
  with two grants (the second delegated from the first), a capability, a message of the agent, and the
  revocations of the agent and of the parent grant. All of them pass the validators.
\<close>

definition platform0 :: platform where
  "platform0 = \<lparr>num_other = (\<lambda>_. []), date_other = (\<lambda>_. None), nfkc = (\<lambda>s. s),
     locale_le = (\<lambda>a b. a \<le> b), sha256 = (\<lambda>s. take 32 (s @ replicate 32 CHR ''a''))\<rparr>"

definition strs :: "string list \<Rightarrow> jsv" where
  "strs ss = JArr (map JStr ss)"

definition sample_identity :: jsv where
  "sample_identity = JObj
     [(''contract_version'', JStr ''kindred.agent.identity.v1''),
      (''agent_id'', JStr ''kindred-agent-worker-0001''),
      (''tenant_id'', JStr ''kindred-tenant-tenant-0001''),
      (''agent_class'', JStr ''worker''),
      (''owner_id'', JStr ''kindred-account-0001''),
      (''creator_id'', JStr ''kindred-component-brainstem''),
      (''version'', JStr ''1.0.0''),
      (''lineage'', JObj [(''parent_agent_id'', JNull), (''replaces_agent_id'', JNull)]),
      (''purpose'', JStr ''work''),
      (''capabilities'', strs [''kindred.capability.echo.v1'']),
      (''prohibited_capabilities'', strs [''founder_authority'']),
      (''permissions'', strs []),
      (''authority'', JObj
        [(''issuer_component'', JStr ''brainstem''),
         (''grant_refs'', strs [''kindred-grant-parent-01'', ''kindred-grant-child-001'']),
         (''ceiling'', JStr ''user_delegated'')]),
      (''budget_refs'', strs []),
      (''lifecycle_state'', JStr ''active''),
      (''health'', JStr ''healthy''),
      (''evidence_refs'', strs []),
      (''memory_scope'', JObj [(''namespace_refs'', strs []), (''write_mode'', JStr ''proposal_only'')]),
      (''execution_scope'', JObj
        [(''mode'', JStr ''proposal_only''), (''allowed_capabilities'', strs [''kindred.capability.echo.v1''])]),
      (''provider_scope'', JObj [(''mode'', JStr ''mediated_only''), (''provider_refs'', strs [])]),
      (''economic_mandate_ref'', JNull),
      (''replacement_agent_id'', JNull),
      (''created_at'', JStr ''2026-01-01T00:00:00.000Z''),
      (''revoked_at'', JNull)]"

definition sample_capability :: jsv where
  "sample_capability = JObj
     [(''contract_version'', JStr ''kindred.agent.capability.v1''),
      (''capability_id'', JStr ''kindred.capability.echo.v1''),
      (''version'', JStr ''1.0.0''),
      (''owner_component'', JStr ''kindred_cloud''),
      (''action_type'', JStr ''tool''),
      (''allowed_agent_classes'', strs [''worker'']),
      (''required_authority'', JStr ''user_delegated''),
      (''risk_ceiling'', JStr ''low''),
      (''data_classifications'', strs [''internal'']),
      (''execution_mode'', JStr ''governed_local_reversible''),
      (''provider_contact'', JStr ''mediated_only''),
      (''memory_commit'', JStr ''brainstem_only''),
      (''settlement'', JStr ''retrobank_mandate_only''),
      (''compensation_required'', JBool False),
      (''input_contract_ref'', JStr ''echo.input.v1''),
      (''output_contract_ref'', JStr ''echo.output.v1'')]"

fun sample_grant :: "string \<Rightarrow> jsv \<Rightarrow> jsv" where
  "sample_grant grantId parent = JObj
     [(''contract_version'', JStr ''kindred.agent.authority-grant.v1''),
      (''grant_id'', JStr grantId),
      (''subject_agent_id'', JStr ''kindred-agent-worker-0001''),
      (''issuer_component'', JStr ''brainstem''),
      (''issuer_id'', JStr ''kindred-component-brainstem''),
      (''authentication_ref'', JStr ''kindred-authref-worker-01''),
      (''authority_level'', JStr ''user_delegated''),
      (''capability_ids'', strs [''kindred.capability.echo.v1'']),
      (''message_types'', strs [''request'']),
      (''permissions'', strs []),
      (''budget_refs'', strs []),
      (''parent_grant_ref'', parent),
      (''issued_at'', JStr ''2026-01-01T00:00:00.000Z''),
      (''expires_at'', JStr ''2026-02-01T00:00:00.000Z''),
      (''status'', JStr ''active''),
      (''revoked_at'', JNull)]"

definition parent_grant :: jsv where
  "parent_grant = sample_grant ''kindred-grant-parent-01'' JNull"

definition child_grant :: jsv where
  "child_grant = sample_grant ''kindred-grant-child-001'' (JStr ''kindred-grant-parent-01'')"

definition sample_message :: "string \<Rightarrow> jsv" where
  "sample_message nonce = JObj
     [(''contract_version'', JStr ''kindred.agent.message-envelope.v1''),
      (''message_id'', JStr ''kindred-message-request-01''),
      (''message_type'', JStr ''request''),
      (''sender'', JObj [(''principal_type'', JStr ''agent''), (''id'', JStr ''kindred-agent-worker-0001'')]),
      (''recipient'', JObj [(''principal_type'', JStr ''runtime_component''), (''id'', JStr ''brainstem'')]),
      (''authority_ref'', JStr ''kindred-grant-child-001''),
      (''correlation_id'', JStr ''correlation-0001''),
      (''causation_id'', JNull),
      (''nonce'', JStr nonce),
      (''timestamp'', JStr ''2026-01-02T00:00:00.000Z''),
      (''expires_at'', JStr ''2026-01-02T00:10:00.000Z''),
      (''data_classification'', JStr ''internal''),
      (''requested_capability'', JStr ''kindred.capability.echo.v1''),
      (''budget_ref'', JNull),
      (''evidence_refs'', strs []),
      (''authentication_ref'', JStr ''kindred-authref-worker-01''),
      (''delegation_ref'', JStr ''kindred-grant-parent-01''),
      (''payload'', JObj [(''text'', JStr ''hello'')])]"

text \<open>The clock of the samples: one minute after the message was sent.\<close>

definition sample_now :: int where
  "sample_now = 1767312060000"

definition component_message :: "string \<Rightarrow> string \<Rightarrow> string \<Rightarrow> (string \<times> jsv) list \<Rightarrow> jsv \<Rightarrow> jsv" where
  "component_message mtype recipient nonce changes payload =
     fold (\<lambda>(k, v). jset k v) changes (JObj
     [(''contract_version'', JStr ''kindred.agent.message-envelope.v1''),
      (''message_id'', JStr ''kindred-message-component-01''),
      (''message_type'', JStr mtype),
      (''sender'', JObj [(''principal_type'', JStr ''runtime_component''), (''id'', JStr ''brainstem'')]),
      (''recipient'', JObj [(''principal_type'', JStr ''runtime_component''), (''id'', JStr recipient)]),
      (''authority_ref'', JNull),
      (''correlation_id'', JStr ''correlation-0002''),
      (''causation_id'', JNull),
      (''nonce'', JStr nonce),
      (''timestamp'', JStr ''2026-01-02T00:00:00.000Z''),
      (''expires_at'', JStr ''2026-01-02T00:10:00.000Z''),
      (''data_classification'', JStr ''restricted''),
      (''requested_capability'', JNull),
      (''budget_ref'', JNull),
      (''evidence_refs'', strs [''evidence-0001'']),
      (''authentication_ref'', JStr ''kindred-authref-brainstem-01''),
      (''delegation_ref'', JNull),
      (''payload'', payload)])"

definition sample_notice :: "string \<Rightarrow> string \<Rightarrow> jsv" where
  "sample_notice target_type target_id = JObj
     [(''contract_version'', JStr ''kindred.agent.revocation-notice.v1''),
      (''revocation_id'', JStr ''kindred-revocation-sample-01''),
      (''target_type'', JStr target_type),
      (''target_id'', JStr target_id),
      (''reason_class'', JStr ''security_response''),
      (''effective_at'', JStr ''2026-01-02T00:00:00.000Z''),
      (''authority_component'', JStr ''brainstem''),
      (''cascade_dependents'', JBool True),
      (''evidence_refs'', strs [''evidence-0001'']),
      (''provider_contact_requested'', JBool False),
      (''memory_mutation_requested'', JBool False),
      (''tool_execution_requested'', JBool False),
      (''settlement_requested'', JBool False),
      (''external_effects'', JBool False)]"

definition revoke_parent :: jsv where
  "revoke_parent = component_message ''revocation'' ''brainstem'' ''nonce-revocation-01'' []
     (sample_notice ''authority_grant'' ''kindred-grant-parent-01'')"

definition revoke_agent :: jsv where
  "revoke_agent = component_message ''revocation'' ''brainstem'' ''nonce-revocation-02'' []
     (sample_notice ''agent'' ''kindred-agent-worker-0001'')"

definition tool_request :: jsv where
  "tool_request = component_message ''execution_request'' ''kindred_cloud'' ''nonce-execution-001''
     [(''data_classification'', JStr ''internal''), (''requested_capability'', JStr ''kindred.capability.echo.v1''),
      (''authority_ref'', JStr ''kindred-grant-child-001'')] (JObj [])"

definition component_refs :: "(string \<times> jsv) list" where
  "component_refs = [(''brainstem'', strs [''kindred-authref-brainstem-01''])]"

definition registrations :: "request list" where
  "registrations = [RegisterIdentity sample_identity, RegisterCapability sample_capability,
            RegisterGrant parent_grant, RegisterGrant child_grant]"

text \<open>The gateway those registrations lead to.\<close>

definition sample_gateway :: gateway where
  "sample_gateway =
     \<lparr>identities = [(JStr ''kindred-agent-worker-0001'', sample_identity)],
      capabilities = [(JStr ''kindred.capability.echo.v1'', sample_capability)],
      grants = [(JStr ''kindred-grant-parent-01'', parent_grant), (JStr ''kindred-grant-child-001'', child_grant)],
      revocations = [],
      componentAuthenticationRefs = [(''brainstem'', [JStr ''kindred-authref-brainstem-01''])],
      replayGuard = \<lparr>entries = [], maxEntries = 4096\<rparr>\<rparr>"

lemma sample_gateway_wf: "gateway_wf platform0 sample_gateway"
  by code_simp

section \<open>The gateway\<close>

lemma identity_boundaries_witness:
  "\<not> array_includes (jget sample_identity ''prohibited_capabilities'') (JStr ''kindred.capability.echo.v1'')"
proof -
  have "validateAgentIdentity platform0 sample_identity = Inr sample_identity"
    and "array_includes (jget sample_identity ''capabilities'') (JStr ''kindred.capability.echo.v1'')"
    by code_simp+
  from identity_boundaries [OF this(1)] this(2) show ?thesis by blast
qed

lemma payload_contained_witness: "length (utf8 (json platform0 (jget (sample_message ''nonce-message-0001'') ''payload''))) \<le> MAX_PAYLOAD_BYTES"
proof -
  have "validateEnvelope platform0 (sample_message ''nonce-message-0001'') = Inr (sample_message ''nonce-message-0001'')"
    by code_simp
  from payload_contained [OF this subvalue.here] show ?thesis by blast
qed

lemma sample_closure_small:
  "card {x. depends [parent_grant, child_grant] (set [JStr ''kindred-grant-parent-01'']) x} \<le> 4096"
proof -
  have "{x. depends [parent_grant, child_grant] (set [JStr ''kindred-grant-parent-01'']) x} \<subseteq>
    set [JStr ''kindred-grant-parent-01'', jget parent_grant ''grant_id'', jget child_grant ''grant_id'']"
    by (rule subsetI, drule CollectD, erule dependsE) auto
  from card_mono [OF _ this] show ?thesis
    using card_length [of "[JStr ''kindred-grant-parent-01'', jget parent_grant ''grant_id'', jget child_grant ''grant_id'']"]
    by simp
qed

lemma cascade_computes_closure_witness:
  "\<exists>affected. cascade [parent_grant, child_grant] [JStr ''kindred-grant-parent-01''] = Inr affected \<and>
     distinct affected \<and> JStr ''kindred-grant-parent-01'' \<in> set affected"
  using cascade_computes_closure [OF _ sample_closure_small]
  by (fastforce intro: depends.seed)

lemma gateway_invariant_witness:
  "\<exists>g. new_gateway platform0 component_refs JUndef = Inr g \<and>
     gateway_wf platform0 (serve_all platform0 g registrations)"
proof -
  have "succeeds (new_gateway platform0 component_refs JUndef)" by code_simp
  then obtain g where "new_gateway platform0 component_refs JUndef = Inr g"
    by (auto simp: succeeds_iff)
  with gateway_invariant [OF this] show ?thesis by blast
qed

lemma sample_accepted:
  "\<exists>receipt g'. acceptEnvelope platform0 sample_gateway (sample_message ''nonce-message-0001'')
     sample_now sample_now = (Inr receipt, g')"
proof -
  have "succeeds (fst (acceptEnvelope platform0 sample_gateway (sample_message ''nonce-message-0001'')
     sample_now sample_now))" by code_simp
  then show ?thesis by (metis prod.collapse succeeds_iff)
qed

lemma agent_envelope_authorized_witness:
  "\<exists>identity. mget (JStr ''kindred-agent-worker-0001'') (identities sample_gateway) = Some identity \<and>
    jget identity ''lifecycle_state'' = JStr ''active'' \<and>
    (\<exists>capability grant. covered platform0 sample_gateway identity (sample_message ''nonce-message-0001'')
       sample_now capability grant)"
proof -
  obtain receipt g' where ok: "acceptEnvelope platform0 sample_gateway (sample_message ''nonce-message-0001'')
     sample_now sample_now = (Inr receipt, g')" using sample_accepted by blast
  have "jget (jget (sample_message ''nonce-message-0001'') ''sender'') ''principal_type'' = JStr ''agent''"
    "jget (jget (sample_message ''nonce-message-0001'') ''sender'') ''id'' = JStr ''kindred-agent-worker-0001''"
    "jget (sample_message ''nonce-message-0001'') ''message_type'' \<noteq> JStr ''discovery''"
    "jget (sample_message ''nonce-message-0001'') ''requested_capability'' \<noteq> JNull"
    by (simp_all add: sample_message_def)
  from agent_envelope_authorized [OF ok this(1)] this(2-4) show ?thesis by auto
qed

lemma tool_execution_route_witness:
  "\<exists>c. mget (JStr ''kindred.capability.echo.v1'') (capabilities sample_gateway) = Some c \<and>
    check_execution_request tool_request (Some c)"
proof -
  have "succeeds (fst (acceptEnvelope platform0 sample_gateway tool_request sample_now sample_now))"
    by code_simp
  then obtain receipt g' where ok: "acceptEnvelope platform0 sample_gateway tool_request sample_now sample_now = (Inr receipt, g')"
    by (metis prod.collapse succeeds_iff)
  have "jget tool_request ''message_type'' = JStr ''execution_request''"
    "jget tool_request ''requested_capability'' = JStr ''kindred.capability.echo.v1''" by code_simp+
  with tool_execution_route [OF ok] show ?thesis by simp
qed

lemma nonce_accepted_once_witness:
  "\<exists>receipt g'. acceptEnvelope platform0 sample_gateway (sample_message ''nonce-message-0001'')
     sample_now sample_now = (Inr receipt, g') \<and>
   fst (acceptEnvelope platform0 (serve_all platform0 g' [Revoke revoke_agent sample_now sample_now])
     (sample_message ''nonce-message-0001'') (sample_now + 1) (sample_now + 1)) \<noteq> Inr receipt"
proof -
  obtain receipt g' where ok: "acceptEnvelope platform0 sample_gateway (sample_message ''nonce-message-0001'')
     sample_now sample_now = (Inr receipt, g')" using sample_accepted by blast
  have "guard_wf (replayGuard sample_gateway)"
    "\<forall>r \<in> set [Revoke revoke_agent sample_now sample_now]. by_time (sample_now + 1) r"
    "sample_now \<le> sample_now + 1"
    "sample_now + 1 < date_value platform0 (jget (sample_message ''nonce-message-0001'') ''expires_at'')"
    by code_simp+
  from nonce_accepted_once [OF this(1) ok this(2-4) HOL.refl] ok show ?thesis by blast
qed

definition settlement_capability :: jsv where
  "settlement_capability =
     jset ''owner_component'' (JStr ''retrobank'') (jset ''action_type'' (JStr ''settlement'')
       (jset ''capability_id'' (JStr ''kindred.capability.settle.v1'') sample_capability))"

definition settlement_request :: jsv where
  "settlement_request = component_message ''settlement_request'' ''retrobank'' ''nonce-settlement-01''
     [(''data_classification'', JStr ''internal''), (''requested_capability'', JStr ''kindred.capability.settle.v1''),
      (''authority_ref'', JStr ''kindred-grant-child-001''), (''budget_ref'', JStr ''budget-0001'')] (JObj [])"

lemma settlement_route_witness:
  "check_settlement_request settlement_request (Some settlement_capability)"
proof -
  let ?g = "sample_gateway\<lparr>capabilities := [(JStr ''kindred.capability.settle.v1'', settlement_capability)]\<rparr>"
  have "succeeds (fst (acceptEnvelope platform0 ?g settlement_request sample_now sample_now))"
    by code_simp
  then obtain receipt g' where ok: "acceptEnvelope platform0 ?g settlement_request sample_now sample_now = (Inr receipt, g')"
    by (metis prod.collapse succeeds_iff)
  have "jget settlement_request ''message_type'' = JStr ''settlement_request''"
    "mget (jget settlement_request ''requested_capability'') (capabilities ?g) = Some settlement_capability"
    by code_simp+
  with settlement_route [OF ok] show ?thesis by simp
qed

lemma grant_within_identity_and_parent_witness:
  "\<exists>parent. mget (JStr ''kindred-grant-parent-01'') (grants sample_gateway) = Some parent \<and>
    jget parent ''status'' = JStr ''active''"
proof -
  have "succeeds (fst (registerAuthorityGrant platform0 sample_gateway child_grant))" by code_simp
  then obtain grant g' where ok: "registerAuthorityGrant platform0 sample_gateway child_grant = (Inr grant, g')"
    by (metis prod.collapse succeeds_iff)
  have "jget child_grant ''parent_grant_ref'' = JStr ''kindred-grant-parent-01''" by code_simp
  with grant_within_identity_and_parent [OF ok] show ?thesis by auto
qed

lemma sample_revocation:
  assumes "succeeds (fst (applyRevocation platform0 sample_gateway v now guard_now))"
  obtains receipt g' where "applyRevocation platform0 sample_gateway v now guard_now = (Inr receipt, g')"
  using assms by (metis prod.collapse succeeds_iff)

lemma revocation_revokes_dependents_witness:
  "\<exists>receipt g'. applyRevocation platform0 sample_gateway revoke_parent sample_now sample_now = (Inr receipt, g') \<and>
    map fst (grants g') = [JStr ''kindred-grant-parent-01'', JStr ''kindred-grant-child-001'']"
proof -
  have "succeeds (fst (applyRevocation platform0 sample_gateway revoke_parent sample_now sample_now))"
    by code_simp
  then obtain receipt g' where ok: "applyRevocation platform0 sample_gateway revoke_parent sample_now sample_now = (Inr receipt, g')"
    by (rule sample_revocation)
  moreover have "map fst (grants sample_gateway) = [JStr ''kindred-grant-parent-01'', JStr ''kindred-grant-child-001'']"
    by (simp add: sample_gateway_def)
  ultimately show ?thesis
    using revocation_revokes_dependents [OF sample_gateway_wf ok] by auto
qed

lemma revoked_agent_blocked_witness:
  "\<exists>receipt g'. applyRevocation platform0 sample_gateway revoke_agent sample_now sample_now = (Inr receipt, g') \<and>
    fst (acceptEnvelope platform0 g' (sample_message ''nonce-message-0002'') sample_now sample_now) \<noteq> Inr receipt"
proof -
  have "succeeds (fst (applyRevocation platform0 sample_gateway revoke_agent sample_now sample_now))"
    by code_simp
  then obtain receipt g' where ok: "applyRevocation platform0 sample_gateway revoke_agent sample_now sample_now = (Inr receipt, g')"
    by (rule sample_revocation)
  let ?n = "sample_notice ''agent'' ''kindred-agent-worker-0001''"
  have "check_revocation platform0 sample_gateway revoke_agent sample_now = Inr ?n"
    "jget ?n ''target_type'' = JStr ''agent''" "''sender'' \<in> {''sender'', ''recipient''}"
    "jget (jget (sample_message ''nonce-message-0002'') ''sender'') ''principal_type'' = JStr ''agent''"
    "jget (jget (sample_message ''nonce-message-0002'') ''sender'') ''id'' = jget ?n ''target_id''"
    by code_simp+
  from revoked_agent_blocked [OF sample_gateway_wf ok this] ok show ?thesis by blast
qed

lemma refused_revocation_changes_nothing_witness:
  "\<exists>e g'. applyRevocation platform0 sample_gateway tool_request sample_now sample_now = (Inl e, g') \<and>
    grants g' = grants sample_gateway"
proof -
  have "\<not> succeeds (fst (applyRevocation platform0 sample_gateway tool_request sample_now sample_now))"
    by code_simp
  then obtain e g' where ok: "applyRevocation platform0 sample_gateway tool_request sample_now sample_now = (Inl e, g')"
    by (cases "applyRevocation platform0 sample_gateway tool_request sample_now sample_now";
        cases "fst (applyRevocation platform0 sample_gateway tool_request sample_now sample_now)") auto
  with refused_revocation_changes_nothing [OF ok] show ?thesis by blast
qed

section \<open>Discovery\<close>

lemma collation_platform0: "collation platform0"
  by (auto simp: collation_def platform0_def)

definition sample_request :: discovery_request where
  "sample_request = \<lparr>request_identity = sample_identity, request_now = Some sample_now,
     correlationId = JStr ''correlation-0001'', actionTypes = strs [''tool''], dataClassification = JUndef,
     riskCeiling = JUndef, resultLimit = JInt 4\<rparr>"

definition sample_catalog :: discovery_catalog where
  "sample_catalog = \<lparr>maxCapabilities = 16,
     catalog_entries = [(JStr ''kindred.capability.echo.v1'', sample_capability, True)]\<rparr>"

definition sample_guard :: replay_guard where
  "sample_guard = \<lparr>entries = [], maxEntries = 4096\<rparr>"

text \<open>The stages of the sample discovery, evaluated one by one.\<close>

definition sample_seed :: string where
  "sample_seed = digest platform0 ''capability-discovery''
     [''kindred-agent-worker-0001'', ''correlation-0001'']"

definition discovery_grant0 :: jsv where
  "discovery_grant0 = discovery_grant platform0 sample_identity sample_seed
     ''2026-01-02T00:01:00.000Z'' ''2026-01-02T00:03:00.000Z''"

definition discovery_identity0 :: jsv where
  "discovery_identity0 = scoped_identity sample_identity discovery_grant0"

definition discovery_envelope0 :: jsv where
  "discovery_envelope0 = discovery_envelope platform0 sample_request sample_identity
     (discovery_query sample_request sample_identity) discovery_grant0 sample_seed
     ''2026-01-02T00:01:00.000Z'' ''2026-01-02T00:03:00.000Z''"

definition discovery_gateway0 :: gateway where
  "discovery_gateway0 =
     \<lparr>identities = [(JStr ''kindred-agent-worker-0001'', discovery_identity0)], capabilities = [],
      grants = [], revocations = [], componentAuthenticationRefs = [], replayGuard = sample_guard\<rparr>"

definition discovery_gateway1 :: gateway where
  "discovery_gateway1 = discovery_gateway0
     \<lparr>grants := [(JStr (''kindred-grant-'' @ digest platform0 ''discovery-grant'' [sample_seed]), discovery_grant0)]\<rparr>"

definition sample_receipt :: jsv where
  "sample_receipt = JObj
     [(''contract_version'', JStr ''kindred.agent.protocol-receipt.v1''),
      (''message_id'', jget discovery_envelope0 ''message_id''),
      (''correlation_id'', JStr ''correlation-0001''), (''status'', JStr ''accepted''),
      (''accepted_at'', JStr ''2026-01-02T00:01:00.000Z''), (''replay_consumed'', JBool True)]"

lemma sample_artifacts:
  "createCapabilityDiscoveryArtifacts platform0 sample_request =
     Inr (discovery_grant0, discovery_identity0, discovery_envelope0)"
  by code_simp

lemma sample_registrations:
  "registerIdentity platform0 (discovery_gateway0\<lparr>identities := []\<rparr>) discovery_identity0 =
     (Inr discovery_identity0, discovery_gateway0)"
  "registerAuthorityGrant platform0 discovery_gateway0 discovery_grant0 =
     (Inr discovery_grant0, discovery_gateway1)"
  by code_simp+

lemma sample_admission:
  "fst (acceptEnvelope platform0 discovery_gateway1 discovery_envelope0 sample_now sample_now) = Inr sample_receipt"
  by code_simp

lemma sample_discover:
  "succeeds (discover platform0 sample_catalog discovery_envelope0 sample_receipt discovery_identity0 (Some sample_now))"
  by code_simp

lemma sample_execution:
  "succeeds (fst (executeCapabilityDiscovery platform0 sample_request sample_catalog sample_guard sample_now))"
proof -
  obtain g where "acceptEnvelope platform0 discovery_gateway1 discovery_envelope0 sample_now sample_now = (Inr sample_receipt, g)"
    using sample_admission by (metis prod.collapse)
  moreover have "discovery_gateway0\<lparr>identities := []\<rparr> = \<lparr>identities = [], capabilities = [], grants = [],
      revocations = [], componentAuthenticationRefs = [], replayGuard = sample_guard\<rparr>"
    by (simp add: discovery_gateway0_def)
  moreover have "the (request_now sample_request) = sample_now"
    by (simp add: sample_request_def)
  ultimately show ?thesis
    using sample_registrations sample_discover
    by (auto simp: executeCapabilityDiscovery_def sample_artifacts Let_def succeeds_iff)
qed

lemma discovery_admitted_once_witness:
  "\<exists>res guard'. executeCapabilityDiscovery platform0 sample_request sample_catalog sample_guard sample_now =
      (Inr res, guard') \<and>
    fst (executeCapabilityDiscovery platform0 sample_request sample_catalog guard' (sample_now + 1)) \<noteq> Inr res"
proof -
  have wf: "guard_wf sample_guard" by code_simp
  obtain res guard' where first:
    "executeCapabilityDiscovery platform0 sample_request sample_catalog sample_guard sample_now = (Inr res, guard')"
    using sample_execution by (metis prod.collapse succeeds_iff)
  have "fst (executeCapabilityDiscovery platform0 sample_request sample_catalog guard' (sample_now + 1)) \<noteq> Inr res"
    by (rule discovery_admitted_once [OF wf first HOL.refl HOL.refl])
      (simp_all add: sample_request_def DISCOVERY_TTL_MS_def)
  with first show ?thesis by blast
qed

lemma discovery_results_witness:
  "\<exists>res eligible limit. discover platform0 sample_catalog discovery_envelope0 sample_receipt discovery_identity0
      (Some sample_now) = Inr res \<and>
    jget res ''capabilities'' = JArr (map project (take limit eligible)) \<and> limit \<le> 64"
proof -
  obtain res where found:
    "discover platform0 sample_catalog discovery_envelope0 sample_receipt discovery_identity0 (Some sample_now) = Inr res"
    using sample_discover by (auto simp: succeeds_iff)
  from discovery_results [OF collation_platform0 found] found show ?thesis by blast
qed

lemma catalog_invariant_witness:
  "\<exists>c. new_catalog JUndef = Inr c \<and>
     catalog_wf platform0 (fold (catalog_step platform0) [CatalogRegister sample_capability JUndef] c)"
proof -
  have "succeeds (new_catalog JUndef)" by code_simp
  then obtain c where "new_catalog JUndef = Inr c" by (auto simp: succeeds_iff)
  with catalog_invariant [OF this] show ?thesis by blast
qed

section \<open>A companion\<close>

text \<open>
  A companion, its identity, one message and its path through the gateway to the brainstem, evaluated
  stage by stage; the witnesses of the properties of CompanionFacts and DecisionFacts.
\<close>

definition sample_companion :: jsv where
  "sample_companion = JObj
     [(''contract_version'', JStr ''kindred.companion.aggregate.v1''),
      (''id'', JStr ''local-companion-aria-0001''),
      (''owner_account_id'', JStr ''kindred-account-0001''),
      (''permissions'', JObj [(''owner_account_only'', JBool True), (''provider_access'', JBool False)]),
      (''lifecycle_state'', JStr ''companion_active''),
      (''provenance'', JObj [(''historical_data_status'', JStr ''unavailable_not_fabricated'')]),
      (''adopted_at'', JStr ''2026-01-01T00:00:00.000Z'')]"

definition sample_companion_options :: companion_options where
  "sample_companion_options =
     \<lparr>companion = sample_companion, accountId = JStr ''kindred-account-0001'',
      tenantId = JStr ''kindred-tenant-tenant-0001'', companion_capabilities = JUndef,
      grantRefs = JUndef, budgetRefs = JUndef, economicMandateRef = JUndef\<rparr>"

definition companion_identity0 :: jsv where
  "companion_identity0 = living_companion_identity platform0 sample_companion_options ''aria-0001''
     (JArr []) (JArr []) (JArr [])"

definition sample_chat :: communication_input where
  "sample_chat =
     \<lparr>ci_identity = companion_identity0, ci_consentReceiptRef = JStr ''consent-receipt-0123456789abcdefghij'',
      ci_userMessageId = JStr ''chat-message-00000001'', ci_clientMessageId = JStr ''client-message-01'',
      ci_content = JStr ''hello'', ci_now = Some sample_now\<rparr>"

definition chat_seed :: string where
  "chat_seed = digest platform0 ''companion-communication''
     [''kindred-agent-companion-aria-0001'', ''consent-receipt-0123456789abcdefghij'', ''client-message-01'']"

definition chat_proposal :: jsv where
  "chat_proposal = communication_proposal sample_chat companion_identity0"

definition chat_grant :: jsv where
  "chat_grant = proposal_grant platform0 companion_identity0 chat_seed COMPANION_COMMUNICATION_CAPABILITY_ID
     ''companion.communicate'' ''2026-01-02T00:01:00.000Z'' ''2026-01-02T00:03:00.000Z''"

definition chat_identity :: jsv where
  "chat_identity = scoped_companion companion_identity0 COMPANION_COMMUNICATION_CAPABILITY_ID chat_grant"

definition chat_envelope :: jsv where
  "chat_envelope = proposal_envelope platform0 companion_identity0 chat_seed
     COMPANION_COMMUNICATION_CAPABILITY_ID chat_grant (JStr ''client-message-01'') (JStr ''chat-message-00000001'')
     [JStr ''consent-receipt-0123456789abcdefghij''] chat_proposal
     ''2026-01-02T00:01:00.000Z'' ''2026-01-02T00:03:00.000Z''"

definition chat_capability :: jsv where
  "chat_capability = (case communicationCapability platform0 of Inr c \<Rightarrow> c | Inl _ \<Rightarrow> JUndef)"

definition chat_gateway :: gateway where
  "chat_gateway =
     \<lparr>identities = [(JStr ''kindred-agent-companion-aria-0001'', chat_identity)],
      capabilities = [(JStr COMPANION_COMMUNICATION_CAPABILITY_ID, chat_capability)],
      grants = [(jget chat_grant ''grant_id'', chat_grant)], revocations = [],
      componentAuthenticationRefs = [], replayGuard = \<lparr>entries = [], maxEntries = 4096\<rparr>\<rparr>"

lemma sample_companion_identity:
  "createLivingCompanionIdentity platform0 sample_companion_options = Inr companion_identity0"
  by code_simp

lemma chat_artifacts:
  "createCompanionCommunicationArtifacts platform0 sample_chat =
     Inr (chat_capability, chat_grant, chat_identity, chat_envelope)"
  by code_simp

lemma chat_accepted:
  "succeeds (fst (acceptEnvelope platform0 chat_gateway chat_envelope sample_now sample_now))"
  by code_simp

lemma hash_width_platform0: "hash_width platform0"
  by (auto simp: hash_width_def platform0_def min_def)

subsection \<open>Witnesses\<close>

lemma companion_identity_bounded_witness:
  "\<exists>companionId suffix. jget sample_companion ''id'' = JStr companionId \<and>
     jget companion_identity0 ''agent_id'' = JStr (''kindred-agent-companion-'' @ suffix)"
  using companion_identity_bounded [OF sample_companion_identity]
  by (auto simp: sample_companion_options_def)

lemma admitted_message_approved_witness:
  "\<exists>receipt d. decideCompanionCommunication platform0 chat_envelope receipt chat_identity (Some sample_now) = Inr d \<and>
     jget d ''decision'' = JStr ''approved''"
proof -
  obtain receipt g' where accepted:
    "acceptEnvelope platform0 chat_gateway chat_envelope sample_now sample_now = (Inr receipt, g')"
    using chat_accepted by (metis prod.collapse succeeds_iff)
  have "communication_permitted chat_identity" by code_simp
  moreover have "is_string (ci_clientMessageId sample_chat)" by (simp add: sample_chat_def)
  ultimately show ?thesis
    using admitted_message_approved [OF hash_width_platform0 chat_artifacts _ _ accepted]
    by (fastforce simp: sample_chat_def)
qed

lemma communication_decision_witness:
  "\<exists>d. decideCompanionCommunication platform0 JNull JNull JNull (Some 0) = Inr d \<and>
     jget d ''decision'' \<noteq> JStr ''approved''"
proof -
  have "\<not> communication_approvable platform0 JNull JNull JNull 0" by code_simp
  moreover have "\<bar>0\<bar> \<le> max_time" by (simp add: max_time_def)
  ultimately show ?thesis
    using communication_decision [OF hash_width_platform0, of 0 JNull JNull JNull] by blast
qed

lemma memory_commit_decision_witness:
  "\<exists>d. decideCompanionMemory platform0 JNull JNull JNull (Some 0) = Inr d \<and>
     jget d ''memory_commit_authorized'' = JBool False"
proof -
  have "\<not> memory_approvable platform0 JNull JNull JNull 0" by code_simp
  moreover have "\<bar>0\<bar> \<le> max_time" by (simp add: max_time_def)
  ultimately show ?thesis
    using memory_commit_decision [OF hash_width_platform0, of 0 JNull JNull JNull] by force
qed

section \<open>A plan\<close>

text \<open>A fabric with one port of each kind but two for processes, and a plan for it.\<close>

definition plan_port :: "string \<Rightarrow> string \<Rightarrow> int \<Rightarrow> jsv" where
  "plan_port i type n = JObj [(''port_id'', JStr i), (''port_type'', JStr type), (''role'', JStr ''r''),
     (''priority'', JInt n), (''intent_classes'', JArr [JStr ''ask''])]"

definition sample_handler :: "nat handler" where
  "sample_handler envelope n = (Inr (jget envelope ''state''), Suc n)"

definition sample_fabric :: "nat fabric" where
  "sample_fabric = register_all platform0
     [(plan_port ''i'' ''INTENT'' 0, Some sample_handler), (plan_port ''p'' ''PROCESS'' 0, Some sample_handler),
      (plan_port ''q'' ''PROCESS'' 1, Some sample_handler), (plan_port ''v'' ''VERIFICATION'' 0, Some sample_handler)]"

definition sample_input :: jsv where
  "sample_input = JObj
     [(''intent_class'', JStr ''ask''),
      (''graph'', case graph_snapshot platform0 new_graph of Inr s \<Rightarrow> s | Inl _ \<Rightarrow> JNull),
      (''fabric'', case fabric_snapshot platform0 sample_fabric of Inr s \<Rightarrow> s | Inl _ \<Rightarrow> JNull)]"

lemma sample_compile_input: "compile_input platform0 new_graph sample_fabric sample_input"
proof -
  have "\<exists>s. graph_snapshot platform0 new_graph = Inr s" "\<exists>s. fabric_snapshot platform0 sample_fabric = Inr s"
    by (simp_all add: graph_snapshot_def fabric_snapshot_def cognitiveStateRoot_def Let_def)
  then show ?thesis by (auto simp: compile_input_def sample_input_def)
qed

lemma sample_process_ports:
  "map (\<lambda>d. (jget d ''port_id'', num_of (jget d ''priority'')))
     (candidates (describePorts platform0 sample_fabric) ''PROCESS'' ''ask'') = [(JStr ''p'', 0), (JStr ''q'', 1)]"
  by code_simp

lemma sample_candidates:
  "candidates (describePorts platform0 sample_fabric) ''INTENT'' (intent_of sample_input) \<noteq> []"
  "candidates (describePorts platform0 sample_fabric) ''PROCESS'' (intent_of sample_input) \<noteq> []"
  "candidates (describePorts platform0 sample_fabric) ''VERIFICATION'' (intent_of sample_input) \<noteq> []"
proof -
  show "candidates (describePorts platform0 sample_fabric) ''PROCESS'' (intent_of sample_input) \<noteq> []"
    using sample_process_ports by (auto simp: sample_input_def)
qed (simp add: sample_input_def, code_simp)+

lemma sample_fabric_ok: "fabric_ok sample_fabric"
  unfolding sample_fabric_def by (rule register_all_ok)

lemma sample_compiles: "\<exists>plan. compile platform0 sample_input = Inr plan"
  by (rule compile_succeeds [OF sample_fabric_ok sample_compile_input sample_candidates])

theorem cogniton_fixed_point_witness:
  "\<exists>c. createCogniton platform0 (JObj [(''kind'', JStr ''note''), (''value'', JObj [(''b'', JNull), (''a'', JInt 1)])]) = Inr c \<and>
    createCogniton platform0 c = Inr c"
proof -
  let ?input = "JObj [(''kind'', JStr ''note''), (''value'', JObj [(''b'', JNull), (''a'', JInt 1)])]"
  obtain c where c: "createCogniton platform0 ?input = Inr c"
    by (simp add: createCogniton_def cognitiveStateRoot_def Let_def)
  have "createCogniton platform0 c = Inr c" by (rule cogniton_fixed_point [OF c]) simp_all
  with c show ?thesis by blast
qed

lemma sample_collation: "collation platform0"
  by (auto simp: collation_def platform0_def)

theorem plan_takes_best_ports_witness:
  "\<exists>plan. compile platform0 sample_input = Inr plan \<and> jget plan ''process_port_id'' = JStr ''q'' \<and>
    jget plan ''verification_required'' = JBool True \<and> length (items (jget plan ''active_port_ids'')) \<ge> 3"
proof -
  obtain plan where plan: "compile platform0 sample_input = Inr plan" using sample_compiles by blast
  have ports: "fabric_ports sample_input = describePorts platform0 sample_fabric" "intent_of sample_input = ''ask''"
    using check_compile_input [OF sample_fabric_ok sample_compile_input] by (simp_all add: sample_input_def)
  obtain p q where pair: "candidates (describePorts platform0 sample_fabric) ''PROCESS'' ''ask'' = [p, q]"
    and ids: "jget p ''port_id'' = JStr ''p''" "num_of (jget p ''priority'') = 0" "jget q ''port_id'' = JStr ''q''"
      "num_of (jget q ''priority'') = 1"
    using sample_process_ports by (auto simp: map_eq_Cons_conv)
  have other: "p \<noteq> q" using ids by auto
  have only: "best_port platform0 sample_input ''PROCESS'' d \<Longrightarrow> d = q" for d
    using other ids(2,4) unfolding best_port_def ports pair by auto
  have required: "jget sample_input ''verification_required'' = JUndef" by (simp add: sample_input_def)
  from plan_takes_best_ports [OF sample_collation plan] obtain i cs d vs where
    "best_port platform0 sample_input ''PROCESS'' d"
    "jget plan ''active_port_ids'' = JArr (map (\<lambda>d. freezeClone (jget d ''port_id'')) (i # cs @ d # vs))"
    "jget plan ''process_port_id'' = freezeClone (jget d ''port_id'')"
    "jget plan ''verification_required'' = JBool True" "vs \<noteq> []"
    using required by auto
  with plan ids(3) show ?thesis by (auto dest!: only simp: Suc_le_eq)
qed

theorem compiled_plan_runs_witness:
  "\<exists>plan chosen. compile platform0 sample_input = Inr plan \<and> length chosen \<ge> 3 \<and> set chosen \<subseteq> set sample_fabric \<and>
    jget plan ''active_port_ids'' = JArr (map (JStr \<circ> fst) chosen) \<and>
    executeActivationPlan plan (Some sample_fabric) JNull 0 = run_handlers (map (snd \<circ> snd) chosen) plan JNull 0"
proof -
  from compiled_plan_runs [OF sample_fabric_def sample_compile_input sample_collation sample_candidates]
  obtain plan chosen where run: "compile platform0 sample_input = Inr plan" "set chosen \<subseteq> set sample_fabric"
      "jget plan ''active_port_ids'' = JArr (map (JStr \<circ> fst) chosen)"
      "executeActivationPlan plan (Some sample_fabric) JNull 0 = run_handlers (map (snd \<circ> snd) chosen) plan JNull 0"
    and types: "list_all2 (\<lambda>type (pid, d, h). best_port platform0 sample_input type d \<and> jget d ''port_id'' = JStr pid)
        ([''INTENT''] @
          (if candidates (describePorts platform0 sample_fabric) ''COGNITON'' (intent_of sample_input) = [] then []
           else [''COGNITON'']) @ [''PROCESS'', ''VERIFICATION'']) chosen" by blast
  have "length chosen \<ge> 3" using list_all2_lengthD [OF types] by (simp split: if_splits)
  with run show ?thesis by blast
qed

end
