(* ===== verification/NativeIdentity.thy ===== *)
theory NativeIdentity
  imports CanonicalBytes
begin

text \<open>
  \<open>src/native-port-identity.mjs\<close>: public keys and port ids, signed envelopes, peer records and the
  directory of signed peers. Signatures and the parsing of DER keys belong to \<open>node:crypto\<close> and are the
  fields of a record of parameters, \<open>crypto\<close>; what they promise is the hypothesis \<open>ed25519\<close>. Keys,
  signatures and messages are byte strings, a private key being known to the operations of \<open>crypto\<close>
  alone. A public key given as an array of bytes, which \<open>Buffer.from\<close> takes as well, is refused with a
  TypeError by the model and with an Error by \<open>decodePublicKey\<close>.
\<close>

section \<open>Keys and port ids\<close>

record crypto =
  key_type :: "string \<Rightarrow> string option"
  public_of :: "string \<Rightarrow> string"
  sign_bytes :: "string \<Rightarrow> string \<Rightarrow> string"
  verify_bytes :: "string \<Rightarrow> string \<Rightarrow> string \<Rightarrow> bool"

definition ed25519 :: "crypto \<Rightarrow> bool" where
  "ed25519 C \<longleftrightarrow>
     (\<forall>k. key_type C (public_of C k) = Some ''ed25519'' \<and> length (public_of C k) = 44) \<and>
     (\<forall>k m. length (sign_bytes C k m) = 64 \<and> verify_bytes C m (public_of C k) (sign_bytes C k m))"

definition decodePublicKey :: "crypto \<Rightarrow> jsv \<Rightarrow> string \<Rightarrow> string result" where
  "decodePublicKey C encoded key_kind =
     (case encoded of
        JStr s \<Rightarrow>
          if 128 < length s then reject ''Public key bounds''
          else if base64 (base64_bytes s) \<noteq> s then reject ''Noncanonical public key''
          else (case key_type C (base64_bytes s) of
              None \<Rightarrow> reject ''Public key unreadable''
            | Some t \<Rightarrow> if t \<noteq> key_kind then reject ''Public key algorithm rejected''
                        else Inr (base64_bytes s))
      | _ \<Rightarrow> reject ''Public key bounds'')"

text \<open>A key that is no text has no identity here. The source also hashes an array of bytes, but no caller accepts
  one: the decoding of the key refuses it, with an error that is not a \<open>TypeError\<close>.\<close>

fun portId :: "platform \<Rightarrow> jsv \<Rightarrow> string result" where
  "portId P (JStr s) = Inr (''strata:port:ed25519:'' @ native_digest P (base64_bytes s))"
| "portId P _ = Inl TypeErr"

record port_identity =
  identity_id :: string
  identity_publicKey :: string
  identity_privateKey :: string

definition createPortIdentity :: "crypto \<Rightarrow> platform \<Rightarrow> string \<Rightarrow> port_identity" where
  "createPortIdentity C P privateKey =
     (let publicKey = base64 (public_of C privateKey)
      in \<lparr>identity_id = ''strata:port:ed25519:'' @ native_digest P (base64_bytes publicKey),
          identity_publicKey = publicKey, identity_privateKey = privateKey\<rparr>)"

text \<open>\<open>identity.sign(body)\<close>: the body is copied in canonical form before it is signed.\<close>

definition sign_body :: "crypto \<Rightarrow> platform \<Rightarrow> port_identity \<Rightarrow> jsv \<Rightarrow> jsv result" where
  "sign_body C P identity body =
     and_then (canonical body) (\<lambda>copy. and_then (canonicalBytes P copy) (\<lambda>bytes.
       Inr (JObj [(''body'', copy),
                  (''signature'', JStr (base64 (sign_bytes C (identity_privateKey identity) bytes)))])))"

definition verifyEnvelope :: "crypto \<Rightarrow> platform \<Rightarrow> jsv \<Rightarrow> jsv \<Rightarrow> jsv \<Rightarrow> jsv result" where
  "verifyEnvelope C P envelope expectedId publicKey =
     and_then (exactFields envelope [''body'', ''signature'']) (\<lambda>_.
     and_then (portId P publicKey) (\<lambda>pid.
       case jget envelope ''signature'' of
         JStr s \<Rightarrow>
           if JStr pid \<noteq> expectedId \<or> length s \<noteq> 88 then reject ''Port identity/signature rejected''
           else if length (base64_bytes s) \<noteq> 64 \<or> base64 (base64_bytes s) \<noteq> s
           then reject ''Port signature rejected''
           else and_then (canonicalBytes P (jget envelope ''body'')) (\<lambda>bytes.
             and_then (decodePublicKey C publicKey ''ed25519'') (\<lambda>key.
             if \<not> verify_bytes C bytes key (base64_bytes s) then reject ''Port signature rejected''
             else canonical (jget envelope ''body'')))
       | _ \<Rightarrow> reject ''Port identity/signature rejected''))"

section \<open>Peer records\<close>

text \<open>\<open>/^[a-z][a-z0-9.-]{0,63}$/\<close>\<close>

definition is_dotted :: "char \<Rightarrow> bool" where
  "is_dotted c \<longleftrightarrow> is_lower c \<or> is_digit c \<or> c = CHR ''.'' \<or> c = CHR ''-''"

definition component_name :: "string \<Rightarrow> bool" where
  "component_name s \<longleftrightarrow>
     1 \<le> length s \<and> length s \<le> 64 \<and> list_all is_lower (take 1 s) \<and> list_all is_dotted (drop 1 s)"

definition string_matching :: "(string \<Rightarrow> bool) \<Rightarrow> jsv \<Rightarrow> bool" where
  "string_matching shape v = (case v of JStr s \<Rightarrow> shape s | _ \<Rightarrow> False)"

text \<open>The lifetime and revision checks of a signed record, \<open>max_ms\<close> the longest lifetime.\<close>

definition lifetime_ok :: "jsv \<Rightarrow> int \<Rightarrow> int \<Rightarrow> bool" where
  "lifetime_ok body now max_ms \<longleftrightarrow>
     is_safe_integer (jget body ''revision'') \<and> 1 \<le> num_of (jget body ''revision'') \<and>
     is_safe_integer (jget body ''issuedAt'') \<and> is_safe_integer (jget body ''expiresAt'') \<and>
     num_of (jget body ''issuedAt'') \<le> of_int now \<and> of_int now < num_of (jget body ''expiresAt'') \<and>
     num_of (jget body ''expiresAt'') - num_of (jget body ''issuedAt'') \<le> of_int max_ms \<and>
     num_of (jget body ''issuedAt'') < num_of (jget body ''expiresAt'')"

definition component_binding :: "platform \<Rightarrow> jsv \<Rightarrow> unit result" where
  "component_binding P v =
     and_then (exactFields v [''id'', ''version'', ''evidenceStatus'']) (\<lambda>_.
       if \<not> test P component_name (jget v ''id'') \<or> \<not> test P version_shape (jget v ''version'') \<or>
          jget v ''evidenceStatus'' \<noteq> JStr ''DECLARED''
       then reject ''Component binding rejected'' else Inr ())"

definition peer_capabilities_ok :: "jsv \<Rightarrow> bool" where
  "peer_capabilities_ok v \<longleftrightarrow>
     is_array v \<and> 1 \<le> length (items v) \<and> length (items v) \<le> 16 \<and> no_repeats (items v) \<and>
     list_all (string_matching component_name) (items v)"

definition assertRecord :: "crypto \<Rightarrow> platform \<Rightarrow> jsv \<Rightarrow> int \<Rightarrow> unit result" where
  "assertRecord C P body now =
     and_then (exactFields body
       [''schema'', ''portId'', ''publicKey'', ''revision'', ''issuedAt'', ''expiresAt'',
        ''capabilities'', ''tesseractEngine'', ''boundWorker'']) (\<lambda>_.
     if jget body ''schema'' \<noteq> JStr ''kindred.sdpn.peer-record.v1''
     then reject ''Peer record lifetime/version rejected''
     else and_then (portId P (jget body ''publicKey'')) (\<lambda>pid.
       if jget body ''portId'' \<noteq> JStr pid \<or> \<not> lifetime_ok body now 300000
       then reject ''Peer record lifetime/version rejected''
       else if \<not> peer_capabilities_ok (jget body ''capabilities'')
       then reject ''Peer capabilities rejected''
       else and_then (component_binding P (jget body ''tesseractEngine'')) (\<lambda>_.
         and_then (component_binding P (jget body ''boundWorker'')) (\<lambda>_.
         and_then (decodePublicKey C (jget body ''publicKey'') ''ed25519'') (\<lambda>_. Inr ())))))"

record peer_options =
  peer_revision :: jsv
  peer_now :: int
  peer_ttlMs :: int
  peer_capabilities :: jsv
  tesseractEngine :: jsv
  boundWorker :: jsv

definition peer_body :: "port_identity \<Rightarrow> peer_options \<Rightarrow> jsv" where
  "peer_body identity opts = JObj
     [(''schema'', JStr ''kindred.sdpn.peer-record.v1''),
      (''portId'', JStr (identity_id identity)),
      (''publicKey'', JStr (identity_publicKey identity)),
      (''revision'', peer_revision opts),
      (''issuedAt'', JInt (peer_now opts)),
      (''expiresAt'', JInt (peer_now opts + peer_ttlMs opts)),
      (''capabilities'', peer_capabilities opts),
      (''tesseractEngine'', tesseractEngine opts),
      (''boundWorker'', boundWorker opts)]"

definition signPeerRecord :: "crypto \<Rightarrow> platform \<Rightarrow> port_identity \<Rightarrow> peer_options \<Rightarrow> jsv result" where
  "signPeerRecord C P identity opts =
     and_then (assertRecord C P (peer_body identity opts) (peer_now opts)) (\<lambda>_.
       sign_body C P identity (peer_body identity opts))"

definition verifyPeerRecord :: "crypto \<Rightarrow> platform \<Rightarrow> jsv \<Rightarrow> int \<Rightarrow> jsv \<Rightarrow> jsv result" where
  "verifyPeerRecord C P record now expectedId =
     (let body = jget record ''body''
      in if \<not> truthy body then reject ''Peer record absent''
         else and_then
           (verifyEnvelope C P record (nullish_or expectedId (jget body ''portId'')) (jget body ''publicKey''))
           (\<lambda>verified. and_then (assertRecord C P verified now) (\<lambda>_. Inr verified)))"

section \<open>The directory of signed peers\<close>

text \<open>The records by port id, in insertion order, and the revoked ids.\<close>

record directory =
  directory_records :: "(string \<times> jsv) list"
  directory_revoked :: "string list"
  directory_capacity :: nat

definition new_directory :: "jsv \<Rightarrow> directory result" where
  "new_directory capacity =
     (let c = (if capacity = JUndef then JInt 256 else capacity)
      in if is_integer c \<and> 1 \<le> num_of c \<and> num_of c \<le> 4096
         then Inr \<lparr>directory_records = [], directory_revoked = [], directory_capacity = nat \<lfloor>num_of c\<rfloor>\<rparr>
         else reject ''Directory capacity'')"

definition record_expiry :: "jsv \<Rightarrow> rat" where
  "record_expiry r = num_of (jget (jget r ''body'') ''expiresAt'')"

definition record_revision :: "jsv \<Rightarrow> rat" where
  "record_revision r = num_of (jget (jget r ''body'') ''revision'')"

text \<open>An older revision, or another record of the same revision (told apart by their digests).\<close>

definition revision_conflict :: "platform \<Rightarrow> jsv \<Rightarrow> jsv \<Rightarrow> jsv \<Rightarrow> bool result" where
  "revision_conflict P body record prior =
     (let revision = num_of (jget body ''revision'')
      in if revision < record_revision prior then Inr True
         else if revision = record_revision prior
         then and_then (canonicalBytes P record) (\<lambda>a. and_then (canonicalBytes P prior) (\<lambda>b.
                Inr (native_digest P a \<noteq> native_digest P b)))
         else Inr False)"

definition prune_records :: "int \<Rightarrow> (string \<times> jsv) list \<Rightarrow> (string \<times> jsv) list" where
  "prune_records now rs = filter (\<lambda>(k, r). \<not> record_expiry r \<le> of_int now) rs"

definition peer_ingest ::
    "crypto \<Rightarrow> platform \<Rightarrow> directory \<Rightarrow> jsv \<Rightarrow> int \<Rightarrow> string result \<times> directory" where
  "peer_ingest C P d record now =
     (case and_then (verifyPeerRecord C P record now JUndef) (\<lambda>body.
        let pid = text_of (jget body ''portId'')
        in if pid \<in> set (directory_revoked d) then reject ''Peer revoked''
           else and_then (case map_of (directory_records d) pid of
                  None \<Rightarrow> Inr False | Some prior \<Rightarrow> revision_conflict P body record prior) (\<lambda>conflict.
             if conflict then reject ''Peer revision rollback/conflict'' else Inr pid)) of
        Inl e \<Rightarrow> (Inl e, d)
      | Inr pid \<Rightarrow>
          let live = prune_records now (directory_records d)
          in if map_of live pid = None \<and> directory_capacity d \<le> length live
             then (reject ''Directory capacity exceeded'', d\<lparr>directory_records := live\<rparr>)
             else (case canonical record of
                 Inl e \<Rightarrow> (Inl e, d\<lparr>directory_records := live\<rparr>)
               | Inr copy \<Rightarrow> (Inr pid, d\<lparr>directory_records := AList.update pid copy live\<rparr>)))"

definition peer_get :: "crypto \<Rightarrow> platform \<Rightarrow> directory \<Rightarrow> string \<Rightarrow> int \<Rightarrow> jsv result" where
  "peer_get C P d pid now =
     (if pid \<in> set (directory_revoked d) then reject ''Peer revoked''
      else case map_of (directory_records d) pid of
          None \<Rightarrow> reject ''Peer unknown''
        | Some record \<Rightarrow>
            and_then (verifyPeerRecord C P record now (JStr pid)) (\<lambda>_. canonical record))"

definition peer_revoke :: "directory \<Rightarrow> string \<Rightarrow> unit result \<times> directory" where
  "peer_revoke d pid =
     (if 4096 \<le> length (directory_revoked d) \<and> pid \<notin> set (directory_revoked d)
      then (reject ''Revocation capacity exceeded'', d)
      else (Inr (), d\<lparr>directory_revoked := List.insert pid (directory_revoked d),
                      directory_records := AList.delete pid (directory_records d)\<rparr>))"

end
