(* ===== verification/PortNames.thy ===== *)
theory PortNames
  imports NativeIdentity
begin

text \<open>
  \<open>src/port-names.mjs\<close>: names below a port's namespace, their \<open>port://\<close> addresses, the signed name
  records and the directory of them. The URL parser is used on texts of the shape the code has checked
  before, \<open>port://\<close> with a host of lower-case letters, digits, dots and hyphens and a path without dots,
  and returns their parts unchanged: that is what the model writes out.
\<close>

section \<open>Names and addresses\<close>

definition fullPortId :: "string \<Rightarrow> bool" where
  "fullPortId = prefixed ''strata:port:ed25519:'' is_hexch 64 64"

fun validPortId :: "jsv \<Rightarrow> string result" where
  "validPortId (JStr s) = (if fullPortId s then Inr s else reject ''SDPN Port Zero identity required'')"
| "validPortId _ = reject ''SDPN Port Zero identity required''"

definition is_label :: "char \<Rightarrow> bool" where
  "is_label c \<longleftrightarrow> is_lower c \<or> is_digit c \<or> c = CHR ''-''"

text \<open>\<open>/^[a-z][a-z0-9-]{0,30}[a-z0-9]$|^[a-z]$/\<close>\<close>

definition atom :: "string \<Rightarrow> bool" where
  "atom s \<longleftrightarrow>
     s \<noteq> [] \<and> length s \<le> 32 \<and> is_lower (hd s) \<and> list_all is_label s \<and> last s \<noteq> CHR ''-''"

fun nameParts :: "jsv \<Rightarrow> string list result" where
  "nameParts (JStr name) =
     (if 170 < length name then reject ''Port name bounds''
      else let labels = (if name = [] then [] else split_on CHR ''.'' name)
      in if 5 < length labels \<or> \<not> list_all atom labels then reject ''Port subdomain rejected''
         else Inr labels)"
| "nameParts _ = reject ''Port name bounds''"

text \<open>\<open>(?:/[a-zA-Z0-9_-]+)*/?\<close>\<close>

definition path_shape :: "string \<Rightarrow> bool" where
  "path_shape p \<longleftrightarrow>
     (let ps = split_on CHR ''/'' p
      in hd ps = [] \<and> list_all (list_all is_idch) ps \<and> list_all (\<lambda>s. s \<noteq> []) (butlast (tl ps)))"

fun safePath :: "jsv \<Rightarrow> string result" where
  "safePath (JStr path) =
     (if 512 < length path \<or> \<not> path_shape path then reject ''Port resource path rejected''
      else Inr (if path = [] then ''/'' else path))"
| "safePath _ = reject ''Port resource path rejected''"

definition portNamespaceHost :: "jsv \<Rightarrow> string result" where
  "portNamespaceHost ownerPort =
     and_then (validPortId ownerPort) (\<lambda>p.
       let hash = drop (length ''strata:port:ed25519:'') p
       in Inr (take 32 hash @ ''.'' @ drop 32 hash @ ''.sdpn''))"

definition makePortUri :: "jsv \<Rightarrow> jsv \<Rightarrow> jsv \<Rightarrow> string result" where
  "makePortUri ownerPort name path =
     and_then (nameParts name) (\<lambda>parts.
     and_then (portNamespaceHost ownerPort) (\<lambda>namespace.
     and_then (safePath path) (\<lambda>p.
       Inr (''port://'' @ join ''.'' (parts @ [namespace]) @ p))))"

text \<open>\<open>/^port:\/\/[a-z0-9.-]+(?:\/[a-zA-Z0-9_-]+)*\/?$/\<close>, with the host and the path.\<close>

definition is_hostch :: "char \<Rightarrow> bool" where
  "is_hostch c \<longleftrightarrow> is_label c \<or> c = CHR ''.''"

definition uri_host :: "string \<Rightarrow> string" where
  "uri_host uri = takeWhile (\<lambda>c. c \<noteq> CHR ''/'') (drop 7 uri)"

definition uri_path :: "string \<Rightarrow> string" where
  "uri_path uri = dropWhile (\<lambda>c. c \<noteq> CHR ''/'') (drop 7 uri)"

definition uri_shape :: "string \<Rightarrow> bool" where
  "uri_shape uri \<longleftrightarrow>
     take 7 uri = ''port://'' \<and> uri_host uri \<noteq> [] \<and> list_all is_hostch (uri_host uri) \<and>
     path_shape (uri_path uri)"

record port_address =
  address_uri :: string
  address_name :: string
  address_owner :: string
  address_path :: string
  address_namespace :: string

text \<open>\<open>replace(/\/$/, "")\<close>\<close>

definition drop_slash :: "string \<Rightarrow> string" where
  "drop_slash s = (if s \<noteq> [] \<and> last s = CHR ''/'' then butlast s else s)"

definition parse_labels :: "string \<Rightarrow> string list \<Rightarrow> string \<Rightarrow> port_address result" where
  "parse_labels uri labels pathname =
     (if length labels < 3 \<or> last labels \<noteq> ''sdpn'' then reject ''SDPN overlay suffix required''
      else let first = labels ! (length labels - 3); second = labels ! (length labels - 2)
      in if \<not> prefixed [] is_hexch 32 32 first \<or> \<not> prefixed [] is_hexch 32 32 second
         then reject ''Self-certifying namespace missing''
         else let name = join ''.'' (take (length labels - 3) labels);
                  ownerPort = ''strata:port:ed25519:'' @ first @ second
         in and_then (nameParts (JStr name)) (\<lambda>_.
            and_then (safePath (JStr pathname)) (\<lambda>path.
            and_then (makePortUri (JStr ownerPort) (JStr name) (JStr path)) (\<lambda>made.
              if made \<noteq> uri \<and> drop_slash made \<noteq> uri then reject ''Noncanonical port address''
              else and_then (portNamespaceHost (JStr ownerPort)) (\<lambda>namespace.
                Inr \<lparr>address_uri = made, address_name = name, address_owner = ownerPort,
                     address_path = path, address_namespace = namespace\<rparr>)))))"

fun parsePortUri :: "jsv \<Rightarrow> port_address result" where
  "parsePortUri (JStr uri) =
     (if 1024 < length uri \<or> \<not> uri_shape uri then reject ''Noncanonical port:// URI''
      else parse_labels uri (split_on CHR ''.'' (uri_host uri)) (uri_path uri))"
| "parsePortUri _ = reject ''Noncanonical port:// URI''"

section \<open>Signed name records\<close>

fun check_entries :: "string list \<Rightarrow> jsv list \<Rightarrow> unit result" where
  "check_entries seen [] = Inr ()"
| "check_entries seen (entry # es) =
     and_then (exactFields entry [''name'', ''targetPort'']) (\<lambda>_.
     and_then (nameParts (jget entry ''name'')) (\<lambda>_.
     and_then (validPortId (jget entry ''targetPort'')) (\<lambda>_.
       if text_of (jget entry ''name'') \<in> set seen then reject ''Duplicate port name''
       else check_entries (text_of (jget entry ''name'') # seen) es)))"

definition verifyBody :: "platform \<Rightarrow> jsv \<Rightarrow> int \<Rightarrow> unit result" where
  "verifyBody P body now =
     and_then (exactFields body
       [''schema'', ''ownerPort'', ''ownerPublicKey'', ''revision'', ''issuedAt'', ''expiresAt'', ''entries'']) (\<lambda>_.
     if jget body ''schema'' \<noteq> JStr ''kindred.sdpn.port-names.v1''
     then reject ''Port name authority or lifetime rejected''
     else and_then (portId P (jget body ''ownerPublicKey'')) (\<lambda>pid.
       if jget body ''ownerPort'' \<noteq> JStr pid \<or> \<not> lifetime_ok body now 3600000
       then reject ''Port name authority or lifetime rejected''
       else if \<not> is_array (jget body ''entries'') \<or> items (jget body ''entries'') = [] \<or>
               128 < length (items (jget body ''entries''))
       then reject ''Port name record count rejected''
       else and_then (check_entries [] (items (jget body ''entries''))) (\<lambda>_.
         and_then (canonicalBytes P body) (\<lambda>bytes.
           if 32768 < length bytes then reject ''Port name manifest size exceeded'' else Inr ()))))"

definition names_body :: "port_identity \<Rightarrow> jsv \<Rightarrow> jsv \<Rightarrow> int \<Rightarrow> int \<Rightarrow> jsv" where
  "names_body identity es revision now ttlMs = JObj
     [(''schema'', JStr ''kindred.sdpn.port-names.v1''),
      (''ownerPort'', JStr (identity_id identity)),
      (''ownerPublicKey'', JStr (identity_publicKey identity)),
      (''revision'', revision),
      (''issuedAt'', JInt now),
      (''expiresAt'', JInt (now + ttlMs)),
      (''entries'', es)]"

definition signPortNames ::
    "crypto \<Rightarrow> platform \<Rightarrow> port_identity \<Rightarrow> jsv \<Rightarrow> jsv \<Rightarrow> int \<Rightarrow> int \<Rightarrow> jsv result" where
  "signPortNames C P identity es revision now ttlMs =
     (if \<not> is_safe_integer (JInt ttlMs) \<or> ttlMs < 1 \<or> 3600000 < ttlMs then reject ''Port name TTL rejected''
      else let body = names_body identity es revision now ttlMs
      in and_then (verifyBody P body now) (\<lambda>_. sign_body C P identity body))"

definition verifyPortNames :: "crypto \<Rightarrow> platform \<Rightarrow> jsv \<Rightarrow> int \<Rightarrow> jsv result" where
  "verifyPortNames C P record now =
     (let body = jget record ''body''
      in if \<not> truthy record \<or> \<not> truthy body then reject ''Port name record absent''
         else and_then (verifyEnvelope C P record (jget body ''ownerPort'') (jget body ''ownerPublicKey''))
           (\<lambda>verified. and_then (verifyBody P verified now) (\<lambda>_. Inr verified)))"

section \<open>Resolution\<close>

record port_resolution =
  resolution_address :: string
  resolution_owner :: string
  targetPort :: jsv
  resolution_name :: string
  resolution_path :: string
  signedRevision :: jsv
  resolution_expiresAt :: jsv
  nameSignatureVerified :: bool
  networkConnected :: bool
  authorizationGranted :: bool
  physicalZeroCopyVerified :: bool
  dnsRegistration :: bool

definition resolvePortName :: "crypto \<Rightarrow> platform \<Rightarrow> jsv \<Rightarrow> jsv \<Rightarrow> int \<Rightarrow> port_resolution result" where
  "resolvePortName C P uri record now =
     and_then (parsePortUri uri) (\<lambda>address.
     and_then (verifyPortNames C P record now) (\<lambda>body.
       if jget body ''ownerPort'' \<noteq> JStr (address_owner address) then reject ''Untrusted Port Zero namespace''
       else case find (\<lambda>item. jget item ''name'' = JStr (address_name address)) (items (jget body ''entries'')) of
           None \<Rightarrow> reject ''Port name not registered''
         | Some entry \<Rightarrow> Inr
             \<lparr>resolution_address = address_uri address, resolution_owner = text_of (jget body ''ownerPort''),
              targetPort = jget entry ''targetPort'', resolution_name = address_name address,
              resolution_path = address_path address, signedRevision = jget body ''revision'',
              resolution_expiresAt = jget body ''expiresAt'', nameSignatureVerified = True,
              networkConnected = False, authorizationGranted = False, physicalZeroCopyVerified = False,
              dnsRegistration = False\<rparr>))"

section \<open>The directory of name records\<close>

definition names_ingest ::
    "crypto \<Rightarrow> platform \<Rightarrow> directory \<Rightarrow> jsv \<Rightarrow> int \<Rightarrow> string result \<times> directory" where
  "names_ingest C P d record now =
     (case and_then (verifyPortNames C P record now) (\<lambda>body.
        let owner = text_of (jget body ''ownerPort'')
        in if owner \<in> set (directory_revoked d) then reject ''Port namespace revoked''
           else and_then (case map_of (directory_records d) owner of
                  None \<Rightarrow> Inr False | Some prior \<Rightarrow> revision_conflict P body record prior) (\<lambda>conflict.
             if conflict then reject ''Port namespace rollback/conflict'' else Inr owner)) of
        Inl e \<Rightarrow> (Inl e, d)
      | Inr owner \<Rightarrow>
          let live = prune_records now (directory_records d)
          in if map_of (directory_records d) owner = None \<and> directory_capacity d \<le> length live
             then (reject ''Port directory capacity exceeded'', d\<lparr>directory_records := live\<rparr>)
             else (case canonical record of
                 Inl e \<Rightarrow> (Inl e, d\<lparr>directory_records := live\<rparr>)
               | Inr copy \<Rightarrow> (Inr owner, d\<lparr>directory_records := AList.update owner copy live\<rparr>)))"

definition names_resolve :: "crypto \<Rightarrow> platform \<Rightarrow> directory \<Rightarrow> jsv \<Rightarrow> int \<Rightarrow> port_resolution result" where
  "names_resolve C P d uri now =
     and_then (parsePortUri uri) (\<lambda>parsed.
       if address_owner parsed \<in> set (directory_revoked d) then reject ''Port namespace revoked''
       else case map_of (directory_records d) (address_owner parsed) of
           None \<Rightarrow> reject ''Unknown signed port namespace''
         | Some record \<Rightarrow> resolvePortName C P uri record now)"

definition names_revoke :: "directory \<Rightarrow> jsv \<Rightarrow> unit result \<times> directory" where
  "names_revoke d ownerPort =
     (case validPortId ownerPort of
        Inl e \<Rightarrow> (Inl e, d)
      | Inr owner \<Rightarrow>
          (Inr (), d\<lparr>directory_revoked := List.insert owner (directory_revoked d),
                     directory_records := AList.delete owner (directory_records d)\<rparr>))"

end
