(* ===== verification/NativeFacts.thy ===== *)
theory NativeFacts
  imports PortNames
begin

text \<open>
  The facts about names, records and signatures that the properties of the directories rest on: reading
  a canonical copy, what a successful verification has checked, and the addresses of names.
\<close>

section \<open>Reading a canonical copy\<close>

lemma canonical_objE:
  assumes "canonical (JObj kvs) = Inr w"
  obtains us where "canonical_fields kvs = Inr us" "w = JObj (property_order (sort_key fst us))"
    "us = map (apsnd canonical_value) kvs" "\<And>k v. (k, v) \<in> set kvs \<Longrightarrow> canonical v = Inr (canonical_value v)"
proof -
  from assms obtain us where us: "canonical_fields kvs = Inr us" "w = JObj (property_order (sort_key fst us))"
    by (auto simp: result_simps)
  then have ok: "\<not> (\<exists>kv \<in> set kvs. canonical (snd kv) = Inl TypeErr)" "us = map (apsnd canonical_value) kvs"
    by (simp_all add: canonical_fields_map split: if_splits)
  have "canonical v = Inr (canonical_value v)" if "(k, v) \<in> set kvs" for k v
  proof -
    from ok(1) that have "canonical v \<noteq> Inl TypeErr" by force
    then show ?thesis by (cases "canonical v") (auto simp: canonical_value_def dest: canonical_failure)
  qed
  with us ok show thesis by (intro that)
qed

lemma map_of_property_order:
  assumes "distinct (map fst us)"
  shows "map_of (property_order (sort_key fst us)) = map_of us"
proof (rule map_of_inject_set [THEN iffD2])
  show "distinct (map fst (property_order (sort_key fst us)))"
    using assms mset_eq_imp_distinct_iff [of "map fst (property_order (sort_key fst us))" "map fst us"]
    by simp
qed (simp_all add: assms)

lemma jget_canonical:
  assumes "canonical v = Inr w" and "proper v"
  shows "(jget v k = JUndef \<and> jget w k = JUndef) \<or> canonical (jget v k) = Inr (jget w k)"
proof (cases v)
  case (JObj kvs)
  with assms(1) have "canonical (JObj kvs) = Inr w" by simp
  then obtain us where w: "w = JObj (property_order (sort_key fst us))"
    and us: "us = map (apsnd canonical_value) kvs"
    and ok: "\<And>k v. (k, v) \<in> set kvs \<Longrightarrow> canonical v = Inr (canonical_value v)"
    by (rule canonical_objE) (rule that; assumption)
  have "distinct (map fst us)" using assms(2) by (simp add: us JObj)
  then have "map_of (property_order (sort_key fst us)) k = map_option canonical_value (map_of kvs k)"
    by (simp add: map_of_property_order us map_of_map apsnd_def map_prod_def)
  then show ?thesis
    using ok by (cases "map_of kvs k") (auto simp: JObj w dest: map_of_SomeD)
qed (use assms in \<open>auto simp: result_simps split: if_splits\<close>)

lemma canonical_is_record: "canonical v = Inr w \<Longrightarrow> is_record w = is_record v"
  by (cases v) (auto simp: result_simps split: if_splits)

lemma exactFields_canonical:
  assumes "canonical v = Inr w"
  shows "exactFields w expected = exactFields v expected"
proof -
  have "sort (jkeys w) = sort (jkeys v)"
  proof (cases v)
    case (JObj kvs)
    with assms have "canonical (JObj kvs) = Inr w" by simp
    then obtain us where w: "w = JObj (property_order (sort_key fst us))"
      and us: "us = map (apsnd canonical_value) kvs"
      by (rule canonical_objE) (rule that; assumption)
    have "sort (map fst (property_order (sort_key fst us))) = sort (map fst kvs)"
      by (rule properties_for_sort) (simp_all add: us multiset.map_comp comp_def)
    then show ?thesis by (simp add: JObj w)
  qed (use assms in \<open>auto simp: result_simps split: if_splits\<close>)
  then show ?thesis
    by (simp add: exactFields_def canonical_is_record [OF assms])
qed

lemma jget_canonical_scalar:
  assumes "canonical v = Inr w" and "proper v"
  shows "jget v k = JStr s \<Longrightarrow> jget w k = JStr s"
    and "is_safe_integer (jget v k) \<Longrightarrow> jget w k = jget v k"
    and "jget v k = JArr xs \<Longrightarrow> \<exists>ys. jget w k = JArr ys \<and> list_all2 (\<lambda>x y. canonical x = Inr y) xs ys"
proof -
  note get = jget_canonical [OF assms, of k]
  show "jget v k = JStr s \<Longrightarrow> jget w k = JStr s" using get by auto
  show "is_safe_integer (jget v k) \<Longrightarrow> jget w k = jget v k"
    using get by (cases "jget v k") auto
  show "jget v k = JArr xs \<Longrightarrow> \<exists>ys. jget w k = JArr ys \<and> list_all2 (\<lambda>x y. canonical x = Inr y) xs ys"
    using get by (force simp: result_simps canonical_items_iff)
qed

lemma proper_items_iff: "proper_items vs \<longleftrightarrow> (\<forall>v \<in> set vs. proper v)"
  by (induction vs) auto

lemma proper_fields_iff: "proper_fields kvs \<longleftrightarrow> (\<forall>kv \<in> set kvs. proper (snd kv))"
  by (induction kvs) auto

lemma proper_jget: "proper v \<Longrightarrow> proper (jget v k)"
proof (cases v)
  case (JObj kvs)
  then show "proper v \<Longrightarrow> proper (jget v k)"
    by (cases "map_of kvs k") (auto simp: proper_fields_iff dest: map_of_SomeD)
qed simp_all

lemma lifetime_ok_canonical:
  assumes "canonical v = Inr w" "proper v" "lifetime_ok v now m"
  shows "lifetime_ok w now m"
  using assms(3) jget_canonical_scalar(2) [OF assms(1,2)] by (simp add: lifetime_ok_def)

section \<open>Signatures\<close>

lemma signed_copy_canonical:
  "canonical body = Inr body \<Longrightarrow>
   canonical (JObj [(''body'', body), (''signature'', JStr s)]) = Inr (JObj [(''body'', body), (''signature'', JStr s)])"
  by (simp add: property_order_def index_key_def char_class_defs)

lemma sign_body_verified:
  assumes C: "ed25519 C" and signed: "sign_body C P (createPortIdentity C P k) body = Inr signed"
  obtains copy where "canonical body = Inr copy" "jget signed ''body'' = copy" "canonical signed = Inr signed"
    "verifyEnvelope C P signed (JStr (identity_id (createPortIdentity C P k)))
       (JStr (identity_publicKey (createPortIdentity C P k))) = Inr copy"
proof -
  define pk where "pk = public_of C k"
  from signed obtain copy bytes where copy: "canonical body = Inr copy" and bytes: "canonicalBytes P copy = Inr bytes"
    and signed: "signed = JObj [(''body'', copy), (''signature'', JStr (base64 (sign_bytes C k bytes)))]"
    by (auto simp: sign_body_def result_simps createPortIdentity_def Let_def)
  have sig: "length (sign_bytes C k bytes) = 64" "verify_bytes C bytes pk (sign_bytes C k bytes)"
    "key_type C pk = Some ''ed25519''" "length pk = 44"
    using C by (simp_all add: ed25519_def pk_def)
  have fields: "exactFields signed [''body'', ''signature''] = Inr ()"
    by (simp add: exactFields_def signed)
  have key: "decodePublicKey C (JStr (base64 pk)) ''ed25519'' = Inr pk"
    using sig by (simp add: decodePublicKey_def length_base64 base64_bytes_base64)
  have "verifyEnvelope C P signed (JStr (identity_id (createPortIdentity C P k)))
       (JStr (identity_publicKey (createPortIdentity C P k))) = Inr copy"
    using fields key bytes sig canonical_idem [OF copy]
    by (simp add: verifyEnvelope_def signed createPortIdentity_def Let_def pk_def [symmetric] length_base64
        base64_bytes_base64)
  moreover have "canonical signed = Inr signed"
    using signed_copy_canonical [OF canonical_idem [OF copy]] by (simp only: signed)
  moreover have "jget signed ''body'' = copy" by (simp add: signed)
  ultimately show thesis using that copy by blast
qed

lemma verifyEnvelope_Inr:
  assumes "verifyEnvelope C P envelope expectedId publicKey = Inr v"
  obtains s pid bytes key where "jget envelope ''signature'' = JStr s" "portId P publicKey = Inr pid" "expectedId = JStr pid"
    "canonical (jget envelope ''body'') = Inr v" "canonicalBytes P (jget envelope ''body'') = Inr bytes"
    "decodePublicKey C publicKey ''ed25519'' = Inr key" "verify_bytes C bytes key (base64_bytes s)"
  using assms
  by (cases "jget envelope ''signature''")
    (auto simp: verifyEnvelope_def result_simps split: if_splits)

section \<open>Texts split at a separator\<close>

lemma split_on_nonempty [simp]: "split_on c s \<noteq> []"
  by (induction s) (auto split: list.split)

lemma split_on_no_sep: "c \<notin> set s \<Longrightarrow> split_on c s = [s]"
  by (induction s) auto

lemma split_on_append: "c \<notin> set s \<Longrightarrow> split_on c (s @ c # t) = s # split_on c t"
  by (induction s) auto

lemma split_on_join: "ss \<noteq> [] \<Longrightarrow> \<forall>s \<in> set ss. c \<notin> set s \<Longrightarrow> split_on c (join [c] ss) = ss"
proof (induction ss)
  case (Cons s ss)
  then show ?case by (cases "ss = []") (auto simp: join_Cons split_on_no_sep split_on_append)
qed simp

lemma join_split_on: "join [c] (split_on c s) = s"
proof (induction s)
  case (Cons x s)
  obtain p ps where ps: "split_on c s = p # ps" by (cases "split_on c s") auto
  with Cons show ?case by (cases ps) auto
qed simp

lemma sep_not_in_split: "p \<in> set (split_on c s) \<Longrightarrow> c \<notin> set p"
  by (induction s arbitrary: p) (auto split: list.splits if_splits)

lemma set_join: "set (join sep ss) \<subseteq> set sep \<union> (\<Union>s \<in> set ss. set s)"
  by (induction ss) (auto simp: join_Cons)

lemma join_append: "ss \<noteq> [] \<Longrightarrow> ts \<noteq> [] \<Longrightarrow> join sep (ss @ ts) = join sep ss @ sep @ join sep ts"
  by (induction ss) (auto simp: join_Cons)

end
