(* ===== verification/PortNameFacts.thy ===== *)
theory PortNameFacts
  imports NativeFacts
begin

text \<open>
  The addresses of names are read back as the names they were made from, and a signed name resolves to
  its target as long as its record lives.
\<close>

section \<open>Addresses\<close>

lemma atom_chars: "atom s \<Longrightarrow> list_all is_label s"
  by (simp add: atom_def)

lemma label_no_sep: "list_all is_label s \<Longrightarrow> CHR ''.'' \<notin> set s \<and> CHR ''/'' \<notin> set s"
  by (auto simp: list_all_iff is_label_def char_class_defs)

lemma hex_is_label: "is_hexch c \<Longrightarrow> is_label c"
  by (auto simp: is_label_def char_class_defs)

lemma nameParts_Inr:
  assumes "nameParts (JStr name) = Inr parts"
  shows "join ''.'' parts = name" and "list_all atom parts" and "length name \<le> 170" and "length parts \<le> 5"
    and "parts = (if name = [] then [] else split_on CHR ''.'' name)"
  using assms by (auto simp: Let_def join_split_on split: if_splits)

lemma portNamespaceHost_Inr:
  assumes "portNamespaceHost (JStr owner) = Inr ns"
  obtains h1 h2 where "owner = ''strata:port:ed25519:'' @ h1 @ h2" "length h1 = 32" "length h2 = 32"
    "list_all is_hexch h1" "list_all is_hexch h2" "ns = join ''.'' [h1, h2, ''sdpn'']"
proof -
  from assms have "fullPortId owner"
    by (auto simp: portNamespaceHost_def result_simps split: if_splits)
  then obtain t where "owner = ''strata:port:ed25519:'' @ t" "64 \<le> length t" "length t \<le> 64" "list_all is_hexch t"
    unfolding fullPortId_def prefixed_iff by blast
  then have t: "owner = ''strata:port:ed25519:'' @ t" "length t = 64" "list_all is_hexch t"
    by (simp_all only: order_antisym)
  have "list_all is_hexch (take 32 t)" "list_all is_hexch (drop 32 t)"
    using t(3) by (auto simp: list_all_iff dest: in_set_takeD in_set_dropD)
  moreover have "ns = join ''.'' [take 32 t, drop 32 t, ''sdpn'']"
    using assms by (auto simp: portNamespaceHost_def result_simps t(1) split: if_splits)
  ultimately show thesis
    using t by (intro that [of "take 32 t" "drop 32 t"]) simp_all
qed

lemma fullPortId_parts:
  assumes "length h1 = 32" "length h2 = 32" "list_all is_hexch h1" "list_all is_hexch h2"
  shows "portNamespaceHost (JStr (''strata:port:ed25519:'' @ h1 @ h2)) = Inr (join ''.'' [h1, h2, ''sdpn''])"
proof -
  have "fullPortId (''strata:port:ed25519:'' @ h1 @ h2)"
    using assms by (simp add: fullPortId_def del: append.simps)
  then show ?thesis
    using assms by (simp add: portNamespaceHost_def)
qed

lemma safePath_Inr:
  assumes "safePath (JStr p) = Inr q"
  shows "q = (if p = [] then ''/'' else p)" and "path_shape q" and "length q \<le> 512" and "\<exists>r. q = CHR ''/'' # r"
proof -
  from assms have p: "length p \<le> 512" "path_shape p" "q = (if p = [] then ''/'' else p)"
    by (auto split: if_splits)
  have slash: "path_shape ''/''" by (simp add: path_shape_def)
  have start: "\<exists>r. p = CHR ''/'' # r" if "p \<noteq> []"
  proof (cases p)
    case (Cons c r)
    with p(2) show ?thesis
      by (cases "split_on CHR ''/'' r") (auto simp: path_shape_def Let_def split: if_splits)
  qed (use that in simp)
  show "q = (if p = [] then ''/'' else p)" "path_shape q" "length q \<le> 512" "\<exists>r. q = CHR ''/'' # r"
    using p slash start by auto
qed

text \<open>Reading back the parts of a made address.\<close>

lemma uri_parts:
  assumes "CHR ''/'' \<notin> set host" and "q = CHR ''/'' # r"
  shows "uri_host (''port://'' @ host @ q) = host" and "uri_path (''port://'' @ host @ q) = q"
  using assms by (simp_all add: uri_host_def uri_path_def takeWhile_append dropWhile_append)

lemma parse_made:
  assumes parts: "nameParts (JStr name) = Inr parts"
    and hex: "length h1 = 32" "length h2 = 32" "list_all is_hexch h1" "list_all is_hexch h2"
    and path: "safePath (JStr q) = Inr q"
    and uri: "uri = ''port://'' @ join ''.'' (parts @ [h1, h2, ''sdpn'']) @ q"
  shows "parsePortUri (JStr uri) = Inr
     \<lparr>address_uri = uri, address_name = name, address_owner = ''strata:port:ed25519:'' @ h1 @ h2,
      address_path = q, address_namespace = join ''.'' [h1, h2, ''sdpn'']\<rparr>"
proof -
  let ?labels = "parts @ [h1, h2, ''sdpn'']" and ?owner = "''strata:port:ed25519:'' @ h1 @ h2"
  let ?host = "join ''.'' ?labels"
  have labels: "\<forall>l \<in> set ?labels. list_all is_label l"
    using nameParts_Inr(2) [OF parts] hex
    by (auto simp: list_all_iff atom_def hex_is_label) (auto simp: is_label_def char_class_defs)
  then have no_sep: "\<forall>l \<in> set ?labels. CHR ''.'' \<notin> set l \<and> CHR ''/'' \<notin> set l"
    using label_no_sep by blast
  have host_chars: "list_all is_hostch ?host"
    using set_join [of "''.''" ?labels] labels by (auto simp: list_all_iff is_hostch_def)
  then have slash: "CHR ''/'' \<notin> set ?host"
    by (auto simp: list_all_iff is_hostch_def is_label_def char_class_defs)
  obtain r where r: "q = CHR ''/'' # r" using safePath_Inr(4) [OF path] by blast
  note split = uri_parts [OF slash r, folded uri]
  have labels_back: "split_on CHR ''.'' ?host = ?labels"
    using no_sep by (intro split_on_join) auto
  have host: "?host = (if parts = [] then [] else name @ ''.'') @ h1 @ ''.'' @ h2 @ ''.sdpn''"
    using nameParts_Inr(1) [OF parts] by (cases "parts = []") (simp_all add: join_append)
  then have "length ?host \<le> 250" using hex nameParts_Inr(3) [OF parts] by auto
  then have short: "length uri \<le> 1024" using safePath_Inr(3) [OF path] by (simp add: uri)
  have shape: "uri_shape uri"
    using split host_chars host hex safePath_Inr(2) [OF path] by (simp add: uri_shape_def uri)
  have namespace: "portNamespaceHost (JStr ?owner) = Inr (join ''.'' [h1, h2, ''sdpn''])"
    using hex by (rule fullPortId_parts)
  have "join ''.'' (parts @ [join ''.'' [h1, h2, ''sdpn'']]) = ?host"
    by (cases "parts = []") (simp_all add: join_append)
  then have made: "makePortUri (JStr ?owner) (JStr name) (JStr q) = Inr uri"
    using parts namespace path by (simp add: makePortUri_def uri del: nameParts.simps safePath.simps append.simps)
  have lens: "length ?labels - 3 = length parts" "length ?labels - 2 = Suc (length parts)" by simp_all
  have nth: "?labels ! length parts = h1" "?labels ! Suc (length parts) = h2" "take (length parts) ?labels = parts"
    by (simp_all add: nth_append)
  have "parse_labels uri ?labels q = Inr
     \<lparr>address_uri = uri, address_name = name, address_owner = ?owner, address_path = q,
      address_namespace = join ''.'' [h1, h2, ''sdpn'']\<rparr>"
    unfolding parse_labels_def Let_def lens nth nameParts_Inr(1) [OF parts]
    using hex parts path made namespace
    by (simp add: prefixed_def del: nameParts.simps safePath.simps)
  then show ?thesis
    using short shape by (simp add: split labels_back del: append.simps)
qed

text \<open>
  C15: An address made from a port, a name and a path is read back as exactly these, the empty path being
  the root, and is its own canonical form; so different names never share an address.
\<close>

theorem port_uri_roundtrip:
  assumes "makePortUri (JStr owner) (JStr name) (JStr path) = Inr uri"
  shows "\<exists>ns. parsePortUri (JStr uri) = Inr
     \<lparr>address_uri = uri, address_name = name, address_owner = owner,
      address_path = (if path = [] then ''/'' else path), address_namespace = ns\<rparr>"
proof -
  from assms obtain parts ns q where parts: "nameParts (JStr name) = Inr parts"
    and ns: "portNamespaceHost (JStr owner) = Inr ns" and q: "safePath (JStr path) = Inr q"
    and uri: "uri = ''port://'' @ join ''.'' (parts @ [ns]) @ q"
    unfolding makePortUri_def result_simps by blast
  from ns obtain h1 h2 where hex: "length h1 = 32" "length h2 = 32" "list_all is_hexch h1" "list_all is_hexch h2"
    and owner: "owner = ''strata:port:ed25519:'' @ h1 @ h2" and ns: "ns = join ''.'' [h1, h2, ''sdpn'']"
    by (rule portNamespaceHost_Inr)
  have "join ''.'' (parts @ [ns]) = join ''.'' (parts @ [h1, h2, ''sdpn''])"
    by (cases "parts = []") (simp_all add: ns join_append)
  moreover have "safePath (JStr q) = Inr q"
    using safePath_Inr(2,3,4) [OF q] by auto
  ultimately have "parsePortUri (JStr uri) = Inr
     \<lparr>address_uri = uri, address_name = name, address_owner = owner, address_path = q, address_namespace = ns\<rparr>"
    using parse_made [OF parts hex] uri owner ns by metis
  with safePath_Inr(1) [OF q] show ?thesis by blast
qed

end
