(* ===== verification/SignedDirectories.thy ===== *)
theory SignedDirectories
  imports PortNameFacts
begin

text \<open>
  The two directories of signed records. What both promise to the rest of the network is the locale
  \<open>signed_directory\<close>: bounded, never holding a revoked port, never going back to an older revision
  of a record they hold. It is interpreted on the directory of peers and on the directory of names.
\<close>

section \<open>The contract\<close>

definition directory_wf :: "directory \<Rightarrow> bool" where
  "directory_wf d \<longleftrightarrow>
     distinct (map fst (directory_records d)) \<and>
     length (directory_records d) \<le> directory_capacity d \<and>
     fst ` set (directory_records d) \<inter> set (directory_revoked d) = {}"

datatype directory_op = Ingest jsv int | Revoke string

abbreviation held :: "directory \<Rightarrow> string \<Rightarrow> jsv option" where
  "held d k \<equiv> map_of (directory_records d) k"

fun directory_step ::
    "(directory \<Rightarrow> jsv \<Rightarrow> int \<Rightarrow> string result \<times> directory) \<Rightarrow>
     (directory \<Rightarrow> string \<Rightarrow> unit result \<times> directory) \<Rightarrow> directory_op \<Rightarrow> directory \<Rightarrow> directory" where
  "directory_step ingest revoke (Ingest r now) d = snd (ingest d r now)"
| "directory_step ingest revoke (Revoke k) d = snd (revoke d k)"

fun proper_op :: "directory_op \<Rightarrow> bool" where
  "proper_op (Ingest r now) = proper r"
| "proper_op (Revoke k) = True"

locale signed_directory =
  fixes ingest :: "directory \<Rightarrow> jsv \<Rightarrow> int \<Rightarrow> string result \<times> directory"
    and revoke :: "directory \<Rightarrow> string \<Rightarrow> unit result \<times> directory"
  assumes ingest_wf: "directory_wf d \<Longrightarrow> ingest d r now = (res, d') \<Longrightarrow> directory_wf d'"
    and ingest_frame: "ingest d r now = (res, d') \<Longrightarrow>
      directory_revoked d' = directory_revoked d \<and> directory_capacity d' = directory_capacity d"
    and ingest_other: "directory_wf d \<Longrightarrow> ingest d r now = (res, d') \<Longrightarrow> res \<noteq> Inr k \<Longrightarrow> held d' k = Some x \<Longrightarrow>
      held d k = Some x"
    and ingest_new: "proper r \<Longrightarrow> ingest d r now = (Inr k, d') \<Longrightarrow>
      k \<notin> set (directory_revoked d) \<and> canonical r = Inr (the (held d' k)) \<and> held d' k \<noteq> None \<and>
      of_int now < record_expiry (the (held d' k)) \<and>
      (\<forall>prior. held d k = Some prior \<longrightarrow> record_revision prior \<le> record_revision (the (held d' k)))"
    and revoke_effect: "directory_wf d \<Longrightarrow> revoke d k = (answer, d') \<Longrightarrow>
      directory_wf d' \<and> directory_capacity d' = directory_capacity d \<and>
      set (directory_revoked d) \<subseteq> set (directory_revoked d') \<and>
      (answer = Inr () \<longrightarrow> k \<in> set (directory_revoked d')) \<and>
      (\<forall>k' x. held d' k' = Some x \<longrightarrow> held d k' = Some x)"
begin

abbreviation run :: "directory_op list \<Rightarrow> directory \<Rightarrow> directory" where
  "run ops d \<equiv> fold (directory_step ingest revoke) ops d"

lemma step_wf:
  assumes "directory_wf d"
  shows "directory_wf (directory_step ingest revoke op d)"
    and "set (directory_revoked d) \<subseteq> set (directory_revoked (directory_step ingest revoke op d))"
    and "directory_capacity (directory_step ingest revoke op d) = directory_capacity d"
proof (atomize (full), cases op)
  case (Ingest r now)
  obtain res d' where "ingest d r now = (res, d')" by fastforce
  with ingest_wf [OF assms this] ingest_frame [OF this] Ingest
  show "directory_wf (directory_step ingest revoke op d) \<and>
    set (directory_revoked d) \<subseteq> set (directory_revoked (directory_step ingest revoke op d)) \<and>
    directory_capacity (directory_step ingest revoke op d) = directory_capacity d" by simp
next
  case (Revoke k)
  obtain res d' where "revoke d k = (res, d')" by fastforce
  with revoke_effect [OF assms this] Revoke
  show "directory_wf (directory_step ingest revoke op d) \<and>
    set (directory_revoked d) \<subseteq> set (directory_revoked (directory_step ingest revoke op d)) \<and>
    directory_capacity (directory_step ingest revoke op d) = directory_capacity d" by simp
qed

lemma run_wf:
  "directory_wf d \<Longrightarrow> directory_wf (run ops d) \<and> set (directory_revoked d) \<subseteq> set (directory_revoked (run ops d)) \<and>
     directory_capacity (run ops d) = directory_capacity d"
proof (induction ops arbitrary: d)
  case (Cons op ops)
  from Cons.IH [OF step_wf(1) [OF Cons.prems, of op]] step_wf(2,3) [OF Cons.prems, of op]
  show ?case by auto
qed simp

lemma not_held: "directory_wf d \<Longrightarrow> k \<in> set (directory_revoked d) \<Longrightarrow> held d k = None"
  by (auto simp: directory_wf_def map_of_eq_None_iff)

text \<open>A revocation is final.\<close>

lemma revoked_forever:
  assumes "directory_wf d" and "revoke d k = (Inr (), d')" and "proper r"
  shows "held (run ops d') k = None \<and> fst (ingest (run ops d') r now) \<noteq> Inr k"
proof -
  from revoke_effect [OF assms(1,2)] have wf: "directory_wf d'" and k: "k \<in> set (directory_revoked d')" by auto
  with run_wf [OF wf, of ops] have "directory_wf (run ops d')" "k \<in> set (directory_revoked (run ops d'))" by auto
  moreover obtain res d'' where step: "ingest (run ops d') r now = (res, d'')" by fastforce
  ultimately show ?thesis
    using not_held ingest_new [OF assms(3)] by (metis fst_conv)
qed

text \<open>The revision of a record that stays held never decreases.\<close>

lemma step_revision:
  assumes wf: "directory_wf d" and op: "proper_op op"
    and before: "held d k = Some p" and after: "held (directory_step ingest revoke op d) k = Some q"
  shows "record_revision p \<le> record_revision q"
proof (cases op)
  case (Ingest r now)
  obtain res d' where step: "ingest d r now = (res, d')" by fastforce
  with after Ingest have q: "held d' k = Some q" by simp
  show ?thesis
  proof (cases "res = Inr k")
    case True
    with ingest_new [of r d now k d'] step op Ingest before q show ?thesis by simp
  next
    case False
    with ingest_other [OF wf step _ q] before show ?thesis by simp
  qed
next
  case (Revoke j)
  obtain res d' where step: "revoke d j = (res, d')" by fastforce
  with revoke_effect [OF wf this] after before Revoke show ?thesis by fastforce
qed

lemma run_revision:
  assumes "directory_wf d" and "list_all proper_op ops"
    and "\<forall>n \<le> length ops. held (run (take n ops) d) k \<noteq> None"
    and "held d k = Some p" and "held (run ops d) k = Some q"
  shows "record_revision p \<le> record_revision q"
  using assms
proof (induction ops arbitrary: d p)
  case (Cons op ops)
  let ?d = "directory_step ingest revoke op d"
  have stays: "\<forall>n \<le> length ops. held (run (take n ops) ?d) k \<noteq> None"
    using Cons.prems(3) by (auto dest: spec [of _ "Suc n" for n])
  then obtain p' where p': "held ?d k = Some p'" by (auto dest: spec [of _ 0])
  have "record_revision p \<le> record_revision p'"
    using step_revision [OF Cons.prems(1) _ Cons.prems(4) p'] Cons.prems(2) by simp
  also have "\<dots> \<le> record_revision q"
    using Cons.IH [OF step_wf(1) [OF Cons.prems(1)] _ stays p'] Cons.prems by simp
  finally show ?case .
qed simp

end

end
