(* ===== verification/DirectoryProperties.thy ===== *)
theory DirectoryProperties
  imports SignedDirectories
begin

text \<open>
  The two directories satisfy the contract, and the properties that follow for each of them.
\<close>

section \<open>The effect of storing a record\<close>

lemma held_prune: "directory_wf d \<Longrightarrow> map_of (prune_records now (directory_records d)) k = Some x \<Longrightarrow> held d k = Some x"
  unfolding directory_wf_def by (simp add: prune_records_def map_of_filter_distinct split: option.splits if_splits)

lemma prune_records_wf:
  assumes "directory_wf d"
  shows "directory_wf (d\<lparr>directory_records := prune_records now (directory_records d)\<rparr>)"
  using assms length_filter_le [of "\<lambda>(k, r). \<not> record_expiry r \<le> of_int now" "directory_records d"]
  by (auto simp: directory_wf_def prune_records_def distinct_map_filter_fst simp del: length_filter_le)

lemma store_wf:
  assumes "directory_wf d" and "k \<notin> set (directory_revoked d)"
    and "map_of rs k = None \<longrightarrow> length rs < directory_capacity d"
    and rs: "rs = prune_records now (directory_records d)"
  shows "directory_wf (d\<lparr>directory_records := AList.update k copy rs\<rparr>)"
proof -
  have "distinct (map fst rs)" "length rs \<le> directory_capacity d" "fst ` set rs \<inter> set (directory_revoked d) = {}"
    using prune_records_wf [OF assms(1), of now] by (simp_all add: directory_wf_def rs)
  moreover have "length (AList.update k copy rs) \<le> directory_capacity d"
  proof (cases "map_of rs k")
    case None
    with assms(3) length_update_le [of k copy rs] show ?thesis by simp
  next
    case (Some y)
    then have "k \<in> fst ` set rs" by (metis map_of_eq_None_iff option.distinct(1))
    with calculation(2) show ?thesis by (simp add: length_update_present)
  qed
  ultimately show ?thesis
    using assms(2) by (auto simp: directory_wf_def distinct_update fst_set_update)
qed

lemma delete_wf:
  assumes "directory_wf d"
  shows "directory_wf (d\<lparr>directory_revoked := List.insert k (directory_revoked d),
    directory_records := AList.delete k (directory_records d)\<rparr>)"
proof -
  let ?rs = "AList.delete k (directory_records d)"
  from assms have d: "distinct (map fst (directory_records d))" "length (directory_records d) \<le> directory_capacity d"
    "fst ` set (directory_records d) \<inter> set (directory_revoked d) = {}"
    unfolding directory_wf_def by blast+
  have "distinct (map fst ?rs)" using d(1) by (rule distinct_delete)
  moreover have "length ?rs \<le> directory_capacity d" using length_delete_le d(2) by (rule order_trans)
  moreover have "fst ` set ?rs \<inter> insert k (set (directory_revoked d)) = {}"
    using d(3) dom_delete_subset [of k "directory_records d"] delete_notin_dom [of k "directory_records d"] by blast
  ultimately show ?thesis
    unfolding directory_wf_def by simp
qed

section \<open>Peers\<close>

lemma verifyPeerRecord_Inr:
  assumes "verifyPeerRecord C P r now expectedId = Inr body"
  shows "canonical (jget r ''body'') = Inr body" and "assertRecord C P body now = Inr ()" and "jget r ''body'' \<noteq> JUndef"
    and "lifetime_ok body now 300000"
proof -
  from assms have env: "verifyEnvelope C P r (nullish_or expectedId (jget (jget r ''body'') ''portId''))
      (jget (jget r ''body'') ''publicKey'') = Inr body"
    and asserted: "assertRecord C P body now = Inr ()" and "truthy (jget r ''body'')"
    by (auto simp: verifyPeerRecord_def Let_def result_simps split: if_splits)
  then show "assertRecord C P body now = Inr ()" "jget r ''body'' \<noteq> JUndef" by auto
  show "canonical (jget r ''body'') = Inr body" using env by (rule verifyEnvelope_Inr)
  show "lifetime_ok body now 300000"
    using asserted by (auto simp: assertRecord_def result_simps split: if_splits)
qed

lemma verifyPortNames_Inr:
  assumes "verifyPortNames C P r now = Inr body"
  shows "canonical (jget r ''body'') = Inr body" and "verifyBody P body now = Inr ()" and "jget r ''body'' \<noteq> JUndef"
    and "lifetime_ok body now 3600000"
proof -
  from assms have env: "verifyEnvelope C P r (jget (jget r ''body'') ''ownerPort'')
      (jget (jget r ''body'') ''ownerPublicKey'') = Inr body"
    and verified: "verifyBody P body now = Inr ()" and "truthy (jget r ''body'')"
    by (auto simp: verifyPortNames_def Let_def result_simps split: if_splits)
  then show "verifyBody P body now = Inr ()" "jget r ''body'' \<noteq> JUndef" by auto
  show "canonical (jget r ''body'') = Inr body" using env by (rule verifyEnvelope_Inr)
  show "lifetime_ok body now 3600000"
    using verified by (auto simp: verifyBody_def result_simps split: if_splits)
qed

text \<open>The stored copy has the revision and the expiry of the verified body.\<close>

lemma copy_of_verified:
  assumes "proper r" and "canonical r = Inr copy" and "canonical (jget r ''body'') = Inr body"
    and "jget r ''body'' \<noteq> JUndef" and "lifetime_ok body now m"
  shows "record_revision copy = num_of (jget body ''revision'')" and "of_int now < record_expiry copy"
proof -
  have "jget copy ''body'' = body" using jget_canonical [OF assms(2,1), of "''body''"] assms(3,4) by auto
  then show "record_revision copy = num_of (jget body ''revision'')" "of_int now < record_expiry copy"
    using assms(5) by (simp_all add: record_revision_def record_expiry_def lifetime_ok_def)
qed

lemma no_conflict:
  assumes "revision_conflict P body r prior = Inr False"
  shows "record_revision prior \<le> num_of (jget body ''revision'')"
  using assms by (auto simp: revision_conflict_def Let_def split: if_splits)

lemma peer_ingest_cases:
  assumes "peer_ingest C P d r now = (res, d')"
  obtains (refused) e where "res = Inl e" "d' = d \<or> d' = d\<lparr>directory_records := prune_records now (directory_records d)\<rparr>"
  | (stored) k body copy where "res = Inr k" "verifyPeerRecord C P r now JUndef = Inr body"
      "k = text_of (jget body ''portId'')" "k \<notin> set (directory_revoked d)" "canonical r = Inr copy"
      "\<forall>prior. held d k = Some prior \<longrightarrow> record_revision prior \<le> num_of (jget body ''revision'')"
      "map_of (prune_records now (directory_records d)) k = None \<longrightarrow>
         length (prune_records now (directory_records d)) < directory_capacity d"
      "d' = d\<lparr>directory_records := AList.update k copy (prune_records now (directory_records d))\<rparr>"
proof (cases "and_then (verifyPeerRecord C P r now JUndef) (\<lambda>body.
        let pid = text_of (jget body ''portId'')
        in if pid \<in> set (directory_revoked d) then reject ''Peer revoked''
           else and_then (case map_of (directory_records d) pid of
                  None \<Rightarrow> Inr False | Some prior \<Rightarrow> revision_conflict P body r prior) (\<lambda>conflict.
             if conflict then reject ''Peer revision rollback/conflict'' else Inr pid))")
  case (Inl e)
  with assms show thesis by (intro refused [of e]) (simp_all add: peer_ingest_def)
next
  case (Inr k)
  then obtain body where body: "verifyPeerRecord C P r now JUndef = Inr body"
    "k = text_of (jget body ''portId'')" "k \<notin> set (directory_revoked d)"
    and conflict: "(case held d k of None \<Rightarrow> Inr False | Some prior \<Rightarrow> revision_conflict P body r prior) = Inr False"
    by (auto simp: result_simps Let_def split: if_splits)
  have older: "\<forall>prior. held d k = Some prior \<longrightarrow> record_revision prior \<le> num_of (jget body ''revision'')"
    using conflict no_conflict by auto
  let ?live = "prune_records now (directory_records d)"
  show thesis
  proof (cases "(map_of ?live k = None \<and> directory_capacity d \<le> length ?live) \<or> (\<exists>e. canonical r = Inl e)")
    case True
    with assms Inr have "d' = d\<lparr>directory_records := ?live\<rparr>" "\<exists>e. res = Inl e"
      by (auto simp: peer_ingest_def Let_def split: if_splits)
    then show thesis using refused by blast
  next
    case False
    then obtain copy where "canonical r = Inr copy" by (cases "canonical r") auto
    with False assms Inr body older show thesis
      by (intro stored [of k body copy]) (auto simp: peer_ingest_def Let_def split: if_splits)
  qed
qed

lemma names_ingest_cases:
  assumes "names_ingest C P d r now = (res, d')"
  obtains (refused) e where "res = Inl e" "d' = d \<or> d' = d\<lparr>directory_records := prune_records now (directory_records d)\<rparr>"
  | (stored) k body copy where "res = Inr k" "verifyPortNames C P r now = Inr body"
      "k = text_of (jget body ''ownerPort'')" "k \<notin> set (directory_revoked d)" "canonical r = Inr copy"
      "\<forall>prior. held d k = Some prior \<longrightarrow> record_revision prior \<le> num_of (jget body ''revision'')"
      "held d k = None \<longrightarrow> length (prune_records now (directory_records d)) < directory_capacity d"
      "d' = d\<lparr>directory_records := AList.update k copy (prune_records now (directory_records d))\<rparr>"
proof (cases "and_then (verifyPortNames C P r now) (\<lambda>body.
        let owner = text_of (jget body ''ownerPort'')
        in if owner \<in> set (directory_revoked d) then reject ''Port namespace revoked''
           else and_then (case map_of (directory_records d) owner of
                  None \<Rightarrow> Inr False | Some prior \<Rightarrow> revision_conflict P body r prior) (\<lambda>conflict.
             if conflict then reject ''Port namespace rollback/conflict'' else Inr owner))")
  case (Inl e)
  with assms show thesis by (intro refused [of e]) (simp_all add: names_ingest_def)
next
  case (Inr k)
  then obtain body where body: "verifyPortNames C P r now = Inr body"
    "k = text_of (jget body ''ownerPort'')" "k \<notin> set (directory_revoked d)"
    and conflict: "(case held d k of None \<Rightarrow> Inr False | Some prior \<Rightarrow> revision_conflict P body r prior) = Inr False"
    by (auto simp: result_simps Let_def split: if_splits)
  have older: "\<forall>prior. held d k = Some prior \<longrightarrow> record_revision prior \<le> num_of (jget body ''revision'')"
    using conflict no_conflict by auto
  let ?live = "prune_records now (directory_records d)"
  show thesis
  proof (cases "(held d k = None \<and> directory_capacity d \<le> length ?live) \<or> (\<exists>e. canonical r = Inl e)")
    case True
    with assms Inr have "d' = d\<lparr>directory_records := ?live\<rparr>" "\<exists>e. res = Inl e"
      by (auto simp: names_ingest_def Let_def split: if_splits)
    then show thesis using refused by blast
  next
    case False
    then obtain copy where "canonical r = Inr copy" by (cases "canonical r") auto
    with False assms Inr body older show thesis
      by (intro stored [of k body copy]) (auto simp: names_ingest_def Let_def split: if_splits)
  qed
qed

section \<open>The contract holds\<close>

lemma held_store:
  assumes "directory_wf d" and "map_of (AList.update k copy (prune_records now (directory_records d))) j = Some x"
    and "j \<noteq> k"
  shows "held d j = Some x"
  using assms held_prune [OF assms(1)] by (auto simp: update_Some_unfold)

interpretation peers: signed_directory "peer_ingest C P" peer_revoke for C P
proof unfold_locales
  fix d r now res d'
  assume step: "peer_ingest C P d r now = (res, d')"
  show "directory_revoked d' = directory_revoked d \<and> directory_capacity d' = directory_capacity d"
    using step by (cases rule: peer_ingest_cases) auto
  {
    assume wf: "directory_wf d"
    with step show "directory_wf d'"
      by (cases rule: peer_ingest_cases) (auto intro: prune_records_wf store_wf)
    fix k x
    assume "res \<noteq> Inr k" "held d' k = Some x"
    with step wf show "held d k = Some x"
      by (cases rule: peer_ingest_cases) (auto dest: held_store held_prune)
  }
next
  fix r d now k d'
  assume r: "proper r" and step: "peer_ingest C P d r now = (Inr k, d')"
  from step show "k \<notin> set (directory_revoked d) \<and> canonical r = Inr (the (held d' k)) \<and> held d' k \<noteq> None \<and>
      of_int now < record_expiry (the (held d' k)) \<and>
      (\<forall>prior. held d k = Some prior \<longrightarrow> record_revision prior \<le> record_revision (the (held d' k)))"
  proof (cases rule: peer_ingest_cases)
    case (stored k' body copy)
    with copy_of_verified [OF r stored(5)] verifyPeerRecord_Inr [OF stored(2)] show ?thesis
      by (auto simp: map_of_update)
  qed simp
next
  fix d k res d'
  assume wf: "directory_wf d" and step: "peer_revoke d k = (res, d')"
  show "directory_wf d' \<and> directory_capacity d' = directory_capacity d \<and>
      set (directory_revoked d) \<subseteq> set (directory_revoked d') \<and>
      (res = Inr () \<longrightarrow> k \<in> set (directory_revoked d')) \<and>
      (\<forall>k' x. held d' k' = Some x \<longrightarrow> held d k' = Some x)"
    using step wf delete_wf [OF wf, of k]
    by (auto simp: peer_revoke_def delete_conv' split: if_splits)
qed

interpretation names: signed_directory "names_ingest C P" "\<lambda>d k. names_revoke d (JStr k)" for C P
proof unfold_locales
  fix d r now res d'
  assume step: "names_ingest C P d r now = (res, d')"
  show "directory_revoked d' = directory_revoked d \<and> directory_capacity d' = directory_capacity d"
    using step by (cases rule: names_ingest_cases) auto
  {
    assume wf: "directory_wf d"
    from step show "directory_wf d'"
    proof (cases rule: names_ingest_cases)
      case (refused e)
      then show ?thesis using wf prune_records_wf by auto
    next
      case (stored k body copy)
      let ?live = "prune_records now (directory_records d)"
      have "length ?live < directory_capacity d" if gone: "map_of ?live k = None"
      proof (cases "held d k")
        case (Some x)
        with gone wf have "record_expiry x \<le> of_int now"
          by (simp add: prune_records_def map_of_filter_distinct directory_wf_def split: if_splits)
        with Some have "length ?live < length (directory_records d)"
          unfolding prune_records_def by (intro length_filter_less [of "(k, x)"]) (auto dest: map_of_SomeD)
        with wf show ?thesis by (simp add: directory_wf_def)
      qed (use stored in simp)
      then show ?thesis using stored wf by (auto intro: store_wf)
    qed
    fix k x
    assume "res \<noteq> Inr k" "held d' k = Some x"
    with step wf show "held d k = Some x"
      by (cases rule: names_ingest_cases) (auto dest: held_store held_prune)
  }
next
  fix r d now k d'
  assume r: "proper r" and step: "names_ingest C P d r now = (Inr k, d')"
  from step show "k \<notin> set (directory_revoked d) \<and> canonical r = Inr (the (held d' k)) \<and> held d' k \<noteq> None \<and>
      of_int now < record_expiry (the (held d' k)) \<and>
      (\<forall>prior. held d k = Some prior \<longrightarrow> record_revision prior \<le> record_revision (the (held d' k)))"
  proof (cases rule: names_ingest_cases)
    case (stored k' body copy)
    with copy_of_verified [OF r stored(5)] verifyPortNames_Inr [OF stored(2)] show ?thesis
      by (auto simp: map_of_update)
  qed simp
next
  fix d k res d'
  assume wf: "directory_wf d" and step: "names_revoke d (JStr k) = (res, d')"
  show "directory_wf d' \<and> directory_capacity d' = directory_capacity d \<and>
      set (directory_revoked d) \<subseteq> set (directory_revoked d') \<and>
      (res = Inr () \<longrightarrow> k \<in> set (directory_revoked d')) \<and>
      (\<forall>k' x. held d' k' = Some x \<longrightarrow> held d k' = Some x)"
    using step wf delete_wf [OF wf, of k]
    by (auto simp: names_revoke_def delete_conv' split: if_splits)
qed

end
