(* ===== verification/NameResolution.thy ===== *)
theory NameResolution
  imports DirectoryProperties
begin

text \<open>
  The properties of the directories, and the way of a name from its signature to its resolution.
\<close>

section \<open>The canonical copy of a name record passes the same checks\<close>

lemma nameParts_canonical: "nameParts x = Inr parts \<Longrightarrow> \<exists>s. x = JStr s"
  by (cases x) auto

lemma validPortId_canonical: "validPortId x = Inr p \<Longrightarrow> \<exists>s. x = JStr s"
  by (cases x) auto

lemma check_entries_canonical:
  assumes "list_all2 (\<lambda>x y. canonical x = Inr y) xs ys" and "\<forall>x \<in> set xs. proper x"
    and "check_entries seen xs = Inr ()"
  shows "check_entries seen ys = Inr ()"
  using assms
proof (induction xs ys arbitrary: seen rule: list_all2_induct)
  case (Cons x xs y ys)
  from Cons.prems(2) obtain parts p where x: "exactFields x [''name'', ''targetPort''] = Inr ()"
    "nameParts (jget x ''name'') = Inr parts" "validPortId (jget x ''targetPort'') = Inr p"
    "text_of (jget x ''name'') \<notin> set seen" "check_entries (text_of (jget x ''name'') # seen) xs = Inr ()"
    by (auto simp: result_simps split: if_splits)
  moreover have "jget y ''name'' = jget x ''name''" "jget y ''targetPort'' = jget x ''targetPort''"
    using jget_canonical_scalar(1) [OF Cons.hyps(1)] nameParts_canonical [OF x(2)]
      validPortId_canonical [OF x(3)] Cons.prems(1) by auto
  ultimately show ?case
    using Cons.IH Cons.prems(1) exactFields_canonical [OF Cons.hyps(1)] by (simp add: result_simps)
qed simp

lemma check_entries_names:
  assumes "check_entries seen xs = Inr ()"
  shows "(\<forall>x \<in> set xs. \<exists>s t. jget x ''name'' = JStr s \<and> s \<notin> set seen \<and> jget x ''targetPort'' = JStr t \<and> fullPortId t) \<and>
    distinct (map (\<lambda>x. jget x ''name'') xs)"
  using assms
proof (induction xs arbitrary: seen)
  case (Cons x xs)
  then obtain parts p where x: "nameParts (jget x ''name'') = Inr parts"
    "validPortId (jget x ''targetPort'') = Inr p" "text_of (jget x ''name'') \<notin> set seen"
    "check_entries (text_of (jget x ''name'') # seen) xs = Inr ()"
    by (auto simp: result_simps split: if_splits)
  then obtain s t where "jget x ''name'' = JStr s" "jget x ''targetPort'' = JStr t" "fullPortId t"
    by (cases "jget x ''name''"; cases "jget x ''targetPort''") (auto split: if_splits)
  with x Cons.IH [OF x(4)] show ?case by fastforce
qed simp

lemma verifyBody_canonical:
  assumes ok: "verifyBody P body now = Inr ()" and copy: "canonical body = Inr copy" and proper: "proper body"
    and live: "lifetime_ok body t 3600000"
  shows "verifyBody P copy t = Inr ()"
proof -
  from ok obtain pid bytes es where body: "exactFields body
       [''schema'', ''ownerPort'', ''ownerPublicKey'', ''revision'', ''issuedAt'', ''expiresAt'', ''entries''] = Inr ()"
    "jget body ''schema'' = JStr ''kindred.sdpn.port-names.v1''" "portId P (jget body ''ownerPublicKey'') = Inr pid"
    "jget body ''ownerPort'' = JStr pid" "jget body ''entries'' = JArr es" "es \<noteq> []" "length es \<le> 128"
    "check_entries [] es = Inr ()" "canonicalBytes P body = Inr bytes" "length bytes \<le> 32768"
    by (cases "jget body ''entries''") (auto simp: verifyBody_def result_simps split: if_splits)
  note scalar = jget_canonical_scalar [OF copy proper]
  from body(3) obtain pk where pk: "jget body ''ownerPublicKey'' = JStr pk"
    by (cases "jget body ''ownerPublicKey''") auto
  from scalar(3) [OF body(5)] obtain ys where ys: "jget copy ''entries'' = JArr ys"
    "list_all2 (\<lambda>x y. canonical x = Inr y) es ys" by blast
  have "\<forall>x \<in> set es. proper x"
    using proper_jget [OF proper, of "''entries''"] by (simp add: body(5) proper_items_iff)
  then have "check_entries [] ys = Inr ()" using check_entries_canonical ys(2) body(8) by blast
  moreover have "length ys = length es" using ys(2) by (simp add: list_all2_lengthD)
  moreover have "canonicalBytes P copy = Inr bytes"
    using body(9) canonical_idem [OF copy] copy by (simp add: canonicalBytes_def)
  ultimately show ?thesis
    using body lifetime_ok_canonical [OF copy proper live] exactFields_canonical [OF copy] scalar(1) pk ys(1)
    by (auto simp: verifyBody_def)
qed

lemma find_unique:
  assumes "x \<in> set xs" and "Q x" and "\<And>y. y \<in> set xs \<Longrightarrow> Q y \<Longrightarrow> f y = f x"
  shows "\<exists>y. find Q xs = Some y \<and> y \<in> set xs \<and> Q y \<and> f y = f x"
proof (cases "find Q xs")
  case None
  with assms(1,2) show ?thesis by (simp add: find_None_iff)
next
  case (Some y)
  then have "y \<in> set xs" "Q y" by (auto simp: find_Some_iff)
  with Some assms(3) show ?thesis by simp
qed

lemma filter_distinct_map:
  "distinct (map f xs) \<Longrightarrow> e \<in> set xs \<Longrightarrow> f e = c \<Longrightarrow> filter (\<lambda>x. f x = c) xs = [e]"
  by (induction xs) (auto simp: filter_empty_conv image_iff)

section \<open>From the signature to the resolution\<close>

text \<open>
  C16: A name that its owner signed can be used: every directory with room takes the record, and from then
  until the record expires the address made for the name resolves to the signed target, while no
  connection is made and no authority granted.
\<close>

theorem signed_name_resolves:
  assumes C: "ed25519 C" and identity: "identity = createPortIdentity C P key"
    and signed: "signPortNames C P identity (JArr es) revision issued ttl = Inr rcd"
    and proper: "proper (JArr es)" "proper revision"
    and entry: "entry \<in> set es" "jget entry ''name'' = JStr n" "jget entry ''targetPort'' = JStr target"
    and uri: "makePortUri (JStr (identity_id identity)) (JStr n) (JStr path) = Inr uri"
    and room: "directory_wf d" "identity_id identity \<notin> set (directory_revoked d)"
      "held d (identity_id identity) = None" "length (directory_records d) < directory_capacity d"
    and times: "issued \<le> t1" "t1 < issued + ttl" "issued \<le> t2" "t2 < issued + ttl"
  shows "\<exists>d' r. names_ingest C P d rcd t1 = (Inr (identity_id identity), d') \<and>
    names_resolve C P d' (JStr uri) t2 = Inr r \<and>
    targetPort r = JStr target \<and> resolution_name r = n \<and> resolution_owner r = identity_id identity \<and>
    \<not> networkConnected r \<and> \<not> authorizationGranted r"
proof -
  define body where "body = names_body identity (JArr es) revision issued ttl"
  define pid where "pid = identity_id identity"
  have proper_body: "proper body" using proper by (simp add: body_def names_body_def)
  from signed have verified: "verifyBody P body issued = Inr ()"
    and signed: "sign_body C P (createPortIdentity C P key) body = Inr rcd"
    by (auto simp: signPortNames_def Let_def result_simps body_def identity split: if_splits)
  from sign_body_verified [OF C signed] obtain copy where copy: "canonical body = Inr copy" "jget rcd ''body'' = copy"
    "canonical rcd = Inr rcd"
    and envelope: "verifyEnvelope C P rcd (JStr pid) (JStr (identity_publicKey identity)) = Inr copy"
    by (auto simp: pid_def identity)
  note scalar = jget_canonical_scalar [OF copy(1) proper_body]
  have fields: "jget copy ''ownerPort'' = JStr pid" "jget copy ''ownerPublicKey'' = JStr (identity_publicKey identity)"
    by (rule scalar(1), simp add: body_def names_body_def pid_def)+
  obtain es' where es': "jget copy ''entries'' = JArr es'" "list_all2 (\<lambda>x y. canonical x = Inr y) es es'"
    using scalar(3) [of "''entries''" es] by (auto simp: body_def names_body_def)
  have "lifetime_ok body issued 3600000"
    using verified by (auto simp: verifyBody_def result_simps split: if_splits)
  then have live: "lifetime_ok body t 3600000" if "issued \<le> t" "t < issued + ttl" for t
    using that by (simp add: lifetime_ok_def body_def names_body_def flip: of_int_add)
  have names: "verifyPortNames C P rcd t = Inr copy" if "issued \<le> t" "t < issued + ttl" for t
  proof -
    have "truthy copy" using fields(1) by (cases copy) auto
    moreover have "truthy rcd" using copy(2) fields(1) by (cases rcd) auto
    ultimately show ?thesis
      using envelope verifyBody_canonical [OF verified copy(1) proper_body live [OF that]]
      by (simp add: verifyPortNames_def copy(2) fields)
  qed
  define d' where "d' = d\<lparr>directory_records := AList.update pid rcd (prune_records t1 (directory_records d))\<rparr>"
  have "length (prune_records t1 (directory_records d)) < directory_capacity d"
    using room(4) by (simp add: prune_records_def order_le_less_trans [OF length_filter_le])
  then have ingest: "names_ingest C P d rcd t1 = (Inr pid, d')"
    using names [OF times(1,2)] room copy(3)
    by (simp add: names_ingest_def fields d'_def Let_def pid_def [symmetric])
  from port_uri_roundtrip [OF uri] obtain ns where parsed: "parsePortUri (JStr uri) = Inr
     \<lparr>address_uri = uri, address_name = n, address_owner = pid,
      address_path = (if path = [] then ''/'' else path), address_namespace = ns\<rparr>"
    by (auto simp: pid_def)
  have checked: "check_entries [] es' = Inr ()"
    using verifyBody_canonical [OF verified copy(1) proper_body live [OF times(1,2)]] es'(1)
    by (auto simp: verifyBody_def result_simps split: if_splits)
  obtain e where e: "e \<in> set es'" "canonical entry = Inr e"
    using es'(2) entry(1) by (auto simp: list_all2_conv_all_nth in_set_conv_nth) metis
  have "jget e ''name'' = JStr n" "jget e ''targetPort'' = JStr target"
    using jget_canonical_scalar(1) [OF e(2)] entry proper by (auto simp: proper_items_iff)
  moreover have "inj_on (\<lambda>x. jget x ''name'') (set es')"
    using check_entries_names [OF checked] by (simp add: distinct_map)
  ultimately obtain y where y: "find (\<lambda>item. jget item ''name'' = JStr n) es' = Some y" "jget y ''targetPort'' = JStr target"
    using find_unique [OF e(1), of "\<lambda>item. jget item ''name'' = JStr n" "\<lambda>item. jget item ''targetPort''"]
      inj_onD [OF _ _ _ e(1)] by metis
  have "names_resolve C P d' (JStr uri) t2 = resolvePortName C P (JStr uri) rcd t2"
    using room(2) by (simp add: names_resolve_def parsed d'_def map_of_update pid_def del: parsePortUri.simps)
  then show ?thesis
    using ingest names [OF times(3,4)] y
    by (auto simp: resolvePortName_def parsed fields es'(1) pid_def simp del: parsePortUri.simps)
qed

text \<open>
  C17: What a directory resolves is authentic: the record it holds for the owner of the address, who is not
  revoked, carries a signature of the owner's key over its canonical body, is alive, and has the
  address's name exactly once, with the target returned; the answer claims no connection, authorization
  or registration.
\<close>

theorem resolution_authentic:
  assumes "names_resolve C P d uri now = Inr r" and proper: "\<forall>(k, x) \<in> set (directory_records d). proper x"
  shows "\<exists>rcd body key bytes s. resolution_owner r \<notin> set (directory_revoked d) \<and>
    held d (resolution_owner r) = Some rcd \<and> canonical (jget rcd ''body'') = Inr body \<and>
    canonicalBytes P (jget rcd ''body'') = Inr bytes \<and> jget rcd ''signature'' = JStr s \<and>
    verify_bytes C bytes key (base64_bytes s) \<and>
    resolution_owner r = ''strata:port:ed25519:'' @ native_digest P key \<and>
    num_of (jget body ''issuedAt'') \<le> of_int now \<and> of_int now < num_of (jget body ''expiresAt'') \<and>
    (\<exists>e. filter (\<lambda>item. jget item ''name'' = JStr (resolution_name r)) (items (jget body ''entries'')) = [e] \<and>
      jget e ''targetPort'' = targetPort r) \<and>
    \<not> networkConnected r \<and> \<not> authorizationGranted r \<and> \<not> dnsRegistration r"
proof -
  from assms obtain a rcd where a: "parsePortUri uri = Inr a" "address_owner a \<notin> set (directory_revoked d)"
    "held d (address_owner a) = Some rcd" and resolved: "resolvePortName C P uri rcd now = Inr r"
    by (auto simp: names_resolve_def result_simps split: if_splits option.splits simp del: parsePortUri.simps)
  then obtain body entry where body: "verifyPortNames C P rcd now = Inr body"
    "jget body ''ownerPort'' = JStr (address_owner a)"
    and found: "find (\<lambda>item. jget item ''name'' = JStr (address_name a)) (items (jget body ''entries'')) = Some entry"
    and r: "targetPort r = jget entry ''targetPort''" "resolution_name r = address_name a"
      "resolution_owner r = address_owner a" "\<not> networkConnected r" "\<not> authorizationGranted r" "\<not> dnsRegistration r"
    by (auto simp: resolvePortName_def result_simps split: if_splits option.splits simp del: parsePortUri.simps)
  note parts = verifyPortNames_Inr [OF body(1)]
  from body(1) have "verifyEnvelope C P rcd (jget (jget rcd ''body'') ''ownerPort'')
      (jget (jget rcd ''body'') ''ownerPublicKey'') = Inr body"
    by (auto simp: verifyPortNames_def Let_def result_simps split: if_splits)
  then obtain s pid bytes key where signature: "jget rcd ''signature'' = JStr s"
    "portId P (jget (jget rcd ''body'') ''ownerPublicKey'') = Inr pid"
    "canonicalBytes P (jget rcd ''body'') = Inr bytes"
    "decodePublicKey C (jget (jget rcd ''body'') ''ownerPublicKey'') ''ed25519'' = Inr key"
    "verify_bytes C bytes key (base64_bytes s)" and owner: "jget (jget rcd ''body'') ''ownerPort'' = JStr pid"
    by (rule verifyEnvelope_Inr)
  from signature(2,4) have key: "pid = ''strata:port:ed25519:'' @ native_digest P key"
    by (cases "jget (jget rcd ''body'') ''ownerPublicKey''")
      (auto simp: decodePublicKey_def split: if_splits option.splits)
  have "(address_owner a, rcd) \<in> set (directory_records d)" using a(3) by (rule map_of_SomeD)
  then have "proper (jget rcd ''body'')" using proper proper_jget by fastforce
  from jget_canonical_scalar(1) [OF parts(1) this owner] have "pid = address_owner a" using body(2) by simp
  with key r have owner_key: "resolution_owner r = ''strata:port:ed25519:'' @ native_digest P key" by simp
  have "check_entries [] (items (jget body ''entries'')) = Inr ()"
    using parts(2) by (auto simp: verifyBody_def result_simps split: if_splits)
  then have distinct: "distinct (map (\<lambda>x. jget x ''name'') (items (jget body ''entries'')))"
    using check_entries_names by blast
  have entry: "entry \<in> set (items (jget body ''entries''))" "jget entry ''name'' = JStr (address_name a)"
    using found by (auto simp: find_Some_iff)
  have once: "filter (\<lambda>item. jget item ''name'' = JStr (resolution_name r)) (items (jget body ''entries'')) = [entry]"
    unfolding r(2) by (rule filter_distinct_map [OF distinct entry])
  have times: "num_of (jget body ''issuedAt'') \<le> of_int now" "of_int now < num_of (jget body ''expiresAt'')"
    using parts(4) by (simp_all add: lifetime_ok_def)
  show ?thesis
    using a(2,3) parts(1) signature(1,3,5) owner_key times once r
    by (intro exI [of _ rcd] exI [of _ body] exI [of _ key] exI [of _ bytes] exI [of _ s]) simp
qed

section \<open>Runs of operations\<close>

lemma new_directory_wf: "new_directory capacity = Inr d \<Longrightarrow>
    directory_wf d \<and> 1 \<le> directory_capacity d \<and> directory_capacity d \<le> 4096 \<and>
    directory_records d = [] \<and> directory_revoked d = []"
proof -
  assume new: "new_directory capacity = Inr d"
  define c where "c = (if capacity = JUndef then JInt 256 else capacity)"
  from new have c: "is_integer c" "1 \<le> num_of c" "num_of c \<le> 4096"
    and d: "d = \<lparr>directory_records = [], directory_revoked = [], directory_capacity = nat \<lfloor>num_of c\<rfloor>\<rparr>"
    unfolding new_directory_def Let_def c_def [symmetric] by (simp_all split: if_splits)
  from c have "1 \<le> nat \<lfloor>num_of c\<rfloor>" "nat \<lfloor>num_of c\<rfloor> \<le> 4096" by linarith+
  then show ?thesis unfolding d directory_wf_def by simp
qed

text \<open>
  The revocation of a peer is final: after it no run of the directory's operations ever holds a record
  of the peer again, accepts one, or answers a request for one.
\<close>

theorem peer_revocation_final:
  fixes capacity peer C P
  defines "run \<equiv> fold (directory_step (peer_ingest C P) peer_revoke)"
  assumes "new_directory capacity = Inr d0" and "peer_revoke (run before d0) peer = (Inr (), d)" and "proper r"
  shows "held (run after d) peer = None \<and>
    fst (peer_ingest C P (run after d) r now) \<noteq> Inr peer \<and>
    peer_get C P (run after d) peer now = reject ''Peer revoked''"
proof -
  have wf: "directory_wf (run before d0)"
    using new_directory_wf [OF assms(2)] peers.run_wf unfolding run_def by blast
  from peers.revoke_effect [OF wf assms(3)] have "directory_wf d" "peer \<in> set (directory_revoked d)" by auto
  with peers.run_wf have "peer \<in> set (directory_revoked (run after d))" unfolding run_def by blast
  then show ?thesis
    using peers.revoked_forever [OF wf assms(3,4)] unfolding run_def by (simp add: peer_get_def)
qed

text \<open>
  Runs of a directory of names keep it bounded by its capacity, at most 4096, and never replace a record
  that stays held by one of an older revision.
\<close>

theorem name_records_monotone:
  fixes capacity C P
  defines "run \<equiv> fold (directory_step (names_ingest C P) (\<lambda>d k. names_revoke d (JStr k)))"
  assumes "new_directory capacity = Inr d0" and d: "d = run before d0" and "list_all proper_op ops"
    and "\<forall>n \<le> length ops. held (run (take n ops) d) k \<noteq> None"
    and "held d k = Some p" and "held (run ops d) k = Some q"
  shows "record_revision p \<le> record_revision q \<and> length (directory_records (run ops d)) \<le> 4096"
proof -
  have wf0: "directory_wf d" and cap: "directory_capacity d \<le> 4096"
    using new_directory_wf [OF assms(2)] names.run_wf unfolding run_def d by fastforce+
  then have "length (directory_records (run ops d)) \<le> 4096"
    using names.run_wf [OF wf0, of C P ops] by (simp add: run_def directory_wf_def)
  then show ?thesis
    using names.run_revision [OF wf0] assms(4-) unfolding run_def by blast
qed

end
