(* ===== verification/NativeSession.thy ===== *)
theory NativeSession
  imports NativeIdentity ReplayGuard
begin

text \<open>
  \<open>src/native-session.mjs\<close>: the owner policy, the signed offer and acceptance of a session, and the
  frames of a connected one. X25519, HKDF and AES-GCM of \<open>node:crypto\<close> are the fields of \<open>channel\<close>; a
  freshly generated key and session id are arguments. The policy is an argument of each operation that
  consults it, as both ends of the code hold a reference to it.
\<close>

section \<open>Descriptors\<close>

definition hex_shape :: "nat \<Rightarrow> string \<Rightarrow> bool" where
  "hex_shape n = prefixed [] is_hexch n n"

definition frameCap :: int where
  "frameCap = 4 * 1024 * 1024"

definition scope_check :: "platform \<Rightarrow> jsv \<Rightarrow> unit result" where
  "scope_check P v =
     and_then (exactFields v [''stateSha256'', ''maxBytes'']) (\<lambda>_.
       if \<not> test P (hex_shape 64) (jget v ''stateSha256'') \<or> \<not> is_safe_integer (jget v ''maxBytes'') \<or>
          num_of (jget v ''maxBytes'') < 1 \<or> of_int frameCap < num_of (jget v ''maxBytes'')
       then reject ''Session state scope rejected'' else Inr ())"

text \<open>\<open>/^[a-z][a-z0-9./-]{0,63}$/\<close> and \<open>/^[A-Z][A-Z0-9_]{0,63}$/\<close>\<close>

definition adapter_name :: "string \<Rightarrow> bool" where
  "adapter_name s \<longleftrightarrow>
     1 \<le> length s \<and> length s \<le> 64 \<and> list_all is_lower (take 1 s) \<and>
     list_all (\<lambda>c. is_dotted c \<or> c = CHR ''/'') (drop 1 s)"

definition is_upper :: "char \<Rightarrow> bool" where
  "is_upper c \<longleftrightarrow> between 65 90 c"

definition substrate_name :: "string \<Rightarrow> bool" where
  "substrate_name s \<longleftrightarrow>
     1 \<le> length s \<and> length s \<le> 64 \<and> list_all is_upper (take 1 s) \<and>
     list_all (\<lambda>c. is_upper c \<or> is_digit c \<or> c = CHR ''_'') (drop 1 s)"

definition validateAdapterDescriptor :: "platform \<Rightarrow> jsv \<Rightarrow> unit result" where
  "validateAdapterDescriptor P adapter =
     and_then (exactFields adapter [''id'', ''substrate'', ''underlyingIp'', ''underlyingRouting'']) (\<lambda>_.
       if \<not> test P adapter_name (jget adapter ''id'') \<or> \<not> test P substrate_name (jget adapter ''substrate'') \<or>
          \<not> is_boolean (jget adapter ''underlyingIp'') \<or> \<not> is_boolean (jget adapter ''underlyingRouting'')
       then reject ''Adapter dependency disclosure rejected'' else Inr ())"

section \<open>The owner policy\<close>

record session_policy =
  policy_peers :: "string list"
  policy_adapters :: "string list"
  policy_states :: "string list"
  policy_revoked :: "string list"
  policy_used :: "(jsv \<times> int) list"
  policy_capacity :: int

definition strings_matching :: "(string \<Rightarrow> bool) \<Rightarrow> jsv \<Rightarrow> bool" where
  "strings_matching shape v \<longleftrightarrow>
     is_array v \<and> length (items v) \<le> 4096 \<and> list_all (string_matching shape) (items v)"

definition session_port :: "string \<Rightarrow> bool" where
  "session_port = prefixed ''strata:port:ed25519:'' is_hexch 64 64"

definition adapter_digest :: "platform \<Rightarrow> jsv \<Rightarrow> string result" where
  "adapter_digest P adapter = and_then (canonicalBytes P adapter) (\<lambda>bytes. Inr (native_digest P bytes))"

definition new_policy :: "platform \<Rightarrow> jsv \<Rightarrow> jsv \<Rightarrow> jsv \<Rightarrow> jsv \<Rightarrow> session_policy result" where
  "new_policy P authorizedPeers permittedStates permittedAdapters replayCapacity =
     (let capacity = (if replayCapacity = JUndef then JInt 256 else replayCapacity)
      in if \<not> strings_matching session_port authorizedPeers \<or>
            \<not> strings_matching (hex_shape 64) permittedStates \<or>
            \<not> is_array permittedAdapters \<or> items permittedAdapters = [] \<or> 16 < length (items permittedAdapters) \<or>
            \<not> is_integer capacity \<or> num_of capacity < 1 \<or> 4096 < num_of capacity
         then reject ''Explicit owner policy required''
         else and_then (map_results (validateAdapterDescriptor P) (items permittedAdapters)) (\<lambda>_.
           and_then (map_results (adapter_digest P) (items permittedAdapters)) (\<lambda>digests.
           Inr \<lparr>policy_peers = map text_of (items authorizedPeers), policy_adapters = digests,
                policy_states = map text_of (items permittedStates), policy_revoked = [], policy_used = [],
                policy_capacity = \<lfloor>num_of capacity\<rfloor>\<rparr>)))"

definition authorize :: "platform \<Rightarrow> session_policy \<Rightarrow> string \<Rightarrow> jsv \<Rightarrow> jsv \<Rightarrow> unit result" where
  "authorize P policy peer state adapter =
     and_then (scope_check P state) (\<lambda>_.
     and_then (validateAdapterDescriptor P adapter) (\<lambda>_.
       if peer \<notin> set (policy_peers policy) \<or> peer \<in> set (policy_revoked policy) \<or>
          \<not> str_in (jget state ''stateSha256'') (policy_states policy)
       then reject ''Deterministic owner policy denied''
       else and_then (adapter_digest P adapter) (\<lambda>digest.
         if digest \<notin> set (policy_adapters policy) then reject ''Deterministic owner policy denied''
         else Inr ())))"

definition policy_revoke :: "session_policy \<Rightarrow> string \<Rightarrow> unit result \<times> session_policy" where
  "policy_revoke policy peer =
     (if peer \<notin> set (policy_peers policy) then (reject ''Unknown policy peer'', policy)
      else (Inr (), policy\<lparr>policy_revoked := List.insert peer (policy_revoked policy)\<rparr>))"

definition policy_consume :: "session_policy \<Rightarrow> jsv \<Rightarrow> int \<Rightarrow> int \<Rightarrow> unit result \<times> session_policy" where
  "policy_consume policy sid expiresAt now =
     (let used = filter (\<lambda>(k, expiry). \<not> expiry \<le> now) (policy_used policy)
      in if mget sid used \<noteq> None \<or> policy_capacity policy \<le> int (length used)
         then (reject ''Session replay/capacity rejected'', policy\<lparr>policy_used := used\<rparr>)
         else (Inr (), policy\<lparr>policy_used := mput sid expiresAt used\<rparr>))"

section \<open>Session controls\<close>

definition session_suite :: string where
  "session_suite = ''ED25519_X25519_HKDF_SHA256_AES256GCM_V1''"

definition control_fields :: "string list" where
  "control_fields = [''schema'', ''suite'', ''sessionId'', ''fromPort'', ''toPort'', ''issuedAt'', ''expiresAt'',
     ''ephemeralKey'', ''scope'', ''adapter'']"

definition control :: "crypto \<Rightarrow> platform \<Rightarrow> jsv \<Rightarrow> int \<Rightarrow> string \<Rightarrow> unit result" where
  "control C P body now role =
     and_then (exactFields body (if role = ''accept'' then control_fields @ [''offerSha256''] else control_fields)) (\<lambda>_.
       if jget body ''schema'' \<noteq> JStr (''kindred.sdpn.session-'' @ role @ ''.v1'') \<or>
          jget body ''suite'' \<noteq> JStr session_suite \<or> \<not> test P (hex_shape 32) (jget body ''sessionId'') \<or>
          \<not> is_safe_integer (jget body ''issuedAt'') \<or> \<not> is_safe_integer (jget body ''expiresAt'') \<or>
          of_int now < num_of (jget body ''issuedAt'') \<or> num_of (jget body ''expiresAt'') \<le> of_int now \<or>
          30000 < num_of (jget body ''expiresAt'') - num_of (jget body ''issuedAt'') \<or>
          num_of (jget body ''expiresAt'') \<le> num_of (jget body ''issuedAt'')
       then reject ''Native session control rejected''
       else and_then (scope_check P (jget body ''scope'')) (\<lambda>_.
         and_then (validateAdapterDescriptor P (jget body ''adapter'')) (\<lambda>_.
         and_then (decodePublicKey C (jget body ''ephemeralKey'') ''x25519'') (\<lambda>_. Inr ()))))"

section \<open>Connected sessions\<close>

record channel =
  x25519_public :: "string \<Rightarrow> string"
  x25519_shared :: "string \<Rightarrow> string \<Rightarrow> string"
  hkdf :: "string \<Rightarrow> string \<Rightarrow> string \<Rightarrow> string"
  gcm_seal :: "string \<Rightarrow> string \<Rightarrow> string \<Rightarrow> string \<Rightarrow> string \<times> string"
  gcm_open :: "string \<Rightarrow> string \<Rightarrow> string \<Rightarrow> string \<Rightarrow> string \<Rightarrow> string option"

text \<open>What the documentation of these primitives promises.\<close>

definition agreement :: "channel \<Rightarrow> bool" where
  "agreement X \<longleftrightarrow> (\<forall>a b. x25519_shared X a (x25519_public X b) = x25519_shared X b (x25519_public X a))"

definition sealing :: "channel \<Rightarrow> bool" where
  "sealing X \<longleftrightarrow> (\<forall>k n a m. (let (c, t) = gcm_seal X k n a m
     in gcm_open X k n a c t = Some m \<and> length c = length m \<and> length t = 16))"

record session =
  sessionId :: jsv
  localPort :: string
  peerPort :: string
  offerBody :: jsv
  sessionExpiry :: rat
  sendKey :: string
  receiveKey :: string
  tx :: nat
  rx :: nat
  closed :: bool

definition connected ::
    "crypto \<Rightarrow> channel \<Rightarrow> platform \<Rightarrow> string \<Rightarrow> jsv \<Rightarrow> jsv \<Rightarrow> jsv \<Rightarrow> string \<Rightarrow> string \<Rightarrow> session result" where
  "connected C X P privateKey peerKey input_offer input_accept own peer =
     and_then (canonical input_offer) (\<lambda>offer.
     and_then (canonical input_accept) (\<lambda>accept.
     and_then (decodePublicKey C peerKey ''x25519'') (\<lambda>key.
     and_then (canonicalBytes P offer) (\<lambda>offer_bytes.
     and_then (canonicalBytes P accept) (\<lambda>accept_bytes.
       let shared = x25519_shared X privateKey key;
           binding = sha256 P (offer_bytes @ accept_bytes);
           derive = (\<lambda>src dst. hkdf X shared binding (session_suite @ ''|'' @ src @ ''|'' @ dst))
       in Inr \<lparr>sessionId = jget (jget offer ''body'') ''sessionId'', localPort = own, peerPort = peer,
               offerBody = jget offer ''body'',
               sessionExpiry = min (num_of (jget (jget offer ''body'') ''expiresAt''))
                                   (num_of (jget (jget accept ''body'') ''expiresAt'')),
               sendKey = derive own peer, receiveKey = derive peer own,
               tx = 0, rx = 0, closed = False\<rparr>)))))"

definition active :: "platform \<Rightarrow> session_policy \<Rightarrow> session \<Rightarrow> int \<Rightarrow> unit result" where
  "active P policy s now =
     (if closed s \<or> sessionExpiry s \<le> of_int now then reject ''Native session closed/expired''
      else authorize P policy (peerPort s) (jget (offerBody s) ''scope'') (jget (offerBody s) ''adapter''))"

text \<open>Four zero bytes and the sequence number in eight, the most significant first.\<close>

definition frame_nonce :: "nat \<Rightarrow> string" where
  "frame_nonce n = replicate 4 (char_of (0::nat)) @ map (\<lambda>i. char_of (n div 256 ^ i mod 256)) (rev [0..<8])"

definition frame_aad :: "platform \<Rightarrow> session \<Rightarrow> string \<Rightarrow> string \<Rightarrow> nat \<Rightarrow> string result" where
  "frame_aad P s src dst sequence = canonicalBytes P (JObj
     [(''schema'', JStr ''kindred.sdpn.native-frame.v1''), (''sessionId'', sessionId s), (''from'', JStr src),
      (''to'', JStr dst), (''sequence'', JInt (int sequence)),
      (''stateSha256'', jget (jget (offerBody s) ''scope'') ''stateSha256'')])"

definition max_bytes :: "session \<Rightarrow> rat" where
  "max_bytes s = num_of (jget (jget (offerBody s) ''scope'') ''maxBytes'')"

definition seal :: "channel \<Rightarrow> platform \<Rightarrow> session_policy \<Rightarrow> session \<Rightarrow> string \<Rightarrow> int \<Rightarrow> jsv result \<times> session" where
  "seal X P policy s bytes now =
     (case and_then (active P policy s now) (\<lambda>_.
        if max_bytes s < of_nat (length bytes) \<or> 1024 \<le> tx s then reject ''Native frame quota''
        else and_then (frame_aad P s (localPort s) (peerPort s) (tx s)) (\<lambda>aad.
          let (ciphertext, tag) = gcm_seal X (sendKey s) (frame_nonce (tx s)) aad bytes
          in Inr (JObj [(''schema'', JStr ''kindred.sdpn.native-frame.v1''), (''sessionId'', sessionId s),
                        (''sequence'', JInt (int (tx s))), (''ciphertext'', JStr (base64 ciphertext)),
                        (''tag'', JStr (base64 tag))]))) of
        Inl e \<Rightarrow> (Inl e, s)
      | Inr frame \<Rightarrow> (Inr frame, s\<lparr>tx := Suc (tx s)\<rparr>))"

definition close_session :: "session \<Rightarrow> session" where
  "close_session s = s\<lparr>closed := True, sendKey := replicate 32 (char_of (0::nat)),
     receiveKey := replicate 32 (char_of (0::nat))\<rparr>"

text \<open>The checks of a frame before its decryption, giving ciphertext and tag.\<close>

definition frame_parts :: "session \<Rightarrow> jsv \<Rightarrow> (string \<times> string) result" where
  "frame_parts s frame =
     and_then (exactFields frame [''schema'', ''sessionId'', ''sequence'', ''ciphertext'', ''tag'']) (\<lambda>_.
       case (jget frame ''ciphertext'', jget frame ''tag'') of
         (JStr c, JStr t) \<Rightarrow>
           if jget frame ''schema'' \<noteq> JStr ''kindred.sdpn.native-frame.v1'' \<or>
              \<not> strict_eq (jget frame ''sessionId'') (sessionId s) \<or>
              jget frame ''sequence'' \<noteq> JInt (int (rx s)) \<or> 1024 \<le> rx s \<or>
              of_int (\<lceil>max_bytes s / 3\<rceil> * 4) < (of_nat (length c) :: rat)
           then reject ''Native frame ordering/bounds rejected''
           else if max_bytes s < of_nat (length (base64_bytes c)) \<or> base64 (base64_bytes c) \<noteq> c \<or>
                   length (base64_bytes t) \<noteq> 16 \<or> base64 (base64_bytes t) \<noteq> t
           then reject ''Native frame encoding rejected''
           else Inr (base64_bytes c, base64_bytes t)
       | _ \<Rightarrow> reject ''Native frame ordering/bounds rejected'')"

definition open_frame :: "channel \<Rightarrow> platform \<Rightarrow> session_policy \<Rightarrow> session \<Rightarrow> jsv \<Rightarrow> int \<Rightarrow> string result \<times> session" where
  "open_frame X P policy s frame now =
     (case and_then (active P policy s now) (\<lambda>_. and_then (frame_parts s frame) (\<lambda>parts.
             and_then (frame_aad P s (peerPort s) (localPort s) (rx s)) (\<lambda>aad. Inr (parts, aad)))) of
        Inl e \<Rightarrow> (Inl e, s)
      | Inr ((ciphertext, tag), aad) \<Rightarrow>
          (case gcm_open X (receiveKey s) (frame_nonce (rx s)) aad ciphertext tag of
             Some bytes \<Rightarrow> (Inr bytes, s\<lparr>rx := Suc (rx s)\<rparr>)
           | None \<Rightarrow> (reject ''Native frame authentication rejected'', close_session s)))"

section \<open>Offer and acceptance\<close>

record pending_offer =
  pending_envelope :: jsv
  pending_peer :: jsv
  pending_state :: jsv
  pending_adapter :: jsv
  pending_key :: string
  pending_identity :: port_identity
  finished :: bool

definition offer_body :: "channel \<Rightarrow> port_identity \<Rightarrow> string \<Rightarrow> string \<Rightarrow> string \<Rightarrow> jsv \<Rightarrow> jsv \<Rightarrow> int \<Rightarrow> jsv" where
  "offer_body X identity peer sid privateKey state adapter now = JObj
     [(''schema'', JStr ''kindred.sdpn.session-offer.v1''), (''suite'', JStr session_suite),
      (''sessionId'', JStr (hex_text sid)), (''fromPort'', JStr (identity_id identity)), (''toPort'', JStr peer),
      (''issuedAt'', JInt now), (''expiresAt'', JInt (now + 30000)),
      (''ephemeralKey'', JStr (base64 (x25519_public X privateKey))), (''scope'', state), (''adapter'', adapter)]"

definition offerNativeSession ::
    "crypto \<Rightarrow> channel \<Rightarrow> platform \<Rightarrow> session_policy \<Rightarrow> port_identity \<Rightarrow> jsv \<Rightarrow> jsv \<Rightarrow> jsv \<Rightarrow> string \<Rightarrow> string \<Rightarrow> int \<Rightarrow>
     pending_offer result" where
  "offerNativeSession C X P policy identity peerRecord state adapter privateKey sid now =
     and_then (verifyPeerRecord C P peerRecord now JUndef) (\<lambda>peer.
       if \<not> array_includes (jget peer ''capabilities'') (JStr ''native.materialize.v1'')
       then reject ''Native capability not advertised''
       else and_then (authorize P policy (text_of (jget peer ''portId'')) state adapter) (\<lambda>_.
         and_then (sign_body C P identity
           (offer_body X identity (text_of (jget peer ''portId'')) sid privateKey state adapter now)) (\<lambda>envelope.
         Inr \<lparr>pending_envelope = envelope, pending_peer = peer, pending_state = state, pending_adapter = adapter,
              pending_key = privateKey, pending_identity = identity, finished = False\<rparr>)))"

definition same_digest :: "platform \<Rightarrow> jsv \<Rightarrow> jsv \<Rightarrow> bool result" where
  "same_digest P v w =
     and_then (canonicalBytes P v) (\<lambda>a. and_then (canonicalBytes P w) (\<lambda>b.
       Inr (native_digest P a = native_digest P b)))"

text \<open>The acceptance answers this offer: all of it is compared before the policy is asked again.\<close>

definition acceptance_binding :: "platform \<Rightarrow> pending_offer \<Rightarrow> jsv \<Rightarrow> unit result" where
  "acceptance_binding P p body =
     (let offered = jget (pending_envelope p) ''body'';
          mismatch = reject ''Native acceptance binding rejected''
      in if \<not> strict_eq (jget body ''fromPort'') (jget (pending_peer p) ''portId'') \<or>
            jget body ''toPort'' \<noteq> JStr (identity_id (pending_identity p)) \<or>
            \<not> strict_eq (jget body ''sessionId'') (jget offered ''sessionId'')
         then mismatch
         else and_then (canonicalBytes P (pending_envelope p)) (\<lambda>bytes.
           if jget body ''offerSha256'' \<noteq> JStr (native_digest P bytes) \<or>
              \<not> strict_eq (jget body ''expiresAt'') (jget offered ''expiresAt'')
           then mismatch
           else and_then (same_digest P (jget body ''scope'') (pending_state p)) (\<lambda>same_scope.
             if \<not> same_scope then mismatch
             else and_then (same_digest P (jget body ''adapter'') (pending_adapter p)) (\<lambda>same_adapter.
               if \<not> same_adapter then mismatch else Inr ()))))"

definition finish_offer ::
    "crypto \<Rightarrow> channel \<Rightarrow> platform \<Rightarrow> session_policy \<Rightarrow> pending_offer \<Rightarrow> jsv \<Rightarrow> int \<Rightarrow> session result \<times> pending_offer" where
  "finish_offer C X P policy p accept now =
     (if finished p then (reject ''Native offer already consumed'', p)
      else case and_then (verifyEnvelope C P accept (jget (pending_peer p) ''portId'') (jget (pending_peer p) ''publicKey''))
             (\<lambda>body. and_then (control C P body now ''accept'') (\<lambda>_. and_then (acceptance_binding P p body) (\<lambda>_.
              and_then (authorize P policy (text_of (jget (pending_peer p) ''portId'')) (pending_state p) (pending_adapter p))
                (\<lambda>_. Inr body)))) of
          Inl e \<Rightarrow> (Inl e, p)
        | Inr body \<Rightarrow>
            (connected C X P (pending_key p) (jget body ''ephemeralKey'') (pending_envelope p) accept
               (identity_id (pending_identity p)) (text_of (jget (pending_peer p) ''portId'')),
             p\<lparr>finished := True\<rparr>))"

definition cancel_offer :: "pending_offer \<Rightarrow> pending_offer" where
  "cancel_offer p = p\<lparr>finished := True\<rparr>"

definition accept_body :: "channel \<Rightarrow> jsv \<Rightarrow> string \<Rightarrow> string \<Rightarrow> string \<Rightarrow> string \<Rightarrow> int \<Rightarrow> jsv" where
  "accept_body X body own peer privateKey offer_digest now =
     fold (\<lambda>(k, v). jset k v)
       [(''schema'', JStr ''kindred.sdpn.session-accept.v1''), (''fromPort'', JStr own), (''toPort'', JStr peer),
        (''issuedAt'', JInt now), (''ephemeralKey'', JStr (base64 (x25519_public X privateKey))),
        (''offerSha256'', JStr offer_digest)] body"

text \<open>Everything checked before the session id is consumed: the offering port and its verified body.\<close>

definition check_offer ::
    "crypto \<Rightarrow> platform \<Rightarrow> session_policy \<Rightarrow> port_identity \<Rightarrow> jsv \<Rightarrow> jsv \<Rightarrow> jsv \<Rightarrow> int \<Rightarrow> (string \<times> jsv) result" where
  "check_offer C P policy identity offer peerRecord adapter now =
     and_then (verifyPeerRecord C P peerRecord now JUndef) (\<lambda>peer.
       if \<not> array_includes (jget peer ''capabilities'') (JStr ''native.materialize.v1'')
       then reject ''Native capability not advertised''
       else and_then (verifyEnvelope C P offer (jget peer ''portId'') (jget peer ''publicKey'')) (\<lambda>body.
         and_then (control C P body now ''offer'') (\<lambda>_.
         if \<not> strict_eq (jget body ''fromPort'') (jget peer ''portId'') \<or>
            jget body ''toPort'' \<noteq> JStr (identity_id identity)
         then reject ''Native destination/adapter binding rejected''
         else and_then (same_digest P (jget body ''adapter'') adapter) (\<lambda>same.
           if \<not> same then reject ''Native destination/adapter binding rejected''
           else and_then (authorize P policy (text_of (jget peer ''portId'')) (jget body ''scope'') adapter)
             (\<lambda>_. Inr (text_of (jget peer ''portId''), body))))))"

definition acceptNativeSession ::
    "crypto \<Rightarrow> channel \<Rightarrow> platform \<Rightarrow> session_policy \<Rightarrow> port_identity \<Rightarrow> jsv \<Rightarrow> jsv \<Rightarrow> jsv \<Rightarrow> string \<Rightarrow> int \<Rightarrow>
     (jsv \<times> session) result \<times> session_policy" where
  "acceptNativeSession C X P policy identity offer peerRecord adapter privateKey now =
     (case check_offer C P policy identity offer peerRecord adapter now of
        Inl e \<Rightarrow> (Inl e, policy)
      | Inr (peer, body) \<Rightarrow>
          (case policy_consume policy (jget body ''sessionId'') \<lfloor>num_of (jget body ''expiresAt'')\<rfloor> now of
             (Inl e, policy') \<Rightarrow> (Inl e, policy')
           | (Inr _, policy') \<Rightarrow>
               (and_then (canonicalBytes P offer) (\<lambda>offer_bytes.
                and_then (sign_body C P identity
                  (accept_body X body (identity_id identity) peer privateKey (native_digest P offer_bytes) now)) (\<lambda>envelope.
                and_then (connected C X P privateKey (jget body ''ephemeralKey'') offer envelope (identity_id identity) peer)
                  (\<lambda>s. Inr (envelope, s)))), policy')))"

end
