(* ===== verification/SessionFacts.thy ===== *)
theory SessionFacts
  imports NativeSession NativeFacts
begin

text \<open>
  The sessions of two ports: both ends of a handshake derive the same keys, what one end seals the other
  opens unchanged and in order, no frame is opened twice, and no session id is accepted twice.
\<close>

section \<open>Proper values\<close>

lemma proper_canonical: "canonical v = Inr w \<Longrightarrow> proper v \<Longrightarrow> proper w"
  "canonical_items vs = Inr ws \<Longrightarrow> proper_items vs \<Longrightarrow> proper_items ws"
  "canonical_fields kvs = Inr us \<Longrightarrow> proper_fields kvs \<Longrightarrow> proper_fields us \<and> map fst us = map fst kvs"
proof (induction v and vs and kvs arbitrary: w and ws and us
    rule: canonical_canonical_items_canonical_fields.induct)
  case (7 kvs)
  then obtain us where us: "canonical_fields kvs = Inr us" and w: "w = JObj (property_order (sort_key fst us))"
    by (auto simp: result_simps)
  with 7 have "proper_fields us" "distinct (map fst us)" by auto
  moreover have "distinct (map fst (property_order (sort_key fst us))) = distinct (map fst us)"
    by (intro mset_eq_imp_distinct_iff) simp
  ultimately show ?case by (simp add: w proper_fields_iff)
qed (auto simp: result_simps split: if_splits)

lemma proper_jset: "proper v \<Longrightarrow> proper x \<Longrightarrow> proper (jset k x v)"
proof (cases v)
  case (JObj kvs)
  then show "proper v \<Longrightarrow> proper x \<Longrightarrow> proper (jset k x v)"
    using set_update_subset [of k x kvs] by (auto simp: proper_fields_iff distinct_update)
qed simp_all

section \<open>Connecting\<close>

lemma connected_Inr:
  assumes "connected C X P key peerKey offer accept own peer = Inr s"
  obtains o' a' k ob ab where "canonical offer = Inr o'" "canonical accept = Inr a'"
    "decodePublicKey C peerKey ''x25519'' = Inr k" "canonicalBytes P o' = Inr ob" "canonicalBytes P a' = Inr ab"
    "localPort s = own" "peerPort s = peer" "sessionId s = jget (jget o' ''body'') ''sessionId''"
    "offerBody s = jget o' ''body''" "tx s = 0" "rx s = 0"
    "sessionExpiry s = min (num_of (jget (jget o' ''body'') ''expiresAt'')) (num_of (jget (jget a' ''body'') ''expiresAt''))"
    "sendKey s = hkdf X (x25519_shared X key k) (sha256 P (ob @ ab)) (session_suite @ ''|'' @ own @ ''|'' @ peer)"
    "receiveKey s = hkdf X (x25519_shared X key k) (sha256 P (ob @ ab)) (session_suite @ ''|'' @ peer @ ''|'' @ own)"
  using assms by (auto simp: connected_def result_simps Let_def)

lemma decodePublicKey_bytes: "decodePublicKey C (JStr (base64 k)) t = Inr k' \<Longrightarrow> k' = k"
  by (auto simp: decodePublicKey_def base64_bytes_base64 split: if_splits option.splits)

text \<open>Two ends of one session: the keys and names of one are those of the other, crosswise.\<close>

definition session_pair :: "session \<Rightarrow> session \<Rightarrow> bool" where
  "session_pair a b \<longleftrightarrow>
     sendKey a = receiveKey b \<and> receiveKey a = sendKey b \<and> localPort a = peerPort b \<and> peerPort a = localPort b \<and>
     sessionId a = sessionId b \<and> offerBody a = offerBody b \<and> sessionExpiry a = sessionExpiry b"

lemma sign_body_Inr:
  assumes "sign_body C P identity body = Inr signed"
  obtains copy where "canonical body = Inr copy" "canonical copy = Inr copy" "jget signed ''body'' = copy"
    "proper copy \<longrightarrow> proper signed"
  using assms canonical_idem by (auto simp: sign_body_def result_simps)

lemma offered:
  assumes offer: "offerNativeSession C X P policy identity rcd state adapter key sid now = Inr p"
    and proper: "proper state" "proper adapter"
  obtains peer copy where "pending_peer p = peer" "pending_key p = key" "pending_identity p = identity"
    "jget (pending_envelope p) ''body'' = copy" "canonical copy = Inr copy" "proper copy"
    "jget copy ''fromPort'' = JStr (identity_id identity)" "jget copy ''toPort'' = JStr (text_of (jget peer ''portId''))"
    "jget copy ''ephemeralKey'' = JStr (base64 (x25519_public X key))" "jget copy ''sessionId'' = JStr (hex_text sid)"
    "proper (pending_envelope p)"
proof -
  from offer obtain peer envelope where p: "p = \<lparr>pending_envelope = envelope, pending_peer = peer, pending_state = state,
      pending_adapter = adapter, pending_key = key, pending_identity = identity, finished = False\<rparr>"
    and signed: "sign_body C P identity
      (offer_body X identity (text_of (jget peer ''portId'')) sid key state adapter now) = Inr envelope"
    by (auto simp: offerNativeSession_def result_simps split: if_splits)
  let ?body = "offer_body X identity (text_of (jget peer ''portId'')) sid key state adapter now"
  from signed obtain copy where copy: "canonical ?body = Inr copy" "canonical copy = Inr copy" "jget envelope ''body'' = copy"
    "proper copy \<longrightarrow> proper envelope"
    by (rule sign_body_Inr)
  have body: "proper ?body" using proper by (simp add: offer_body_def)
  note scalar = jget_canonical_scalar(1) [OF copy(1) body]
  show thesis
    by (rule that [of peer copy]) (simp_all add: p copy proper_canonical(1) [OF copy(1) body] scalar offer_body_def)
qed

lemma accepted:
  assumes accept: "acceptNativeSession C X P policy identity offer rcd adapter key now = (Inr (envelope, s), policy')"
    and proper: "proper (jget offer ''body'')"
  obtains peer body copy where "canonical (jget offer ''body'') = Inr body"
    "jget body ''fromPort'' = JStr peer" "jget body ''toPort'' = JStr (identity_id identity)"
    "jget envelope ''body'' = copy" "canonical copy = Inr copy"
    "jget copy ''ephemeralKey'' = JStr (base64 (x25519_public X key))"
    "connected C X P key (jget body ''ephemeralKey'') offer envelope (identity_id identity) peer = Inr s"
    "fst (policy_consume policy (jget body ''sessionId'') \<lfloor>num_of (jget body ''expiresAt'')\<rfloor> now) = Inr ()"
    "policy' = snd (policy_consume policy (jget body ''sessionId'') \<lfloor>num_of (jget body ''expiresAt'')\<rfloor> now)"
proof -
  from accept obtain peer body where checked: "check_offer C P policy identity offer rcd adapter now = Inr (peer, body)"
    and consumed: "policy_consume policy (jget body ''sessionId'') \<lfloor>num_of (jget body ''expiresAt'')\<rfloor> now = (Inr (), policy')"
    and rest: "and_then (canonicalBytes P offer) (\<lambda>offer_bytes.
                and_then (sign_body C P identity (accept_body X body (identity_id identity) peer
                    key (native_digest P offer_bytes) now)) (\<lambda>envelope.
                and_then (connected C X P key (jget body ''ephemeralKey'') offer envelope (identity_id identity)
                    peer) (\<lambda>s. Inr (envelope, s)))) = Inr (envelope, s)"
    unfolding acceptNativeSession_def by (simp split: sum.splits prod.splits)
  from checked obtain pr where
    verified: "verifyEnvelope C P offer (jget pr ''portId'') (jget pr ''publicKey'') = Inr body"
    and route: "strict_eq (jget body ''fromPort'') (jget pr ''portId'')" "jget body ''toPort'' = JStr (identity_id identity)"
    and peer: "peer = text_of (jget pr ''portId'')"
    by (auto simp: check_offer_def result_simps split: if_splits)
  from verified obtain pid where body: "canonical (jget offer ''body'') = Inr body" and pid: "jget pr ''portId'' = JStr pid"
    by (rule verifyEnvelope_Inr)
  from rest obtain ob where signed: "sign_body C P identity
      (accept_body X body (identity_id identity) pid key (native_digest P ob) now) = Inr envelope"
    and linked: "connected C X P key (jget body ''ephemeralKey'') offer envelope (identity_id identity) pid = Inr s"
    by (auto simp: result_simps peer pid)
  let ?accept = "accept_body X body (identity_id identity) pid key (native_digest P ob) now"
  from signed obtain copy where copy: "canonical ?accept = Inr copy" "canonical copy = Inr copy" "jget envelope ''body'' = copy"
    by (rule sign_body_Inr)
  have rec: "is_record body" using route(2) by (cases body) auto
  have "proper ?accept"
    unfolding accept_body_def using proper_canonical(1) [OF body proper] by (simp add: proper_jset)
  moreover have "jget ?accept ''ephemeralKey'' = JStr (base64 (x25519_public X key))"
    unfolding accept_body_def using rec by simp
  ultimately have eph: "jget copy ''ephemeralKey'' = JStr (base64 (x25519_public X key))"
    using jget_canonical_scalar(1) [OF copy(1)] by blast
  have src: "jget body ''fromPort'' = JStr pid" using route(1) pid by simp
  show thesis
    by (rule that [OF body src route(2) copy(3,2) eph linked]) (simp_all only: consumed fst_conv snd_conv)
qed

lemma finished_offer:
  assumes "finish_offer C X P policy p accept now = (Inr s, p')"
  obtains body where "canonical (jget accept ''body'') = Inr body"
    "connected C X P (pending_key p) (jget body ''ephemeralKey'') (pending_envelope p) accept
       (identity_id (pending_identity p)) (text_of (jget (pending_peer p) ''portId'')) = Inr s"
proof -
  from assms obtain body where "verifyEnvelope C P accept (jget (pending_peer p) ''portId'')
      (jget (pending_peer p) ''publicKey'') = Inr body"
    and s: "connected C X P (pending_key p) (jget body ''ephemeralKey'') (pending_envelope p) accept
       (identity_id (pending_identity p)) (text_of (jget (pending_peer p) ''portId'')) = Inr s"
    by (auto simp: finish_offer_def result_simps split: sum.splits if_splits)
  then have "canonical (jget accept ''body'') = Inr body" by (elim verifyEnvelope_Inr)
  with s show thesis using that by blast
qed

lemma handshake_pair:
  assumes agreement: "agreement X"
    and offer: "offerNativeSession C X P polA idA rcdB state adapter keyA sid t0 = Inr p"
    and proper: "proper state" "proper adapter"
    and accept: "acceptNativeSession C X P polB idB (pending_envelope p) rcdA adapterB keyB t1 = (Inr (envelope, b), polB')"
    and finish: "finish_offer C X P polA' p envelope t2 = (Inr a, p')"
  shows "session_pair a b" and "tx a = 0 \<and> rx a = 0 \<and> tx b = 0 \<and> rx b = 0"
    and "sessionId b = JStr (hex_text sid)"
proof -
  from offer proper obtain peer copy where p: "pending_peer p = peer" "pending_key p = keyA" "pending_identity p = idA"
    and copy: "jget (pending_envelope p) ''body'' = copy" "canonical copy = Inr copy" "proper copy"
    and fields: "jget copy ''fromPort'' = JStr (identity_id idA)" "jget copy ''toPort'' = JStr (text_of (jget peer ''portId''))"
      "jget copy ''ephemeralKey'' = JStr (base64 (x25519_public X keyA))" "jget copy ''sessionId'' = JStr (hex_text sid)"
    and envelope: "proper (pending_envelope p)"
    by (rule offered)
  from accept copy(3) obtain peerA body copy' where body: "canonical copy = Inr body"
    "jget body ''fromPort'' = JStr peerA" "jget body ''toPort'' = JStr (identity_id idB)"
    and copy': "jget envelope ''body'' = copy'" "canonical copy' = Inr copy'"
      "jget copy' ''ephemeralKey'' = JStr (base64 (x25519_public X keyB))"
    and b: "connected C X P keyB (jget body ''ephemeralKey'') (pending_envelope p) envelope (identity_id idB) peerA = Inr b"
    unfolding copy(1) [symmetric] by (rule accepted)
  have same: "body = copy" using body(1) copy(2) by simp
  then have ids: "peerA = identity_id idA" "text_of (jget peer ''portId'') = identity_id idB"
    using body(2,3) fields by simp_all
  from finish obtain bodyA where bodyA: "canonical (jget envelope ''body'') = Inr bodyA"
    and a: "connected C X P (pending_key p) (jget bodyA ''ephemeralKey'') (pending_envelope p) envelope
       (identity_id (pending_identity p)) (text_of (jget (pending_peer p) ''portId'')) = Inr a"
    by (rule finished_offer)
  have "bodyA = copy'" using bodyA copy' by simp
  then have a: "connected C X P keyA (JStr (base64 (x25519_public X keyB))) (pending_envelope p) envelope
       (identity_id idA) (identity_id idB) = Inr a"
    using a copy'(3) p ids by simp
  have b: "connected C X P keyB (JStr (base64 (x25519_public X keyA))) (pending_envelope p) envelope
       (identity_id idB) (identity_id idA) = Inr b"
    using b same fields(3) ids by simp
  have keys: "x25519_shared X keyA (x25519_public X keyB) = x25519_shared X keyB (x25519_public X keyA)"
    using agreement by (simp add: agreement_def)
  show "session_pair a b"
    by (rule connected_Inr [OF a]; rule connected_Inr [OF b])
      (auto simp: session_pair_def keys dest!: decodePublicKey_bytes)
  show "tx a = 0 \<and> rx a = 0 \<and> tx b = 0 \<and> rx b = 0"
    by (rule connected_Inr [OF a]; rule connected_Inr [OF b]) simp
  from b obtain o' where "canonical (pending_envelope p) = Inr o'" "sessionId b = jget (jget o' ''body'') ''sessionId''"
    by (rule connected_Inr)
  moreover have "jget o' ''body'' = copy"
    using jget_canonical [OF calculation(1) envelope, of "''body''"] copy(1,2) fields(1) by auto
  ultimately show "sessionId b = JStr (hex_text sid)" using fields(4) by simp
qed

section \<open>Frames\<close>

fun seal_all :: "channel \<Rightarrow> platform \<Rightarrow> session_policy \<Rightarrow> session \<Rightarrow> (string \<times> int) list \<Rightarrow> jsv list result \<times> session" where
  "seal_all X P policy s [] = (Inr [], s)"
| "seal_all X P policy s ((m, now) # ms) =
     (case seal X P policy s m now of
        (Inl e, s') \<Rightarrow> (Inl e, s')
      | (Inr frame, s') \<Rightarrow>
          (case seal_all X P policy s' ms of (r, s'') \<Rightarrow> (and_then r (\<lambda>frames. Inr (frame # frames)), s'')))"

fun open_all :: "channel \<Rightarrow> platform \<Rightarrow> session_policy \<Rightarrow> session \<Rightarrow> (jsv \<times> int) list \<Rightarrow> string list result \<times> session" where
  "open_all X P policy s [] = (Inr [], s)"
| "open_all X P policy s ((frame, now) # fs) =
     (case open_frame X P policy s frame now of
        (Inl e, s') \<Rightarrow> (Inl e, s')
      | (Inr m, s') \<Rightarrow>
          (case open_all X P policy s' fs of (r, s'') \<Rightarrow> (and_then r (\<lambda>ms. Inr (m # ms)), s'')))"

lemma base64_quota:
  fixes q :: rat
  assumes "of_nat n \<le> q"
  shows "(of_nat (4 * ((n + 2) div 3)) :: rat) \<le> of_int (\<lceil>q / 3\<rceil> * 4)"
proof -
  have "q / 3 \<le> of_int \<lceil>q / 3\<rceil>" by (rule le_of_int_ceiling)
  then have "q \<le> of_int (3 * \<lceil>q / 3\<rceil>)" unfolding of_int_mult of_int_numeral by linarith
  with assms have "(of_int (int n) :: rat) \<le> of_int (3 * \<lceil>q / 3\<rceil>)" by simp
  then have "int n \<le> 3 * \<lceil>q / 3\<rceil>" by (simp only: of_int_le_iff)
  then have "int ((n + 2) div 3) \<le> \<lceil>q / 3\<rceil>" by linarith
  then have "int (4 * ((n + 2) div 3)) \<le> \<lceil>q / 3\<rceil> * 4" by simp
  then have "(of_int (int (4 * ((n + 2) div 3))) :: rat) \<le> of_int (\<lceil>q / 3\<rceil> * 4)" by (simp only: of_int_le_iff)
  then show ?thesis by simp
qed

lemma seal_Inr:
  assumes "seal X P policy s m now = (Inr frame, s')"
  obtains aad c t where "frame_aad P s (localPort s) (peerPort s) (tx s) = Inr aad"
    "gcm_seal X (sendKey s) (frame_nonce (tx s)) aad m = (c, t)" "s' = s\<lparr>tx := Suc (tx s)\<rparr>"
    "of_nat (length m) \<le> max_bytes s" "tx s < 1024"
    "frame = JObj [(''schema'', JStr ''kindred.sdpn.native-frame.v1''), (''sessionId'', sessionId s),
        (''sequence'', JInt (int (tx s))), (''ciphertext'', JStr (base64 c)), (''tag'', JStr (base64 t))]"
proof -
  from assms obtain aad where aad: "frame_aad P s (localPort s) (peerPort s) (tx s) = Inr aad"
    and bounds: "of_nat (length m) \<le> max_bytes s" "tx s < 1024"
    and frame: "(let (c, t) = gcm_seal X (sendKey s) (frame_nonce (tx s)) aad m
       in Inr (JObj [(''schema'', JStr ''kindred.sdpn.native-frame.v1''), (''sessionId'', sessionId s),
        (''sequence'', JInt (int (tx s))), (''ciphertext'', JStr (base64 c)), (''tag'', JStr (base64 t))])) = (Inr frame :: jsv result)"
    and s': "s' = s\<lparr>tx := Suc (tx s)\<rparr>"
    by (auto simp: seal_def result_simps not_le not_less split: sum.splits if_splits)
  obtain c t where "gcm_seal X (sendKey s) (frame_nonce (tx s)) aad m = (c, t)" by fastforce
  with that aad bounds frame s' show thesis by simp
qed

lemma open_sealed:
  assumes X: "sealing X" and pair: "session_pair a b" and pos: "tx a = rx b" and sid: "sessionId b = JStr sid"
    and sealed: "seal X P policy a m now = (Inr frame, a')" and live: "active P policy' b later = Inr ()"
  shows "open_frame X P policy' b frame later = (Inr m, b\<lparr>rx := Suc (rx b)\<rparr>)"
    and "a' = a\<lparr>tx := Suc (tx a)\<rparr>" and "jget frame ''sequence'' = JInt (int (rx b))"
proof -
  from sealed obtain aad c t where s: "frame_aad P a (localPort a) (peerPort a) (tx a) = Inr aad"
    "gcm_seal X (sendKey a) (frame_nonce (tx a)) aad m = (c, t)" "a' = a\<lparr>tx := Suc (tx a)\<rparr>"
    "of_nat (length m) \<le> max_bytes a" "tx a < 1024"
    and frame: "frame = JObj [(''schema'', JStr ''kindred.sdpn.native-frame.v1''), (''sessionId'', sessionId a),
        (''sequence'', JInt (int (tx a))), (''ciphertext'', JStr (base64 c)), (''tag'', JStr (base64 t))]"
    by (rule seal_Inr)
  note p = pair [unfolded session_pair_def]
  have law: "gcm_open X (sendKey a) (frame_nonce (tx a)) aad c t = Some m" "length c = length m" "length t = 16"
  proof -
    have "let (c, t) = gcm_seal X (sendKey a) (frame_nonce (tx a)) aad m
       in gcm_open X (sendKey a) (frame_nonce (tx a)) aad c t = Some m \<and> length c = length m \<and> length t = 16"
      using X unfolding sealing_def by blast
    then show "gcm_open X (sendKey a) (frame_nonce (tx a)) aad c t = Some m" "length c = length m" "length t = 16"
      by (simp_all add: s(2))
  qed
  have "(of_nat (length (base64 c)) :: rat) \<le> of_int (\<lceil>max_bytes a / 3\<rceil> * 4)"
    using base64_quota [OF s(4)] by (simp add: length_base64 law(2))
  moreover have "max_bytes b = max_bytes a" using p by (simp add: max_bytes_def)
  moreover have "exactFields frame [''schema'', ''sessionId'', ''sequence'', ''ciphertext'', ''tag''] = Inr ()"
    by (simp add: exactFields_def frame)
  moreover have "jget frame ''schema'' = JStr ''kindred.sdpn.native-frame.v1''" "jget frame ''sessionId'' = JStr sid"
    and sequence: "jget frame ''sequence'' = JInt (int (rx b))"
    and "jget frame ''ciphertext'' = JStr (base64 c)" "jget frame ''tag'' = JStr (base64 t)"
    using p pos sid by (simp_all add: frame)
  ultimately have parts: "frame_parts b frame = Inr (c, t)"
    using s(4,5) pos law sid by (simp add: frame_parts_def base64_bytes_base64 not_less not_le)
  have "frame_aad P b (peerPort b) (localPort b) (rx b) = Inr aad"
    using s(1) p pos by (simp add: frame_aad_def)
  with live parts law(1) p pos show "open_frame X P policy' b frame later = (Inr m, b\<lparr>rx := Suc (rx b)\<rparr>)"
    by (simp add: open_frame_def)
  show "a' = a\<lparr>tx := Suc (tx a)\<rparr>" "jget frame ''sequence'' = JInt (int (rx b))" using s(3) sequence by simp_all
qed

lemma open_all_sealed:
  assumes "sealing X" "session_pair a b" "tx a = rx b" "sessionId b = JStr sid"
    and "seal_all X P policy a ms = (Inr frames, a')" and "length clocks = length ms"
    and "\<forall>t \<in> set clocks. active P policy' b t = Inr ()"
  shows "open_all X P policy' b (zip frames clocks) = (Inr (map fst ms), b\<lparr>rx := rx b + length ms\<rparr>) \<and>
    (\<forall>f \<in> set frames. \<exists>i < rx b + length ms. jget f ''sequence'' = JInt (int i))"
  using assms
proof (induction ms arbitrary: a b frames clocks)
  case (Cons mt ms)
  obtain m now where mt: "mt = (m, now)" by fastforce
  from Cons.prems(5) obtain frame a1 fs where step: "seal X P policy a m now = (Inr frame, a1)"
    and rest: "seal_all X P policy a1 ms = (Inr fs, a')" and frames: "frames = frame # fs"
    by (auto simp: mt result_simps split: prod.splits sum.splits)
  from Cons.prems(6) obtain t ts where clocks: "clocks = t # ts" "length ts = length ms" by (cases clocks) auto
  note first = open_sealed [OF Cons.prems(1-4) step, of policy' t]
  let ?b = "b\<lparr>rx := Suc (rx b)\<rparr>"
  have act: "active P policy' ?b t = active P policy' b t" for t by (simp add: active_def)
  have live: "active P policy' b t = Inr ()" "\<forall>t \<in> set ts. active P policy' ?b t = Inr ()"
    using Cons.prems(7) by (simp_all add: clocks act)
  have pair: "session_pair a1 ?b" "tx a1 = rx ?b" "sessionId ?b = JStr sid"
    using Cons.prems(2-4) first(2) [OF live(1)] by (simp_all add: session_pair_def)
  from Cons.IH [OF Cons.prems(1) pair rest clocks(2) live(2)] first [OF live(1)]
  show ?case by (auto simp: frames clocks mt intro: exI [of _ "rx b"])
qed simp

lemma replayed_frame:
  assumes "jget f ''sequence'' = JInt (int i)" and "i \<noteq> rx s"
  shows "\<exists>e. open_frame X P policy s f now = (Inl e, s)"
proof -
  have "\<exists>e. frame_parts s f = Inl e"
    using assms by (cases "exactFields f [''schema'', ''sessionId'', ''sequence'', ''ciphertext'', ''tag'']")
      (auto simp: frame_parts_def split: jsv.splits)
  then show ?thesis
    by (cases "active P policy s now") (auto simp: open_frame_def)
qed

text \<open>
  C18: Two ports that complete a handshake can talk: whatever the offering end seals, the accepting end opens
  to the same messages in the same order, as long as its policy and the clock permit the session. No frame
  can be opened a second time, and the attempt does not disturb the session.
\<close>

theorem session_delivers:
  assumes X: "agreement X" "sealing X"
    and offer: "offerNativeSession C X P polA idA rcdB state adapter keyA sid t0 = Inr p"
    and proper: "proper state" "proper adapter"
    and accept: "acceptNativeSession C X P polB idB (pending_envelope p) rcdA adapterB keyB t1 = (Inr (envelope, b), polB')"
    and finish: "finish_offer C X P polA' p envelope t2 = (Inr a, p')"
    and sealed: "seal_all X P policyA a messages = (Inr frames, a')"
    and live: "length clocks = length messages" "\<forall>t \<in> set clocks. active P policyB b t = Inr ()"
  shows "\<exists>b'. open_all X P policyB b (zip frames clocks) = (Inr (map fst messages), b') \<and>
    (\<forall>f \<in> set frames. \<forall>policy t. \<exists>e. open_frame X P policy b' f t = (Inl e, b'))"
proof -
  note pair = handshake_pair [OF X(1) offer proper accept finish]
  from pair(2) have "tx a = rx b" by simp
  note opened = open_all_sealed [OF X(2) pair(1) this pair(3) sealed live]
  show ?thesis
  proof (intro exI [of _ "b\<lparr>rx := rx b + length messages\<rparr>"] conjI ballI allI)
    show "open_all X P policyB b (zip frames clocks) = (Inr (map fst messages), b\<lparr>rx := rx b + length messages\<rparr>)"
      using opened by blast
    fix f policy t
    assume "f \<in> set frames"
    with opened obtain i where "i < rx b + length messages" "jget f ''sequence'' = JInt (int i)" by blast
    then show "\<exists>e. open_frame X P policy (b\<lparr>rx := rx b + length messages\<rparr>) f t =
        (Inl e, b\<lparr>rx := rx b + length messages\<rparr>)"
      by (intro replayed_frame [of f i]) simp_all
  qed
qed

section \<open>Session ids\<close>

text \<open>The policy of an owner is a filter with expiry for session ids that are strings; ids that are objects
  are kept beside them, each use as a key of its own.\<close>

definition distinct_primitives :: "(jsv \<times> 'v) list \<Rightarrow> bool" where
  "distinct_primitives xs \<longleftrightarrow> distinct (filter primitive (map fst xs))"

lemma distinct_primitives_simps [simp]:
  "distinct_primitives []"
  "distinct_primitives (x # xs) \<longleftrightarrow> (primitive (fst x) \<longrightarrow> fst x \<notin> fst ` set xs) \<and> distinct_primitives xs"
  by (auto simp: distinct_primitives_def)

lemma distinct_primitives_filter: "distinct_primitives xs \<Longrightarrow> distinct_primitives (filter Q xs)"
  by (induction xs) auto

lemma distinct_primitives_update: "distinct_primitives xs \<Longrightarrow> distinct_primitives (AList.update k v xs)"
  unfolding distinct_primitives_def update_keys by auto

lemma distinct_primitives_object: "distinct_primitives xs \<Longrightarrow> \<not> primitive k \<Longrightarrow> distinct_primitives (xs @ [(k, v)])"
  by (simp add: distinct_primitives_def)

definition policy_wf :: "session_policy \<Rightarrow> bool" where
  "policy_wf p \<longleftrightarrow> distinct_primitives (policy_used p)"

definition policy_held :: "session_policy \<Rightarrow> string \<Rightarrow> int \<Rightarrow> bool" where
  "policy_held p sid t \<longleftrightarrow> (\<exists>e. map_of (policy_used p) (JStr sid) = Some e \<and> t < e)"

definition live_ids :: "session_policy \<Rightarrow> int \<Rightarrow> (jsv \<times> int) list" where
  "live_ids p now = filter (\<lambda>(k, expiry). \<not> expiry \<le> now) (policy_used p)"

lemma policy_consume_string:
  "policy_consume p (JStr sid) e now =
     (if map_of (live_ids p now) (JStr sid) \<noteq> None \<or> policy_capacity p \<le> int (length (live_ids p now))
      then (reject ''Session replay/capacity rejected'', p\<lparr>policy_used := live_ids p now\<rparr>)
      else (Inr (), p\<lparr>policy_used := AList.update (JStr sid) e (live_ids p now)\<rparr>))"
  by (simp add: policy_consume_def live_ids_def mget_def mput_def Let_def)

lemma live_ids_wf: "policy_wf p \<Longrightarrow> distinct_primitives (live_ids p now)"
  by (simp add: policy_wf_def live_ids_def distinct_primitives_filter)

lemma map_of_live_ids:
  assumes "policy_wf p"
  shows "map_of (live_ids p now) (JStr sid) =
     (case map_of (policy_used p) (JStr sid) of None \<Rightarrow> None | Some e \<Rightarrow> if now < e then Some e else None)"
proof -
  have "distinct_primitives xs \<Longrightarrow> map_of (filter (\<lambda>(k, expiry). \<not> expiry \<le> now) xs) (JStr sid) =
     (case map_of xs (JStr sid) of None \<Rightarrow> None | Some e \<Rightarrow> if now < e then Some e else None)" for xs :: "(jsv \<times> int) list"
  proof (induction xs)
    case (Cons x xs)
    then show ?case
      by (cases "fst x = JStr sid") (auto simp: map_of_eq_None_iff [symmetric] not_le split: option.splits prod.splits if_splits)
  qed simp
  with assms show ?thesis by (simp add: policy_wf_def live_ids_def)
qed

interpretation session_ids: replay_filter policy_wf policy_held "\<lambda>p sid. policy_consume p (JStr sid)"
proof unfold_locales
  fix p sid e and now :: int assume "policy_wf p"
  then show "policy_wf (snd (policy_consume p (JStr sid) e now))"
    using live_ids_wf [of p now] unfolding policy_consume_string by (simp add: policy_wf_def distinct_primitives_update)
next
  fix p sid e and now :: int assume "policy_wf p" "policy_held p sid now"
  then show "\<not> succeeds (fst (policy_consume p (JStr sid) e now))"
    unfolding policy_consume_string by (auto simp: map_of_live_ids policy_held_def)
next
  fix p sid e sid' and now t :: int assume wf: "policy_wf p" and le: "now \<le> t"
  show "policy_held (snd (policy_consume p (JStr sid) e now)) sid' t \<longleftrightarrow>
    policy_held p sid' t \<or> (sid' = sid \<and> succeeds (fst (policy_consume p (JStr sid) e now)) \<and> t < e)"
    using le unfolding policy_consume_string
    by (cases "map_of (policy_used p) (JStr sid)"; cases "map_of (policy_used p) (JStr sid')")
      (auto simp: policy_held_def map_of_live_ids [OF wf] map_of_update simp del: map_of_eq_Some_iff split: if_splits)
qed

text \<open>Whatever else is consumed, a string that is held stays held.\<close>

lemma consume_keeps:
  assumes wf: "policy_wf p" and held: "policy_held p sid t" "now \<le> t"
  shows "policy_wf (snd (policy_consume p k e now)) \<and> policy_held (snd (policy_consume p k e now)) sid t"
proof -
  have live: "\<exists>x. map_of (live_ids p now) (JStr sid) = Some x \<and> t < x"
    using held by (auto simp: policy_held_def map_of_live_ids [OF wf])
  have "snd (policy_consume p k e now) = p\<lparr>policy_used := live_ids p now\<rparr> \<or>
      mget k (live_ids p now) = None \<and> snd (policy_consume p k e now) = p\<lparr>policy_used := mput k e (live_ids p now)\<rparr>"
    by (simp add: policy_consume_def live_ids_def Let_def)
  then show ?thesis
  proof
    assume "snd (policy_consume p k e now) = p\<lparr>policy_used := live_ids p now\<rparr>"
    then show ?thesis using live live_ids_wf [OF wf] by (simp add: policy_wf_def policy_held_def)
  next
    assume new: "mget k (live_ids p now) = None \<and> snd (policy_consume p k e now) = p\<lparr>policy_used := mput k e (live_ids p now)\<rparr>"
    then have "k \<noteq> JStr sid" using live by (auto simp: mget_def)
    then have "map_of (mput k e (live_ids p now)) (JStr sid) = map_of (live_ids p now) (JStr sid)"
      using mget_mput_other [of "JStr sid" k e "live_ids p now"] by (simp add: mget_def)
    moreover have "distinct_primitives (mput k e (live_ids p now))"
      using live_ids_wf [OF wf, of now] by (simp add: mput_def distinct_primitives_update distinct_primitives_object)
    ultimately show ?thesis using live new by (simp add: policy_wf_def policy_held_def)
  qed
qed

text \<open>The requests an accepting port handles, one after the other.\<close>

record session_request =
  req_identity :: port_identity
  req_offer :: jsv
  req_peer :: jsv
  req_adapter :: jsv
  req_key :: string
  req_now :: int

definition handle_request ::
    "crypto \<Rightarrow> channel \<Rightarrow> platform \<Rightarrow> session_request \<Rightarrow> session_policy \<Rightarrow> (jsv \<times> session) result \<times> session_policy" where
  "handle_request C X P r policy =
     acceptNativeSession C X P policy (req_identity r) (req_offer r) (req_peer r) (req_adapter r) (req_key r) (req_now r)"

text \<open>The signed session id of an offer, and the expiry that goes with it.\<close>

definition offered_id :: "jsv \<Rightarrow> jsv" where
  "offered_id offer = jget (jget offer ''body'') ''sessionId''"

definition offered_expiry :: "jsv \<Rightarrow> rat" where
  "offered_expiry offer = num_of (jget (jget offer ''body'') ''expiresAt'')"

lemma check_offer_Inr:
  assumes "check_offer C P policy identity offer rcd adapter now = Inr (peer, body)" and "proper (jget offer ''body'')"
    and "offered_id offer = JStr sid"
  shows "jget body ''sessionId'' = JStr sid" and "num_of (jget body ''expiresAt'') = offered_expiry offer"
    and "is_safe_integer (jget body ''expiresAt'')"
proof -
  from assms(1) obtain expected pk where env: "verifyEnvelope C P offer expected pk = Inr body"
    and ctl: "control C P body now ''offer'' = Inr ()"
    by (auto simp: check_offer_def result_simps split: if_splits)
  from env have copy: "canonical (jget offer ''body'') = Inr body" by (rule verifyEnvelope_Inr)
  show "jget body ''sessionId'' = JStr sid"
    using jget_canonical_scalar(1) [OF copy assms(2)] assms(3) by (simp add: offered_id_def)
  show safe: "is_safe_integer (jget body ''expiresAt'')"
    using ctl by (auto simp: control_def result_simps split: if_splits)
  from safe obtain n where "jget body ''expiresAt'' = JInt n" by (rule is_safe_integerE)
  with jget_canonical [OF copy assms(2), of "''expiresAt''"]
  have "jget body ''expiresAt'' = jget (jget offer ''body'') ''expiresAt''"
    by (cases "jget (jget offer ''body'') ''expiresAt''") (auto simp: result_simps split: if_splits)
  then show "num_of (jget body ''expiresAt'') = offered_expiry offer" by (simp add: offered_expiry_def)
qed

lemma accept_policy:
  assumes "proper (jget offer ''body'')" and "offered_id offer = JStr sid"
  shows "snd (acceptNativeSession C X P policy identity offer rcd adapter key now) = policy \<or>
    snd (acceptNativeSession C X P policy identity offer rcd adapter key now) =
      snd (policy_consume policy (JStr sid) \<lfloor>offered_expiry offer\<rfloor> now)"
    and "fst (acceptNativeSession C X P policy identity offer rcd adapter key now) = Inr y \<Longrightarrow>
      succeeds (fst (policy_consume policy (JStr sid) \<lfloor>offered_expiry offer\<rfloor> now)) \<and>
      snd (acceptNativeSession C X P policy identity offer rcd adapter key now) =
        snd (policy_consume policy (JStr sid) \<lfloor>offered_expiry offer\<rfloor> now) \<and>
      offered_expiry offer = of_int \<lfloor>offered_expiry offer\<rfloor>"
proof (atomize (full), cases "check_offer C P policy identity offer rcd adapter now")
  case (Inr pb)
  obtain peer body where pb: "pb = (peer, body)" by fastforce
  note checked = check_offer_Inr [OF Inr [unfolded pb] assms]
  have "offered_expiry offer = of_int \<lfloor>offered_expiry offer\<rfloor>"
    using checked(2,3) by (elim is_safe_integerE) (metis floor_of_int num_of.simps(1))
  moreover obtain r policy' where "policy_consume policy (JStr sid) \<lfloor>offered_expiry offer\<rfloor> now = (r, policy')" by fastforce
  ultimately show "(snd (acceptNativeSession C X P policy identity offer rcd adapter key now) = policy \<or>
    snd (acceptNativeSession C X P policy identity offer rcd adapter key now) =
      snd (policy_consume policy (JStr sid) \<lfloor>offered_expiry offer\<rfloor> now)) \<and>
    (fst (acceptNativeSession C X P policy identity offer rcd adapter key now) = Inr y \<longrightarrow>
      succeeds (fst (policy_consume policy (JStr sid) \<lfloor>offered_expiry offer\<rfloor> now)) \<and>
      snd (acceptNativeSession C X P policy identity offer rcd adapter key now) =
        snd (policy_consume policy (JStr sid) \<lfloor>offered_expiry offer\<rfloor> now) \<and>
      offered_expiry offer = of_int \<lfloor>offered_expiry offer\<rfloor>)"
    by (cases r) (simp_all add: acceptNativeSession_def Inr pb checked)
qed (simp add: acceptNativeSession_def)

lemma handle_keeps:
  assumes "policy_wf p" "policy_held p sid t" "req_now q \<le> t"
  shows "policy_wf (snd (handle_request C X P q p)) \<and> policy_held (snd (handle_request C X P q p)) sid t"
proof -
  have "snd (handle_request C X P q p) = p \<or> (\<exists>k e. snd (handle_request C X P q p) = snd (policy_consume p k e (req_now q)))"
    by (auto simp: handle_request_def acceptNativeSession_def split: sum.splits prod.splits) (metis snd_conv)+
  then show ?thesis using assms consume_keeps by auto
qed

text \<open>
  C19: A signed offer whose session id is a text opens at most one session: once a port accepted it, no request
  the port handles later, before that offer expires, is accepted with the same session id, whatever requests
  came in between, those with an id of any other type included, the clock never running ahead of the later
  request. (An id that is an array is not covered:
  \<open>array_session_id_replayed\<close>.) The signed bodies have each property once, as objects do.
\<close>

theorem session_accepted_once:
  assumes wf: "policy_wf policy" and first: "handle_request C X P r policy = (Inr s1, policy1)"
    and ids: "proper (jget (req_offer r) ''body'')" "proper (jget (req_offer later) ''body'')"
      "is_string (offered_id (req_offer r))"
    and same: "offered_id (req_offer later) = offered_id (req_offer r)"
    and clocks: "\<forall>q \<in> set (r # others). req_now q \<le> req_now later" "of_int (req_now later) < offered_expiry (req_offer r)"
  shows "\<exists>e. fst (handle_request C X P later (fold (\<lambda>q p. snd (handle_request C X P q p)) others policy1)) = Inl e"
proof -
  from ids(3) obtain sid where sid: "offered_id (req_offer r) = JStr sid"
    by (cases "offered_id (req_offer r)") auto
  let ?t = "req_now later"
  have step: "policy_wf (snd (handle_request C X P q p)) \<and> policy_held (snd (handle_request C X P q p)) sid ?t"
    if "q \<in> set others" "policy_wf p" "policy_held p sid ?t" for q p
    using handle_keeps [OF that(2,3)] that(1) clocks(1) by simp
  from first have "fst (acceptNativeSession C X P policy (req_identity r) (req_offer r) (req_peer r) (req_adapter r)
      (req_key r) (req_now r)) = Inr s1" and p1: "policy1 = snd (acceptNativeSession C X P policy (req_identity r)
      (req_offer r) (req_peer r) (req_adapter r) (req_key r) (req_now r))"
    by (simp_all add: handle_request_def)
  from accept_policy(2) [OF _ sid this(1)] ids
  have used: "succeeds (fst (policy_consume policy (JStr sid) \<lfloor>offered_expiry (req_offer r)\<rfloor> (req_now r)))"
    "policy1 = snd (policy_consume policy (JStr sid) \<lfloor>offered_expiry (req_offer r)\<rfloor> (req_now r))"
    "offered_expiry (req_offer r) = of_int \<lfloor>offered_expiry (req_offer r)\<rfloor>"
    by (auto simp: p1)
  have "?t < \<lfloor>offered_expiry (req_offer r)\<rfloor>" using clocks(2) used(3) by linarith
  then have start: "policy_wf policy1" "policy_held policy1 sid ?t"
    using used(1) wf clocks(1) session_ids.held_after session_ids.use_wf by (auto simp: used(2))
  have "policy_wf (fold (\<lambda>q p. snd (handle_request C X P q p)) others policy1) \<and>
      policy_held (fold (\<lambda>q p. snd (handle_request C X P q p)) others policy1) sid ?t"
    by (rule fold_invariant [where Q = "\<lambda>q. q \<in> set others" and P = "\<lambda>p. policy_wf p \<and> policy_held p sid ?t"])
      (use start step in auto)
  then have refused: "\<not> succeeds (fst (policy_consume (fold (\<lambda>q p. snd (handle_request C X P q p)) others policy1)
      (JStr sid) e ?t))" for e
    using session_ids.use_held by blast
  show ?thesis
  proof (rule ccontr)
    assume no: "\<not> ?thesis"
    let ?p = "fold (\<lambda>q p. snd (handle_request C X P q p)) others policy1"
    from no obtain y where "fst (handle_request C X P later ?p) = Inr y" by (cases "fst (handle_request C X P later ?p)") auto
    then have "fst (acceptNativeSession C X P ?p (req_identity later) (req_offer later) (req_peer later)
        (req_adapter later) (req_key later) ?t) = Inr y"
      by (simp only: handle_request_def)
    moreover have "proper (jget (req_offer later) ''body'')" "offered_id (req_offer later) = JStr sid"
      using ids same sid by simp_all
    ultimately have "succeeds (fst (policy_consume ?p (JStr sid) \<lfloor>offered_expiry (req_offer later)\<rfloor> ?t))"
      using accept_policy(2) by blast
    with refused show False by blast
  qed
qed

text \<open>An id that is an array of one well-formed text passes the checks and is consumed any number of times.\<close>

lemma array_session_id_replayed:
  "test P (hex_shape 32) (JArr [JStr h]) = hex_shape 32 h"
  "\<lbrakk>policy_consume p (JArr [JStr h]) e now = (Inr (), q); int (length (policy_used q)) < policy_capacity q; now \<le> t; t < e\<rbrakk>
     \<Longrightarrow> fst (policy_consume q (JArr [JStr h]) e t) = Inr ()"
proof -
  show "test P (hex_shape 32) (JArr [JStr h]) = hex_shape 32 h" by (simp add: test_def)
  assume a: "policy_consume p (JArr [JStr h]) e now = (Inr (), q)" "int (length (policy_used q)) < policy_capacity q"
  have "int (length (filter (\<lambda>(k, expiry). \<not> expiry \<le> t) (policy_used q))) < policy_capacity q"
    using a(2) length_filter_le [of "\<lambda>(k, expiry). \<not> expiry \<le> t" "policy_used q"] by linarith
  then show "fst (policy_consume q (JArr [JStr h]) e t) = Inr ()"
    by (simp add: policy_consume_def mget_def Let_def)
qed

end
