(* ===== verification/ProcessGenomes.thy ===== *)
theory ProcessGenomes
  imports CognitiveStore
begin

text \<open>
  \<open>unified-quad/src/process-intelligence.mjs\<close>, first part: state roots, the checks of fields, process
  genomes and their evolution. The time of \<open>new Date()\<close> is an argument.
\<close>

section \<open>Contracts\<close>

definition PROCESS_GENOME_CONTRACT_VERSION :: string where
  "PROCESS_GENOME_CONTRACT_VERSION = ''kindred.process-genome.v1''"

definition EDGE_SUCCESS_CONTRACT_VERSION :: string where
  "EDGE_SUCCESS_CONTRACT_VERSION = ''kindred.process-edge-success.v1''"

definition PROCESS_SKILL_CONTRACT_VERSION :: string where
  "PROCESS_SKILL_CONTRACT_VERSION = ''kindred.process-skill.v1''"

definition PROSYNTHESIZED_CAPABILITY_CONTRACT_VERSION :: string where
  "PROSYNTHESIZED_CAPABILITY_CONTRACT_VERSION = ''kindred.prosynthesized-capability.v1''"

definition SYNTHESIS_RECEIPT_CONTRACT_VERSION :: string where
  "SYNTHESIS_RECEIPT_CONTRACT_VERSION = ''kindred.prosynthesine-receipt.v1''"

definition PROCESS_FITNESS_DELTA_CONTRACT_VERSION :: string where
  "PROCESS_FITNESS_DELTA_CONTRACT_VERSION = ''kindred.process-fitness-delta.v1''"

definition PROCESS_INTELLIGENCE_BOUNDARY_CONTRACT_VERSION :: string where
  "PROCESS_INTELLIGENCE_BOUNDARY_CONTRACT_VERSION = ''kindred.process-intelligence-boundary.v1''"

definition PROCESS_INTELLIGENCE_EVENT_CONTRACT_VERSION :: string where
  "PROCESS_INTELLIGENCE_EVENT_CONTRACT_VERSION = ''kindred.process-intelligence-event.v1''"

definition STRATA_PROCESS_COMMITMENT_CONTRACT_VERSION :: string where
  "STRATA_PROCESS_COMMITMENT_CONTRACT_VERSION = ''kindred.strata-process-commitment-adapter.v1''"

definition PROCESS_PORT_TYPES :: "(string \<times> string) list" where
  "PROCESS_PORT_TYPES =
     [(''PROCESS'', ''PROCESS_PORT''), (''PROCESS_SKILL'', ''PROCESS_SKILL_PORT''),
      (''PROSYNTHESIZED_CAPABILITY'', ''CAPABILITY_PORT''),
      (''POST_SYNTHESIZED_CAPABILITY'', ''DYNAMIC_CAPABILITY_PORT'')]"

definition PROCESS_INTELLIGENCE_REQUEST_TYPES :: "string list" where
  "PROCESS_INTELLIGENCE_REQUEST_TYPES =
     [''DISCOVER_PROCESS_SKILLS'', ''DISCOVER_PROSYNTHESIZED_CAPABILITY'', ''REQUEST_PROSYNTHESINE_CANDIDATE'',
      ''EXECUTE_CAPABILITY'', ''REQUEST_POST_SYNTHESIS_RECOMPOSITION'']"

definition STRATA_PROCESS_COMMITMENT_KINDS :: "string list" where
  "STRATA_PROCESS_COMMITMENT_KINDS =
     [''PROCESS_GENOME'', ''PROCESS_SKILL'', ''PROSYNTHESIZED_CAPABILITY'', ''POST_SYNTHESIS_CHECKPOINT'',
      ''PROCESS_FITNESS_DELTA'', ''PROCESS_EDGE_EVIDENCE'']"

definition capabilityStates :: "string list" where
  "capabilityStates = [''CANDIDATE'', ''TESTING'', ''VERIFIED'', ''PROSYNTHESIZED'', ''DEPRECATED'', ''QUARANTINED'']"

definition compositionKinds :: "string list" where
  "compositionKinds = [''SEQUENTIAL'', ''PARALLEL'', ''FAN_OUT'', ''FAN_IN'', ''CONDITIONAL'', ''ITERATIVE'',
     ''COMPETITIVE'', ''COOPERATIVE'', ''HIERARCHICAL'', ''EVENT_DRIVEN'']"

section \<open>State roots and fields\<close>

definition stateRoot :: "platform \<Rightarrow> string \<Rightarrow> jsv \<Rightarrow> string" where
  "stateRoot P label v = ''sha256:'' @ hex_text (sha256 P (utf8 (label @ '':'' @ state_text P v)))"

definition iso_ok :: "platform \<Rightarrow> jsv \<Rightarrow> bool" where
  "iso_ok P v \<longleftrightarrow> is_string v \<and> date_parse P (text_of v) \<noteq> None"

definition filled :: "jsv \<Rightarrow> bool" where
  "filled v \<longleftrightarrow> is_string v \<and> trim (text_of v) \<noteq> []"

definition filled_or :: "jsv \<Rightarrow> string \<Rightarrow> jsv result" where
  "filled_or v why = (if filled v then Inr v else reject why)"

definition string_array_ok :: "jsv \<Rightarrow> bool" where
  "string_array_ok v \<longleftrightarrow> is_array v \<and> length (items v) \<le> 128 \<and>
     list_all (\<lambda>i. is_string i \<and> i \<noteq> JStr []) (items v) \<and> distinct (items v)"

definition stringArray :: "jsv \<Rightarrow> string \<Rightarrow> jsv result" where
  "stringArray v why = (if string_array_ok v then Inr v else reject why)"

section \<open>Genomes\<close>

definition requiredObjects :: "string list" where
  "requiredObjects = [''input_contract'', ''output_contract'', ''state_requirements'', ''execution_topology'',
     ''authority_requirements'', ''verification_requirements'', ''retry_policy'', ''rollback_policy'',
     ''timing_profile'', ''latency_profile'', ''resource_profile'', ''cost_profile'', ''security_profile'',
     ''edge_metrics'', ''lineage'']"

definition genome_texts :: "string list" where
  "genome_texts = [''process_id'', ''role'', ''purpose'', ''consequence_class'']"

definition genome_lists :: "string list" where
  "genome_lists = [''preconditions'', ''postconditions'', ''dependencies'', ''abilities'', ''model_requirements'',
     ''provider_requirements'', ''success_criteria'', ''failure_criteria'', ''performance_history_refs'',
     ''evidence_refs'', ''receipt_refs'', ''parent_process_refs'']"

definition version_ok :: "jsv \<Rightarrow> bool" where
  "version_ok v \<longleftrightarrow> is_safe_integer v \<and> 1 \<le> num_of v"

definition genome_ok :: "platform \<Rightarrow> jsv \<Rightarrow> bool" where
  "genome_ok P v \<longleftrightarrow> is_record v \<and> jget v ''contract_version'' = JStr PROCESS_GENOME_CONTRACT_VERSION \<and>
     list_all (\<lambda>k. is_record (jget v k)) requiredObjects \<and>
     version_ok (jget v ''process_version'') \<and> version_ok (jget v ''genome_version'') \<and>
     list_all (\<lambda>k. filled (jget v k)) genome_texts \<and> list_all (\<lambda>k. string_array_ok (jget v k)) genome_lists \<and>
     iso_ok P (jget v ''created_at'') \<and> iso_ok P (jget v ''updated_at'') \<and>
     filled (jget v ''skill_status'') \<and> filled (jget v ''graduation_status'')"

definition validateProcessGenome :: "platform \<Rightarrow> jsv \<Rightarrow> jsv result" where
  "validateProcessGenome P v = (if genome_ok P v then Inr v else reject ''process_genome_invalid'')"

text \<open>\<open>input.field ?? default\<close>; reading a field of null or undefined throws.\<close>

abbreviation field_or :: "jsv \<Rightarrow> string \<Rightarrow> jsv \<Rightarrow> jsv" where
  "field_or v k d \<equiv> nullish_or (jget v k) d"

definition new_genome :: "jsv \<Rightarrow> jsv \<Rightarrow> jsv" where
  "new_genome input now = JObj
     [(''contract_version'', JStr PROCESS_GENOME_CONTRACT_VERSION), (''process_id'', jget input ''process_id''),
      (''process_version'', field_or input ''process_version'' (JInt 1)),
      (''genome_version'', field_or input ''genome_version'' (JInt 1)),
      (''role'', jget input ''role''), (''purpose'', jget input ''purpose''),
      (''input_contract'', field_or input ''input_contract'' (JObj [])),
      (''output_contract'', field_or input ''output_contract'' (JObj [])),
      (''preconditions'', field_or input ''preconditions'' (JArr [])),
      (''postconditions'', field_or input ''postconditions'' (JArr [])),
      (''state_requirements'', field_or input ''state_requirements'' (JObj [])),
      (''execution_topology'', field_or input ''execution_topology'' (JObj [(''kind'', JStr ''SINGLE'')])),
      (''dependencies'', field_or input ''dependencies'' (JArr [])),
      (''abilities'', field_or input ''abilities'' (JArr [])),
      (''model_requirements'', field_or input ''model_requirements'' (JArr [])),
      (''provider_requirements'', field_or input ''provider_requirements'' (JArr [])),
      (''authority_requirements'', field_or input ''authority_requirements'' (JObj [(''level'', JStr ''none'')])),
      (''consequence_class'', field_or input ''consequence_class'' (JStr ''local_reversible'')),
      (''verification_requirements'', field_or input ''verification_requirements'' (JObj [(''required'', JBool True)])),
      (''success_criteria'', field_or input ''success_criteria'' (JArr [])),
      (''failure_criteria'', field_or input ''failure_criteria'' (JArr [])),
      (''retry_policy'', field_or input ''retry_policy'' (JObj [(''maximum'', JInt 0)])),
      (''rollback_policy'', field_or input ''rollback_policy'' (JObj [(''mode'', JStr ''none_required'')])),
      (''timing_profile'', field_or input ''timing_profile'' (JObj [])),
      (''latency_profile'', field_or input ''latency_profile'' (JObj [])),
      (''resource_profile'', field_or input ''resource_profile'' (JObj [])),
      (''cost_profile'', field_or input ''cost_profile'' (JObj [])),
      (''security_profile'', field_or input ''security_profile'' (JObj [(''secrets'', JStr ''forbidden'')])),
      (''edge_metrics'', field_or input ''edge_metrics'' (JObj [])),
      (''performance_history_refs'', field_or input ''performance_history_refs'' (JArr [])),
      (''evidence_refs'', field_or input ''evidence_refs'' (JArr [])),
      (''receipt_refs'', field_or input ''receipt_refs'' (JArr [])),
      (''parent_process_refs'', field_or input ''parent_process_refs'' (JArr [])),
      (''lineage'', field_or input ''lineage'' (JObj [(''root_process_id'', jget input ''process_id'')])),
      (''skill_status'', field_or input ''skill_status'' (JStr ''PROCESS'')),
      (''graduation_status'', field_or input ''graduation_status'' (JStr ''NOT_ELIGIBLE'')),
      (''created_at'', now), (''updated_at'', field_or input ''updated_at'' now)]"

definition createProcessGenome :: "platform \<Rightarrow> jsv \<Rightarrow> int \<Rightarrow> jsv result" where
  "createProcessGenome P input time =
     (if input = JUndef \<or> input = JNull then Inl TypeErr
      else and_then (if jget input ''created_at'' = JUndef \<or> jget input ''created_at'' = JNull
               then and_then (iso_text time) (\<lambda>s. Inr (JStr s)) else Inr (jget input ''created_at'')) (\<lambda>now.
           validateProcessGenome P (new_genome input now)))"

text \<open>\<open>{...v, ...changes}\<close>; of what is no object, arrays and texts spread their indices.\<close>

definition index_fields :: "platform \<Rightarrow> jsv list \<Rightarrow> (string \<times> jsv) list" where
  "index_fields P vs = map (\<lambda>(i, v). (nat_text i, v)) (zip [0..<length vs] vs)"

fun own_fields :: "platform \<Rightarrow> jsv \<Rightarrow> (string \<times> jsv) list" where
  "own_fields P (JObj kvs) = kvs"
| "own_fields P (JArr vs) = index_fields P vs"
| "own_fields P (JStr s) = index_fields P (map (\<lambda>c. JStr [c]) s)"
| "own_fields P v = []"

definition spread_over :: "platform \<Rightarrow> jsv \<Rightarrow> jsv \<Rightarrow> jsv" where
  "spread_over P changes v = fold (\<lambda>(k, x). jset k x) (own_fields P changes) v"

definition evolved_genome :: "platform \<Rightarrow> jsv \<Rightarrow> jsv \<Rightarrow> jsv \<Rightarrow> jsv" where
  "evolved_genome P genome changes now =
     jset ''updated_at'' now (jset ''genome_version'' (JNum (Fin (num_of (jget genome ''genome_version'') + 1)))
       (jset ''role'' (jget genome ''role'') (jset ''process_id'' (jget genome ''process_id'')
         (spread_over P changes genome))))"

definition evolveProcessGenome :: "platform \<Rightarrow> jsv \<Rightarrow> jsv \<Rightarrow> int \<Rightarrow> jsv result" where
  "evolveProcessGenome P current changes time =
     and_then (validateProcessGenome P current) (\<lambda>genome.
       if changes = JUndef \<or> changes = JNull then Inl TypeErr
       else if jget changes ''role'' \<noteq> JUndef \<and> \<not> strict_eq (jget changes ''role'') (jget genome ''role'')
       then reject ''process_role_change_requires_new_lineage''
       else if jget changes ''process_id'' \<noteq> JUndef \<and> \<not> strict_eq (jget changes ''process_id'') (jget genome ''process_id'')
       then reject ''process_identity_change_requires_new_lineage''
       else and_then (if jget changes ''updated_at'' = JUndef \<or> jget changes ''updated_at'' = JNull
              then and_then (iso_text time) (\<lambda>s. Inr (JStr s)) else Inr (jget changes ''updated_at'')) (\<lambda>now.
            validateProcessGenome P (evolved_genome P genome changes now)))"

end
