(* ===== verification/EdgeObserver.thy ===== *)
theory EdgeObserver
  imports ProcessGenomes
begin

text \<open>
  \<open>unified-quad/src/process-intelligence.mjs\<close>, second part: the observer of process edges with its
  listeners, fitness, credit, and the fitness tracker. What the host brings (the clock, the random ids,
  the numbers of texts and objects, the listeners) is a parameter that acts on a world \<open>'w\<close>.
\<close>

section \<open>Numbers of the language\<close>

record 'w host =
  now_call :: "'w \<Rightarrow> jsv \<times> 'w"
  uuid_call :: "'w \<Rightarrow> string \<times> 'w"
  number_of :: "jsv \<Rightarrow> jnum"

text \<open>\<open>Number(v)\<close>\<close>

fun js_number :: "'w host \<Rightarrow> jsv \<Rightarrow> jnum" where
  "js_number H JUndef = NaN"
| "js_number H JNull = Fin 0"
| "js_number H (JBool b) = Fin (if b then 1 else 0)"
| "js_number H (JNum n) = n"
| "js_number H v = number_of H v"

fun num_add :: "jnum \<Rightarrow> jnum \<Rightarrow> jnum" where
  "num_add (Fin a) (Fin b) = Fin (a + b)"
| "num_add (Fin a) n = n"
| "num_add n (Fin b) = n"
| "num_add PosInf PosInf = PosInf"
| "num_add NegInf NegInf = NegInf"
| "num_add m n = NaN"

fun num_neg :: "jnum \<Rightarrow> jnum" where
  "num_neg (Fin a) = Fin (- a)"
| "num_neg PosInf = NegInf"
| "num_neg NegInf = PosInf"
| "num_neg NaN = NaN"

text \<open>\<open>n / count\<close> for a positive count\<close>

fun num_over :: "jnum \<Rightarrow> nat \<Rightarrow> jnum" where
  "num_over (Fin a) k = Fin (a / of_nat k)"
| "num_over n k = n"

text \<open>\<open>a + b\<close>: texts, arrays and objects are joined as texts.\<close>

definition textual :: "jsv \<Rightarrow> bool" where
  "textual v \<longleftrightarrow> is_string v \<or> is_array v \<or> is_record v"

definition js_add :: "platform \<Rightarrow> 'w host \<Rightarrow> jsv \<Rightarrow> jsv \<Rightarrow> jsv" where
  "js_add P H a b =
     (if textual a \<or> textual b then JStr (to_string P a @ to_string P b)
      else JNum (num_add (js_number H a) (js_number H b)))"

text \<open>\<open>new Date(n).toISOString()\<close> cuts off the fraction.\<close>

definition truncated :: "rat \<Rightarrow> int" where
  "truncated q = (if q < 0 then - \<lfloor>- q\<rfloor> else \<lfloor>q\<rfloor>)"

definition time_text :: "rat \<Rightarrow> string result" where
  "time_text q = (if of_int max_time < \<bar>q\<bar> then Inl RangeErr else iso_text (truncated q))"

definition date_text :: "platform \<Rightarrow> 'w host \<Rightarrow> jsv \<Rightarrow> string result" where
  "date_text P H v =
     (if textual v
      then (case date_parse P (to_string P v) of Some t \<Rightarrow> iso_text t | None \<Rightarrow> Inl RangeErr)
      else (case js_number H v of Fin q \<Rightarrow> time_text q | _ \<Rightarrow> Inl RangeErr))"

section \<open>The observer\<close>

type_synonym 'w listener = "jsv \<Rightarrow> 'w \<Rightarrow> unit result \<times> 'w"

record 'w observer =
  edge_records :: "jsv list"
  listeners :: "(nat \<times> 'w listener) list"
  next_listener :: nat

definition new_observer :: "'w observer" where
  "new_observer = \<lparr>edge_records = [], listeners = [], next_listener = 0\<rparr>"

text \<open>A listener is kept under the number its removal names.\<close>

definition subscribe :: "'w listener option \<Rightarrow> 'w observer \<Rightarrow> nat result \<times> 'w observer" where
  "subscribe listener ob =
     (case listener of
        None \<Rightarrow> (reject ''edge_listener_invalid'', ob)
      | Some f \<Rightarrow> (Inr (next_listener ob),
          ob\<lparr>listeners := listeners ob @ [(next_listener ob, f)], next_listener := Suc (next_listener ob)\<rparr>))"

definition unsubscribe :: "nat \<Rightarrow> 'w observer \<Rightarrow> 'w observer" where
  "unsubscribe n ob = ob\<lparr>listeners := filter (\<lambda>(i, f). i \<noteq> n) (listeners ob)\<rparr>"

definition reading :: "'w host \<Rightarrow> jsv \<Rightarrow> 'w \<Rightarrow> jnum \<times> 'w" where
  "reading H v w =
     (if v = JUndef \<or> v = JNull then (let (t, w') = now_call H w in (js_number H t, w')) else (js_number H v, w))"

definition safeExecutionId :: "'w host \<Rightarrow> string \<Rightarrow> 'w \<Rightarrow> jsv \<times> 'w" where
  "safeExecutionId H prefix w = (let (u, w') = uuid_call H w in (JStr (prefix @ ''-'' @ u), w'))"

definition edge_record :: "platform \<Rightarrow> jsv \<Rightarrow> rat \<Rightarrow> rat \<Rightarrow> jsv \<Rightarrow> jsv result" where
  "edge_record P input start end_time eid =
     and_then (filled_or (jget input ''correlation_id'') ''edge_identity_invalid'') (\<lambda>correlation.
     and_then (filled_or (jget input ''source_component'') ''edge_identity_invalid'') (\<lambda>source.
     and_then (filled_or (jget input ''target_component'') ''edge_identity_invalid'') (\<lambda>target.
     and_then (filled_or (jget input ''source_role'') ''edge_identity_invalid'') (\<lambda>source_role.
     and_then (filled_or (jget input ''target_role'') ''edge_identity_invalid'') (\<lambda>target_role.
     and_then (filled_or (jget input ''input_state_root'') ''edge_state_invalid'') (\<lambda>input_root.
     and_then (filled_or (jget input ''output_state_root'') ''edge_state_invalid'') (\<lambda>output_root.
     and_then (time_text start) (\<lambda>started.
     and_then (time_text end_time) (\<lambda>ended.
     and_then (stringArray (field_or input ''evidence_refs'' (JArr [])) ''edge_evidence_invalid'') (\<lambda>evidence.
     and_then (stringArray (field_or input ''verification_refs'' (JArr [])) ''edge_evidence_invalid'') (\<lambda>verification.
       Inr (JObj
         [(''contract_version'', JStr EDGE_SUCCESS_CONTRACT_VERSION), (''edge_execution_id'', eid),
          (''correlation_id'', correlation), (''source_component'', source), (''target_component'', target),
          (''source_role'', source_role), (''target_role'', target_role),
          (''process_id'', field_or input ''process_id'' JNull), (''skill_id'', field_or input ''skill_id'' JNull),
          (''capability_id'', field_or input ''capability_id'' JNull), (''input_state_root'', input_root),
          (''output_state_root'', output_root), (''start_time'', JStr started), (''end_time'', JStr ended),
          (''latency'', JNum (Fin (end_time - start))), (''resource_use'', field_or input ''resource_use'' (JObj [])),
          (''cost'', field_or input ''cost'' JNull), (''success'', JBool (jget input ''success'' = JBool True)),
          (''verified'', JBool (jget input ''verified'' = JBool True)), (''evidence_refs'', evidence),
          (''verification_refs'', verification), (''retry_count'', field_or input ''retry_count'' (JInt 0)),
          (''fallback_count'', field_or input ''fallback_count'' (JInt 0)),
          (''error_class'', field_or input ''error_class'' JNull), (''context_ref'', field_or input ''context_ref'' JNull),
          (''authority_ref'', field_or input ''authority_ref'' JNull), (''receipt_ref'', field_or input ''receipt_ref'' JNull),
          (''contribution'', field_or input ''contribution'' (JStr ''EXECUTION''))]))))))))))))"

definition count_ok :: "jsv \<Rightarrow> bool" where
  "count_ok v \<longleftrightarrow> is_safe_integer v \<and> 0 \<le> num_of v"

fun notify :: "(nat \<times> 'w listener) list \<Rightarrow> jsv \<Rightarrow> 'w \<Rightarrow> unit result \<times> 'w" where
  "notify [] r w = (Inr (), w)"
| "notify ((n, f) # fs) r w = (case f r w of (Inl e, w') \<Rightarrow> (Inl e, w') | (Inr _, w') \<Rightarrow> notify fs r w')"

definition observe_edge ::
    "platform \<Rightarrow> 'w host \<Rightarrow> jsv \<Rightarrow> 'w observer \<Rightarrow> 'w \<Rightarrow> jsv result \<times> 'w observer \<times> 'w" where
  "observe_edge P H input ob w =
     (if input = JUndef \<or> input = JNull then (Inl TypeErr, ob, w)
      else
        let (start, w1) = reading H (jget input ''start_time'') w; (ended, w2) = reading H (jget input ''end_time'') w1
        in case (start, ended) of
             (Fin s, Fin e) \<Rightarrow>
               if e < s then (reject ''edge_time_invalid'', ob, w2)
               else if jget input ''hidden_reasoning'' \<noteq> JUndef \<or> jget input ''chain_of_thought'' \<noteq> JUndef
               then (reject ''hidden_reasoning_forbidden'', ob, w2)
               else
                 let (eid, w3) =
                       (if jget input ''edge_execution_id'' = JUndef \<or> jget input ''edge_execution_id'' = JNull
                        then safeExecutionId H ''edge'' w2 else (jget input ''edge_execution_id'', w2))
                 in (case edge_record P input s e eid of
                       Inl err \<Rightarrow> (Inl err, ob, w3)
                     | Inr r \<Rightarrow>
                         if \<not> count_ok (jget r ''retry_count'') \<or> \<not> count_ok (jget r ''fallback_count'')
                         then (reject ''edge_counts_invalid'', ob, w3)
                         else
                           let ob' = ob\<lparr>edge_records := edge_records ob @ [r]\<rparr>
                           in (case notify (listeners ob') r w3 of
                                 (Inl err, w4) \<Rightarrow> (Inl err, ob', w4)
                               | (Inr _, w4) \<Rightarrow> (Inr r, ob', w4)))
           | _ \<Rightarrow> (reject ''edge_time_invalid'', ob, w2))"

section \<open>Fitness and credit\<close>

definition selected_by :: "platform \<Rightarrow> jsv \<Rightarrow> jsv \<Rightarrow> bool" where
  "selected_by P filt r \<longleftrightarrow> list_all (\<lambda>(k, v). strict_eq (jget r k) v) (own_fields P filt)"

definition how_many :: "(jsv \<Rightarrow> bool) \<Rightarrow> jsv list \<Rightarrow> nat" where
  "how_many Q rs = length (filter Q rs)"

definition rate :: "nat \<Rightarrow> nat \<Rightarrow> jsv" where
  "rate n k = JNum (Fin (if k = 0 then 0 else of_nat n / of_nat k))"

definition mean_cost :: "platform \<Rightarrow> 'w host \<Rightarrow> jsv list \<Rightarrow> jsv" where
  "mean_cost P H rs =
     (if rs = [] then JInt 0
      else JNum (num_over (js_number H (foldl (\<lambda>sum r. js_add P H sum (field_or r ''cost'' (JInt 0))) (JInt 0) rs)) (length rs)))"

definition fitness_of :: "platform \<Rightarrow> 'w host \<Rightarrow> jsv list \<Rightarrow> jsv" where
  "fitness_of P H rs =
     (let total = length rs;
          good = how_many (\<lambda>r. truthy (jget r ''success'') \<and> truthy (jget r ''verified'')) rs;
          failures = how_many (\<lambda>r. \<not> truthy (jget r ''success'')) rs;
          recovered = how_many (\<lambda>r. truthy (jget r ''success'') \<and> 0 < num_of (jget r ''fallback_count'')) rs
      in JObj
        [(''executions'', JInt (int total)), (''verified_success_rate'', rate good total),
         (''reliability'', rate (total - failures) total),
         (''mean_latency'', JNum (Fin (if total = 0 then 0 else sum_list (map (\<lambda>r. num_of (jget r ''latency'')) rs) / of_nat total))),
         (''mean_cost'', mean_cost P H rs),
         (''retries'', JNum (Fin (sum_list (map (\<lambda>r. num_of (jget r ''retry_count'')) rs)))),
         (''failure_rate'', rate failures total), (''recovery_rate'', rate recovered failures),
         (''verification_strength'', rate (how_many (\<lambda>r. truthy (jget r ''verified'')) rs) total),
         (''context_fit'', rate good total)])"

definition fitness :: "platform \<Rightarrow> 'w host \<Rightarrow> jsv \<Rightarrow> 'w observer \<Rightarrow> jsv" where
  "fitness P H filt ob = fitness_of P H (filter (selected_by P filt) (edge_records ob))"

definition credit_of :: "jsv \<Rightarrow> rat" where
  "credit_of r =
     (if \<not> truthy (jget r ''success'') then -1
      else if jget r ''contribution'' = JStr ''RECOVERY'' then 3 / 2
      else if jget r ''contribution'' = JStr ''VERIFICATION'' then 5 / 4
      else if truthy (jget r ''verified'') then 1 else 1 / 4)"

definition credit :: "jsv \<Rightarrow> 'w observer \<Rightarrow> jsv list" where
  "credit correlation ob =
     map (\<lambda>r. JObj
       [(''edge_execution_id'', jget r ''edge_execution_id''), (''process_id'', jget r ''process_id''),
        (''contribution'', jget r ''contribution''), (''reinforcement'', JNum (Fin (credit_of r))),
        (''evidence_refs'', JArr (items (jget r ''evidence_refs'') @ items (jget r ''verification_refs'')))])
       (filter (\<lambda>r. strict_eq (jget r ''correlation_id'') correlation) (edge_records ob))"

section \<open>The fitness tracker\<close>

definition fitness_profile :: "platform \<Rightarrow> 'w host \<Rightarrow> jsv \<Rightarrow> jsv \<Rightarrow> 'w observer \<Rightarrow> jsv" where
  "fitness_profile P H process_id ctx ob =
     fitness P H (JObj ([(''process_id'', process_id)] @ (if ctx = JUndef then [] else [(''context_ref'', ctx)]))) ob"

definition js_round :: "rat \<Rightarrow> int" where
  "js_round q = \<lfloor>q + 1 / 2\<rfloor>"

definition minus_prior :: "'w host \<Rightarrow> jsv \<Rightarrow> jsv \<Rightarrow> string \<Rightarrow> string \<Rightarrow> jsv" where
  "minus_prior H profile prior k k' =
     JNum (num_add (js_number H (jget profile k)) (num_neg (js_number H (field_or prior k' (JInt 0)))))"

definition process_refs :: "jsv \<Rightarrow> string \<Rightarrow> 'w observer \<Rightarrow> jsv" where
  "process_refs process_id k ob =
     JArr (concat (map (\<lambda>r. items (jget r k)) (filter (\<lambda>r. strict_eq (jget r ''process_id'') process_id) (edge_records ob))))"

definition fitness_delta ::
    "platform \<Rightarrow> 'w host \<Rightarrow> jsv \<Rightarrow> jsv \<Rightarrow> jsv \<Rightarrow> 'w observer \<Rightarrow> 'w \<Rightarrow> jsv result \<times> 'w" where
  "fitness_delta P H process_id base_root prior ob w =
     (if prior = JNull then (Inl TypeErr, snd (uuid_call H w))
      else
        let profile = fitness_profile P H process_id JUndef ob; executions = num_of (jget profile ''executions'');
            (delta_id, w1) = safeExecutionId H ''fitness-delta'' w; (t, w2) = now_call H w1
        in (and_then (date_text P H t) (\<lambda>created.
              let delta =
                [(''contract_version'', JStr PROCESS_FITNESS_DELTA_CONTRACT_VERSION), (''delta_id'', delta_id),
                 (''process_id'', process_id), (''skill_id'', JNull), (''base_fitness_root'', base_root),
                 (''context_class'', JStr ''deterministic_local''),
                 (''new_executions'', minus_prior H profile prior ''executions'' ''executions''),
                 (''verified_successes'', JInt (js_round (num_of (jget profile ''verified_success_rate'') * executions))),
                 (''verified_failures'', JInt (js_round (num_of (jget profile ''failure_rate'') * executions))),
                 (''latency_delta'', minus_prior H profile prior ''mean_latency'' ''mean_latency''),
                 (''cost_delta'', minus_prior H profile prior ''mean_cost'' ''mean_cost''),
                 (''recovery_delta'', minus_prior H profile prior ''recovery_rate'' ''recovery_rate''),
                 (''evidence_refs'', process_refs process_id ''evidence_refs'' ob),
                 (''verification_refs'', process_refs process_id ''verification_refs'' ob), (''created_at'', JStr created)]
              in Inr (JObj (delta @ [(''result_fitness_root'', JStr (stateRoot P ''process-fitness'' (JObj delta)))]))), w2))"

end
