(* ===== verification/ProcessSkills.thy ===== *)
theory ProcessSkills
  imports EdgeObserver
begin

text \<open>
  \<open>unified-quad/src/process-intelligence.mjs\<close>, third part: the graduation of process skills, their
  registry and caches, the synthesis and promotion of capabilities, and the execution of a promoted one.
\<close>

section \<open>Graduation\<close>

text \<open>\<open>a < b\<close>: two texts by their characters, anything else as numbers; NaN is less than nothing.\<close>

fun num_less :: "jnum \<Rightarrow> jnum \<Rightarrow> bool" where
  "num_less (Fin a) (Fin b) = (a < b)"
| "num_less NegInf (Fin b) = True"
| "num_less NegInf PosInf = True"
| "num_less (Fin a) PosInf = True"
| "num_less m n = False"

definition primitive_of :: "platform \<Rightarrow> jsv \<Rightarrow> jsv" where
  "primitive_of P v = (if primitive v then v else JStr (to_string P v))"

definition js_less :: "platform \<Rightarrow> 'w host \<Rightarrow> jsv \<Rightarrow> jsv \<Rightarrow> bool" where
  "js_less P H a b =
     (case (primitive_of P a, primitive_of P b) of
        (JStr s, JStr t) \<Rightarrow> s < t
      | (v, v') \<Rightarrow> num_less (js_number H v) (js_number H v'))"

definition threshold_names :: "string list" where
  "threshold_names = [''execution_count'', ''verified_success_count'', ''success_rate'', ''verification_rate'']"

definition new_thresholds :: "jsv \<Rightarrow> jsv" where
  "new_thresholds t = JObj
     [(''execution_count'', field_or t ''execution_count'' (JInt 3)),
      (''verified_success_count'', field_or t ''verified_success_count'' (JInt 3)),
      (''success_rate'', field_or t ''success_rate'' (JInt 1)),
      (''verification_rate'', field_or t ''verification_rate'' (JInt 1)),
      (''maximum_authority_violations'', field_or t ''maximum_authority_violations'' (JInt 0)),
      (''maximum_security_failures'', field_or t ''maximum_security_failures'' (JInt 0))]"

definition reasons_against :: "platform \<Rightarrow> 'w host \<Rightarrow> jsv \<Rightarrow> jsv \<Rightarrow> string list" where
  "reasons_against P H thresholds evidence =
     map (\<lambda>k. k @ ''_below_threshold'') (filter (\<lambda>k. js_less P H (jget evidence k) (jget thresholds k)) threshold_names) @
     (if js_less P H (jget thresholds ''maximum_authority_violations'') (field_or evidence ''authority_violations'' (JInt 0))
      then [''authority_violations_exceeded''] else []) @
     (if js_less P H (jget thresholds ''maximum_security_failures'') (field_or evidence ''security_failures'' (JInt 0))
      then [''security_failures_exceeded''] else [])"

definition evaluate_policy :: "platform \<Rightarrow> 'w host \<Rightarrow> jsv \<Rightarrow> jsv \<Rightarrow> jsv result" where
  "evaluate_policy P H thresholds evidence =
     (if evidence = JUndef \<or> evidence = JNull then Inl TypeErr
      else
        let reasons = reasons_against P H thresholds evidence
        in Inr (JObj [(''eligible'', JBool (reasons = [])), (''reasons'', JArr (map JStr reasons)), (''thresholds'', thresholds)]))"

section \<open>The registry of skills\<close>

record registry =
  thresholds :: jsv
  skills :: "(string \<times> jsv) list"

definition new_registry :: "jsv \<Rightarrow> registry" where
  "new_registry t = \<lparr>thresholds = new_thresholds t, skills = []\<rparr>"

definition skill_id_of :: "platform \<Rightarrow> jsv \<Rightarrow> string" where
  "skill_id_of P genome =
     ''kindred.process-skill.'' @ to_string P (jget genome ''process_id'') @ ''.v'' @ to_string P (jget genome ''process_version'')"

definition new_skill :: "platform \<Rightarrow> jsv \<Rightarrow> jsv \<Rightarrow> jsv result" where
  "new_skill P genome evidence =
     and_then (stringArray (field_or evidence ''supported_contexts'' (JArr [JStr ''deterministic_local'']))
       ''skill_context_invalid'') (\<lambda>contexts.
     and_then (stringArray (field_or evidence ''known_limitations'' (JArr [])) ''skill_limitations_invalid'') (\<lambda>limitations.
     and_then (stringArray (field_or evidence ''evidence_refs'' (JArr [])) ''skill_evidence_invalid'') (\<lambda>refs.
       Inr (JObj
         [(''contract_version'', JStr PROCESS_SKILL_CONTRACT_VERSION), (''skill_id'', JStr (skill_id_of P genome)),
          (''source_process_id'', jget genome ''process_id''),
          (''genome_ref'', JStr (stateRoot P ''process-genome'' genome)),
          (''skill_version'', jget genome ''process_version''), (''role'', jget genome ''role''),
          (''fitness_profile'', evidence), (''supported_contexts'', contexts), (''known_limitations'', limitations),
          (''verification_profile'', JObj [(''verified_success_count'', jget evidence ''verified_success_count''),
             (''verification_rate'', jget evidence ''verification_rate'')]),
          (''lineage'', jget genome ''lineage''), (''evidence_refs'', refs)]))))"

definition graduate :: "platform \<Rightarrow> 'w host \<Rightarrow> jsv \<Rightarrow> jsv \<Rightarrow> registry \<Rightarrow> jsv result \<times> registry" where
  "graduate P H genomeInput evidence reg =
     (case and_then (validateProcessGenome P genomeInput) (\<lambda>genome.
           and_then (evaluate_policy P H (thresholds reg) evidence) (\<lambda>decision.
             if \<not> truthy (jget decision ''eligible'') then reject ''process_skill_graduation_denied''
             else new_skill P genome evidence)) of
        Inl e \<Rightarrow> (Inl e, reg)
      | Inr skill \<Rightarrow> (Inr skill, reg\<lparr>skills := AList.update (text_of (jget skill ''skill_id'')) skill (skills reg)\<rparr>))"

definition get_skill :: "jsv \<Rightarrow> registry \<Rightarrow> jsv result" where
  "get_skill sid reg =
     (case sid of
        JStr s \<Rightarrow> (case map_of (skills reg) s of Some skill \<Rightarrow> Inr skill | None \<Rightarrow> reject ''process_skill_unknown'')
      | _ \<Rightarrow> reject ''process_skill_unknown'')"

section \<open>Caches\<close>

record counters =
  hits :: nat
  misses :: nat

definition cached_skill :: "jsv \<Rightarrow> registry \<Rightarrow> counters \<Rightarrow> jsv result \<times> counters" where
  "cached_skill sid reg c =
     (case get_skill sid reg of
        Inr skill \<Rightarrow> (Inr skill, c\<lparr>hits := Suc (hits c)\<rparr>)
      | Inl (Rejected why r) \<Rightarrow> (Inl (Rejected why r), c\<lparr>misses := Suc (misses c)\<rparr>)
      | Inl e \<Rightarrow> (Inl e, c))"

record composition_cache =
  cache_entries :: "(string \<times> jsv) list"
  cache_counters :: counters

definition new_cache :: composition_cache where
  "new_cache = \<lparr>cache_entries = [], cache_counters = \<lparr>hits = 0, misses = 0\<rparr>\<rparr>"

definition cache_key :: "platform \<Rightarrow> jsv \<Rightarrow> jsv \<Rightarrow> string" where
  "cache_key P intentClass contextRoot =
     stateRoot P ''capability-composition-cache-key'' (JObj [(''intentClass'', intentClass), (''contextRoot'', contextRoot)])"

definition cache_get :: "platform \<Rightarrow> jsv \<Rightarrow> jsv \<Rightarrow> composition_cache \<Rightarrow> jsv \<times> composition_cache" where
  "cache_get P intentClass contextRoot c =
     (let entry = (case map_of (cache_entries c) (cache_key P intentClass contextRoot) of Some v \<Rightarrow> v | None \<Rightarrow> JUndef)
      in if \<not> truthy entry
         then (JNull, c\<lparr>cache_counters := (cache_counters c)\<lparr>misses := Suc (misses (cache_counters c))\<rparr>\<rparr>)
         else (entry, c\<lparr>cache_counters := (cache_counters c)\<lparr>hits := Suc (hits (cache_counters c))\<rparr>\<rparr>))"

definition cache_set :: "platform \<Rightarrow> jsv \<Rightarrow> jsv \<Rightarrow> jsv \<Rightarrow> composition_cache \<Rightarrow> composition_cache" where
  "cache_set P intentClass contextRoot capability c =
     c\<lparr>cache_entries := AList.update (cache_key P intentClass contextRoot) capability (cache_entries c)\<rparr>"

section \<open>Synthesis\<close>

record prosynthesine =
  composed :: composition_cache
  discoveryCount :: nat

definition node_name :: "nat \<Rightarrow> jsv" where
  "node_name i = JStr (''node-'' @ nat_text i)"

definition composition_graph :: "jsv \<Rightarrow> jsv list \<Rightarrow> jsv" where
  "composition_graph shape skill_list = JObj
     [(''kind'', shape),
      (''nodes'', JArr (map (\<lambda>(i, s). JObj [(''node_id'', node_name (i + 1)), (''skill_id'', jget s ''skill_id''),
         (''role'', jget s ''role'')]) (zip [0..<length skill_list] skill_list))),
      (''edges'', JArr (map (\<lambda>i. JObj [(''from'', node_name (i + 1)), (''to'', node_name (i + 2))])
         [0..<length skill_list - 1]))]"

definition candidate :: "jsv \<Rightarrow> jsv list \<Rightarrow> jsv result" where
  "candidate input skill_list =
     and_then (stringArray (field_or input ''supported_contexts'' (JArr [JStr ''deterministic_local'']))
       ''capability_context_invalid'') (\<lambda>contexts.
     and_then (stringArray (field_or input ''evidence_refs'' (JArr [])) ''capability_evidence_invalid'') (\<lambda>refs.
       Inr (JObj
         [(''contract_version'', JStr PROSYNTHESIZED_CAPABILITY_CONTRACT_VERSION),
          (''capability_id'', jget input ''capability_id''),
          (''capability_version'', field_or input ''capability_version'' (JInt 1)), (''name'', jget input ''name''),
          (''role'', jget input ''role''), (''outcome_class'', jget input ''outcome_class''),
          (''source_skill_refs'', JArr (map (\<lambda>s. jget s ''skill_id'') skill_list)),
          (''source_genome_refs'', JArr (map (\<lambda>s. jget s ''genome_ref'') skill_list)),
          (''composition_graph'', composition_graph (jget input ''composition_kind'') skill_list),
          (''inputs'', field_or input ''inputs'' (JObj [])), (''outputs'', field_or input ''outputs'' (JObj [])),
          (''supported_contexts'', contexts),
          (''authority_requirements'', field_or input ''authority_requirements'' (JObj [(''level'', JStr ''none'')])),
          (''side_effect_class'', field_or input ''side_effect_class'' (JStr ''local_reversible'')),
          (''state_requirements'', field_or input ''state_requirements'' (JObj [])),
          (''verification_policy'', field_or input ''verification_policy'' (JObj [(''required'', JBool True)])),
          (''resource_profile'', field_or input ''resource_profile'' (JObj [])),
          (''performance_profile'', field_or input ''performance_profile'' (JObj [])),
          (''failure_profile'', field_or input ''failure_profile'' (JObj [])),
          (''rollback_profile'', field_or input ''rollback_profile'' (JObj [(''mode'', JStr ''checkpoint'')])),
          (''evidence_refs'', refs), (''synthesis_receipt_ref'', JNull),
          (''lineage'', JObj [(''source_process_ids'', JArr (map (\<lambda>s. jget s ''source_process_id'') skill_list))]),
          (''status'', JStr ''CANDIDATE'')])))"

definition synthesis_answer :: "jsv \<Rightarrow> bool \<Rightarrow> nat \<Rightarrow> jsv" where
  "synthesis_answer capability hit n =
     JObj [(''capability'', capability), (''cache_hit'', JBool hit), (''discovery_count'', JInt (int n))]"

definition synthesize :: "platform \<Rightarrow> registry option \<Rightarrow> jsv \<Rightarrow> prosynthesine \<Rightarrow> jsv result \<times> prosynthesine" where
  "synthesize P reg input ps =
     (if input = JUndef \<or> input = JNull then (Inl TypeErr, ps)
      else
        let (cached, cache') = cache_get P (jget input ''intent_class'') (jget input ''context_root'') (composed ps);
            ps1 = ps\<lparr>composed := cache'\<rparr>
        in if truthy cached then (Inr (synthesis_answer cached True 0), ps1)
           else case reg of
             None \<Rightarrow> (reject ''process_skill_registry_required'', ps1)
           | Some r \<Rightarrow>
               if \<not> str_in (jget input ''composition_kind'') compositionKinds
               then (reject ''composition_kind_invalid'', ps1)
               else if \<not> is_array (jget input ''skill_ids'') then (Inl TypeErr, ps1)
               else case map_results (\<lambda>sid. get_skill sid r) (items (jget input ''skill_ids'')) of
                 Inl e \<Rightarrow> (Inl e, ps1)
               | Inr skill_list \<Rightarrow>
                   if length skill_list < 2 then (reject ''prosynthesis_requires_multiple_skills'', ps1)
                   else
                     let ps2 = ps1\<lparr>discoveryCount := discoveryCount ps1 + length skill_list\<rparr>
                     in (and_then (candidate input skill_list) (\<lambda>c. Inr (synthesis_answer c False (length skill_list))), ps2))"

definition promotion_evidence :: "string list" where
  "promotion_evidence = [''sandbox_passed'', ''deterministic_tests_passed'', ''integration_test_passed'',
     ''failure_tests_passed'', ''verification_passed'', ''authority_evaluation_passed'']"

definition synthesis_receipt :: "jsv \<Rightarrow> jsv \<Rightarrow> jsv \<Rightarrow> (string \<times> jsv) list" where
  "synthesis_receipt cand evidence sid =
     [(''contract_version'', JStr SYNTHESIS_RECEIPT_CONTRACT_VERSION), (''synthesis_id'', sid),
      (''candidate_capability_id'', jget cand ''capability_id''),
      (''source_process_skills'', jget cand ''source_skill_refs''), (''source_genomes'', jget cand ''source_genome_refs''),
      (''composition_graph'', jget cand ''composition_graph''),
      (''synaptic_evidence'', field_or evidence ''synaptic_evidence'' (JArr [])),
      (''benchmark_results'', field_or evidence ''benchmark_results'' (JObj [])),
      (''verification_results'', field_or evidence ''verification_results'' (JObj [])),
      (''authority'', field_or evidence ''authority'' (JObj [(''level'', JStr ''none'')])),
      (''performance'', field_or evidence ''performance'' (JObj [])),
      (''failure_tests'', field_or evidence ''failure_tests'' (JObj [])), (''promotion_decision'', JStr ''PROMOTED'')]"

definition promotion_commitment :: "jsv \<Rightarrow> jsv" where
  "promotion_commitment promoted = JObj
     [(''capability'', promoted), (''source_skills'', jget promoted ''source_skill_refs''),
      (''source_genomes'', jget promoted ''source_genome_refs''), (''composition_graph'', jget promoted ''composition_graph''),
      (''verification_policy'', jget promoted ''verification_policy''),
      (''performance_profile'', jget promoted ''performance_profile''), (''evidence_summary'', jget promoted ''evidence_refs''),
      (''version'', jget promoted ''capability_version'')]"

definition promote :: "platform \<Rightarrow> 'w host \<Rightarrow> jsv \<Rightarrow> jsv \<Rightarrow> prosynthesine \<Rightarrow> 'w \<Rightarrow> jsv result \<times> prosynthesine \<times> 'w" where
  "promote P H cand evidence ps w =
     (if cand = JUndef \<or> cand = JNull then (Inl TypeErr, ps, w)
      else if \<not> str_in (jget cand ''status'') capabilityStates \<or> jget cand ''status'' \<noteq> JStr ''CANDIDATE''
      then (reject ''capability_not_candidate'', ps, w)
      else if evidence = JUndef \<or> evidence = JNull then (Inl TypeErr, ps, w)
      else if list_ex (\<lambda>k. jget evidence k \<noteq> JBool True) promotion_evidence
      then (reject ''capability_promotion_evidence_incomplete'', ps, w)
      else
        let (sid, w') = safeExecutionId H ''prosynthesis'' w; receipt = synthesis_receipt cand evidence sid;
            promoted = jset ''synthesis_receipt_ref'' (JStr (stateRoot P ''prosynthesine-receipt'' (JObj receipt)))
              (jset ''status'' (JStr ''PROSYNTHESIZED'') cand);
            root = JStr (stateRoot P ''prosynthesized-capability'' (promotion_commitment promoted))
        in (Inr (JObj [(''capability'', promoted), (''receipt'', JObj (receipt @ [(''resulting_state_root'', root)])),
              (''state_root'', root)]),
            ps\<lparr>composed := cache_set P (jget evidence ''intent_class'') (jget evidence ''context_root'') promoted (composed ps)\<rparr>, w'))"

section \<open>Execution\<close>

type_synonym 'w skill_code = "jsv \<Rightarrow> 'w \<Rightarrow> jsv result \<times> 'w"

record 'w execution =
  capability :: jsv
  skill_codes :: "string \<Rightarrow> 'w skill_code option"
  correlation_ref :: jsv
  context_of :: jsv
  authority_of :: jsv
  verify_code :: "'w skill_code"

definition execution_edge :: "platform \<Rightarrow> 'w execution \<Rightarrow> jsv list \<Rightarrow> jsv \<Rightarrow> jsv \<Rightarrow> jsv \<Rightarrow> jsv" where
  "execution_edge P x completed node state output = JObj
     [(''correlation_id'', correlation_ref x),
      (''source_component'', if completed = [] then JStr ''capability_port'' else nullish_or (last completed) (JStr ''capability_port'')),
      (''target_component'', jget node ''skill_id''),
      (''source_role'', JStr (if completed = [] then ''PROSYNTHESIZED_CAPABILITY'' else ''PROCESS_SKILL'')),
      (''target_role'', jget node ''role''), (''process_id'', jget output ''process_id''),
      (''skill_id'', jget node ''skill_id''), (''capability_id'', jget (capability x) ''capability_id''),
      (''input_state_root'', JStr (stateRoot P ''edge-input'' state)),
      (''output_state_root'', JStr (stateRoot P ''edge-output'' (jget output ''state''))),
      (''start_time'', jget output ''start_time''), (''end_time'', jget output ''end_time''),
      (''success'', jget output ''success''), (''verified'', jget output ''verified''),
      (''evidence_refs'', field_or output ''evidence_refs'' (JArr [])),
      (''verification_refs'', field_or output ''verification_refs'' (JArr [])),
      (''retry_count'', field_or output ''retry_count'' (JInt 0)),
      (''fallback_count'', field_or output ''fallback_count'' (JInt 0)),
      (''error_class'', field_or output ''error_class'' JNull), (''context_ref'', context_of x),
      (''authority_ref'', authority_of x), (''receipt_ref'', field_or output ''receipt_ref'' JNull),
      (''contribution'', field_or output ''contribution'' (JStr ''EXECUTION''))]"

fun run_nodes :: "platform \<Rightarrow> 'w host \<Rightarrow> 'w execution \<Rightarrow> jsv list \<Rightarrow> jsv list \<Rightarrow> jsv \<Rightarrow> 'w observer \<Rightarrow> 'w \<Rightarrow>
    (jsv \<times> jsv list) result \<times> 'w observer \<times> 'w" where
  "run_nodes P H x [] completed state ob w = (Inr (state, completed), ob, w)"
| "run_nodes P H x (node # nodes) completed state ob w =
     (if node = JUndef \<or> node = JNull then (Inl TypeErr, ob, w)
      else case skill_codes x (to_string P (jget node ''skill_id'')) of
        None \<Rightarrow> (reject ''process_skill_implementation_missing'', ob, w)
      | Some f \<Rightarrow>
          (case f state w of
             (Inl e, w1) \<Rightarrow> (Inl e, ob, w1)
           | (Inr output, w1) \<Rightarrow>
               if output = JUndef \<or> output = JNull then (Inl TypeErr, ob, w1)
               else case observe_edge P H (execution_edge P x completed node state output) ob w1 of
                 (Inl e, ob', w2) \<Rightarrow> (Inl e, ob', w2)
               | (Inr _, ob', w2) \<Rightarrow>
                   if \<not> truthy (jget output ''success'') then (reject ''prosynthesized_capability_skill_failed'', ob', w2)
                   else run_nodes P H x nodes (completed @ [jget node ''skill_id'']) (jget output ''state'') ob' w2))"

definition executeProsynthesizedCapability ::
    "platform \<Rightarrow> 'w host \<Rightarrow> 'w execution \<Rightarrow> jsv \<Rightarrow> 'w observer option \<Rightarrow> 'w \<Rightarrow> jsv result \<times> 'w observer option \<times> 'w" where
  "executeProsynthesizedCapability P H x state observer w =
     (let graph = jget (capability x) ''composition_graph''
      in if capability x = JUndef \<or> capability x = JNull then (Inl TypeErr, observer, w)
         else if jget (capability x) ''status'' \<noteq> JStr ''PROSYNTHESIZED'' then (reject ''capability_not_promoted'', observer, w)
         else if graph = JUndef \<or> graph = JNull then (Inl TypeErr, observer, w)
         else if jget graph ''kind'' \<noteq> JStr ''SEQUENTIAL''
         then (reject ''seed_runtime_requires_sequential_graph'', observer, w)
         else case observer of
           None \<Rightarrow> (reject ''edge_observer_required'', observer, w)
         | Some ob \<Rightarrow>
             case iterate (jget graph ''nodes'') of
               Inl e \<Rightarrow> (Inl e, observer, w)
             | Inr nodes \<Rightarrow> (case run_nodes P H x nodes [] state ob w of
               (Inl e, ob', w1) \<Rightarrow> (Inl e, Some ob', w1)
             | (Inr (final, completed), ob', w1) \<Rightarrow>
                 (case verify_code x final w1 of
                    (Inl e, w2) \<Rightarrow> (Inl e, Some ob', w2)
                  | (Inr v, w2) \<Rightarrow>
                      (Inr (JObj [(''state'', final), (''completed'', JArr completed), (''verified'', JBool (v = JBool True)),
                         (''outcome_state_root'', JStr (stateRoot P ''verified-outcome'' final))]), Some ob', w2))))"

end
