(* ===== verification/ProcessBoundary.thy ===== *)
theory ProcessBoundary
  imports ProcessSkills
begin

text \<open>
  \<open>unified-quad/src/process-intelligence.mjs\<close>, fourth part: the runtime that recomposes a capability while
  it executes it, the resumption of a checkpoint, the choice of an execution, and the boundary adapter. The
  budgets of the runtime are natural numbers, as its defaults are.
\<close>

section \<open>The post-synthesis runtime\<close>

record 'w runtime_input =
  initial_graph :: "jsv list"
  deadline_ms :: jsv
  now_code :: "'w \<Rightarrow> jsv \<times> 'w"
  observe_code :: "jsv \<Rightarrow> 'w \<Rightarrow> jsv result \<times> 'w"
  suitable_code :: "jsv \<Rightarrow> jsv \<Rightarrow> 'w \<Rightarrow> jsv result \<times> 'w"
  recompose_code :: "jsv \<Rightarrow> 'w \<Rightarrow> jsv result \<times> 'w"
  authorize_code :: "jsv \<Rightarrow> 'w \<Rightarrow> jsv result \<times> 'w"
  runtime_skills :: "string \<Rightarrow> (jsv \<Rightarrow> jsv \<Rightarrow> 'w \<Rightarrow> jsv result \<times> 'w) option"
  runtime_verify :: "jsv \<Rightarrow> 'w \<Rightarrow> jsv result \<times> 'w"
  runtime_correlation :: jsv
  runtime_capability :: jsv
  runtime_context :: jsv
  runtime_authority :: jsv
  runtime_fencing :: jsv

record budgets =
  maximumRecompositions :: nat
  maximumSteps :: nat

definition default_budgets :: budgets where
  "default_budgets = \<lparr>maximumRecompositions = 4, maximumSteps = 64\<rparr>"

record 'w working =
  working_graph :: "jsv list"
  visitedGraphs :: "string list"
  recompilations :: "jsv list"
  completed_skills :: "jsv list"
  cursor :: nat
  recompositions :: nat
  working_state :: jsv
  watcher :: "'w observer"
  world :: 'w

definition graph_root :: "platform \<Rightarrow> jsv list \<Rightarrow> string" where
  "graph_root P graph = stateRoot P ''post-synthesis-graph'' (JArr graph)"

definition same_item :: "jsv \<Rightarrow> jsv \<Rightarrow> bool" where
  "same_item v w \<longleftrightarrow> primitive v \<and> v = w"

definition runtime_edge :: "platform \<Rightarrow> 'w runtime_input \<Rightarrow> 'w working \<Rightarrow> jsv \<Rightarrow> jsv \<Rightarrow> jsv" where
  "runtime_edge P x s selected output = JObj
     [(''correlation_id'', runtime_correlation x),
      (''source_component'', if cursor s = 0 then JStr ''dynamic_capability_port'' else working_graph s ! (cursor s - 1)),
      (''target_component'', selected),
      (''source_role'', JStr (if cursor s = 0 then ''POST_SYNTHESIZED_CAPABILITY'' else ''PROCESS_SKILL'')),
      (''target_role'', JStr ''PROCESS_SKILL''), (''process_id'', jget output ''process_id''), (''skill_id'', selected),
      (''capability_id'', runtime_capability x),
      (''input_state_root'', JStr (stateRoot P ''edge-input'' (working_state s))),
      (''output_state_root'', JStr (stateRoot P ''edge-output'' (jget output ''state''))),
      (''start_time'', jget output ''start_time''), (''end_time'', jget output ''end_time''),
      (''success'', jget output ''success''), (''verified'', jget output ''verified''),
      (''evidence_refs'', jget output ''evidence_refs''), (''verification_refs'', jget output ''verification_refs''),
      (''retry_count'', field_or output ''retry_count'' (JInt 0)),
      (''fallback_count'', field_or output ''fallback_count'' (JInt 0)),
      (''error_class'', field_or output ''error_class'' JNull), (''context_ref'', runtime_context x),
      (''authority_ref'', runtime_authority x), (''receipt_ref'', jget output ''receipt_ref''),
      (''contribution'', field_or output ''contribution'' (JStr ''EXECUTION''))]"

text \<open>The replacement of the selected skill.\<close>

definition recompose :: "platform \<Rightarrow> budgets \<Rightarrow> 'w runtime_input \<Rightarrow> jsv \<Rightarrow> jsv \<Rightarrow> 'w working \<Rightarrow> unit result \<times> 'w working" where
  "recompose P b x selected observation s =
     (if maximumRecompositions b \<le> recompositions s then (reject ''post_synthesis_recomposition_budget_exceeded'', s)
      else case recompose_code x (JObj [(''selected'', selected), (''observation'', observation),
                (''graph'', JArr (working_graph s)), (''cursor'', JInt (int (cursor s)))]) (world s) of
        (Inl e, w1) \<Rightarrow> (Inl e, s\<lparr>world := w1\<rparr>)
      | (Inr replacement, w1) \<Rightarrow>
          if strict_eq replacement selected \<or> list_ex (same_item replacement) (completed_skills s)
          then (reject ''post_synthesis_cycle_detected'', s\<lparr>world := w1\<rparr>)
          else case authorize_code x (JObj [(''selected'', replacement), (''observation'', observation)]) w1 of
            (Inl e, w2) \<Rightarrow> (Inl e, s\<lparr>world := w2\<rparr>)
          | (Inr _, w2) \<Rightarrow>
              let graph = (working_graph s)[cursor s := replacement]
              in (Inr (), s\<lparr>working_graph := graph, recompositions := Suc (recompositions s),
                    recompilations := recompilations s @ [JObj [(''event'', JStr ''RECOMPILED''),
                      (''reason_category'', jget observation ''reason_category''), (''replaced'', selected),
                      (''selected'', replacement), (''graph_root'', JStr (graph_root P graph))]], world := w2\<rparr>))"

text \<open>The execution of the selected skill.\<close>

definition run_selected :: "platform \<Rightarrow> 'w host \<Rightarrow> 'w runtime_input \<Rightarrow> jsv \<Rightarrow> jsv \<Rightarrow> 'w working \<Rightarrow> unit result \<times> 'w working" where
  "run_selected P H x selected observation s =
     (case authorize_code x (JObj [(''selected'', selected), (''observation'', observation)]) (world s) of
        (Inl e, w1) \<Rightarrow> (Inl e, s\<lparr>world := w1\<rparr>)
      | (Inr _, w1) \<Rightarrow>
          (case runtime_skills x (to_string P selected) of
             None \<Rightarrow> (Inl TypeErr, s\<lparr>world := w1\<rparr>)
           | Some f \<Rightarrow>
               (case f (working_state s) observation w1 of
                  (Inl e, w2) \<Rightarrow> (Inl e, s\<lparr>world := w2\<rparr>)
                | (Inr output, w2) \<Rightarrow>
                    if output = JUndef \<or> output = JNull then (Inl TypeErr, s\<lparr>world := w2\<rparr>)
                    else
                      (case observe_edge P H (runtime_edge P x s selected output) (watcher s) w2 of
                         (res, ob, w3) \<Rightarrow>
                           let s' = s\<lparr>working_state := jget output ''state'', watcher := ob, world := w3\<rparr>
                           in case res of
                                Inl e \<Rightarrow> (Inl e, s')
                              | Inr _ \<Rightarrow>
                                  if \<not> truthy (jget output ''success'') then (reject ''post_synthesis_skill_failed'', s')
                                  else (Inr (), s'\<lparr>completed_skills := completed_skills s @ [selected],
                                         cursor := Suc (cursor s)\<rparr>)))))"

text \<open>The rest of a step, in the working set \<open>s2\<close> its checks leave.\<close>

definition checked_step ::
    "platform \<Rightarrow> 'w host \<Rightarrow> budgets \<Rightarrow> 'w runtime_input \<Rightarrow> 'w working \<Rightarrow> unit result \<times> 'w working" where
  "checked_step P H b x s2 =
     (let selected = working_graph s2 ! cursor s2
      in (case observe_code x (JObj [(''selected'', selected), (''cursor'', JInt (int (cursor s2))),
                 (''graph'', JArr (working_graph s2))]) (world s2) of
            (Inl e, w3) \<Rightarrow> (Inl e, s2\<lparr>world := w3\<rparr>)
          | (Inr observation, w3) \<Rightarrow>
              let s3 = s2\<lparr>world := w3\<rparr>
              in if observation = JUndef \<or> observation = JNull then (Inl TypeErr, s3)
                 else if \<not> truthy (jget observation ''changed'') then run_selected P H x selected observation s3
                 else case suitable_code x selected observation w3 of
                   (Inl e, w4) \<Rightarrow> (Inl e, s3\<lparr>world := w4\<rparr>)
                 | (Inr suitable, w4) \<Rightarrow>
                     if truthy suitable then run_selected P H x selected observation (s3\<lparr>world := w4\<rparr>)
                     else recompose P b x selected observation (s3\<lparr>world := w4\<rparr>)))"

definition runtime_step ::
    "platform \<Rightarrow> 'w host \<Rightarrow> budgets \<Rightarrow> 'w runtime_input \<Rightarrow> jsv \<Rightarrow> 'w working \<Rightarrow> unit result \<times> 'w working" where
  "runtime_step P H b x deadline s =
     (if maximumSteps b \<le> length (completed_skills s) then (reject ''post_synthesis_step_budget_exceeded'', s)
      else
        let (t, w1) = now_code x (world s); s1 = s\<lparr>world := w1\<rparr>; root = graph_root P (working_graph s)
        in if js_less P H deadline (JNum (js_number H t)) then (reject ''post_synthesis_deadline_exceeded'', s1)
           else if cursor s = 0 \<and> root \<in> set (visitedGraphs s) then (reject ''post_synthesis_cycle_detected'', s1)
           else checked_step P H b x (s1\<lparr>visitedGraphs := List.insert root (visitedGraphs s)\<rparr>))"

text \<open>A step that goes on has either completed a skill or used up one recomposition.\<close>

lemma recompose_progress:
  assumes "recompose P b x selected observation s = (Inr (), s')"
  shows "cursor s' = cursor s \<and> length (working_graph s') = length (working_graph s) \<and>
    recompositions s' = Suc (recompositions s) \<and> recompositions s < maximumRecompositions b \<and>
    completed_skills s' = completed_skills s"
  using assms by (auto simp: recompose_def Let_def split: if_splits prod.splits sum.splits)

lemma run_selected_progress:
  assumes "run_selected P H x selected observation s = (Inr (), s')"
  shows "cursor s' = Suc (cursor s) \<and> working_graph s' = working_graph s \<and> recompositions s' = recompositions s \<and>
    completed_skills s' = completed_skills s @ [selected]"
  using assms by (auto simp: run_selected_def Let_def split: if_splits prod.splits sum.splits option.splits)

lemma checked_step_progress:
  assumes "checked_step P H b x s = (Inr (), s')"
  shows "length (working_graph s') = length (working_graph s) \<and>
    (cursor s' = Suc (cursor s) \<and> recompositions s' = recompositions s \<and>
       length (completed_skills s') = Suc (length (completed_skills s)) \<or>
     cursor s' = cursor s \<and> recompositions s' = Suc (recompositions s) \<and> recompositions s < maximumRecompositions b \<and>
       completed_skills s' = completed_skills s)"
  using assms
  by (auto simp: checked_step_def Let_def split: if_splits prod.splits sum.splits
    dest!: recompose_progress run_selected_progress)

lemma runtime_step_progress:
  assumes "runtime_step P H b x deadline s = (Inr (), s')"
  shows "length (working_graph s') = length (working_graph s) \<and> length (completed_skills s) < maximumSteps b \<and>
    (cursor s' = Suc (cursor s) \<and> recompositions s' = recompositions s \<and>
       length (completed_skills s') = Suc (length (completed_skills s)) \<or>
     cursor s' = cursor s \<and> recompositions s' = Suc (recompositions s) \<and> recompositions s < maximumRecompositions b \<and>
       completed_skills s' = completed_skills s)"
  using assms
  by (auto simp: runtime_step_def Let_def split: if_splits prod.splits dest!: checked_step_progress)

function runtime_loop ::
    "platform \<Rightarrow> 'w host \<Rightarrow> budgets \<Rightarrow> 'w runtime_input \<Rightarrow> jsv \<Rightarrow> 'w working \<Rightarrow> unit result \<times> 'w working" where
  "runtime_loop P H b x deadline s =
     (if cursor s < length (working_graph s)
      then (case runtime_step P H b x deadline s of
              (Inl e, s') \<Rightarrow> (Inl e, s')
            | (Inr _, s') \<Rightarrow> runtime_loop P H b x deadline s')
      else (Inr (), s))"
  by pat_completeness auto
termination
  by (relation "measures [\<lambda>(P, H, b, x, deadline, s). length (working_graph s) - cursor s,
      \<lambda>(P, H, b, x, deadline, s). maximumRecompositions b - recompositions s]")
    (auto dest!: runtime_step_progress [OF sym])

declare runtime_loop.simps [simp del]

definition runtime_checkpoint :: "platform \<Rightarrow> 'w runtime_input \<Rightarrow> 'w working \<Rightarrow> jsv" where
  "runtime_checkpoint P x s = JObj
     [(''contract_version'', JStr ''kindred.post-synthesis-checkpoint.v1''), (''capability_id'', runtime_capability x),
      (''correlation_id'', runtime_correlation x), (''graph'', JArr (working_graph s)),
      (''completed'', JArr (completed_skills s)), (''pending'', JArr []),
      (''recompilation_events'', JArr (recompilations s)),
      (''edge_record_refs'', JArr (map (\<lambda>r. jget r ''edge_execution_id'')
         (filter (\<lambda>r. strict_eq (jget r ''correlation_id'') (runtime_correlation x)) (edge_records (watcher s))))),
      (''authority_ref'', runtime_authority x),
      (''state_root'', JStr (stateRoot P ''post-synthesis-working-set'' (working_state s))),
      (''fencing_token'', runtime_fencing x)]"

definition runtime_answer :: "platform \<Rightarrow> 'w runtime_input \<Rightarrow> 'w working \<Rightarrow> jsv \<Rightarrow> jsv" where
  "runtime_answer P x s verified = JObj
     [(''state'', working_state s), (''verified'', JBool (verified = JBool True)),
      (''completed'', JArr (completed_skills s)), (''recompositions'', JInt (int (recompositions s))),
      (''events'', JArr (recompilations s)), (''checkpoint'', runtime_checkpoint P x s)]"

definition start_working :: "'w runtime_input \<Rightarrow> jsv \<Rightarrow> 'w observer \<Rightarrow> 'w \<Rightarrow> 'w working" where
  "start_working x state ob w = \<lparr>working_graph = initial_graph x, visitedGraphs = [], recompilations = [],
     completed_skills = [], cursor = 0, recompositions = 0, working_state = state, watcher = ob, world = w\<rparr>"

definition execute_runtime ::
    "platform \<Rightarrow> 'w host \<Rightarrow> budgets \<Rightarrow> 'w runtime_input \<Rightarrow> jsv \<Rightarrow> 'w observer option \<Rightarrow> 'w \<Rightarrow>
     jsv result \<times> 'w observer option \<times> 'w" where
  "execute_runtime P H b x state observer w =
     (case observer of
        None \<Rightarrow> (reject ''edge_observer_required'', None, w)
      | Some ob \<Rightarrow>
          let (t, w1) = now_code x w; deadline = js_add P H (JNum (js_number H t)) (deadline_ms x)
          in (case runtime_loop P H b x deadline (start_working x state ob w1) of
                (Inl e, s) \<Rightarrow> (Inl e, Some (watcher s), world s)
              | (Inr _, s) \<Rightarrow>
                  (case runtime_verify x (working_state s) (world s) of
                     (Inl e, w2) \<Rightarrow> (Inl e, Some (watcher s), w2)
                   | (Inr v, w2) \<Rightarrow> (Inr (runtime_answer P x s v), Some (watcher s), w2))))"

section \<open>Resumption and the choice of an execution\<close>

text \<open>\<open>a <= b\<close>\<close>

definition js_less_eq :: "platform \<Rightarrow> 'w host \<Rightarrow> jsv \<Rightarrow> jsv \<Rightarrow> bool" where
  "js_less_eq P H a b =
     (case (primitive_of P a, primitive_of P b) of
        (JStr s, JStr t) \<Rightarrow> s \<le> t
      | (v, v') \<Rightarrow> js_number H v \<noteq> NaN \<and> (num_less (js_number H v) (js_number H v') \<or> js_number H v = js_number H v'))"

definition resumePostSynthesis :: "platform \<Rightarrow> 'w host \<Rightarrow> jsv \<Rightarrow> jsv \<Rightarrow> jsv result" where
  "resumePostSynthesis P H checkpoint options =
     (if options = JNull \<or> checkpoint = JUndef \<or> checkpoint = JNull then Inl TypeErr
      else if js_less_eq P H (jget options ''fencing_token'') (jget checkpoint ''fencing_token'')
      then reject ''stale_failover_fencing_token''
      else and_then (filled_or (jget options ''port'') ''failover_port_invalid'') (\<lambda>port.
        Inr (jset ''duplicate_consequential_effects'' (JInt 0)
          (jset ''fencing_token'' (jget options ''fencing_token'')
            (jset ''materialized_at_port'' port (JObj (own_fields P checkpoint)))))))"

definition selectExecutionComplexity :: "platform \<Rightarrow> 'w host \<Rightarrow> jsv \<Rightarrow> string result" where
  "selectExecutionComplexity P H input =
     (let skill_count = jget input ''skill_count''; dynamic = (jget input ''dynamic'' = JBool True)
      in if input = JUndef \<or> input = JNull then Inl TypeErr
         else if jget input ''simple_conversation'' = JBool True \<and> jget input ''external_effects'' \<noteq> JBool True
         then Inr ''DIRECT_RESPONSE''
         else if jget input ''retrieval_only'' = JBool True then Inr ''SIMPLE_RETRIEVAL''
         else if skill_count = JInt 1 \<and> \<not> dynamic then Inr ''SINGLE_SKILL''
         else if jget input ''proven_process'' = JBool True \<and> skill_count = JInt 1 then Inr ''PROCESS_SKILL''
         else if dynamic then Inr ''POST_SYNTHESIZED_CAPABILITY''
         else if js_less P H (JInt 1) skill_count then Inr ''PROSYNTHESIZED_CAPABILITY''
         else Inr ''DIRECT_RESPONSE'')"

section \<open>The boundary adapter\<close>

definition toSynaptizerEvent :: "platform \<Rightarrow> jsv \<Rightarrow> jsv" where
  "toSynaptizerEvent P r = JObj
     [(''contract_version'', JStr PROCESS_INTELLIGENCE_EVENT_CONTRACT_VERSION),
      (''event_type'', JStr ''PROCESS_EDGE_EVIDENCE''),
      (''edge_relationship'', JObj
         [(''source_component'', jget r ''source_component''), (''target_component'', jget r ''target_component''),
          (''source_role'', jget r ''source_role''), (''target_role'', jget r ''target_role'')]),
      (''context_ref'', jget r ''context_ref''), (''success'', jget r ''success''),
      (''failure'', JBool (\<not> truthy (jget r ''success''))),
      (''recovery'', JBool (jget r ''contribution'' = JStr ''RECOVERY'')),
      (''verification_contribution'', JBool (jget r ''contribution'' = JStr ''VERIFICATION'')),
      (''fitness_evidence'', JObj
         [(''verified'', jget r ''verified''), (''latency'', jget r ''latency''), (''retry_count'', jget r ''retry_count''),
          (''fallback_count'', jget r ''fallback_count''), (''evidence_refs'', jget r ''evidence_refs''),
          (''verification_refs'', jget r ''verification_refs'')]),
      (''edge_execution_id'', jget r ''edge_execution_id''),
      (''state_root'', JStr (stateRoot P ''process-intelligence-event'' r))]"

text \<open>An adapter holds the observer, the registry and the ProSynthesine it was given by reference: their states
  are arguments of its operations, and what the adapter adds is its subscription.\<close>

text \<open>The publisher is a function, or missing (\<open>None\<close>), or something else (\<open>Some None\<close>).\<close>

definition new_adapter ::
    "platform \<Rightarrow> 'w observer option \<Rightarrow> registry option \<Rightarrow> prosynthesine option \<Rightarrow> 'w listener option option \<Rightarrow>
     nat result \<times> 'w observer option" where
  "new_adapter P observer reg ps publish =
     (case (observer, reg, ps) of
        (None, _, _) \<Rightarrow> (reject ''edge_observer_required'', observer)
      | (_, None, _) \<Rightarrow> (reject ''process_skill_registry_required'', observer)
      | (_, _, None) \<Rightarrow> (reject ''prosynthesine_required'', observer)
      | (Some ob, Some r, Some p) \<Rightarrow>
          (case (case publish of None \<Rightarrow> Some (\<lambda>event w. (Inr (), w)) | Some f \<Rightarrow> f) of
             None \<Rightarrow> (reject ''event_publisher_invalid'', observer)
           | Some f \<Rightarrow>
               (case subscribe (Some (\<lambda>r. f (toSynaptizerEvent P r))) ob of (res, ob') \<Rightarrow> (res, Some ob'))))"

text \<open>\<open>inherited\<close> gives what the name finds on every object.\<close>

definition mapPort :: "(string \<Rightarrow> jsv) \<Rightarrow> string \<Rightarrow> jsv result" where
  "mapPort inherited componentClass =
     (let t = (case map_of PROCESS_PORT_TYPES componentClass of Some t \<Rightarrow> JStr t | None \<Rightarrow> inherited componentClass)
      in if \<not> truthy t then reject ''process_port_class_invalid'' else Inr t)"

definition discoverProcessSkills :: "jsv \<Rightarrow> registry \<Rightarrow> jsv list result" where
  "discoverProcessSkills payload reg =
     (if payload = JUndef \<or> payload = JNull then Inl TypeErr
      else and_then (filled_or (jget payload ''outcome_class'') ''boundary_outcome_invalid'') (\<lambda>_.
           and_then (filled_or (jget payload ''context'') ''boundary_context_invalid'') (\<lambda>ctx.
             Inr (filter (\<lambda>skill. array_includes (jget skill ''supported_contexts'') ctx)
               (map snd (skills reg))))))"

definition discoverProsynthesizedCapability :: "platform \<Rightarrow> jsv \<Rightarrow> prosynthesine \<Rightarrow> jsv result \<times> prosynthesine" where
  "discoverProsynthesizedCapability P payload ps =
     (if payload = JUndef \<or> payload = JNull then (Inl TypeErr, ps)
      else
        let (entry, cache) = cache_get P (jget payload ''intent_class'') (jget payload ''context_root'') (composed ps)
        in (Inr entry, ps\<lparr>composed := cache\<rparr>))"

definition boundary_request :: "jsv \<Rightarrow> jsv \<Rightarrow> jsv result" where
  "boundary_request requestType payload =
     (if \<not> str_in requestType PROCESS_INTELLIGENCE_REQUEST_TYPES then reject ''process_intelligence_request_invalid''
      else Inr (JObj
        [(''contract_version'', JStr PROCESS_INTELLIGENCE_BOUNDARY_CONTRACT_VERSION), (''request_type'', requestType),
         (''payload'', default_to payload (JObj [])), (''external_effects_authorized'', JBool False),
         (''authority_escalation_authorized'', JBool False)]))"

definition requestCandidate :: "platform \<Rightarrow> registry option \<Rightarrow> jsv \<Rightarrow> prosynthesine \<Rightarrow> jsv result \<times> prosynthesine" where
  "requestCandidate P reg payload ps = synthesize P reg payload ps"

text \<open>The capability runs with the observer its payload brings, not with the one of the adapter.\<close>

definition executeCapability ::
    "platform \<Rightarrow> 'w host \<Rightarrow> 'w execution \<Rightarrow> jsv \<Rightarrow> 'w observer option \<Rightarrow> 'w \<Rightarrow> jsv result \<times> 'w observer option \<times> 'w" where
  "executeCapability P H x state observer w = executeProsynthesizedCapability P H x state observer w"

definition requestRecomposition :: "jsv \<Rightarrow> jsv result" where
  "requestRecomposition payload = boundary_request (JStr ''REQUEST_POST_SYNTHESIS_RECOMPOSITION'') payload"

definition createStrataCommitment :: "platform \<Rightarrow> jsv \<Rightarrow> jsv \<Rightarrow> jsv result" where
  "createStrataCommitment P k v =
     (if \<not> str_in k STRATA_PROCESS_COMMITMENT_KINDS then reject ''strata_process_commitment_kind_invalid''
      else Inr (JObj
        [(''contract_version'', JStr STRATA_PROCESS_COMMITMENT_CONTRACT_VERSION), (''kind'', k),
         (''state_root'', JStr (stateRoot P (''strata-'' @ to_lower (text_of k)) v)), (''payload_ref'', JNull),
         (''adapter_only'', JBool True), (''direct_pipe'', JBool False)]))"

definition cacheEvidence :: "registry \<Rightarrow> prosynthesine \<Rightarrow> jsv" where
  "cacheEvidence reg ps =
     (let c = cache_counters (composed ps)
      in JObj [(''process_skill_reuse'', JInt (int (length (skills reg)))),
           (''capability_composition_hits'', JInt (int (hits c))), (''capability_composition_misses'', JInt (int (misses c))),
           (''planning_discovery_avoided'', JInt (int (hits c)))])"

definition close_adapter :: "nat \<Rightarrow> 'w observer \<Rightarrow> 'w observer" where
  "close_adapter subscription ob = unsubscribe subscription ob"

end
