(* ===== verification/ProcessFacts.thy ===== *)
theory ProcessFacts
  imports ProcessBoundary SynaptizerSnapshots
begin

text \<open>
  What the observer of process edges gives to the Synaptizer, how fitness and credit relate to it, and what
  the runtimes leave in the observer.
\<close>

section \<open>Observed edges\<close>

text \<open>An execution id that is absent, and made up by the observer, or a text that is not empty.\<close>

definition edge_id_ok :: "jsv \<Rightarrow> bool" where
  "edge_id_ok v \<longleftrightarrow> v = JUndef \<or> v = JNull \<or> (is_string v \<and> v \<noteq> JStr [])"

lemma filled_or_Inr: "filled_or v why = Inr v' \<longleftrightarrow> v' = v \<and> filled v"
  by (auto simp: filled_or_def)

lemma filled_text: "filled v \<Longrightarrow> is_string v \<and> v \<noteq> JStr []"
  by (auto simp: filled_def trim_def)

lemma stringArray_Inr: "stringArray v why = Inr v' \<longleftrightarrow> v' = v \<and> string_array_ok v"
  by (auto simp: stringArray_def)

text \<open>The fields of a record.\<close>

lemma edge_record_fields:
  assumes "edge_record P input s e eid = Inr r"
  shows "jget r ''edge_execution_id'' = eid"
    "\<forall>k \<in> {''correlation_id'', ''source_component'', ''target_component'', ''source_role'', ''target_role'',
       ''input_state_root'', ''output_state_root''}. jget r k = jget input k \<and> filled (jget input k)"
    "jget r ''success'' = JBool (jget input ''success'' = JBool True)"
    "jget r ''verified'' = JBool (jget input ''verified'' = JBool True)"
    "jget r ''latency'' = JNum (Fin (e - s))"
    "jget r ''contribution'' = field_or input ''contribution'' (JStr ''EXECUTION'')"
    "jget r ''context_ref'' = field_or input ''context_ref'' JNull"
    "jget r ''process_id'' = field_or input ''process_id'' JNull"
    "jget r ''retry_count'' = field_or input ''retry_count'' (JInt 0)"
    "jget r ''fallback_count'' = field_or input ''fallback_count'' (JInt 0)"
  using assms unfolding edge_record_def and_then_Inr_iff filled_or_Inr stringArray_Inr by auto

text \<open>A host that leaves a part of the world alone.\<close>

definition keeps :: "'w host \<Rightarrow> ('w \<Rightarrow> 'q) \<Rightarrow> bool" where
  "keeps H Q \<longleftrightarrow> (\<forall>w. Q (snd (now_call H w)) = Q w \<and> Q (snd (uuid_call H w)) = Q w)"

lemma reading_keeps: "keeps H Q \<Longrightarrow> reading H v w = (n, w') \<Longrightarrow> Q w' = Q w"
  unfolding reading_def keeps_def by (metis (no_types, lifting) case_prod_beta' prod.inject snd_conv surjective_pairing)

lemma safe_id_keeps: "keeps H Q \<Longrightarrow> safeExecutionId H p w = (v, w') \<Longrightarrow> Q w' = Q w \<and> (\<exists>u. v = JStr (p @ ''-'' @ u))"
  unfolding safeExecutionId_def keeps_def by (auto simp: Let_def split: prod.splits) (metis snd_conv)

lemma observe_edge_cases:
  assumes "observe_edge P H input ob w = (res, ob', w')" and keeps: "keeps H Q"
  obtains (refused) err where "res = Inl err" "ob' = ob" "Q w' = Q w"
  | (recorded) s e eid r w3 out where "edge_record P input s e eid = Inr r" "s \<le> e"
      "(if jget input ''edge_execution_id'' = JUndef \<or> jget input ''edge_execution_id'' = JNull
        then \<exists>u. eid = JStr (''edge-'' @ u) else eid = jget input ''edge_execution_id'')"
      "count_ok (jget r ''retry_count'')" "count_ok (jget r ''fallback_count'')"
      "ob' = ob\<lparr>edge_records := edge_records ob @ [r]\<rparr>" "notify (listeners ob) r w3 = (out, w')" "Q w3 = Q w"
      "res = (case out of Inl err \<Rightarrow> Inl err | Inr _ \<Rightarrow> Inr r)"
proof (cases "input = JUndef \<or> input = JNull")
  case True
  with assms show thesis by (intro refused) (auto simp: observe_edge_def)
next
  case False
  obtain n1 w1 where r1: "reading H (jget input ''start_time'') w = (n1, w1)" by fastforce
  obtain n2 w2 where r2: "reading H (jget input ''end_time'') w1 = (n2, w2)" by fastforce
  have q2: "Q w2 = Q w" using reading_keeps [OF keeps r1] reading_keeps [OF keeps r2] by simp
  show thesis
  proof (cases "\<exists>s e. n1 = Fin s \<and> n2 = Fin e \<and> s \<le> e \<and> jget input ''hidden_reasoning'' = JUndef \<and> jget input ''chain_of_thought'' = JUndef")
    case False
    with assms(1) \<open>\<not> (input = JUndef \<or> input = JNull)\<close> have "(\<exists>err. res = Inl err) \<and> ob' = ob \<and> w' = w2"
      by (auto simp: observe_edge_def r1 r2 Let_def split: jnum.splits if_splits)
    with q2 refused show thesis by blast
  next
    case True
    then obtain s e where se: "n1 = Fin s" "n2 = Fin e" "s \<le> e" and hidden: "jget input ''hidden_reasoning'' = JUndef" "jget input ''chain_of_thought'' = JUndef"
      by blast
    obtain eid w3 where eid: "(if jget input ''edge_execution_id'' = JUndef \<or> jget input ''edge_execution_id'' = JNull
        then safeExecutionId H ''edge'' w2 else (jget input ''edge_execution_id'', w2)) = (eid, w3)" by fastforce
    then have q3: "Q w3 = Q w" and id: "if jget input ''edge_execution_id'' = JUndef \<or> jget input ''edge_execution_id'' = JNull
        then \<exists>u. eid = JStr (''edge-'' @ u) else eid = jget input ''edge_execution_id''"
      using q2 safe_id_keeps [OF keeps, of "''edge''" w2 eid w3] by (auto split: if_splits)
    note run = assms(1) [unfolded observe_edge_def r1 r2 se Let_def prod.case jnum.case eid] 
    show thesis
    proof (cases "edge_record P input s e eid")
      case (Inl err)
      with run False se(3) hidden have "res = Inl err" "ob' = ob" "w' = w3" by auto
      with q3 refused show thesis by blast
    next
      case (Inr r)
      show thesis
      proof (cases "count_ok (jget r ''retry_count'') \<and> count_ok (jget r ''fallback_count'')")
        case True
        obtain out w4 where out: "notify (listeners ob) r w3 = (out, w4)" by fastforce
        with run False se(3) hidden Inr True have "ob' = ob\<lparr>edge_records := edge_records ob @ [r]\<rparr>" "w' = w4"
            "res = (case out of Inl err \<Rightarrow> Inl err | Inr _ \<Rightarrow> Inr r)"
          by (auto split: sum.splits)
        with recorded [OF Inr se(3) id] True out q3 show thesis by simp
      next
        case False
        with run \<open>\<not> (input = JUndef \<or> input = JNull)\<close> se(3) hidden Inr
        have "res = reject ''edge_counts_invalid''" "ob' = ob" "w' = w3" by auto
        with q3 refused show thesis by blast
      qed
    qed
  qed
qed

section \<open>From the observer to the Synaptizer\<close>

text \<open>The Synaptizer as the publisher of an adapter, in the second part of the world.\<close>

definition feed :: "platform \<Rightarrow> ('e \<times> synaptizer) listener" where
  "feed P event w =
     (case w of (e, s) \<Rightarrow>
        (case consume_event P event s of (Inl err, s') \<Rightarrow> (Inl err, (e, s')) | (Inr _, s') \<Rightarrow> (Inr (), (e, s'))))"

lemma event_fields:
  "truthy (toSynaptizerEvent P r)" "typeof_object (toSynaptizerEvent P r)"
  "jget (toSynaptizerEvent P r) ''event_type'' = JStr ''PROCESS_EDGE_EVIDENCE''"
  "jget (toSynaptizerEvent P r) ''contract_version'' = JStr PROCESS_INTELLIGENCE_EVENT_CONTRACT_VERSION"
  "jget (toSynaptizerEvent P r) ''edge_execution_id'' = jget r ''edge_execution_id''"
  "jget (toSynaptizerEvent P r) ''state_root'' = JStr (stateRoot P ''process-intelligence-event'' r)"
  "jget (toSynaptizerEvent P r) ''context_ref'' = jget r ''context_ref''"
  "jget (toSynaptizerEvent P r) ''success'' = jget r ''success''"
  "jget (toSynaptizerEvent P r) ''failure'' = JBool (\<not> truthy (jget r ''success''))"
  "jget (toSynaptizerEvent P r) ''recovery'' = JBool (jget r ''contribution'' = JStr ''RECOVERY'')"
  "jget (toSynaptizerEvent P r) ''verification_contribution'' = JBool (jget r ''contribution'' = JStr ''VERIFICATION'')"
  "jget (jget (toSynaptizerEvent P r) ''fitness_evidence'') ''verified'' = jget r ''verified''"
  "truthy (jget (toSynaptizerEvent P r) ''fitness_evidence'')" "typeof_object (jget (toSynaptizerEvent P r) ''fitness_evidence'')"
  "truthy (jget (toSynaptizerEvent P r) ''edge_relationship'')" "typeof_object (jget (toSynaptizerEvent P r) ''edge_relationship'')"
  "jget (jget (toSynaptizerEvent P r) ''edge_relationship'') ''source_component'' = jget r ''source_component''"
  "jget (jget (toSynaptizerEvent P r) ''edge_relationship'') ''target_component'' = jget r ''target_component''"
  "jget (jget (toSynaptizerEvent P r) ''edge_relationship'') ''source_role'' = jget r ''source_role''"
  "jget (jget (toSynaptizerEvent P r) ''edge_relationship'') ''target_role'' = jget r ''target_role''"
  by (simp_all add: toSynaptizerEvent_def)

lemma check_edge_event:
  assumes "hash_width P" "edge_record P input s e (JStr i) = Inr r" "i \<noteq> []"
  shows "check_event P (toSynaptizerEvent P r) = Inr ()"
    "\<exists>identity. relationshipIdentity (toSynaptizerEvent P r) = Inr identity"
proof -
  have root: "sha_root_shape (stateRoot P l v)" for l v
    unfolding stateRoot_def by (rule sha_root_digest [OF assms(1)])
  have version: "nonEmpty (JStr PROCESS_INTELLIGENCE_EVENT_CONTRACT_VERSION) why = Inr ()" for why
    by (simp add: nonEmpty_def PROCESS_INTELLIGENCE_EVENT_CONTRACT_VERSION_def)
  have "nonEmpty (JStr i) why = Inr ()" for why using assms(3) by (simp add: nonEmpty_def)
  then show "check_event P (toSynaptizerEvent P r) = Inr ()"
    unfolding check_event_def event_fields edge_record_fields(1) [OF assms(2)] version
    by (simp add: event_fields root)
  have "nonEmpty (jget r k) why = Inr ()" if "filled (jget r k)" for k why
    using filled_text [OF that] by (simp add: nonEmpty_def)
  moreover have "filled (jget r ''source_component'')" "filled (jget r ''target_component'')"
    "filled (jget r ''source_role'')" "filled (jget r ''target_role'')"
    using edge_record_fields(2) [OF assms(2)] by simp_all
  ultimately show "\<exists>identity. relationshipIdentity (toSynaptizerEvent P r) = Inr identity"
    by (simp add: relationshipIdentity_def identity_parts_def event_fields)
qed

lemma check_edge_id:
  assumes "edge_record P input s e eid = Inr r" "\<not> is_string eid \<or> eid = JStr []"
  shows "check_event P (toSynaptizerEvent P r) = reject ''synaptic_edge_execution_id_invalid''"
  using assms(2)
  by (simp add: check_event_def event_fields edge_record_fields(1) [OF assms(1)] nonEmpty_def
    PROCESS_INTELLIGENCE_EVENT_CONTRACT_VERSION_def)

lemma set_of_total: "is_array v \<Longrightarrow> \<exists>vs. set_of v = Inr vs"
  by (cases v) simp_all

lemma learn_total:
  assumes "sums_up P known learnt" "relationshipIdentity e = Inr identity"
  shows "\<exists>r rid. learn P e known = Inr (r, rid)"
proof -
  obtain rid where rid: "relationship_id P identity = Inr rid" using relationship_id_Inr by blast
  let ?existing = "case map_of known rid of Some r \<Rightarrow> r | None \<Rightarrow> fresh_relationship rid identity"
  have "is_array (jget ?existing ''evidence_state_roots'')"
  proof (cases "map_of known rid")
    case None
    then show ?thesis using fresh_fields(3) [of _ _ identity rid] assms(2) by (auto simp: relationshipIdentity_def)
  next
    case (Some r)
    then show ?thesis using assms(1) [unfolded sums_up_def, THEN spec, of rid] by (auto simp: summary_def)
  qed
  then obtain vs where "set_of (jget ?existing ''evidence_state_roots'') = Inr vs" using set_of_total by blast
  then show ?thesis using rid by (simp add: learn_def assms(2) committed_digest Let_def)
qed

text \<open>
  C37: Composition, with a Synaptizer as the publisher of a boundary adapter. A refused observation changes
  neither the records nor the Synaptizer. A recorded edge without an execution id of its own, or with one that
  is a text and not empty, is received by the Synaptizer, and observing it does not fail: a duplicate of an
  id seen before is counted as such, a verified edge with a new id is learned, one that is not verified is
  counted as ignored. An edge with any other execution id is recorded too, but the Synaptizer refuses its event
  and is left as it was, and the observation fails with that refusal.
\<close>

theorem observed_edges_reach_synaptizer:
  assumes "hash_width P" "keeps H snd"
    and known: "sums_up P (relationships s) learnt"
    and "new_adapter P (Some new_observer) (Some reg) (Some ps) (Some (Some (feed P))) = (Inr n, Some ob)"
    and run: "observe_edge P H input (ob\<lparr>edge_records := rs\<rparr>) (e, s) = (res, ob', (e', s'))"
  shows "(\<exists>err. res = Inl err \<and> edge_records ob' = rs \<and> s' = s) \<or>
    (\<exists>r. edge_records ob' = rs @ [r] \<and>
       (if edge_id_ok (jget input ''edge_execution_id'')
        then res = Inr r \<and> receivedEvents s' = receivedEvents s + 1 \<and>
          event_id (toSynaptizerEvent P r) \<in> set (seenEvents s') \<and>
          (if event_id (toSynaptizerEvent P r) \<in> set (seenEvents s) then duplicateEvents s' = duplicateEvents s + 1
           else if jget r ''verified'' = JBool True
           then learnedEvents s' = learnedEvents s + 1 \<and> identity_root P (toSynaptizerEvent P r) \<in> fst ` set (relationships s')
           else ignoredEvents s' = ignoredEvents s + 1 \<and> relationships s' = relationships s)
        else res = reject ''synaptic_edge_execution_id_invalid'' \<and> s' = s))"
  using run assms(2)
proof (cases rule: observe_edge_cases)
  case (recorded b f eid r w3 out)
  have listeners: "listeners ob = [(0, \<lambda>r. feed P (toSynaptizerEvent P r))]"
    using assms(4) by (auto simp: new_adapter_def subscribe_def new_observer_def)
  obtain e3 where w3: "w3 = (e3, s)" using recorded(8) by (cases w3) simp
  show ?thesis
  proof (cases "edge_id_ok (jget input ''edge_execution_id'')")
    case False
    then have "\<not> is_string eid \<or> eid = JStr []" using recorded(3) by (auto simp: edge_id_ok_def)
    then have "feed P (toSynaptizerEvent P r) w3 = (reject ''synaptic_edge_execution_id_invalid'', w3)"
      by (simp add: feed_def consume_event_def check_edge_id [OF recorded(1)] w3)
    with recorded(7) have "out = reject ''synaptic_edge_execution_id_invalid''" "s' = s"
      by (simp_all add: listeners w3)
    then show ?thesis using False recorded(6,9) by simp
  next
    case True
    obtain i where i: "eid = JStr i" "i \<noteq> []"
      using recorded(3) True by (cases "jget input ''edge_execution_id''") (auto simp: edge_id_ok_def split: if_splits)
    from recorded(1) have made: "edge_record P input b f (JStr i) = Inr r" by (simp add: i)
    note event = check_edge_event [OF assms(1) made i(2)]
    let ?event = "toSynaptizerEvent P r"
    obtain identity where identity: "relationshipIdentity ?event = Inr identity" using event(2) by blast
    have verified: "verified ?event \<longleftrightarrow> jget r ''verified'' = JBool True"
      by (simp add: verified_def is_true_def event_fields)
    obtain rr rid where learn: "learn P ?event (relationships s) = Inr (rr, rid)" using learn_total [OF known identity] by blast
    then have rid: "rid = identity_root P ?event"
      using identity by (auto simp: learn_def identity_root_def Let_def result_simps)
    have "\<exists>v. fst (consume_event P ?event s) = Inr v" using event(1) learn by (auto simp: consume_event_def Let_def)
    then obtain v s2 where consumed: "consume_event P ?event s = (Inr v, s2)" by (metis prod.collapse)
    then have "feed P ?event w3 = (Inr (), (e3, s2))" by (simp add: w3 feed_def)
    with recorded(7) consumed have out: "out = Inr ()" "s' = snd (consume_event P ?event s)"
      by (simp_all add: listeners)
    have "receivedEvents s' = receivedEvents s + 1 \<and> event_id ?event \<in> set (seenEvents s') \<and>
        (if event_id ?event \<in> set (seenEvents s) then duplicateEvents s' = duplicateEvents s + 1
         else if jget r ''verified'' = JBool True
         then learnedEvents s' = learnedEvents s + 1 \<and> identity_root P ?event \<in> fst ` set (relationships s')
         else ignoredEvents s' = ignoredEvents s + 1 \<and> relationships s' = relationships s)"
      using event(1) learn unfolding out(2) verified [symmetric]
      by (auto simp: consume_event_def Let_def event_id_def verified_def rid fst_set_update)
    then show ?thesis using True recorded(6,9) out(1) by simp
  qed
qed simp


text \<open>
  C32: Credit and reinforcement agree: the credit the observer gives to each verified edge of a correlation is
  the weight the Synaptizer adds for its event, although the two tables are written separately and in
  different orders.
\<close>

theorem credit_is_reinforcement:
  assumes "\<forall>r \<in> set (edge_records ob). (\<exists>input s e eid. edge_record P input s e eid = Inr r) \<and> jget r ''verified'' = JBool True"
  shows "map (\<lambda>c. jget c ''reinforcement'') (credit correlation ob) =
    map (\<lambda>r. JNum (Fin (reinforcement (toSynaptizerEvent P r))))
      (filter (\<lambda>r. strict_eq (jget r ''correlation_id'') correlation) (edge_records ob))"
proof -
  have "credit_of r = reinforcement (toSynaptizerEvent P r)" if "r \<in> set (edge_records ob)" for r
  proof -
    from assms that obtain input s e eid where r: "edge_record P input s e eid = Inr r" and v: "jget r ''verified'' = JBool True"
      by blast
    show ?thesis unfolding credit_of_def reinforcement_def event_fields edge_record_fields(3) [OF r] v
      by (simp add: is_true_def)
  qed
  then show ?thesis by (simp add: credit_def comp_def)
qed

section \<open>Fitness\<close>

lemma how_many_le: "how_many Q rs \<le> length rs"
  by (simp add: how_many_def)

lemma how_many_mono: "(\<And>r. Q r \<Longrightarrow> Q' r) \<Longrightarrow> how_many Q rs \<le> how_many Q' rs"
  by (induction rs) (auto simp: how_many_def le_SucI)

lemma how_many_not: "how_many (\<lambda>r. \<not> Q r) rs = length rs - how_many Q rs"
  unfolding how_many_def using sum_length_filter_compl [of Q rs] by linarith

definition rate_of :: "nat \<Rightarrow> nat \<Rightarrow> rat" where
  "rate_of n k = (if k = 0 then 0 else of_nat n / of_nat k)"

lemma rate_of: "rate n k = JNum (Fin (rate_of n k))"
  by (simp add: rate_def rate_of_def)

lemma rate_bounds: "n \<le> k \<Longrightarrow> rate_of n k \<le> 1" "m \<le> n \<Longrightarrow> rate_of m k \<le> rate_of n k" "0 \<le> rate_of n k"
  by (auto simp: rate_of_def divide_simps)

lemma round_rate: "n \<le> k \<Longrightarrow> js_round (rate_of n k * of_nat k) = int n"
  by (auto simp: rate_of_def js_round_def floor_eq_iff)

abbreviation matched :: "platform \<Rightarrow> 'w observer \<Rightarrow> jsv \<Rightarrow> jsv list" where
  "matched P ob filt \<equiv> filter (selected_by P filt) (edge_records ob)"

abbreviation profile_num :: "platform \<Rightarrow> 'w host \<Rightarrow> 'w observer \<Rightarrow> jsv \<Rightarrow> string \<Rightarrow> rat" where
  "profile_num P H ob filt k \<equiv> num_of (jget (fitness P H filt ob) k)"

text \<open>
  The rates of a fitness profile are proportions: between 0 and 1, the verified successes no more than
  the successes (reliability) and than the verified executions, failures and reliability adding up to 1; and
  rounding a rate times the executions, as the fitness delta does, gives back the exact count.
\<close>

theorem fitness_rates_are_proportions:
  "profile_num P H ob filt ''executions'' = of_nat (length (matched P ob filt)) \<and>
    0 \<le> profile_num P H ob filt ''verified_success_rate'' \<and> profile_num P H ob filt ''verified_success_rate'' \<le> profile_num P H ob filt ''reliability'' \<and>
    profile_num P H ob filt ''verified_success_rate'' \<le> profile_num P H ob filt ''verification_strength'' \<and> profile_num P H ob filt ''reliability'' \<le> 1 \<and>
    profile_num P H ob filt ''verification_strength'' \<le> 1 \<and> profile_num P H ob filt ''context_fit'' = profile_num P H ob filt ''verified_success_rate'' \<and>
    profile_num P H ob filt ''failure_rate'' = (if matched P ob filt = [] then 0 else 1 - profile_num P H ob filt ''reliability'') \<and>
    js_round (profile_num P H ob filt ''verified_success_rate'' * profile_num P H ob filt ''executions'') =
      int (how_many (\<lambda>r. truthy (jget r ''success'') \<and> truthy (jget r ''verified'')) (matched P ob filt)) \<and>
    js_round (profile_num P H ob filt ''failure_rate'' * profile_num P H ob filt ''executions'') = int (how_many (\<lambda>r. \<not> truthy (jget r ''success'')) (matched P ob filt))"
proof -
  let ?rs = "matched P ob filt" and ?n = "length (matched P ob filt)"
  let ?good = "how_many (\<lambda>r. truthy (jget r ''success'') \<and> truthy (jget r ''verified'')) ?rs"
  let ?failed = "how_many (\<lambda>r. \<not> truthy (jget r ''success'')) ?rs"
  have vals: "profile_num P H ob filt ''executions'' = of_nat ?n" "profile_num P H ob filt ''verified_success_rate'' = rate_of ?good ?n"
    "profile_num P H ob filt ''reliability'' = rate_of (?n - ?failed) ?n" "profile_num P H ob filt ''failure_rate'' = rate_of ?failed ?n"
    "profile_num P H ob filt ''verification_strength'' = rate_of (how_many (\<lambda>r. truthy (jget r ''verified'')) ?rs) ?n"
    "profile_num P H ob filt ''context_fit'' = rate_of ?good ?n"
    by (simp_all add: fitness_def fitness_of_def Let_def rate_of)
  have "?n - ?failed = how_many (\<lambda>r. truthy (jget r ''success'')) ?rs"
    using how_many_le [of "\<lambda>r. truthy (jget r ''success'')" ?rs] by (simp add: how_many_not)
  moreover have "?good \<le> how_many (\<lambda>r. truthy (jget r ''success'')) ?rs" by (rule how_many_mono) simp
  ultimately have "?good \<le> ?n - ?failed" by simp
  then have good: "rate_of ?good ?n \<le> rate_of (?n - ?failed) ?n" by (rule rate_bounds(2))
  have verified: "rate_of ?good ?n \<le> rate_of (how_many (\<lambda>r. truthy (jget r ''verified'')) ?rs) ?n"
    by (intro rate_bounds(2) how_many_mono) simp
  have failed: "rate_of ?failed ?n = (if ?rs = [] then 0 else 1 - rate_of (?n - ?failed) ?n)"
    using how_many_le [of "\<lambda>r. \<not> truthy (jget r ''success'')" ?rs] by (auto simp: rate_of_def of_nat_diff field_simps)
  show ?thesis
    unfolding vals
    by (intro conjI HOL.refl good verified failed rate_bounds(1,3) round_rate how_many_le diff_le_self)
qed

end
