(* ===== verification/RuntimeFacts.thy ===== *)
theory RuntimeFacts
  imports ProcessFacts
begin

text \<open>
  What the executions of capabilities leave in the observer: a promoted capability runs its nodes in order and
  records each; the recomposing runtime ends within its budgets.
\<close>

section \<open>What an observation adds\<close>

lemma observe_edge_adds:
  assumes "observe_edge P H input ob w = (res, ob', w')"
  obtains new where "edge_records ob' = edge_records ob @ new" "length new \<le> 1" "listeners ob' = listeners ob"
    "\<forall>r. res = Inr r \<longrightarrow> new = [r] \<and> (\<exists>s e eid. edge_record P input s e eid = Inr r)"
proof -
  have "keeps H (\<lambda>_. ())" by (simp add: keeps_def)
  with assms show thesis
  proof (cases rule: observe_edge_cases)
    case refused
    then show ?thesis by (intro that [of "[]"]) simp_all
  next
    case (recorded s e eid r w3 out)
    then show ?thesis by (intro that [of "[r]"]) (auto split: sum.splits)
  qed
qed

section \<open>The recomposing runtime\<close>

lemma recompose_watcher: "recompose P b x selected observation s = (res, s') \<Longrightarrow>
    watcher s' = watcher s \<and> completed_skills s' = completed_skills s \<and> recompositions s' \<le> max (maximumRecompositions b) (recompositions s) \<and>
    (length (recompilations s) = recompositions s \<longrightarrow> length (recompilations s') = recompositions s')"
  by (auto simp: recompose_def Let_def split: if_splits prod.splits sum.splits)

lemma run_selected_watcher:
  assumes "run_selected P H x selected observation s = (res, s')"
  shows "\<exists>new. edge_records (watcher s') = edge_records (watcher s) @ new \<and> length new \<le> 1 \<and>
    recompositions s' = recompositions s \<and> recompilations s' = recompilations s \<and> (res = Inr () \<longrightarrow> length new = 1)"
proof -
  have none: "\<exists>new. edge_records (watcher s') = edge_records (watcher s) @ new \<and> length new \<le> 1 \<and>
      recompositions s' = recompositions s \<and> recompilations s' = recompilations s \<and> (res = Inr () \<longrightarrow> length new = 1)"
    if "watcher s' = watcher s" "recompositions s' = recompositions s" "recompilations s' = recompilations s" "res \<noteq> Inr ()"
    using that by (intro exI [of _ "[]"]) simp
  show ?thesis
  proof (cases "\<exists>answer w2. answer \<noteq> JUndef \<and> answer \<noteq> JNull \<and>
      (\<exists>f w1 u. authorize_code x (JObj [(''selected'', selected), (''observation'', observation)]) (world s) = (Inr u, w1) \<and>
        runtime_skills x (to_string P selected) = Some f \<and> f (working_state s) observation w1 = (Inr answer, w2))")
    case False
    with assms show ?thesis
      by (intro none) (auto simp: run_selected_def split: prod.splits sum.splits option.splits if_splits)
  next
    case True
    then obtain answer w2 f w1 u where out: "answer \<noteq> JUndef" "answer \<noteq> JNull"
      and run: "authorize_code x (JObj [(''selected'', selected), (''observation'', observation)]) (world s) = (Inr u, w1)"
        "runtime_skills x (to_string P selected) = Some f" "f (working_state s) observation w1 = (Inr answer, w2)"
      by blast
    obtain r ob w3 where ob: "observe_edge P H (runtime_edge P x s selected answer) (watcher s) w2 = (r, ob, w3)"
      by (cases "observe_edge P H (runtime_edge P x s selected answer) (watcher s) w2") auto
    from ob obtain new where new: "edge_records ob = edge_records (watcher s) @ new" "length new \<le> 1"
      "\<forall>v. r = Inr v \<longrightarrow> new = [v] \<and> (\<exists>s' e eid. edge_record P (runtime_edge P x s selected answer) s' e eid = Inr v)"
      by (rule observe_edge_adds)
    have "watcher s' = ob \<and> recompositions s' = recompositions s \<and> recompilations s' = recompilations s \<and> (res = Inr () \<longrightarrow> (\<exists>v. r = Inr v))"
      using assms out by (auto simp: run_selected_def run ob Let_def split: sum.splits if_splits)
    with new show ?thesis by (intro exI [of _ new]) auto
  qed
qed

definition same_run :: "'w working \<Rightarrow> 'w working \<Rightarrow> bool" where
  "same_run s t \<longleftrightarrow> watcher t = watcher s \<and> completed_skills t = completed_skills s \<and>
     recompositions t = recompositions s \<and> cursor t = cursor s \<and> working_graph t = working_graph s \<and>
     working_state t = working_state s \<and> recompilations t = recompilations s"

lemma same_run_world: "same_run s s" "same_run s t \<Longrightarrow> same_run s (t\<lparr>world := w\<rparr>)"
  "same_run s t \<Longrightarrow> same_run s (t\<lparr>visitedGraphs := v\<rparr>)"
  by (simp_all add: same_run_def)

lemma checked_step_cases:
  assumes "checked_step P H b x s2 = (res, s')"
  shows "(res \<noteq> Inr () \<and> same_run s2 s') \<or>
    (\<exists>t observation. same_run s2 t \<and> run_selected P H x (working_graph s2 ! cursor s2) observation t = (res, s')) \<or>
    (\<exists>t observation. same_run s2 t \<and> recompose P b x (working_graph s2 ! cursor s2) observation t = (res, s'))"
proof -
  obtain o1 w3 where o1: "observe_code x (JObj [(''selected'', working_graph s2 ! cursor s2),
      (''cursor'', JInt (int (cursor s2))), (''graph'', JArr (working_graph s2))]) (world s2) = (o1, w3)" by fastforce
  have same: "same_run s2 (s2\<lparr>world := w\<rparr>)" "same_run s2 (s2\<lparr>world := w, world := w'\<rparr>)" for w w'
    by (simp_all add: same_run_def)
  show ?thesis
  proof (cases o1)
    case (Inl e)
    with assms o1 show ?thesis by (auto simp: checked_step_def same_run_def)
  next
    case (Inr observation)
    obtain s4 w4 where s4: "suitable_code x (working_graph s2 ! cursor s2) observation w3 = (s4, w4)" by fastforce
    note run = assms [unfolded checked_step_def o1 Inr Let_def prod.case sum.case s4]
    consider "res \<noteq> Inr ()" "s' = s2\<lparr>world := w3\<rparr> \<or> s' = s2\<lparr>world := w3, world := w4\<rparr>"
      | "run_selected P H x (working_graph s2 ! cursor s2) observation (s2\<lparr>world := w3\<rparr>) = (res, s')"
      | "run_selected P H x (working_graph s2 ! cursor s2) observation (s2\<lparr>world := w3, world := w4\<rparr>) = (res, s')"
      | "recompose P b x (working_graph s2 ! cursor s2) observation (s2\<lparr>world := w3, world := w4\<rparr>) = (res, s')"
      using run by (cases s4) (auto split: if_split_asm)
    then show ?thesis by cases (use same in blast)+
  qed
qed

lemma runtime_step_cases:
  assumes "runtime_step P H b x deadline s = (res, s')"
  obtains (stopped) "res \<noteq> Inr ()" "same_run s s'"
  | (ran) t observation where "same_run s t" "length (completed_skills s) < maximumSteps b"
      "run_selected P H x (working_graph s ! cursor s) observation t = (res, s')"
  | (recomposed) t observation where "same_run s t" "length (completed_skills s) < maximumSteps b"
      "recompose P b x (working_graph s ! cursor s) observation t = (res, s')"
proof -
  obtain t w1 where t: "now_code x (world s) = (t, w1)" by fastforce
  define s2 where "s2 = s\<lparr>world := w1, visitedGraphs := List.insert (graph_root P (working_graph s)) (visitedGraphs s)\<rparr>"
  have s2: "same_run s s2" by (simp add: s2_def same_run_def)
  consider "res \<noteq> Inr ()" "s' = s \<or> s' = s\<lparr>world := w1\<rparr>"
    | "length (completed_skills s) < maximumSteps b" "checked_step P H b x s2 = (res, s')"
    using assms unfolding runtime_step_def Let_def t prod.case s2_def by (auto split: if_split_asm)
  then show thesis
  proof cases
    case 1
    then show thesis by (intro stopped) (auto simp: same_run_def)
  next
    case 2
    have "same_run s u" if "same_run s2 u" for u using that s2 by (simp add: same_run_def)
    moreover have "working_graph s2 ! cursor s2 = working_graph s ! cursor s" by (simp add: s2_def)
    ultimately show thesis
      using checked_step_cases [OF 2(2)] stopped ran [OF _ 2(1)] recomposed [OF _ 2(1)] by metis
  qed
qed

lemma runtime_step_watcher:
  assumes "runtime_step P H b x deadline s = (res, s')"
  shows "\<exists>new. edge_records (watcher s') = edge_records (watcher s) @ new \<and> length new \<le> 1 \<and>
    (new \<noteq> [] \<longrightarrow> length (completed_skills s) < maximumSteps b) \<and>
    recompositions s' \<le> max (maximumRecompositions b) (recompositions s) \<and>
    (length (recompilations s) = recompositions s \<longrightarrow> length (recompilations s') = recompositions s') \<and>
    (res = Inr () \<longrightarrow> length (completed_skills s') = length (completed_skills s) + length new \<and>
      cursor s' = cursor s + length new \<and> length (working_graph s') = length (working_graph s))"
  using assms
proof (cases rule: runtime_step_cases)
  case stopped
  then show ?thesis by (intro exI [of _ "[]"]) (simp add: same_run_def)
next
  case (ran t observation)
  from run_selected_watcher [OF ran(3)] obtain new where "edge_records (watcher s') = edge_records (watcher t) @ new"
    "length new \<le> 1" "recompositions s' = recompositions t" "recompilations s' = recompilations t" "res = Inr () \<longrightarrow> length new = 1" by blast
  with ran run_selected_progress [of P H x _ observation t s'] show ?thesis
    by (intro exI [of _ new]) (auto simp: same_run_def)
next
  case (recomposed t observation)
  with recompose_watcher [OF recomposed(3)] recompose_progress [of P b x _ observation t s'] show ?thesis
    by (intro exI [of _ "[]"]) (auto simp: same_run_def)
qed

lemma runtime_loop_bounds:
  assumes "runtime_loop P H b x deadline s = (res, s')" "cursor s \<le> length (working_graph s)"
    "length (completed_skills s) \<le> maximumSteps b" "recompositions s \<le> maximumRecompositions b"
    "length (recompilations s) = recompositions s"
  shows "\<exists>new. edge_records (watcher s') = edge_records (watcher s) @ new \<and>
    length (completed_skills s) + length new \<le> maximumSteps b \<and> recompositions s' \<le> maximumRecompositions b \<and>
    length (recompilations s') = recompositions s' \<and>
    (res = Inr () \<longrightarrow> length (completed_skills s') = length (completed_skills s) + length new \<and>
      cursor s + length new = length (working_graph s) \<and> length (working_graph s') = length (working_graph s))"
  using assms
proof (induction P H b x deadline s rule: runtime_loop.induct)
  case (1 P H b x deadline s)
  show ?case
  proof (cases "cursor s < length (working_graph s)")
    case False
    with 1(2,3,4,5,6) show ?thesis by (intro exI [of _ "[]"]) (auto simp: runtime_loop.simps [of P H b x deadline s])
  next
    case True
    obtain r t where step: "runtime_step P H b x deadline s = (r, t)" by fastforce
    from runtime_step_watcher [OF step] obtain first where first: "edge_records (watcher t) = edge_records (watcher s) @ first"
      "length first \<le> 1" "first \<noteq> [] \<longrightarrow> length (completed_skills s) < maximumSteps b"
      "recompositions t \<le> max (maximumRecompositions b) (recompositions s)" "length (recompilations t) = recompositions t"
      "r = Inr () \<longrightarrow> length (completed_skills t) = length (completed_skills s) + length first \<and>
        cursor t = cursor s + length first \<and> length (working_graph t) = length (working_graph s)" using 1(6) by blast
    have steps: "length (completed_skills s) + length first \<le> maximumSteps b"
      using first(2,3) 1(4) by (cases first) auto
    show ?thesis
    proof (cases r)
      case (Inl e)
      with 1(2) True step have "res = Inl e" "s' = t" by (simp_all add: runtime_loop.simps [of P H b x deadline s])
      with first steps 1(5) show ?thesis by (intro exI [of _ first]) simp
    next
      case (Inr u)
      with 1(2) True step have "runtime_loop P H b x deadline t = (res, s')"
        by (simp add: runtime_loop.simps [of P H b x deadline s])
      moreover have "cursor t \<le> length (working_graph t)" "length (completed_skills t) \<le> maximumSteps b"
        "recompositions t \<le> maximumRecompositions b" "length (recompilations t) = recompositions t" using first True steps Inr 1(5) by auto
      ultimately obtain rest where rest: "edge_records (watcher s') = edge_records (watcher t) @ rest"
        "length (completed_skills t) + length rest \<le> maximumSteps b" "recompositions s' \<le> maximumRecompositions b"
        "length (recompilations s') = recompositions s'"
        "res = Inr () \<longrightarrow> length (completed_skills s') = length (completed_skills t) + length rest \<and>
          cursor t + length rest = length (working_graph t) \<and> length (working_graph s') = length (working_graph t)"
        using 1(1) [OF True step [symmetric] Inr] by blast
      with first Inr show ?thesis by (intro exI [of _ "first @ rest"]) auto
    qed
  qed
qed

text \<open>
  C36: The recomposing runtime always ends, within its budgets: whatever the code it calls does, it records at
  most \<open>maximumSteps\<close> edges; when it succeeds it has completed one skill for each place of the initial
  graph, recorded one edge for each, and recomposed at most \<open>maximumRecompositions\<close> times.
\<close>

theorem runtime_ends_within_budgets:
  "\<exists>res ob' w' new. execute_runtime P H b x state (Some ob) w = (res, Some ob', w') \<and>
    edge_records ob' = edge_records ob @ new \<and> length new \<le> maximumSteps b \<and>
    (case res of Inl _ \<Rightarrow> True
     | Inr answer \<Rightarrow> length new = length (initial_graph x) \<and>
         length (items (jget answer ''completed'')) = length (initial_graph x) \<and>
         jget answer ''recompositions'' = JInt (int (length (items (jget answer ''events'')))) \<and>
         length (items (jget answer ''events'')) \<le> maximumRecompositions b)"
proof -
  obtain t w1 where t: "now_code x w = (t, w1)" by fastforce
  let ?deadline = "js_add P H (JNum (js_number H t)) (deadline_ms x)" and ?s = "start_working x state ob w1"
  obtain res s where loop: "runtime_loop P H b x ?deadline ?s = (res, s)" by fastforce
  have "cursor ?s \<le> length (working_graph ?s)" "length (completed_skills ?s) \<le> maximumSteps b"
    "recompositions ?s \<le> maximumRecompositions b" "length (recompilations ?s) = recompositions ?s"
    by (simp_all add: start_working_def)
  from runtime_loop_bounds [OF loop this] obtain new where new: "edge_records (watcher s) = edge_records ob @ new"
    "length new \<le> maximumSteps b" "recompositions s \<le> maximumRecompositions b" "length (recompilations s) = recompositions s"
    "res = Inr () \<longrightarrow> length (completed_skills s) = length new \<and> length new = length (initial_graph x)"
    by (auto simp: start_working_def)
  show ?thesis
  proof (cases res)
    case (Inl e)
    with t loop new show ?thesis by (auto simp: execute_runtime_def)
  next
    case (Inr u)
    obtain v w2 where v: "runtime_verify x (working_state s) (world s) = (v, w2)" by fastforce
    from t loop v Inr new show ?thesis
      by (cases v) (auto simp: execute_runtime_def runtime_answer_def)
  qed
qed

section \<open>The execution of a promoted capability\<close>

text \<open>The record of one node: from the component before it, from one state to the next.\<close>

definition edge_of :: "platform \<Rightarrow> jsv \<Rightarrow> jsv \<Rightarrow> jsv \<Rightarrow> jsv \<Rightarrow> jsv \<Rightarrow> bool" where
  "edge_of P source node before after r \<longleftrightarrow>
     jget r ''source_component'' = source \<and> jget r ''target_component'' = jget node ''skill_id'' \<and>
     jget r ''input_state_root'' = JStr (stateRoot P ''edge-input'' before) \<and>
     jget r ''output_state_root'' = JStr (stateRoot P ''edge-output'' after)"

text \<open>A run through the nodes: at each, the code that the execution has for the skill of the node runs on
  the state and in the world the node before left, reports success, and one edge for it is recorded, which
  is all that happens before the next.\<close>

fun trail :: "platform \<Rightarrow> 'w host \<Rightarrow> 'w execution \<Rightarrow> jsv \<Rightarrow> jsv \<Rightarrow> 'w \<Rightarrow> jsv list \<Rightarrow> jsv list \<Rightarrow> jsv \<Rightarrow> 'w \<Rightarrow> bool" where
  "trail P H x source state w [] [] final w' = (final = state \<and> w' = w)"
| "trail P H x source state w (node # nodes) (r # rs) final w' =
     (\<exists>f answer w1 w2. skill_codes x (to_string P (jget node ''skill_id'')) = Some f \<and>
        f state w = (Inr answer, w1) \<and> truthy (jget answer ''success'') \<and>
        edge_of P source node state (jget answer ''state'') r \<and>
        (\<exists>edge ob ob'. observe_edge P H edge ob w1 = (Inr r, ob', w2)) \<and>
        trail P H x (jget node ''skill_id'') (jget answer ''state'') w2 nodes rs final w')"
| "trail P H x source state w _ _ final w' = False"

lemma run_nodes_trail:
  assumes "run_nodes P H x nodes completed state ob w = (Inr (final, done), ob', w')"
    and "source = (if completed = [] then JStr ''capability_port'' else last completed)"
    and "\<forall>c \<in> set completed. c \<noteq> JUndef \<and> c \<noteq> JNull"
  shows "done = completed @ map (\<lambda>node. jget node ''skill_id'') nodes \<and>
    (\<exists>new. edge_records ob' = edge_records ob @ new \<and> trail P H x source state w nodes new final w')"
  using assms
proof (induction nodes arbitrary: completed state ob w source)
  case (Cons node nodes)
  let ?edge = "execution_edge P x completed node state"
  from Cons.prems(1) obtain f answer w1 r ob1 w2 where node: "node \<noteq> JUndef" "node \<noteq> JNull"
    and f: "skill_codes x (to_string P (jget node ''skill_id'')) = Some f" "f state w = (Inr answer, w1)"
      "answer \<noteq> JUndef" "answer \<noteq> JNull"
    and ob: "observe_edge P H (?edge answer) ob w1 = (Inr r, ob1, w2)"
    and ok: "truthy (jget answer ''success'')"
    and rest: "run_nodes P H x nodes (completed @ [jget node ''skill_id'']) (jget answer ''state'') ob1 w2 = (Inr (final, done), ob', w')"
    by (auto split: if_splits option.splits prod.splits sum.splits)
  from ob obtain new s e eid where new: "edge_records ob1 = edge_records ob @ [r]"
    and made: "edge_record P (?edge answer) s e eid = Inr r"
    by (rule observe_edge_adds) auto
  have fields: "jget (?edge answer) ''source_component'' = source"
    "jget (?edge answer) ''target_component'' = jget node ''skill_id''"
    "jget (?edge answer) ''input_state_root'' = JStr (stateRoot P ''edge-input'' state)"
    "jget (?edge answer) ''output_state_root'' = JStr (stateRoot P ''edge-output'' (jget answer ''state''))"
    using Cons.prems(2,3) by (simp_all add: execution_edge_def nullish_or_def)
  have "jget r ''source_component'' = jget (?edge answer) ''source_component''"
    "jget r ''target_component'' = jget (?edge answer) ''target_component''"
    "jget r ''input_state_root'' = jget (?edge answer) ''input_state_root''"
    "jget r ''output_state_root'' = jget (?edge answer) ''output_state_root''"
    and target: "filled (jget (?edge answer) ''target_component'')"
    using edge_record_fields(2) [OF made] by simp_all
  then have edge: "edge_of P source node state (jget answer ''state'') r" by (simp add: edge_of_def fields)
  have filled: "jget node ''skill_id'' \<noteq> JUndef" "jget node ''skill_id'' \<noteq> JNull"
    using target unfolding fields by (auto simp: filled_def)
  have "done = (completed @ [jget node ''skill_id'']) @ map (\<lambda>node. jget node ''skill_id'') nodes \<and>
    (\<exists>new. edge_records ob' = edge_records ob1 @ new \<and>
      trail P H x (jget node ''skill_id'') (jget answer ''state'') w2 nodes new final w')"
    by (rule Cons.IH [OF rest]) (use Cons.prems(3) filled in auto)
  then obtain more where more: "done = completed @ map (\<lambda>node. jget node ''skill_id'') (node # nodes)"
    "edge_records ob' = edge_records ob @ r # more"
    and after: "trail P H x (jget node ''skill_id'') (jget answer ''state'') w2 nodes more final w'"
    using new by auto
  have "\<exists>edge ob ob'. observe_edge P H edge ob w1 = (Inr r, ob', w2)" using ob by blast
  then have "trail P H x source state w (node # nodes) (r # more) final w'"
    unfolding trail.simps using f(1,2) ok edge after by blast
  with more show ?case by blast
qed simp

text \<open>
  C33: An execution that returns ran the code it has for the skill of every node of the promoted capability, in
  order, each on the state and in the world the one before it left, and each reported success; then the
  verification ran on the last state. It reports the skills in order and what the verification said, and
  the observer has one new record for each node, from the component before to the next, with the roots of the
  states before and after.
\<close>

theorem execution_leaves_trail:
  assumes "executeProsynthesizedCapability P H x state (Some ob) w = (Inr answer, observer', w')"
    and "jget (jget (capability x) ''composition_graph'') ''nodes'' = JArr nodes"
  shows "jget (capability x) ''status'' = JStr ''PROSYNTHESIZED'' \<and>
    jget answer ''completed'' = JArr (map (\<lambda>node. jget node ''skill_id'') nodes) \<and>
    jget answer ''outcome_state_root'' = JStr (stateRoot P ''verified-outcome'' (jget answer ''state'')) \<and>
    (\<exists>ob' new w1 v. observer' = Some ob' \<and> edge_records ob' = edge_records ob @ new \<and>
       trail P H x (JStr ''capability_port'') state w nodes new (jget answer ''state'') w1 \<and>
       verify_code x (jget answer ''state'') w1 = (Inr v, w') \<and> jget answer ''verified'' = JBool (v = JBool True))"
proof -
  from assms(1) have status: "jget (capability x) ''status'' = JStr ''PROSYNTHESIZED''"
    by (auto simp: executeProsynthesizedCapability_def Let_def split: if_splits)
  from assms obtain final completed ob' w1 v where
    run: "run_nodes P H x nodes [] state ob w = (Inr (final, completed), ob', w1)" and observer: "observer' = Some ob'"
    and answer: "answer = JObj [(''state'', final), (''completed'', JArr completed), (''verified'', JBool (v = JBool True)),
      (''outcome_state_root'', JStr (stateRoot P ''verified-outcome'' final))]"
    and verified: "verify_code x final w1 = (Inr v, w')"
    by (auto simp: executeProsynthesizedCapability_def Let_def split: if_splits prod.splits sum.splits)
  from run_nodes_trail [OF run HOL.refl] status observer verified show ?thesis by (simp add: answer) blast
qed

end
