(* ===== verification/SkillFacts.thy ===== *)
theory SkillFacts
  imports ProcessBoundary
begin

text \<open>
  Genomes keep their identity as they evolve; when a process graduates; a promoted capability is found again;
  which checkpoints are resumed.
\<close>

section \<open>Evolution of a genome\<close>

lemma spread_is_record: "is_record v \<Longrightarrow> is_record (fold (\<lambda>(k, x). jset k x) kvs v)"
  by (induction kvs arbitrary: v) auto

lemma evolve_step:
  assumes "evolveProcessGenome P genome changes time = Inr genome'"
  shows "genome_ok P genome" "genome_ok P genome'" "jget genome' ''process_id'' = jget genome ''process_id''"
    "jget genome' ''role'' = jget genome ''role''"
    "num_of (jget genome' ''genome_version'') = num_of (jget genome ''genome_version'') + 1"
proof -
  from assms obtain now where ok: "genome_ok P genome" "genome_ok P genome'"
    and evolved: "genome' = evolved_genome P genome changes now"
    by (auto simp: evolveProcessGenome_def validateProcessGenome_def result_simps split: if_splits)
  then show "genome_ok P genome" "genome_ok P genome'" by blast+
  have "is_record genome" using ok(1) by (simp add: genome_ok_def)
  then have "is_record (spread_over P changes genome)" by (simp add: spread_over_def spread_is_record)
  then show "jget genome' ''process_id'' = jget genome ''process_id''" "jget genome' ''role'' = jget genome ''role''"
    "num_of (jget genome' ''genome_version'') = num_of (jget genome ''genome_version'') + 1"
    by (simp_all add: evolved evolved_genome_def)
qed

fun evolve_all :: "platform \<Rightarrow> (jsv \<times> int) list \<Rightarrow> jsv \<Rightarrow> jsv result" where
  "evolve_all P [] genome = Inr genome"
| "evolve_all P ((changes, time) # steps) genome =
     and_then (evolveProcessGenome P genome changes time) (\<lambda>genome'. evolve_all P steps genome')"

text \<open>
  C31: However often a genome evolves, it stays a valid genome of the same process and role, and its genome
  version counts the evolutions: it cannot be set by the changes, repeated or skipped.
\<close>

theorem evolution_keeps_identity:
  assumes "evolve_all P steps genome = Inr genome'" "genome_ok P genome"
  shows "genome_ok P genome' \<and> jget genome' ''process_id'' = jget genome ''process_id'' \<and>
    jget genome' ''role'' = jget genome ''role'' \<and>
    num_of (jget genome' ''genome_version'') = num_of (jget genome ''genome_version'') + of_nat (length steps)"
  using assms
proof (induction steps arbitrary: genome)
  case (Cons step steps)
  obtain changes time where step: "step = (changes, time)" by fastforce
  from Cons.prems(1) obtain mid where evolved: "evolveProcessGenome P genome changes time = Inr mid"
    and rest: "evolve_all P steps mid = Inr genome'" by (auto simp: step result_simps)
  from Cons.IH [OF rest evolve_step(2) [OF evolved]] evolve_step [OF evolved] show ?case by simp
qed simp

section \<open>Graduation\<close>

definition optional_number :: "jsv \<Rightarrow> bool" where
  "optional_number v \<longleftrightarrow> v = JUndef \<or> is_finite v"

lemma js_less_number:
  assumes "optional_number v"
  shows "js_less P H v (JNum (Fin t)) \<longleftrightarrow> v \<noteq> JUndef \<and> num_of v < t"
    "js_less P H (JNum (Fin t)) v \<longleftrightarrow> v \<noteq> JUndef \<and> t < num_of v"
  using assms by (auto simp: optional_number_def js_less_def primitive_of_def elim!: is_finite.elims)

lemma optional_field: "optional_number v \<Longrightarrow> optional_number (nullish_or v (JInt 0))"
  by (auto simp: optional_number_def nullish_or_def)

text \<open>The lists that go into a skill are absent or null, or lists of at most 128 different texts.\<close>

definition lists_ok :: "jsv \<Rightarrow> bool" where
  "lists_ok evidence \<longleftrightarrow> list_all (\<lambda>k. jget evidence k = JUndef \<or> jget evidence k = JNull \<or> string_array_ok (jget evidence k))
     [''supported_contexts'', ''known_limitations'', ''evidence_refs'']"

lemma new_skill_succeeds: "(\<exists>skill. new_skill P genome evidence = Inr skill) \<longleftrightarrow> lists_ok evidence"
proof -
  have "string_array_ok (JArr [])" "string_array_ok (JArr [JStr ''deterministic_local''])" by (simp_all add: string_array_ok_def)
  moreover have "\<not> string_array_ok JUndef" "\<not> string_array_ok JNull" by (simp_all add: string_array_ok_def)
  ultimately show ?thesis
    by (simp add: new_skill_def stringArray_def lists_ok_def nullish_or_def)
qed

text \<open>
  C34: Graduation by the default policy decides each threshold by the numbers it is given and passes what is
  missing: with counts and rates that are numbers or absent (of violations also null), a process graduates exactly
  if its genome is valid, the given counts and rates reach their thresholds, no violation is counted, and the
  lists of contexts, limitations and references are proper ones or absent. Evidence without any count graduates.
\<close>

theorem graduation_decision:
  assumes evidence: "is_record evidence" "\<forall>k \<in> set threshold_names. optional_number (jget evidence k)"
    "\<forall>k \<in> {''authority_violations'', ''security_failures''}. jget evidence k = JNull \<or> optional_number (jget evidence k)"
  shows "succeeds (fst (graduate P H genome evidence (new_registry (JObj [])))) \<longleftrightarrow>
    genome_ok P genome \<and> lists_ok evidence \<and>
    list_all (\<lambda>(k, t). jget evidence k = JUndef \<or> t \<le> num_of (jget evidence k))
      [(''execution_count'', 3), (''verified_success_count'', 3), (''success_rate'', 1), (''verification_rate'', 1)] \<and>
    list_all (\<lambda>k. jget evidence k = JUndef \<or> jget evidence k = JNull \<or> num_of (jget evidence k) \<le> 0)
      [''authority_violations'', ''security_failures'']"
proof -
  have defined: "evidence \<noteq> JUndef" "evidence \<noteq> JNull" using evidence(1) by auto
  let ?numbers = "list_all (\<lambda>(k, t). jget evidence k = JUndef \<or> t \<le> num_of (jget evidence k))
      [(''execution_count'', 3), (''verified_success_count'', 3), (''success_rate'', 1), (''verification_rate'', 1)] \<and>
    list_all (\<lambda>k. jget evidence k = JUndef \<or> jget evidence k = JNull \<or> num_of (jget evidence k) \<le> 0)
      [''authority_violations'', ''security_failures'']"
  have "succeeds (fst (graduate P H genome evidence (new_registry (JObj [])))) \<longleftrightarrow>
      genome_ok P genome \<and> reasons_against P H (new_thresholds (JObj [])) evidence = [] \<and>
      (\<exists>skill. new_skill P genome evidence = Inr skill)"
    using defined by (auto simp: graduate_def validateProcessGenome_def evaluate_policy_def Let_def new_registry_def
      succeeds_def split: sum.splits)
  also have "reasons_against P H (new_thresholds (JObj [])) evidence = [] \<longleftrightarrow>
      list_all (\<lambda>k. \<not> js_less P H (jget evidence k) (jget (new_thresholds (JObj [])) k)) threshold_names \<and>
      \<not> js_less P H (JInt 0) (field_or evidence ''authority_violations'' (JInt 0)) \<and>
      \<not> js_less P H (JInt 0) (field_or evidence ''security_failures'' (JInt 0))"
    by (simp add: reasons_against_def filter_empty_conv list_all_iff new_thresholds_def nullish_or_def)
  also have "\<dots> \<longleftrightarrow> ?numbers"
  proof -
    have each: "js_less P H (jget evidence k) (JNum (Fin t)) \<longleftrightarrow> jget evidence k \<noteq> JUndef \<and> num_of (jget evidence k) < t"
      if "k \<in> set threshold_names" for k t
      using evidence(2) that by (intro js_less_number(1)) blast
    have none: "js_less P H (JInt 0) (nullish_or v (JInt 0)) \<longleftrightarrow> v \<noteq> JUndef \<and> v \<noteq> JNull \<and> 0 < num_of v"
      if "v = JNull \<or> optional_number v" for v
      using js_less_number(2) [OF optional_field, of v P H 0] js_less_number(2) [of "JInt 0" P H 0] that
      by (auto simp: nullish_or_def optional_number_def)
    show ?thesis
      using each [of "''execution_count''" 3] each [of "''verified_success_count''" 3] each [of "''success_rate''" 1]
        each [of "''verification_rate''" 1] none [of "jget evidence ''authority_violations''"]
        none [of "jget evidence ''security_failures''"] evidence(3)
      by (simp add: threshold_names_def new_thresholds_def nullish_or_def not_less)
  qed
  finally show ?thesis unfolding new_skill_succeeds by blast
qed

section \<open>Promotion and reuse\<close>

text \<open>
  C35: What a ProSynthesine promotes it finds again: the next synthesis for the intent class and context root
  named by the evidence returns the promoted capability from the cache, with whatever skills and composition
  it asks for and no registry at all, discovers nothing, counts one hit, and the capability has status
  PROSYNTHESIZED and refers to the receipt of its synthesis.
\<close>

theorem promoted_capability_reused:
  assumes promoted: "promote P H cand evidence ps w = (Inr answer, ps', w')"
    and request: "is_record input" "jget input ''intent_class'' = jget evidence ''intent_class''"
      "jget input ''context_root'' = jget evidence ''context_root''"
  shows "\<exists>ps''. synthesize P registry input ps' = (Inr (synthesis_answer (jget answer ''capability'') True 0), ps'') \<and>
    discoveryCount ps'' = discoveryCount ps \<and>
    hits (cache_counters (composed ps'')) = Suc (hits (cache_counters (composed ps))) \<and>
    misses (cache_counters (composed ps'')) = misses (cache_counters (composed ps)) \<and>
    jget (jget answer ''capability'') ''status'' = JStr ''PROSYNTHESIZED'' \<and>
    is_string (jget (jget answer ''capability'') ''synthesis_receipt_ref'')"
proof -
  obtain sid where status: "jget cand ''status'' = JStr ''CANDIDATE''"
    and capability: "jget answer ''capability'' = jset ''synthesis_receipt_ref''
      (JStr (stateRoot P ''prosynthesine-receipt'' (JObj (synthesis_receipt cand evidence sid))))
      (jset ''status'' (JStr ''PROSYNTHESIZED'') cand)"
    and ps': "ps' = ps\<lparr>composed := cache_set P (jget evidence ''intent_class'') (jget evidence ''context_root'')
      (jget answer ''capability'') (composed ps)\<rparr>"
    using promoted by (auto simp: promote_def Let_def split: if_splits prod.splits)
  have "is_record cand" using status by (cases cand) auto
  then have entry: "is_record (jget answer ''capability'')"
      "jget (jget answer ''capability'') ''status'' = JStr ''PROSYNTHESIZED''"
      "is_string (jget (jget answer ''capability'') ''synthesis_receipt_ref'')"
    by (simp_all add: capability)
  then have "truthy (jget answer ''capability'')" by (auto elim: is_record.elims)
  moreover have "input \<noteq> JUndef" "input \<noteq> JNull" using request(1) by auto
  ultimately show ?thesis
    using entry(2,3) by (simp add: synthesize_def ps' cache_get_def cache_set_def Let_def request update_conv')
qed

section \<open>Resumption\<close>

text \<open>
  A checkpoint with a fencing token is resumed by a newer token and by a request without one: a number
  that is not greater is refused as stale, whatever port it names, and otherwise the port decides.
\<close>

theorem resume_fences:
  assumes "is_record checkpoint" "is_record options" "is_finite (jget checkpoint ''fencing_token'')"
    "optional_number (jget options ''fencing_token'')"
  shows "resumePostSynthesis P H checkpoint options =
    (if jget options ''fencing_token'' \<noteq> JUndef \<and>
        num_of (jget options ''fencing_token'') \<le> num_of (jget checkpoint ''fencing_token'')
     then reject ''stale_failover_fencing_token''
     else if \<not> filled (jget options ''port'') then reject ''failover_port_invalid''
     else Inr (jset ''duplicate_consequential_effects'' (JInt 0)
       (jset ''fencing_token'' (jget options ''fencing_token'')
         (jset ''materialized_at_port'' (jget options ''port'') checkpoint))))"
  using assms
  by (auto simp: resumePostSynthesis_def js_less_eq_def primitive_of_def optional_number_def filled_or_def result_simps
    elim!: is_finite.elims is_record.elims)

end
