(* ===== verification/ExternalProof.thy ===== *)
theory ExternalProof
  imports NativeSession JsonText
begin

text \<open>
  \<open>src/external-proof-v1.mjs\<close>, first part: the canonical form of proofs, challenge tokens, and the
  encryption of payloads. HMAC, HKDF, AES-GCM and Ed25519 of \<open>node:crypto\<close> are parameters; the clock, the
  random bytes and the random id are arguments. Buffers are byte strings: where the source takes a text or
  an array of bytes for a Buffer as well, the model takes the bytes. TypeErr and RangeErr stand for the
  errors of these classes.
\<close>

section \<open>Parameters and constants\<close>

record proof_host =
  hmac_bytes :: "string \<Rightarrow> string \<Rightarrow> string"
  pkcs8_key :: "string \<Rightarrow> string option"
  engine_json :: "string \<Rightarrow> jsv option"

definition EXTERNAL_PROOF_CHALLENGE_SCHEMA :: string where
  "EXTERNAL_PROOF_CHALLENGE_SCHEMA = ''kindred.external-proof.challenge.v1''"

definition EXTERNAL_PROOF_RECEIPT_SCHEMA :: string where
  "EXTERNAL_PROOF_RECEIPT_SCHEMA = ''kindred.external-proof.receipt.v1''"

definition EXTERNAL_PROOF_CIPHER :: string where
  "EXTERNAL_PROOF_CIPHER = ''AES-256-GCM''"

definition EXTERNAL_PROOF_MAX_BYTES :: int where
  "EXTERNAL_PROOF_MAX_BYTES = 1024 * 1024"

section \<open>Canonical form\<close>

text \<open>\<open>boundedString\<close>: a text of one line.\<close>

definition line_text :: "nat \<Rightarrow> string \<Rightarrow> bool" where
  "line_text maximum s \<longleftrightarrow> 1 \<le> length s \<and> length s \<le> maximum \<and> \<not> list_ex (\<lambda>c. c = CHR 0x0D \<or> c = CHR 0x0A) s"

definition bounded_line :: "nat \<Rightarrow> jsv \<Rightarrow> string result" where
  "bounded_line maximum v = (case v of JStr s \<Rightarrow> if line_text maximum s then Inr s else Inl TypeErr | _ \<Rightarrow> Inl TypeErr)"

text \<open>\<open>canonicalize\<close>: undefined properties are left out and the others sorted by \<open>localeCompare\<close>; a value
  that has no text, undefined among them, throws a TypeError wherever it stands.\<close>

fun canonicalize :: "platform \<Rightarrow> jsv \<Rightarrow> string result"
  and canonicalize_items :: "platform \<Rightarrow> jsv list \<Rightarrow> string list result"
  and canonicalize_entries :: "platform \<Rightarrow> (string \<times> jsv) list \<Rightarrow> (string \<times> string) list result" where
  "canonicalize P JUndef = Inl TypeErr"
| "canonicalize P JNull = Inr ''null''"
| "canonicalize P (JBool b) = Inr (if b then ''true'' else ''false'')"
| "canonicalize P (JNum n) = (case n of Fin q \<Rightarrow> Inr (rat_text P q) | _ \<Rightarrow> Inl TypeErr)"
| "canonicalize P (JStr s) = Inr (quote s)"
| "canonicalize P (JArr vs) = and_then (canonicalize_items P vs) (\<lambda>ts. Inr (''['' @ join '','' ts @ '']''))"
| "canonicalize P (JObj kvs) =
     and_then (canonicalize_entries P kvs) (\<lambda>es.
       Inr (''{'' @ join '','' (map (\<lambda>(k, t). quote k @ '':'' @ t) (sort_by (\<lambda>a b. locale_le P (fst a) (fst b)) es)) @ ''}''))"
| "canonicalize_items P [] = Inr []"
| "canonicalize_items P (v # vs) =
     and_then (canonicalize P v) (\<lambda>t. and_then (canonicalize_items P vs) (\<lambda>ts. Inr (t # ts)))"
| "canonicalize_entries P [] = Inr []"
| "canonicalize_entries P ((k, v) # kvs) =
     (if v = JUndef then canonicalize_entries P kvs
      else and_then (canonicalize P v) (\<lambda>t. and_then (canonicalize_entries P kvs) (\<lambda>es. Inr ((k, t) # es))))"

definition proof_bytes :: "platform \<Rightarrow> jsv \<Rightarrow> string result" where
  "proof_bytes P v = and_then (canonicalize P v) (\<lambda>t. Inr (utf8 t))"

text \<open>\<open>/^[0-9a-f]{64}$/i\<close>\<close>

definition hex_either :: "char \<Rightarrow> bool" where
  "hex_either c \<longleftrightarrow> is_hexch c \<or> between 65 70 c"

definition validSha256 :: "jsv \<Rightarrow> bool" where
  "validSha256 v \<longleftrightarrow> (case v of JStr s \<Rightarrow> length s = 64 \<and> list_all hex_either s | _ \<Rightarrow> False)"

definition requireSecret :: "jsv \<Rightarrow> string result" where
  "requireSecret v =
     (case v of
        JStr s \<Rightarrow> if length s < 32 then reject ''KINDRED external proof secret must be at least 32 characters'' else Inr s
      | _ \<Rightarrow> reject ''KINDRED external proof secret must be at least 32 characters'')"

definition hmac :: "proof_host \<Rightarrow> string \<Rightarrow> string \<Rightarrow> string" where
  "hmac H secret t = base64url (hmac_bytes H (utf8 secret) (utf8 t))"

text \<open>The texts are decoded before they are compared.\<close>

definition safeEqualEncoded :: "string \<Rightarrow> string \<Rightarrow> bool" where
  "safeEqualEncoded a b \<longleftrightarrow> base64_bytes a = base64_bytes b"

section \<open>Challenges\<close>

text \<open>\<open>Number.isSafeInteger(v) && low <= v && v <= high\<close>\<close>

definition safe_between :: "int \<Rightarrow> int \<Rightarrow> jsv \<Rightarrow> bool" where
  "safe_between low high v \<longleftrightarrow> is_safe_integer v \<and> of_int low \<le> num_of v \<and> num_of v \<le> of_int high"

definition check_request :: "jsv \<Rightarrow> jsv \<Rightarrow> unit result" where
  "check_request request ttlMs =
     (let stateHash = jget request ''stateHash''; payloadSha256 = jget request ''payloadSha256''
      in if \<not> validSha256 stateHash \<or> \<not> validSha256 payloadSha256 then Inl TypeErr
         else if to_lower (text_of stateHash) \<noteq> to_lower (text_of payloadSha256)
         then reject ''stateHash must equal payloadSha256 for canonical proof payloads''
         else if \<not> safe_between 0 max_safe (jget request ''generation'') then Inl TypeErr
         else if \<not> safe_between 1 EXTERNAL_PROOF_MAX_BYTES (jget request ''payloadBytes'') then Inl RangeErr
         else if \<not> safe_between 10000 600000 ttlMs then Inl RangeErr
         else Inr ())"

definition challenge_claims :: "string \<Rightarrow> string \<Rightarrow> string \<Rightarrow> string \<Rightarrow> string \<Rightarrow> string \<Rightarrow> string \<Rightarrow> jsv \<Rightarrow> (string \<times> jsv) list" where
  "challenge_claims uuid nonce issued expires source destination state request =
     [(''schemaVersion'', JStr EXTERNAL_PROOF_CHALLENGE_SCHEMA), (''challengeId'', JStr uuid), (''nonce'', JStr nonce),
      (''issuedAt'', JStr issued), (''expiresAt'', JStr expires), (''sourceNodeId'', JStr source),
      (''destinationNodeId'', JStr destination), (''stateId'', JStr state),
      (''stateHash'', JStr (to_lower (text_of (jget request ''stateHash'')))), (''generation'', jget request ''generation''),
      (''payloadSha256'', JStr (to_lower (text_of (jget request ''payloadSha256'')))),
      (''payloadBytes'', jget request ''payloadBytes'')]"

definition issueExternalProofChallenge ::
    "proof_host \<Rightarrow> platform \<Rightarrow> jsv \<Rightarrow> jsv \<Rightarrow> jsv \<Rightarrow> jsv \<Rightarrow> int \<Rightarrow> string \<Rightarrow> string \<Rightarrow> jsv result" where
  "issueExternalProofChallenge H P secretInput request destinationNodeId ttlInput nowMs uuid nonce =
     (let ttlMs = default_to ttlInput (JInt 120000)
      in and_then (requireSecret secretInput) (\<lambda>secret.
         and_then (bounded_line 256 destinationNodeId) (\<lambda>destination.
         and_then (bounded_line 256 (jget request ''sourceNodeId'')) (\<lambda>source.
         and_then (bounded_line 512 (jget request ''stateId'')) (\<lambda>state.
         and_then (check_request request ttlMs) (\<lambda>_.
         and_then (iso_text nowMs) (\<lambda>issued.
         and_then (iso_text (nowMs + \<lfloor>num_of ttlMs\<rfloor>)) (\<lambda>expires.
           let claims = challenge_claims uuid (hex_text nonce) issued expires source destination state request
           in and_then (proof_bytes P (JObj claims)) (\<lambda>bytes.
              let encoded = base64url bytes
              in Inr (JObj (claims @ [(''token'', JStr (encoded @ ''.'' @ hmac H secret encoded)),
                                      (''cipher'', JStr EXTERNAL_PROOF_CIPHER)])))))))))))"

text \<open>\<open>toString("utf8")\<close> and \<open>JSON.parse\<close>: bytes that hold other characters than the model's are left
  to the engine.\<close>

fun utf8_text :: "string \<Rightarrow> string option" where
  "utf8_text [] = Some []"
| "utf8_text (c # s) =
     (if code c < 128 then map_option (Cons c) (utf8_text s)
      else case s of
        [] \<Rightarrow> None
      | d # r \<Rightarrow>
          if code c \<in> {194, 195} \<and> 128 \<le> code d \<and> code d < 192
          then map_option (Cons (char_of ((code c - 192) * 64 + (code d - 128)))) (utf8_text r)
          else None)"

definition parse_bytes :: "proof_host \<Rightarrow> string \<Rightarrow> jsv option" where
  "parse_bytes H bytes =
     (case utf8_text bytes of Some t \<Rightarrow> json_parse (\<lambda>_. engine_json H bytes) t | None \<Rightarrow> engine_json H bytes)"

definition check_claim_lines :: "jsv \<Rightarrow> unit result" where
  "check_claim_lines claims =
     and_then (bounded_line 64 (jget claims ''challengeId'')) (\<lambda>_.
     and_then (bounded_line 128 (jget claims ''nonce'')) (\<lambda>_.
     and_then (bounded_line 256 (jget claims ''sourceNodeId'')) (\<lambda>_.
     and_then (bounded_line 256 (jget claims ''destinationNodeId'')) (\<lambda>_.
     and_then (bounded_line 512 (jget claims ''stateId'')) (\<lambda>_. Inr ())))))"

definition check_claims :: "platform \<Rightarrow> jsv \<Rightarrow> int \<Rightarrow> unit result" where
  "check_claims P claims nowMs =
     (if claims = JNull then Inl TypeErr
      else if jget claims ''schemaVersion'' \<noteq> JStr EXTERNAL_PROOF_CHALLENGE_SCHEMA then reject ''challenge schema mismatch''
      else if \<not> validSha256 (jget claims ''stateHash'') \<or> \<not> validSha256 (jget claims ''payloadSha256'')
      then reject ''challenge hash fields invalid''
      else if jget claims ''stateHash'' \<noteq> jget claims ''payloadSha256'' then reject ''challenge state hash mismatch''
      else if \<not> safe_between 0 max_safe (jget claims ''generation'') then reject ''challenge generation invalid''
      else if \<not> safe_between 1 EXTERNAL_PROOF_MAX_BYTES (jget claims ''payloadBytes'')
      then reject ''challenge payload size invalid''
      else and_then (check_claim_lines claims) (\<lambda>_.
        case (date_parse P (to_string P (jget claims ''issuedAt'')), date_parse P (to_string P (jget claims ''expiresAt''))) of
          (Some issued, Some expires) \<Rightarrow>
            if expires \<le> issued then reject ''challenge timestamps invalid''
            else if expires < nowMs then reject ''challenge token expired''
            else if nowMs + 60000 < issued then reject ''challenge token issued in the future''
            else Inr ()
        | _ \<Rightarrow> reject ''challenge timestamps invalid''))"

definition verifyExternalProofToken :: "proof_host \<Rightarrow> platform \<Rightarrow> jsv \<Rightarrow> jsv \<Rightarrow> int \<Rightarrow> jsv result" where
  "verifyExternalProofToken H P secretInput token nowMs =
     and_then (requireSecret secretInput) (\<lambda>secret.
     and_then (bounded_line 16384 token) (\<lambda>t.
       case split_on CHR ''.'' t of
         [encoded, mac] \<Rightarrow>
           if \<not> safeEqualEncoded mac (hmac H secret encoded) then reject ''challenge token authentication failed''
           else (case parse_bytes H (base64_bytes encoded) of
               None \<Rightarrow> reject ''challenge token payload is invalid''
             | Some claims \<Rightarrow> and_then (check_claims P claims nowMs) (\<lambda>_. Inr claims))
       | _ \<Rightarrow> reject ''invalid challenge token''))"

section \<open>Payloads\<close>

text \<open>\<open>Buffer.from(s, "hex")\<close> ends before the first pair that is none.\<close>

fun hex_bytes :: "string \<Rightarrow> string" where
  "hex_bytes (a # b # s) =
     (case (hex_value a, hex_value b) of
        (Some m, Some n) \<Rightarrow> char_of (16 * m + n) # hex_bytes s
      | _ \<Rightarrow> [])"
| "hex_bytes s = []"

definition deriveExternalProofKey :: "channel \<Rightarrow> platform \<Rightarrow> jsv \<Rightarrow> jsv \<Rightarrow> string result" where
  "deriveExternalProofKey X P secretInput claims =
     and_then (requireSecret secretInput) (\<lambda>secret.
       case jget claims ''nonce'' of
         JStr nonce \<Rightarrow> Inr (hkdf X (utf8 secret) (hex_bytes nonce)
           (utf8 (''kindred-external-proof-v1|'' @ to_string P (jget claims ''challengeId''))))
       | _ \<Rightarrow> Inl TypeErr)"

definition payload_matches :: "platform \<Rightarrow> jsv \<Rightarrow> string \<Rightarrow> string \<Rightarrow> string \<Rightarrow> unit result" where
  "payload_matches P claims body wrong_length wrong_digest =
     (if jget claims ''payloadBytes'' \<noteq> JInt (int (length body)) then reject wrong_length
      else if jget claims ''payloadSha256'' \<noteq> JStr (native_digest P body) then reject wrong_digest
      else Inr ())"

definition encryptExternalProofPayload ::
    "channel \<Rightarrow> platform \<Rightarrow> jsv \<Rightarrow> jsv \<Rightarrow> jsv \<Rightarrow> string \<Rightarrow> string \<Rightarrow> jsv result" where
  "encryptExternalProofPayload X P secretInput token claims body iv =
     (if claims = JUndef \<or> claims = JNull then Inl TypeErr
      else and_then (payload_matches P claims body ''payload length does not match challenge''
               ''payload SHA-256 does not match challenge'') (\<lambda>_.
        and_then (deriveExternalProofKey X P secretInput claims) (\<lambda>key.
          case token of
            JStr t \<Rightarrow>
              let (ciphertext, tag) = gcm_seal X key iv (utf8 t) body
              in Inr (JObj [(''ciphertextB64'', JStr (base64url ciphertext)), (''ivB64'', JStr (base64url iv)),
                            (''tagB64'', JStr (base64url tag))])
          | _ \<Rightarrow> Inl TypeErr)))"

definition decryptExternalProofPayload ::
    "channel \<Rightarrow> platform \<Rightarrow> jsv \<Rightarrow> jsv \<Rightarrow> jsv \<Rightarrow> jsv \<Rightarrow> jsv \<Rightarrow> jsv \<Rightarrow> (string \<times> string \<times> nat) result" where
  "decryptExternalProofPayload X P secretInput token claims ciphertextB64 ivB64 tagB64 =
     (if claims = JUndef \<or> claims = JNull then Inl TypeErr
      else and_then (deriveExternalProofKey X P secretInput claims) (\<lambda>key.
        and_then (bounded_line (nat EXTERNAL_PROOF_MAX_BYTES * 2) ciphertextB64) (\<lambda>c.
        and_then (bounded_line 64 ivB64) (\<lambda>i.
        and_then (bounded_line 64 tagB64) (\<lambda>g.
          if length (base64_bytes i) \<noteq> 12 \<or> length (base64_bytes g) \<noteq> 16 then reject ''invalid AES-GCM IV or tag''
          else (case token of
              JStr t \<Rightarrow>
                (case gcm_open X key (base64_bytes i) (utf8 t) (base64_bytes c) (base64_bytes g) of
                   None \<Rightarrow> reject ''Unsupported state or unable to authenticate data''
                 | Some payload \<Rightarrow>
                     and_then (payload_matches P claims payload ''received payload length mismatch''
                         ''received payload SHA-256 mismatch'') (\<lambda>_.
                       Inr (payload, native_digest P payload, length (base64_bytes c))))
            | _ \<Rightarrow> Inl TypeErr))))))"

end
