(* ===== verification/ExternalReceipts.thy ===== *)
theory ExternalReceipts
  imports ExternalProof
begin

text \<open>
  \<open>src/external-proof-v1.mjs\<close>, second part: signed receipts of a payload, recovery capsules, the operations
  recovered from them, and the signed records of a recovery at another provider.
\<close>

section \<open>Signatures\<close>

text \<open>The signed envelope of a value under the property \<open>name\<close>.\<close>

definition signed_proof :: "proof_host \<Rightarrow> crypto \<Rightarrow> platform \<Rightarrow> string \<Rightarrow> jsv \<Rightarrow> jsv \<Rightarrow> jsv result" where
  "signed_proof H C P name v pkcs8 =
     and_then (bounded_line 8192 pkcs8) (\<lambda>s.
       case pkcs8_key H (base64_bytes s) of
         None \<Rightarrow> reject ''Private key unreadable''
       | Some key \<Rightarrow>
           and_then (proof_bytes P v) (\<lambda>bytes.
             Inr (JObj [(name, v), (''signatureAlgorithm'', JStr ''Ed25519''),
               (''keyId'', JStr (native_digest P (public_of C key))),
               (''publicKeySpkiBase64'', JStr (base64 (public_of C key))),
               (''signature'', JStr (base64url (sign_bytes C key bytes)))])))"

definition envelope_shape_ok :: "jsv \<Rightarrow> bool" where
  "envelope_shape_ok envelope \<longleftrightarrow> truthy envelope \<and> jget envelope ''signatureAlgorithm'' = JStr ''Ed25519'' \<and>
     is_string (jget envelope ''signature'')"

definition check_signature :: "crypto \<Rightarrow> platform \<Rightarrow> string \<Rightarrow> jsv \<Rightarrow> jsv \<Rightarrow> jsv \<Rightarrow> unit result" where
  "check_signature C P what envelope v trusted =
     and_then (bounded_line 4096 (jget envelope ''publicKeySpkiBase64'')) (\<lambda>supplied.
     if truthy trusted \<and> trusted \<noteq> JStr supplied then reject (what @ '' signing key does not match trusted public key'')
     else (case nullish_or trusted (JStr supplied) of
         JStr s \<Rightarrow>
           let der = base64_bytes s
           in if jget envelope ''keyId'' \<noteq> JStr (native_digest P der) then reject (what @ '' key fingerprint mismatch'')
              else (case key_type C der of
                  None \<Rightarrow> reject ''Public key unreadable''
                | Some _ \<Rightarrow>
                    and_then (proof_bytes P v) (\<lambda>bytes.
                      if verify_bytes C bytes der (base64_bytes (text_of (jget envelope ''signature''))) then Inr ()
                      else reject (what @ '' signature verification failed'')))
       | _ \<Rightarrow> Inl TypeErr))"

section \<open>Receipts\<close>

definition execution_site :: "jsv \<Rightarrow> jsv" where
  "execution_site e = JObj
     [(''provider'', nullish_or (jget e ''provider'') (JStr ''vercel'')),
      (''deploymentId'', nullish_or (jget e ''deploymentId'') JNull),
      (''deploymentUrl'', nullish_or (jget e ''deploymentUrl'') JNull),
      (''commitSha'', nullish_or (jget e ''commitSha'') JNull), (''region'', nullish_or (jget e ''region'') JNull)]"

definition observed_time :: "jsv \<Rightarrow> int \<Rightarrow> jsv result" where
  "observed_time observedAt nowMs =
     (if observedAt = JUndef then and_then (iso_text nowMs) (\<lambda>s. Inr (JStr s)) else Inr observedAt)"

definition createExternalProofReceipt :: "jsv \<Rightarrow> jsv \<Rightarrow> jsv \<Rightarrow> jsv \<Rightarrow> jsv \<Rightarrow> int \<Rightarrow> jsv result" where
  "createExternalProofReceipt claims receivedSha256 ciphertextBytes executionInput observedAt nowMs =
     (let e = default_to executionInput (JObj [])
      in and_then (observed_time observedAt nowMs) (\<lambda>observed.
         if claims = JUndef \<or> claims = JNull \<or> e = JNull then Inl TypeErr
         else Inr (JObj
           [(''schemaVersion'', JStr EXTERNAL_PROOF_RECEIPT_SCHEMA), (''challengeId'', jget claims ''challengeId''),
            (''sourceNodeId'', jget claims ''sourceNodeId''), (''destinationNodeId'', jget claims ''destinationNodeId''),
            (''stateId'', jget claims ''stateId''), (''stateHash'', jget claims ''stateHash''),
            (''generation'', jget claims ''generation''), (''payloadSha256'', jget claims ''payloadSha256''),
            (''receivedSha256'', receivedSha256), (''payloadBytes'', jget claims ''payloadBytes''),
            (''ciphertextBytes'', ciphertextBytes),
            (''transport'', JObj
               [(''protocol'', JStr ''HTTPS''), (''applicationCipher'', JStr EXTERNAL_PROOF_CIPHER),
                (''challengeAuthentication'', JStr ''HMAC-SHA256''), (''statelessChallenge'', JBool True),
                (''authenticationVerified'', JBool True),
                (''integrityVerified'', JBool (strict_eq receivedSha256 (jget claims ''payloadSha256''))),
                (''encryptedApplicationPayload'', JBool True)]),
            (''destinationExecution'', execution_site e),
            (''claims'', JObj
               [(''externalRuntime'', JBool True),
                (''distinctServiceIdentity'',
                   JBool (\<not> strict_eq (jget claims ''sourceNodeId'') (jget claims ''destinationNodeId''))),
                (''physicalMachineAttestationProven'', JBool False), (''productionReadyClaim'', JBool False)]),
            (''observedAt'', observed)])))"

definition signExternalProofReceipt :: "proof_host \<Rightarrow> crypto \<Rightarrow> platform \<Rightarrow> jsv \<Rightarrow> jsv \<Rightarrow> jsv result" where
  "signExternalProofReceipt H C P receipt pkcs8 = signed_proof H C P ''receipt'' receipt pkcs8"

definition verifyExternalProofEnvelope :: "crypto \<Rightarrow> platform \<Rightarrow> jsv \<Rightarrow> jsv \<Rightarrow> jsv result" where
  "verifyExternalProofEnvelope C P envelope trusted =
     (let receipt = jget envelope ''receipt''
      in if \<not> envelope_shape_ok envelope then reject ''invalid external proof envelope''
         else and_then (check_signature C P ''external proof'' envelope receipt trusted) (\<lambda>_.
           if jget receipt ''schemaVersion'' \<noteq> JStr EXTERNAL_PROOF_RECEIPT_SCHEMA
           then reject ''external proof receipt schema mismatch''
           else if \<not> strict_eq (jget receipt ''payloadSha256'') (jget receipt ''receivedSha256'')
           then reject ''external proof receipt integrity mismatch''
           else if jget (jget receipt ''transport'') ''integrityVerified'' \<noteq> JBool True \<or>
                   jget (jget receipt ''transport'') ''authenticationVerified'' \<noteq> JBool True
           then reject ''external proof receipt did not verify transport integrity/authentication''
           else Inr (JObj [(''verified'', JBool True), (''keyId'', jget envelope ''keyId''),
                           (''stateHash'', jget receipt ''stateHash''), (''challengeId'', jget receipt ''challengeId'')])))"

section \<open>Recovered operations\<close>

definition RECOVERY_CAPSULE_SCHEMA :: string where
  "RECOVERY_CAPSULE_SCHEMA = ''kindred.external-proof.recovery-capsule.v1''"

definition RECOVERY_STATE_SCHEMA :: string where
  "RECOVERY_STATE_SCHEMA = ''kindred.external-proof.recovery-state.v1''"

definition CROSS_PROVIDER_RECOVERY_SCHEMA :: string where
  "CROSS_PROVIDER_RECOVERY_SCHEMA = ''kindred.external-proof.cross-provider-recovery.v1''"

definition RECOVERY_MAX_BYTES :: nat where
  "RECOVERY_MAX_BYTES = 48 * 1024"

definition RECOVERY_TEXT_MAX_BYTES :: nat where
  "RECOVERY_TEXT_MAX_BYTES = 16 * 1024"

definition RECOVERY_JSON_MAX_BYTES :: nat where
  "RECOVERY_JSON_MAX_BYTES = 32 * 1024"

definition proof_digest :: "platform \<Rightarrow> jsv \<Rightarrow> string result" where
  "proof_digest P v = and_then (proof_bytes P v) (\<lambda>bytes. Inr (native_digest P bytes))"

definition executed_operation :: "platform \<Rightarrow> jsv \<Rightarrow> jsv \<Rightarrow> jsv \<Rightarrow> jsv result" where
  "executed_operation P operation normalizedInput result =
     and_then (proof_digest P normalizedInput) (\<lambda>inputHash.
     and_then (proof_digest P result) (\<lambda>outputHash.
       Inr (JObj [(''operation'', operation), (''inputHash'', JStr inputHash), (''output'', result),
                  (''outputHash'', JStr outputHash)])))"

definition executeRecoveredOperation :: "platform \<Rightarrow> jsv \<Rightarrow> jsv result" where
  "executeRecoveredOperation P job =
     (let operation = jget job ''operation''; input = jget job ''input''
      in if \<not> truthy job \<or> \<not> typeof_object job then Inl TypeErr
         else if operation = JStr ''HASH_TEXT'' then
           (case jget input ''text'' of
              JStr t \<Rightarrow>
                if RECOVERY_TEXT_MAX_BYTES < length (utf8 t) then Inl RangeErr
                else executed_operation P operation (JObj [(''text'', JStr t)])
                  (JObj [(''sha256'', JStr (native_digest P (utf8 t))), (''utf8Bytes'', JInt (int (length (utf8 t))))])
            | _ \<Rightarrow> Inl TypeErr)
         else if operation = JStr ''CANONICALIZE_JSON'' then
           (if \<not> truthy input \<or> \<not> typeof_object input \<or> ''value'' \<notin> set (jkeys input) then Inl TypeErr
            else and_then (canonicalize P (jget input ''value'')) (\<lambda>t.
              if RECOVERY_JSON_MAX_BYTES < length (utf8 t) then Inl RangeErr
              else executed_operation P operation (JObj [(''value'', jget input ''value'')])
                (JObj [(''canonical'', JStr t), (''sha256'', JStr (native_digest P (utf8 t))),
                       (''utf8Bytes'', JInt (int (length (utf8 t))))])))
         else reject ''unsupported recovered proof operation'')"

section \<open>Recovery capsules\<close>

definition requireRecoverySecret :: "jsv \<Rightarrow> string result" where
  "requireRecoverySecret v =
     (case v of
        JStr s \<Rightarrow> if length s < 32 then reject ''KINDRED recovery capsule secret must be at least 32 characters'' else Inr s
      | _ \<Rightarrow> reject ''KINDRED recovery capsule secret must be at least 32 characters'')"

definition deriveRecoveryKey :: "channel \<Rightarrow> string \<Rightarrow> string \<Rightarrow> string \<Rightarrow> string" where
  "deriveRecoveryKey X secret salt recoveryId =
     hkdf X (utf8 secret) salt (utf8 (''kindred-external-proof-recovery-v1|'' @ recoveryId))"

record capsule_parts =
  recovery_id :: string
  capsule_salt :: string
  capsule_iv :: string
  capsule_ciphertext :: string
  capsule_tag :: string

text \<open>The checks of a capsule before it is opened.\<close>

definition check_capsule :: "platform \<Rightarrow> jsv \<Rightarrow> capsule_parts result" where
  "check_capsule P capsule =
     (if \<not> truthy capsule \<or> jget capsule ''schemaVersion'' \<noteq> JStr RECOVERY_CAPSULE_SCHEMA
      then reject ''recovery capsule schema mismatch''
      else and_then (bounded_line 128 (jget capsule ''recoveryId'')) (\<lambda>rid.
        and_then (bounded_line 128 (jget capsule ''saltB64'')) (\<lambda>salt.
        and_then (bounded_line 64 (jget capsule ''ivB64'')) (\<lambda>iv.
        and_then (bounded_line 64 (jget capsule ''tagB64'')) (\<lambda>tag.
        and_then (bounded_line (128 * 1024) (jget capsule ''ciphertextB64'')) (\<lambda>ciphertext.
        and_then (bounded_line 64 (jget capsule ''capsuleSha256'')) (\<lambda>digest.
        and_then (proof_digest P (JObj
            [(''schemaVersion'', jget capsule ''schemaVersion''), (''recoveryId'', JStr rid), (''saltB64'', JStr salt),
             (''ivB64'', JStr iv), (''ciphertextB64'', JStr ciphertext), (''tagB64'', JStr tag)])) (\<lambda>expected.
          if expected \<noteq> digest then reject ''recovery capsule digest mismatch''
          else
            let parts = \<lparr>recovery_id = rid, capsule_salt = base64_bytes salt, capsule_iv = base64_bytes iv,
                  capsule_ciphertext = base64_bytes ciphertext, capsule_tag = base64_bytes tag\<rparr>
            in if length (capsule_salt parts) \<noteq> 32 \<or> length (capsule_iv parts) \<noteq> 12 \<or>
                  length (capsule_tag parts) \<noteq> 16 \<or> capsule_ciphertext parts = [] \<or>
                  RECOVERY_MAX_BYTES < length (capsule_ciphertext parts)
               then reject ''recovery capsule cryptographic fields invalid''
               else Inr parts))))))))"

text \<open>The checks of the state the capsule holds.\<close>

definition check_recovered_state :: "jsv \<Rightarrow> string \<Rightarrow> unit result" where
  "check_recovered_state state rid =
     (if \<not> truthy state \<or> jget state ''schemaVersion'' \<noteq> JStr RECOVERY_STATE_SCHEMA \<or> jget state ''recoveryId'' \<noteq> JStr rid
      then reject ''recovery state identity mismatch''
      else and_then (bounded_line 256 (jget state ''sourceNodeId'')) (\<lambda>_.
        and_then (bounded_line 256 (jget state ''sourceBootId'')) (\<lambda>_.
        and_then (bounded_line 128 (jget state ''checkpointedAt'')) (\<lambda>_.
          if jget state ''checkpointStage'' \<noteq> JStr ''VALIDATED_BEFORE_EXTERNAL_TRANSFER''
          then reject ''recovery checkpoint stage mismatch''
          else if \<not> validSha256 (jget state ''validatedInputHash'')
          then reject ''recovery validated input hash invalid''
          else Inr ()))))"

definition openRecoveryCapsule :: "proof_host \<Rightarrow> channel \<Rightarrow> platform \<Rightarrow> jsv \<Rightarrow> jsv \<Rightarrow> (jsv \<times> jsv) result" where
  "openRecoveryCapsule H X P secretInput capsule =
     and_then (requireRecoverySecret secretInput) (\<lambda>secret.
     and_then (check_capsule P capsule) (\<lambda>parts.
       case gcm_open X (deriveRecoveryKey X secret (capsule_salt parts) (recovery_id parts)) (capsule_iv parts)
              (utf8 RECOVERY_CAPSULE_SCHEMA) (capsule_ciphertext parts) (capsule_tag parts) of
         None \<Rightarrow> reject ''recovery capsule authentication or decoding failed''
       | Some plaintext \<Rightarrow>
           (case parse_bytes H plaintext of
              None \<Rightarrow> reject ''recovery capsule authentication or decoding failed''
            | Some state \<Rightarrow>
                and_then (check_recovered_state state (recovery_id parts)) (\<lambda>_.
                and_then (executeRecoveredOperation P (jget state ''job'')) (\<lambda>executed.
                  if jget executed ''inputHash'' \<noteq> jget state ''validatedInputHash''
                  then reject ''recovered input hash mismatch''
                  else Inr (state, executed))))))"

section \<open>Recovery records\<close>

definition createCrossProviderRecoveryRecord :: "jsv \<Rightarrow> jsv \<Rightarrow> jsv \<Rightarrow> jsv \<Rightarrow> jsv \<Rightarrow> jsv \<Rightarrow> int \<Rightarrow> jsv result" where
  "createCrossProviderRecoveryRecord state executed capsuleSha256 recoveryNodeId executionInput observedAt nowMs =
     (let e = default_to executionInput (JObj [])
      in and_then (observed_time observedAt nowMs) (\<lambda>observed.
         and_then (bounded_line 256 recoveryNodeId) (\<lambda>node.
         if \<not> validSha256 capsuleSha256 then reject ''capsuleSha256 must be SHA-256 hex''
         else if state = JUndef \<or> state = JNull \<or> executed = JUndef \<or> executed = JNull \<or> e = JNull then Inl TypeErr
         else Inr (JObj
           [(''schemaVersion'', JStr CROSS_PROVIDER_RECOVERY_SCHEMA), (''recoveryId'', jget state ''recoveryId''),
            (''capsuleSha256'', capsuleSha256), (''checkpointedAt'', jget state ''checkpointedAt''),
            (''originalSourceNodeId'', jget state ''sourceNodeId''), (''originalSourceBootId'', jget state ''sourceBootId''),
            (''checkpointStage'', jget state ''checkpointStage''), (''recoveryNodeId'', JStr node),
            (''operation'', jget executed ''operation''), (''recoveredInputHash'', jget executed ''inputHash''),
            (''outputHash'', jget executed ''outputHash''), (''output'', jget executed ''output''),
            (''execution'', execution_site e),
            (''claims'', JObj
               [(''recoveredOutsideOriginalSourceRuntime'', JBool (\<not> strict_eq (JStr node) (jget state ''sourceNodeId''))),
                (''automaticFailoverProven'', JBool False), (''abruptTerminationRecoveryProven'', JBool False),
                (''physicalMachineAttestationProven'', JBool False), (''productionReadyClaim'', JBool False)]),
            (''observedAt'', observed)]))))"

definition signCrossProviderRecovery :: "proof_host \<Rightarrow> crypto \<Rightarrow> platform \<Rightarrow> jsv \<Rightarrow> jsv \<Rightarrow> jsv result" where
  "signCrossProviderRecovery H C P recovery pkcs8 =
     and_then (bounded_line 8192 pkcs8) (\<lambda>_.
       if jget recovery ''schemaVersion'' \<noteq> JStr CROSS_PROVIDER_RECOVERY_SCHEMA
       then reject ''cross-provider recovery schema mismatch''
       else signed_proof H C P ''recovery'' recovery pkcs8)"

definition verifyCrossProviderRecoveryEnvelope :: "crypto \<Rightarrow> platform \<Rightarrow> jsv \<Rightarrow> jsv \<Rightarrow> jsv result" where
  "verifyCrossProviderRecoveryEnvelope C P envelope trusted =
     (let recovery = jget envelope ''recovery''
      in if \<not> envelope_shape_ok envelope then reject ''invalid cross-provider recovery envelope''
         else if \<not> truthy recovery \<or> jget recovery ''schemaVersion'' \<noteq> JStr CROSS_PROVIDER_RECOVERY_SCHEMA
         then reject ''cross-provider recovery schema mismatch''
         else and_then (check_signature C P ''cross-provider recovery'' envelope recovery trusted) (\<lambda>_.
           if \<not> validSha256 (jget recovery ''capsuleSha256'') \<or> \<not> validSha256 (jget recovery ''recoveredInputHash'') \<or>
              \<not> validSha256 (jget recovery ''outputHash'')
           then reject ''cross-provider recovery hash fields invalid''
           else if jget (jget recovery ''claims'') ''automaticFailoverProven'' \<noteq> JBool False \<or>
                   jget (jget recovery ''claims'') ''physicalMachineAttestationProven'' \<noteq> JBool False
           then reject ''cross-provider recovery contains unsupported maturity claim''
           else Inr (JObj [(''verified'', JBool True), (''recoveryId'', jget recovery ''recoveryId''),
              (''capsuleSha256'', jget recovery ''capsuleSha256''),
              (''recoveredInputHash'', jget recovery ''recoveredInputHash''), (''outputHash'', jget recovery ''outputHash''),
              (''keyId'', jget envelope ''keyId'')])))"

end
