(* ===== verification/ExternalFacts.thy ===== *)
theory ExternalFacts
  imports ExternalProof SessionFacts Digests
begin

text \<open>
  A challenge that was issued is accepted by the token check, and a payload encrypted for it is decrypted
  under the claims the check returns.
\<close>

section \<open>Texts\<close>

lemma sextet_b64url_char: "n < 64 \<Longrightarrow> sextet (b64url_char n) = Some n"
proof -
  assume "n < 64"
  then have "n \<in> set [0..<64]" by simp
  moreover have "list_all (\<lambda>n. sextet (b64url_char n) = Some n) [0..<64]" by code_simp
  ultimately show ?thesis by (simp add: list_all_iff)
qed

lemma base64_bytes_base64url [simp]: "base64_bytes (base64url bs) = bs"
  by (induction bs rule: base64url.induct)
    (simp_all add: base64_bytes_def List.map_filter_simps sextet_b64url_char sextet_bounds code_less byte_parts)

lemma utf8_text_utf8 [simp]: "utf8_text (utf8 s) = Some s"
proof (induction s)
  case (Cons c s)
  then have rest: "utf8_text (concat (map utf8_char s)) = Some s" by (simp add: utf8_def)
  show ?case
  proof (cases "code c < 128")
    case True
    then show ?thesis by (simp add: utf8_def utf8_char_def rest)
  next
    case False
    then have "code c div 64 = 2 \<or> code c div 64 = 3" using code_less [of c] by arith
    then have lead: "192 + code c div 64 < 256" "192 + code c div 64 \<in> {194, 195}" "128 \<le> 192 + code c div 64" by auto
    have follow: "128 + code c mod 64 < 192" "128 + code c mod 64 < 256" using mod_less_divisor [of 64 "code c"] by simp_all
    have "(code c div 64) * 64 + code c mod 64 = code c" by simp
    then have "char_of ((192 + code c div 64 - 192) * 64 + (128 + code c mod 64 - 128)) = c" by simp
    with False lead follow rest show ?thesis
      by (simp add: utf8_def utf8_char_def of_char_of del: add_diff_cancel_left')
  qed
qed (simp add: utf8_def)

lemma idch_line: "list_all is_idch s \<Longrightarrow> line_text n s \<longleftrightarrow> 1 \<le> length s \<and> length s \<le> n"
  by (auto simp: line_text_def list_ex_iff list_all_iff is_idch_def char_class_defs)

lemma base64url_line: "bs \<noteq> [] \<Longrightarrow> length (base64url bs) \<le> n \<Longrightarrow> line_text n (base64url bs)"
  using length_base64url [of bs] idch_line [OF base64url_idch, of n bs] by (cases bs) auto

lemma bounded_line_Inr: "bounded_line n v = Inr s \<longleftrightarrow> v = JStr s \<and> line_text n s"
  by (auto simp: bounded_line_def split: jsv.splits)

lemma dot_not_base64url: "CHR ''.'' \<notin> set (base64url bs)"
  using base64url_idch [of bs] by (auto simp: list_all_iff is_idch_def char_class_defs)

lemma split_token: "split_on CHR ''.'' (base64url a @ ''.'' @ base64url b) = [base64url a, base64url b]"
  using split_on_append [of "CHR ''.''" "base64url a"] split_on_no_sep [of "CHR ''.''" "base64url b"]
  by (simp add: dot_not_base64url)

section \<open>Reading flat canonical texts\<close>

definition scalar :: "jsv \<Rightarrow> bool" where
  "scalar v \<longleftrightarrow> (\<exists>s. v = JStr s) \<or> (\<exists>i. v = JInt i \<and> \<bar>i\<bar> \<le> max_safe)"

abbreviation scalars :: "(string \<times> jsv) list \<Rightarrow> bool" where
  "scalars kvs \<equiv> \<forall>kv \<in> set kvs. scalar (snd kv)"

definition entry_text :: "platform \<Rightarrow> string \<times> jsv \<Rightarrow> string" where
  "entry_text P kv = quote (fst kv) @ '':'' @ json P (snd kv)"

lemma canonicalize_scalar: "scalar v \<Longrightarrow> canonicalize P v = Inr (json P v)"
  by (auto simp: scalar_def)

lemma canonicalize_scalars: "scalars kvs \<Longrightarrow> canonicalize_entries P kvs = Inr (map (\<lambda>kv. (fst kv, json P (snd kv))) kvs)"
  by (induction kvs) (auto simp: canonicalize_scalar scalar_def)

lemma insert_by_map: "insert_by le (f x) (map f xs) = map f (insert_by (\<lambda>a b. le (f a) (f b)) x xs)"
  by (induction xs) auto

lemma sort_by_map: "sort_by le (map f xs) = map f (sort_by (\<lambda>a b. le (f a) (f b)) xs)"
  by (induction xs) (auto simp: insert_by_map)

abbreviation sorted_entries :: "platform \<Rightarrow> (string \<times> jsv) list \<Rightarrow> (string \<times> jsv) list" where
  "sorted_entries P kvs \<equiv> sort_by (\<lambda>a b. locale_le P (fst a) (fst b)) kvs"

lemma canonicalize_flat:
  assumes "scalars kvs"
  shows "canonicalize P (JObj kvs) = Inr (''{'' @ join '','' (map (entry_text P) (sorted_entries P kvs)) @ ''}'')"
  by (simp add: canonicalize_scalars [OF assms] sort_by_map comp_def entry_text_def [abs_def])

lemma read_scalar:
  assumes "scalar v" "ends_value r"
  shows "read_value (Suc n) (json P v @ r) = Read v r"
proof -
  consider s where "v = JStr s" | i where "v = JInt i" "\<bar>i\<bar> \<le> max_safe" using assms(1) by (auto simp: scalar_def)
  then show ?thesis
  proof cases
    case 1
    then show ?thesis by (simp add: quote_starts read_quoted skip_Cons is_blank_def)
  next
    case (2 i)
    then have printable: "printable v" by simp
    have "skip (pretty P 0 v @ r) = pretty P 0 v @ r" by (rule skip_pretty [OF printable]) simp
    with printable show ?thesis
      using printed_number [of False "Fin (of_int i)" r "pretty P 0 v @ r" P 0 n] assms(2) 2 by (simp add: reads_def)
  qed
qed

lemma read_flat:
  "kvs \<noteq> [] \<Longrightarrow> scalars kvs \<Longrightarrow> Suc (length kvs) < n \<Longrightarrow>
    read_members n (join '','' (map (entry_text P) kvs) @ ''}'' @ r) = Read kvs r"
proof (induction kvs arbitrary: n)
  case (Cons kv kvs)
  obtain m where n: "n = Suc (Suc m)" using Cons.prems(3) by (cases n; cases "n - 1") auto
  have one: "read_members n (entry_text P kv @ c # q) =
      (if c = CHR '','' then then_read (read_members (Suc m) q) (\<lambda>kvs r''. Read (kv # kvs) r'') else Read [kv] q)"
    if "c \<in> {CHR '','', CHR ''}''}" for c q
  proof -
    have "read_value (Suc m) (json P (snd kv) @ c # q) = Read (snd kv) (c # q)"
      using that Cons.prems(2) by (intro read_scalar) auto
    moreover have "skip (c # q) = c # q" using that by (auto simp: skip_Cons is_blank_def)
    ultimately show ?thesis
      using that unfolding n read_members.simps entry_text_def
      by (auto simp: quote_starts read_quoted skip_Cons is_blank_def simp del: read_value.simps read_members.simps)
  qed
  show ?case
  proof (cases kvs)
    case Nil
    then show ?thesis using one [of "CHR ''}''" r] by simp
  next
    case (Cons a list)
    then have "read_members (Suc m) (join '','' (map (entry_text P) kvs) @ ''}'' @ r) = Read kvs r"
      using Cons.IH [of "Suc m"] Cons.prems n by simp
    then show ?thesis using one [of "CHR '',''"] by (simp add: local.Cons)
  qed
qed simp

lemma object_of_plain:
  assumes "distinct (map fst kvs)" "\<forall>kv \<in> set kvs. \<not> index_key (fst kv)"
  shows "object_of kvs = JObj kvs"
proof -
  have "distinct (map fst (acc @ us)) \<Longrightarrow> fold (\<lambda>(k, v). AList.update k v) us acc = acc @ us"
    for us acc :: "(string \<times> jsv) list"
  proof (induction us arbitrary: acc)
    case (Cons u us)
    then have "AList.update (fst u) (snd u) acc = acc @ [u]" by (induction acc) auto
    with Cons.IH [of "acc @ [u]"] Cons.prems show ?case by (simp add: case_prod_unfold)
  qed simp
  moreover have "property_order kvs = kvs" using assms(2) by (simp add: property_order_def filter_id_conv)
  ultimately show ?thesis using assms(1) by (simp add: object_of_def)
qed

lemma length_entries: "length kvs \<le> length (join '','' (map (entry_text P) kvs))"
  by (induction kvs) (auto simp: join_Cons entry_text_def quote_def)

lemma parse_flat:
  assumes "kvs \<noteq> []" "scalars kvs" "distinct (map fst kvs)" "\<forall>kv \<in> set kvs. \<not> index_key (fst kv)"
  shows "json_parse e (''{'' @ join '','' (map (entry_text P) kvs) @ ''}'') = Some (JObj kvs)"
proof -
  let ?t = "join '','' (map (entry_text P) kvs)"
  obtain kv us where kvs: "kvs = kv # us" using assms(1) by (cases kvs) auto
  have "\<exists>u. ?t = CHR 0x22 # u" by (simp add: kvs join_Cons entry_text_def quote_def)
  then have starts: "skip (?t @ ''}'') = ?t @ ''}''" "\<not> next_is CHR ''}'' (?t @ ''}'')"
    by (auto simp: skip_Cons is_blank_def)
  have "read_members (2 * length (''{'' @ ?t @ ''}'')) (?t @ ''}'' @ []) = Read kvs []"
    by (rule read_flat [OF assms(1,2)]) (use length_entries [of kvs P] in simp)
  then show ?thesis
    using starts object_of_plain [OF assms(3,4)] by (simp add: json_parse_def skip_Cons is_blank_def)
qed

lemma map_of_sorted: "distinct (map fst kvs) \<Longrightarrow> map_of (sorted_entries P kvs) = map_of kvs"
  by (rule map_of_inject_set [THEN iffD2]) (simp_all add: distinct_map_sort_by)

lemma sorted_plain:
  assumes "kvs \<noteq> []" "scalars kvs" "distinct (map fst kvs)" "\<forall>kv \<in> set kvs. \<not> index_key (fst kv)"
  shows "sorted_entries P kvs \<noteq> []" "scalars (sorted_entries P kvs)" "distinct (map fst (sorted_entries P kvs))"
    "\<forall>kv \<in> set (sorted_entries P kvs). \<not> index_key (fst kv)"
  using assms(2-) assms(1) length_sort_by [of "\<lambda>a b. locale_le P (fst a) (fst b)" kvs]
  by (auto simp: distinct_map_sort_by simp del: length_sort_by)

section \<open>The size of a token\<close>

lemma length_utf8_append [simp]: "length (utf8 (s @ t)) = length (utf8 s) + length (utf8 t)"
  by (simp add: utf8_def)

lemma length_utf8_Cons [simp]: "length (utf8 (c # t)) = (if code c < 128 then 1 else 2) + length (utf8 t)"
  by (simp add: utf8_def utf8_char_def)

lemma length_utf8_Nil [simp]: "length (utf8 []) = 0"
  by (simp add: utf8_def)

lemma length_utf8_le: "length (utf8 s) \<le> 2 * length s"
  by (induction s) auto

lemma length_escape: "length (utf8 (escape_char c)) \<le> 8"
  by (cases c rule: escape_char_cases) (simp_all split: if_splits)

lemma length_quote: "length (utf8 (quote s)) \<le> 2 + 8 * length s"
proof -
  have "length (utf8 (concat (map escape_char s))) \<le> 8 * length s"
  proof (induction s)
    case (Cons c s)
    then show ?case using length_escape [of c] by simp
  qed simp
  then show ?thesis by (simp add: quote_def)
qed

lemma length_utf8_join: "length (utf8 (join '','' ts)) \<le> sum_list (map (\<lambda>t. Suc (length (utf8 t))) ts)"
  by (induction ts) (auto simp: join_Cons)

lemma length_nat_text: "n < 10 ^ Suc k \<Longrightarrow> length (nat_text n) \<le> Suc k"
proof (induction k arbitrary: n)
  case (Suc k)
  then have "n div 10 < 10 ^ Suc k" by (simp add: less_mult_imp_div_less)
  with Suc.IH show ?case by (subst nat_text.simps) simp
qed (simp add: nat_text.simps)

lemma length_int_text: "\<bar>i\<bar> \<le> max_safe \<Longrightarrow> length (int_text i) \<le> 17"
proof -
  assume "\<bar>i\<bar> \<le> max_safe"
  then have "nat i < 10 ^ Suc 15" "nat (- i) < 10 ^ Suc 15" by (simp_all add: max_safe_def nat_less_iff)
  from this [THEN length_nat_text] show ?thesis by (simp add: int_text_def)
qed

lemma length_iso_text: "iso_text t = Inr s \<Longrightarrow> length s \<le> 27"
  by (auto simp: iso_text_def iso_string_def Let_def clock_text_def year_text_def split: if_splits)

lemma length_scalar:
  "length (utf8 (json P (JStr s))) \<le> 2 + 8 * length s"
  "\<bar>i\<bar> \<le> max_safe \<Longrightarrow> length (utf8 (json P (JInt i))) \<le> 34"
proof -
  show "length (utf8 (json P (JInt i))) \<le> 34" if "\<bar>i\<bar> \<le> max_safe"
    using that length_int_text [OF that] length_utf8_le [of "int_text i"]
    by (simp add: rat_text_def abs_le_iff flip: of_int_abs)
qed (use length_quote [of s] in simp)

lemma length_entry: "length (utf8 (entry_text P (k, v))) \<le> 3 + 8 * length k + length (utf8 (json P v))"
  using length_quote [of k] by (simp add: entry_text_def)

lemma length_sorted_text:
  "length (utf8 (join '','' (map (entry_text P) (sorted_entries P kvs)))) \<le>
    sum_list (map (\<lambda>kv. 4 + 8 * length (fst kv) + length (utf8 (json P (snd kv)))) kvs)"
proof -
  let ?f = "\<lambda>kv. 4 + 8 * length (fst kv) + length (utf8 (json P (snd kv)))"
  have "length (utf8 (join '','' (map (entry_text P) (sorted_entries P kvs)))) \<le>
      sum_list (map (\<lambda>kv. Suc (length (utf8 (entry_text P kv)))) (sorted_entries P kvs))"
    using length_utf8_join [of "map (entry_text P) (sorted_entries P kvs)"] by (simp add: comp_def)
  also have "\<dots> \<le> sum_list (map ?f (sorted_entries P kvs))"
  proof (rule sum_list_mono)
    show "Suc (length (utf8 (entry_text P kv))) \<le> ?f kv" for kv
      using length_entry [of P "fst kv" "snd kv"] by simp
  qed
  also have "\<dots> = sum_list (map ?f kvs)"
    using arg_cong [OF mset_map_sort_by [of ?f "\<lambda>a b. locale_le P (fst a) (fst b)" kvs], of sum_mset]
    by (simp only: sum_mset_sum_list)
  finally show ?thesis .
qed

section \<open>An issued challenge\<close>

text \<open>The tag of SHA-256 has 32 bytes.\<close>

definition hmac_width :: "proof_host \<Rightarrow> bool" where
  "hmac_width H \<longleftrightarrow> (\<forall>k m. length (hmac_bytes H k m) = 32)"

lemma issued_Inr:
  assumes "issueExternalProofChallenge H P secretInput request destinationNodeId ttlInput nowMs uuid nonce = Inr answer"
  obtains secret source destination state issued expires encoded
  where "requireSecret secretInput = Inr secret" "line_text 256 source" "line_text 256 destination" "line_text 512 state"
    "check_request request (default_to ttlInput (JInt 120000)) = Inr ()" "iso_text nowMs = Inr issued"
    "iso_text (nowMs + \<lfloor>num_of (default_to ttlInput (JInt 120000))\<rfloor>) = Inr expires"
    "proof_bytes P (JObj (challenge_claims uuid (hex_text nonce) issued expires source destination state request)) = Inr encoded"
    "answer = JObj (challenge_claims uuid (hex_text nonce) issued expires source destination state request @
       [(''token'', JStr (base64url encoded @ ''.'' @ hmac H secret (base64url encoded))),
        (''cipher'', JStr EXTERNAL_PROOF_CIPHER)])"
  using assms by (auto simp: issueExternalProofChallenge_def Let_def result_simps bounded_line_Inr)

lemma safe_between_int: "safe_between a b v \<Longrightarrow> \<bar>a\<bar> \<le> max_safe \<Longrightarrow> \<bar>b\<bar> \<le> max_safe \<Longrightarrow>
    \<exists>i. v = JInt i \<and> a \<le> i \<and> i \<le> b \<and> \<bar>i\<bar> \<le> max_safe"
  by (auto simp: safe_between_def elim!: is_safe_integerE)

lemma check_requestE:
  assumes "check_request request ttl = Inr ()"
  obtains h p g n t where "jget request ''stateHash'' = JStr h" "jget request ''payloadSha256'' = JStr p"
    "length h = 64" "length p = 64" "list_all hex_either h" "list_all hex_either p" "to_lower h = to_lower p"
    "jget request ''generation'' = JInt g" "0 \<le> g" "g \<le> max_safe"
    "jget request ''payloadBytes'' = JInt n" "1 \<le> n" "n \<le> EXTERNAL_PROOF_MAX_BYTES"
    "ttl = JInt t" "10000 \<le> t" "t \<le> 600000"
proof -
  have shas: "validSha256 (jget request ''stateHash'')" "validSha256 (jget request ''payloadSha256'')"
      "to_lower (text_of (jget request ''stateHash'')) = to_lower (text_of (jget request ''payloadSha256''))"
    and ints: "safe_between 0 max_safe (jget request ''generation'')"
      "safe_between 1 EXTERNAL_PROOF_MAX_BYTES (jget request ''payloadBytes'')" "safe_between 10000 600000 ttl"
    using assms by (auto simp: check_request_def Let_def split: if_splits)
  obtain h p where "jget request ''stateHash'' = JStr h" "jget request ''payloadSha256'' = JStr p"
    using shas(1,2) by (auto simp: validSha256_def split: jsv.splits)
  moreover obtain g n t where "jget request ''generation'' = JInt g" "0 \<le> g" "g \<le> max_safe"
      "jget request ''payloadBytes'' = JInt n" "1 \<le> n" "n \<le> EXTERNAL_PROOF_MAX_BYTES" "ttl = JInt t" "10000 \<le> t" "t \<le> 600000"
    using ints [THEN safe_between_int] by (auto simp: max_safe_def EXTERNAL_PROOF_MAX_BYTES_def)
  ultimately show thesis using that shas by (simp add: validSha256_def)
qed

lemma lower_hex: "hex_either c \<Longrightarrow> hex_either (lower_char c)"
  by (auto simp: hex_either_def lower_char_def char_class_defs)

lemma lower_hash: "length h = 64 \<Longrightarrow> list_all hex_either h \<Longrightarrow> validSha256 (JStr (to_lower h))"
  by (auto simp: validSha256_def to_lower_def list_all_iff lower_hex)

lemma hash_bound: "validSha256 (JStr s) \<Longrightarrow> length s = 64"
  by (simp add: validSha256_def)

lemma challenge_shape:
  assumes "jget request ''generation'' = JInt g" "\<bar>g\<bar> \<le> max_safe" "jget request ''payloadBytes'' = JInt n" "\<bar>n\<bar> \<le> max_safe"
  shows "challenge_claims uuid nonce issued expires source destination state request \<noteq> []"
    "scalars (challenge_claims uuid nonce issued expires source destination state request)"
    "distinct (map fst (challenge_claims uuid nonce issued expires source destination state request))"
    "\<forall>kv \<in> set (challenge_claims uuid nonce issued expires source destination state request). \<not> index_key (fst kv)"
proof -
  have "map fst (challenge_claims uuid nonce issued expires source destination state request) =
      [''schemaVersion'', ''challengeId'', ''nonce'', ''issuedAt'', ''expiresAt'', ''sourceNodeId'', ''destinationNodeId'',
       ''stateId'', ''stateHash'', ''generation'', ''payloadSha256'', ''payloadBytes'']" (is "_ = ?keys")
    by (simp add: challenge_claims_def)
  moreover have "distinct ?keys" "list_all (\<lambda>k. \<not> index_key k) ?keys" by code_simp+
  ultimately show "distinct (map fst (challenge_claims uuid nonce issued expires source destination state request))"
    "\<forall>kv \<in> set (challenge_claims uuid nonce issued expires source destination state request). \<not> index_key (fst kv)"
    by (simp, metis (no_types, lifting) imageI list.set_map list_all_iff)
  show "scalars (challenge_claims uuid nonce issued expires source destination state request)"
    using assms by (auto simp: challenge_claims_def scalar_def)
qed (simp add: challenge_claims_def)

lemma challenge_size:
  assumes "length uuid \<le> 64" "length nonce \<le> 64" "length issued \<le> 27" "length expires \<le> 27" "length source \<le> 256"
    "length destination \<le> 256" "length state \<le> 512"
    "jget request ''stateHash'' = JStr h" "length h = 64" "jget request ''payloadSha256'' = JStr p" "length p = 64"
    "jget request ''generation'' = JInt g" "\<bar>g\<bar> \<le> max_safe" "jget request ''payloadBytes'' = JInt n" "\<bar>n\<bar> \<le> max_safe"
    "proof_bytes P (JObj (challenge_claims uuid nonce issued expires source destination state request)) = Inr bytes"
  shows "length bytes \<le> 12100"
proof -
  let ?kvs = "challenge_claims uuid nonce issued expires source destination state request"
  have bytes: "bytes = utf8 (''{'' @ join '','' (map (entry_text P) (sorted_entries P ?kvs)) @ ''}'')"
    using assms(16) canonicalize_flat [OF challenge_shape(2) [OF assms(12-15)]] by (simp add: proof_bytes_def)
  have strings: "length (utf8 (json P (JStr s))) \<le> 2 + 8 * k" if "length s \<le> k" for s k
    using length_scalar(1) [of P s] that by linarith
  note sizes = assms(1-7) [THEN strings] length_scalar(2) [OF assms(13), of P] length_scalar(2) [OF assms(15), of P]
    strings [of "to_lower h" 64] strings [of "to_lower p" 64] strings [of EXTERNAL_PROOF_CHALLENGE_SCHEMA 35]
  have "sum_list (map (\<lambda>kv. 4 + 8 * length (fst kv) + length (utf8 (json P (snd kv)))) ?kvs) \<le> 12098"
    using sizes assms(8-12,14)
    by (simp add: challenge_claims_def to_lower_def EXTERNAL_PROOF_CHALLENGE_SCHEMA_def del: json.simps)
  then show ?thesis using length_sorted_text [of P ?kvs] by (simp add: bytes)
qed

lemma hex_line: "line_text k (hex_text bs) \<longleftrightarrow> 1 \<le> 2 * length bs \<and> 2 * length bs \<le> k"
proof -
  have "is_hexch c \<Longrightarrow> c \<noteq> CHR 0x0D \<and> c \<noteq> CHR 0x0A" for c by (auto simp: char_class_defs)
  then show ?thesis using hex_text_class [of bs] by (auto simp: line_text_def list_ex_iff list_all_iff length_hex_text)
qed

text \<open>The claims as the token holds them.\<close>

definition token_claims :: "platform \<Rightarrow> (string \<times> jsv) list \<Rightarrow> jsv" where
  "token_claims P kvs = JObj (sorted_entries P kvs)"

lemma jget_token_claims: "distinct (map fst kvs) \<Longrightarrow> jget (token_claims P kvs) k = jget (JObj kvs) k"
  by (simp add: token_claims_def map_of_sorted)

lemma parse_claims:
  assumes "kvs \<noteq> []" "scalars kvs" "distinct (map fst kvs)" "\<forall>kv \<in> set kvs. \<not> index_key (fst kv)"
    and "proof_bytes P (JObj kvs) = Inr bytes"
  shows "parse_bytes H bytes = Some (token_claims P kvs)"
proof -
  have "bytes = utf8 (''{'' @ join '','' (map (entry_text P) (sorted_entries P kvs)) @ ''}'')"
    using assms(5) canonicalize_flat [OF assms(2)] by (simp add: proof_bytes_def)
  then show ?thesis
    using parse_flat [OF sorted_plain [OF assms(1-4)], of "\<lambda>_. engine_json H bytes" P P]
    by (simp add: parse_bytes_def token_claims_def del: utf8_text.simps)
qed

lemma token_text:
  assumes "hmac_width H" "bytes \<noteq> []" "length bytes \<le> 12100"
  shows "line_text 16384 (base64url bytes @ ''.'' @ hmac H secret e)"
proof -
  have "length (hmac H secret e) \<le> 44"
    using length_base64url [of "hmac_bytes H (utf8 secret) (utf8 e)"] assms(1) by (auto simp: hmac_def hmac_width_def)
  moreover have "3 * length (base64url bytes) \<le> 4 * length bytes + 4" using length_base64url by blast
  moreover have "\<not> list_ex (\<lambda>c. c = CHR 0x0D \<or> c = CHR 0x0A) (base64url x)" for x
    using base64url_idch [of x] by (auto simp: list_ex_iff list_all_iff is_idch_def char_class_defs)
  ultimately show ?thesis using assms(3) by (simp add: line_text_def hmac_def)
qed

lemma issued_verifies:
  assumes issued: "issueExternalProofChallenge H P secretInput request destinationNodeId ttlInput nowMs uuid nonce = Inr answer"
    and "hmac_width H" "line_text 64 uuid" "length nonce = 32"
    and now: "nowMs \<le> t" "t \<le> nowMs + \<lfloor>num_of (default_to ttlInput (JInt 120000))\<rfloor>"
  obtains claims where "verifyExternalProofToken H P secretInput (jget answer ''token'') t = Inr claims"
    "\<forall>k. k \<notin> {''token'', ''cipher''} \<longrightarrow> jget claims k = jget answer k"
proof -
  from issued obtain secret source destination state start expires bytes
    where secret: "requireSecret secretInput = Inr secret"
      and lines: "line_text 256 source" "line_text 256 destination" "line_text 512 state"
      and request: "check_request request (default_to ttlInput (JInt 120000)) = Inr ()"
      and times: "iso_text nowMs = Inr start"
        "iso_text (nowMs + \<lfloor>num_of (default_to ttlInput (JInt 120000))\<rfloor>) = Inr expires"
      and bytes: "proof_bytes P (JObj (challenge_claims uuid (hex_text nonce) start expires source destination state request)) =
        Inr bytes"
      and answer: "answer = JObj (challenge_claims uuid (hex_text nonce) start expires source destination state request @
        [(''token'', JStr (base64url bytes @ ''.'' @ hmac H secret (base64url bytes))),
         (''cipher'', JStr EXTERNAL_PROOF_CIPHER)])"
    by (rule issued_Inr)
  let ?kvs = "challenge_claims uuid (hex_text nonce) start expires source destination state request"
  let ?token = "base64url bytes @ ''.'' @ hmac H secret (base64url bytes)"
  let ?claims = "token_claims P ?kvs"
  from request obtain h p g n ttl where r: "jget request ''stateHash'' = JStr h" "jget request ''payloadSha256'' = JStr p"
    "length h = 64" "length p = 64" "list_all hex_either h" "list_all hex_either p" "to_lower h = to_lower p"
    "jget request ''generation'' = JInt g" "0 \<le> g" "g \<le> max_safe"
    "jget request ''payloadBytes'' = JInt n" "1 \<le> n" "n \<le> EXTERNAL_PROOF_MAX_BYTES"
    "default_to ttlInput (JInt 120000) = JInt ttl" "10000 \<le> ttl" "ttl \<le> 600000"
    by (rule check_requestE)
  have safe: "\<bar>g\<bar> \<le> max_safe" "\<bar>n\<bar> \<le> max_safe" using r by (simp_all add: EXTERNAL_PROOF_MAX_BYTES_def max_safe_def)
  note shape = challenge_shape [OF r(8) safe(1) r(11) safe(2), of uuid "hex_text nonce" start expires source destination state]
  have "length bytes \<le> 12100"
    using lines assms(3) assms(4) length_iso_text [OF times(1)] length_iso_text [OF times(2)]
    by (intro challenge_size [OF _ _ _ _ _ _ _ r(1,3,2,4,8) safe(1) r(11) safe(2) bytes])
      (simp_all add: line_text_def length_hex_text)
  moreover have "bytes \<noteq> []"
    using bytes canonicalize_flat [OF shape(2), of P] by (auto simp: proof_bytes_def utf8_def utf8_char_def)
  ultimately have line: "line_text 16384 ?token" using token_text [OF assms(2)] by blast
  have fields: "jget ?claims k = jget (JObj ?kvs) k" for k by (rule jget_token_claims [OF shape(3)])
  have lines_ok: "check_claim_lines ?claims = Inr ()"
    unfolding check_claim_lines_def fields
    by (simp add: challenge_claims_def bounded_line_def assms(3) lines hex_line assms(4))
  have ranges: "safe_between 0 max_safe (JInt g)" "safe_between 1 EXTERNAL_PROOF_MAX_BYTES (JInt n)"
    using r(9,10,12,13) safe by (simp_all add: safe_between_def)
  have present: "token_claims P xs \<noteq> JNull" for xs by (simp add: token_claims_def)
  have checked: "check_claims P ?claims t = Inr ()"
    using now r(14,15) lower_hash [OF r(3,5)] lower_hash [OF r(4,6)] date_parse_iso_text [OF times(1), of P]
      date_parse_iso_text [OF times(2), of P]
    unfolding check_claims_def lines_ok fields
    by (simp add: present challenge_claims_def r(1,2,7,8,11) ranges)
  have "verifyExternalProofToken H P secretInput (jget answer ''token'') t = Inr ?claims"
  proof -
    have "jget answer ''token'' = JStr ?token" by (simp add: answer challenge_claims_def)
    moreover have "split_on CHR ''.'' ?token = [base64url bytes, hmac H secret (base64url bytes)]"
      by (simp add: hmac_def split_token [simplified])
    ultimately show ?thesis
      using line parse_claims [OF shape bytes, of H] checked
      by (simp add: verifyExternalProofToken_def secret bounded_line_def safeEqualEncoded_def)
  qed
  moreover have "\<forall>k. k \<notin> {''token'', ''cipher''} \<longrightarrow> jget ?claims k = jget answer k"
    unfolding fields by (auto simp: answer map_of_append map_add_def split: option.splits)
  ultimately show thesis by (rule that)
qed

section \<open>A payload\<close>

lemma challenge_payload:
  assumes "issueExternalProofChallenge H P secretInput request destinationNodeId ttlInput nowMs uuid nonce = Inr answer"
  obtains secret n p where "requireSecret secretInput = Inr secret" "jget answer ''nonce'' = JStr (hex_text nonce)"
    "jget answer ''challengeId'' = JStr uuid" "jget answer ''payloadBytes'' = JInt n" "1 \<le> n" "n \<le> EXTERNAL_PROOF_MAX_BYTES"
    "jget request ''payloadBytes'' = JInt n" "jget request ''payloadSha256'' = JStr p"
    "jget answer ''payloadSha256'' = JStr (to_lower p)" "is_record answer" "is_string (jget answer ''token'')"
proof -
  from assms obtain secret source destination state start expires bytes
    where secret: "requireSecret secretInput = Inr secret"
      and request: "check_request request (default_to ttlInput (JInt 120000)) = Inr ()"
      and answer: "answer = JObj (challenge_claims uuid (hex_text nonce) start expires source destination state request @
        [(''token'', JStr (base64url bytes @ ''.'' @ hmac H secret (base64url bytes))),
         (''cipher'', JStr EXTERNAL_PROOF_CIPHER)])"
    by (rule issued_Inr)
  from request obtain p n where "jget request ''payloadSha256'' = JStr p" "jget request ''payloadBytes'' = JInt n"
      "1 \<le> n" "n \<le> EXTERNAL_PROOF_MAX_BYTES"
    by (rule check_requestE)
  with secret that show thesis by (simp add: answer challenge_claims_def)
qed

lemma sealed_opens:
  assumes "sealing X" "gcm_seal X k i a m = (c, g)"
  shows "gcm_open X k i a c g = Some m" "length c = length m" "length g = 16"
  using assms by (auto simp: sealing_def Let_def split: prod.splits)

text \<open>
  C38: A challenge carries its payload: the token of an issued challenge is accepted until it expires, with
  claims that are those of the challenge, and a payload of the promised length and digest, encrypted for the
  challenge with any initialization vector, is decrypted to the same bytes under the accepted claims.
\<close>

theorem challenge_carries_payload:
  assumes "sealing X" "hmac_width H"
    and issued: "issueExternalProofChallenge H P secret request destination ttl nowMs uuid nonce = Inr answer"
    and fresh: "line_text 64 uuid" "length nonce = 32" "length iv = 12"
    and now: "nowMs \<le> t" "t \<le> nowMs + \<lfloor>num_of (default_to ttl (JInt 120000))\<rfloor>"
    and payload: "jget request ''payloadBytes'' = JInt (int (length body))"
      "to_lower (text_of (jget request ''payloadSha256'')) = native_digest P body"
  shows "\<exists>claims sealed. verifyExternalProofToken H P secret (jget answer ''token'') t = Inr claims \<and>
    (\<forall>k. k \<notin> {''token'', ''cipher''} \<longrightarrow> jget claims k = jget answer k) \<and>
    encryptExternalProofPayload X P secret (jget answer ''token'') answer body iv = Inr sealed \<and>
    decryptExternalProofPayload X P secret (jget answer ''token'') claims (jget sealed ''ciphertextB64'')
      (jget sealed ''ivB64'') (jget sealed ''tagB64'') = Inr (body, native_digest P body, length body)"
proof -
  from issued_verifies [OF issued assms(2) fresh(1,2) now] obtain claims
    where verified: "verifyExternalProofToken H P secret (jget answer ''token'') t = Inr claims"
      and same: "\<forall>k. k \<notin> {''token'', ''cipher''} \<longrightarrow> jget claims k = jget answer k" by blast
  from issued obtain key n p where secret: "requireSecret secret = Inr key"
    and a: "jget answer ''nonce'' = JStr (hex_text nonce)" "jget answer ''challengeId'' = JStr uuid"
      "jget answer ''payloadBytes'' = JInt n" "1 \<le> n" "n \<le> EXTERNAL_PROOF_MAX_BYTES"
      "jget request ''payloadBytes'' = JInt n" "jget request ''payloadSha256'' = JStr p"
      "jget answer ''payloadSha256'' = JStr (to_lower p)" "is_record answer" "is_string (jget answer ''token'')"
    by (rule challenge_payload)
  from a(10) obtain token where token: "jget answer ''token'' = JStr token" by (cases "jget answer ''token''") auto
  have n: "n = int (length body)" using a(6) payload(1) by simp
  have p: "to_lower p = native_digest P body" using a(7) payload(2) by simp
  define k where "k = hkdf X (utf8 key) (hex_bytes (hex_text nonce)) (utf8 (''kindred-external-proof-v1|'' @ uuid))"
  obtain c g where sealed: "gcm_seal X k iv (utf8 token) body = (c, g)" by fastforce
  note opened = sealed_opens [OF assms(1) sealed]
  have derived: "deriveExternalProofKey X P secret v = Inr k"
    if "jget v ''nonce'' = JStr (hex_text nonce)" "jget v ''challengeId'' = JStr uuid" for v
    by (simp add: deriveExternalProofKey_def secret that k_def)
  have claims: "jget claims ''nonce'' = JStr (hex_text nonce)" "jget claims ''challengeId'' = JStr uuid"
    "jget claims ''payloadBytes'' = JInt (int (length body))" "jget claims ''payloadSha256'' = JStr (native_digest P body)"
    using same a(1,2,3,8) by (simp_all add: n p)
  then have present: "claims \<noteq> JUndef" "claims \<noteq> JNull" "answer \<noteq> JUndef" "answer \<noteq> JNull" using a(9) by auto
  have "body \<noteq> []" using a(4) n by auto
  then have nonempty: "c \<noteq> []" "iv \<noteq> []" "g \<noteq> []" using opened fresh(3) by auto
  have "length (base64url c) \<le> nat EXTERNAL_PROOF_MAX_BYTES * 2"
    using length_base64url [of c] opened(2) a(5) n by (simp add: EXTERNAL_PROOF_MAX_BYTES_def)
  moreover have "length (base64url iv) \<le> 64" "length (base64url g) \<le> 64"
    using length_base64url [of iv] length_base64url [of g] opened(3) fresh(3) by simp_all
  ultimately have lines: "line_text (nat EXTERNAL_PROOF_MAX_BYTES * 2) (base64url c)" "line_text 64 (base64url iv)"
    "line_text 64 (base64url g)"
    using nonempty by (simp_all add: base64url_line)
  let ?sealed = "JObj [(''ciphertextB64'', JStr (base64url c)), (''ivB64'', JStr (base64url iv)), (''tagB64'', JStr (base64url g))]"
  have "encryptExternalProofPayload X P secret (jget answer ''token'') answer body iv = Inr ?sealed"
    by (simp add: encryptExternalProofPayload_def present payload_matches_def a(3,8) n p derived [OF a(1,2)] token sealed)
  moreover have "decryptExternalProofPayload X P secret (jget answer ''token'') claims (JStr (base64url c))
      (JStr (base64url iv)) (JStr (base64url g)) = Inr (body, native_digest P body, length body)"
    by (simp add: decryptExternalProofPayload_def present derived [OF claims(1,2)] bounded_line_def lines
      opened fresh(3) token payload_matches_def claims)
  ultimately show ?thesis using verified same by auto
qed

end
