(* ===== verification/ReceiptFacts.thy ===== *)
theory ReceiptFacts
  imports ExternalReceipts ExternalFacts
begin

text \<open>
  A signed receipt is accepted exactly if the payload arrived intact; a capsule that opens gives a recovery whose signed
  record is accepted.
\<close>

section \<open>Signatures\<close>

definition signs_with :: "proof_host \<Rightarrow> jsv \<Rightarrow> string \<Rightarrow> bool" where
  "signs_with H pkcs8 key \<longleftrightarrow> (\<exists>s. pkcs8 = JStr s \<and> line_text 8192 s \<and> pkcs8_key H (base64_bytes s) = Some key)"

lemma signed_proof_Inr:
  assumes "signs_with H pkcs8 key" "signed_proof H C P name v pkcs8 = Inr envelope"
  obtains bytes where "proof_bytes P v = Inr bytes" "envelope = JObj [(name, v), (''signatureAlgorithm'', JStr ''Ed25519''),
    (''keyId'', JStr (native_digest P (public_of C key))), (''publicKeySpkiBase64'', JStr (base64 (public_of C key))),
    (''signature'', JStr (base64url (sign_bytes C key bytes)))]"
  using assms by (auto simp: signs_with_def signed_proof_def bounded_line_def result_simps)

lemma base64_chars: "list_all (\<lambda>c. c \<noteq> CHR 0x0D \<and> c \<noteq> CHR 0x0A) (base64 bs)"
proof -
  have "b64_char n \<noteq> CHR 0x0D \<and> b64_char n \<noteq> CHR 0x0A" if "n < 64" for n
    using is_idch_b64url_char [OF that] by (auto simp: b64_char_def is_idch_def char_class_defs)
  then show ?thesis
    by (induction bs rule: base64.induct) (simp_all add: sextet_bounds code_less byte_parts)
qed

lemma public_key_line: "ed25519 C \<Longrightarrow> line_text 4096 (base64 (public_of C key))"
  using base64_chars [of "public_of C key"] length_base64 [of "public_of C key"]
  by (auto simp: line_text_def ed25519_def list_all_iff list_ex_iff)

text \<open>The public key a verifier trusts: none, or that of the signer.\<close>

definition trusts :: "crypto \<Rightarrow> string \<Rightarrow> jsv \<Rightarrow> bool" where
  "trusts C key trusted \<longleftrightarrow> trusted = JUndef \<or> trusted = JNull \<or> trusted = JStr (base64 (public_of C key))"

lemma signed_proof_accepted:
  assumes "ed25519 C" "signs_with H pkcs8 key" "signed_proof H C P name v pkcs8 = Inr envelope" "trusts C key trusted"
    and name: "name \<notin> {''signatureAlgorithm'', ''keyId'', ''publicKeySpkiBase64'', ''signature''}"
  shows "envelope_shape_ok envelope" "jget envelope name = v"
    "jget envelope ''keyId'' = JStr (native_digest P (public_of C key))" "check_signature C P what envelope v trusted = Inr ()"
proof -
  from assms(2,3) obtain bytes where bytes: "proof_bytes P v = Inr bytes"
    and envelope: "envelope = JObj [(name, v), (''signatureAlgorithm'', JStr ''Ed25519''),
      (''keyId'', JStr (native_digest P (public_of C key))), (''publicKeySpkiBase64'', JStr (base64 (public_of C key))),
      (''signature'', JStr (base64url (sign_bytes C key bytes)))]"
    by (rule signed_proof_Inr)
  have fields: "jget envelope name = v" "jget envelope ''signatureAlgorithm'' = JStr ''Ed25519''"
    "jget envelope ''keyId'' = JStr (native_digest P (public_of C key))"
    "jget envelope ''publicKeySpkiBase64'' = JStr (base64 (public_of C key))"
    "jget envelope ''signature'' = JStr (base64url (sign_bytes C key bytes))"
    using name by (auto simp: envelope)
  then show "envelope_shape_ok envelope" "jget envelope name = v" "jget envelope ''keyId'' = JStr (native_digest P (public_of C key))"
    by (auto simp: envelope_shape_ok_def envelope)
  have "key_type C (public_of C key) = Some ''ed25519''" "verify_bytes C bytes (public_of C key) (sign_bytes C key bytes)"
    using assms(1) by (auto simp: ed25519_def)
  moreover have "base64 (public_of C key) \<noteq> []" using public_key_line [OF assms(1), of key] by (auto simp: line_text_def)
  ultimately show "check_signature C P what envelope v trusted = Inr ()"
    using assms(4) by (auto simp: check_signature_def fields bounded_line_def public_key_line [OF assms(1)] nullish_or_def
      base64_bytes_base64 bytes trusts_def)
qed

section \<open>Receipts\<close>

text \<open>
  C39: A signed receipt says what arrived: the envelope of a receipt that was created and signed is accepted, by
  a verifier that trusts the signer's key or brings none, exactly if the digest of what was received is the
  one promised, and it then names the challenge and the state; for any other digest it is refused.
\<close>

theorem receipt_accepted_iff_intact:
  assumes crypto: "ed25519 C" "signs_with H pkcs8 key" "trusts C key trusted"
    and "createExternalProofReceipt claims received ciphertextBytes site observedAt nowMs = Inr receipt"
    and "signExternalProofReceipt H C P receipt pkcs8 = Inr envelope"
  shows "verifyExternalProofEnvelope C P envelope trusted =
    (if strict_eq received (jget claims ''payloadSha256'')
     then Inr (JObj [(''verified'', JBool True), (''keyId'', JStr (native_digest P (public_of C key))),
                     (''stateHash'', jget claims ''stateHash''), (''challengeId'', jget claims ''challengeId'')])
     else reject ''external proof receipt integrity mismatch'')"
proof -
  have sym: "strict_eq a b \<longleftrightarrow> strict_eq b a" for a b by (cases "(a, b)" rule: strict_eq.cases; cases "(b, a)" rule: strict_eq.cases) auto
  note signed = signed_proof_accepted [OF crypto(1,2) assms(5) [unfolded signExternalProofReceipt_def] crypto(3)]
  have fields: "jget receipt ''schemaVersion'' = JStr EXTERNAL_PROOF_RECEIPT_SCHEMA"
    "jget receipt ''payloadSha256'' = jget claims ''payloadSha256''" "jget receipt ''receivedSha256'' = received"
    "jget receipt ''stateHash'' = jget claims ''stateHash''" "jget receipt ''challengeId'' = jget claims ''challengeId''"
    "jget (jget receipt ''transport'') ''integrityVerified'' = JBool (strict_eq received (jget claims ''payloadSha256''))"
    "jget (jget receipt ''transport'') ''authenticationVerified'' = JBool True"
    using assms(4) by (auto simp: createExternalProofReceipt_def Let_def result_simps split: if_splits)
  show ?thesis
    using signed sym [of "jget claims ''payloadSha256''" received]
    by (simp add: verifyExternalProofEnvelope_def fields)
qed

section \<open>Recovery\<close>

lemma digest_hash: "hash_width P \<Longrightarrow> validSha256 (JStr (native_digest P b))"
  using hex_text_class [of "sha256 P b"]
  by (auto simp: validSha256_def native_digest_def length_hex_text hash_width_def hex_either_def list_all_iff)

lemma executed_fields:
  assumes "executeRecoveredOperation P job = Inr executed"
  obtains i b where "jget executed ''inputHash'' = JStr (native_digest P i)"
    "jget executed ''outputHash'' = JStr (native_digest P b)" "proof_bytes P (jget executed ''output'') = Inr b" "is_record executed"
  using assms
  by (auto simp: executeRecoveredOperation_def executed_operation_def proof_digest_def Let_def result_simps
    split: if_splits jsv.splits)

lemma openRecoveryCapsule_Inr:
  assumes "openRecoveryCapsule H X P secret capsule = Inr (state, executed)"
  shows "executeRecoveredOperation P (jget state ''job'') = Inr executed" "jget executed ''inputHash'' = jget state ''validatedInputHash''"
    "truthy state" "\<exists>r. jget state ''recoveryId'' = JStr r \<and> jget capsule ''recoveryId'' = JStr r"
    "jget state ''checkpointStage'' = JStr ''VALIDATED_BEFORE_EXTERNAL_TRANSFER''"
proof -
  from assms obtain s parts plaintext where checked: "check_capsule P capsule = Inr parts"
    "check_recovered_state state (recovery_id parts) = Inr ()"
    and executed: "executeRecoveredOperation P (jget state ''job'') = Inr executed"
      "jget executed ''inputHash'' = jget state ''validatedInputHash''"
    unfolding openRecoveryCapsule_def by (elim accepted_elims) simp
  from checked(1) have id: "jget capsule ''recoveryId'' = JStr (recovery_id parts)"
    unfolding check_capsule_def Let_def by (elim accepted_elims) (auto simp: bounded_line_Inr)
  show "executeRecoveredOperation P (jget state ''job'') = Inr executed" "jget executed ''inputHash'' = jget state ''validatedInputHash''"
    by (fact executed)+
  show "truthy state" "\<exists>r. jget state ''recoveryId'' = JStr r \<and> jget capsule ''recoveryId'' = JStr r"
    "jget state ''checkpointStage'' = JStr ''VALIDATED_BEFORE_EXTERNAL_TRANSFER''"
    using checked(2) id unfolding check_recovered_state_def by (auto elim!: accepted_elims)
qed

text \<open>
  C40: Recovery holds together: of a capsule that opens, the executed operation hashed exactly the input the
  state had validated, and the record made of it, once signed, is accepted with the capsule's digest, that
  input hash, and an output hash that is the digest of the canonical form of the recorded output.
\<close>

theorem recovery_record_accepted:
  assumes crypto: "hash_width P" "ed25519 C" "signs_with H pkcs8 key" "trusts C key trusted"
    and opened: "openRecoveryCapsule H X P secret capsule = Inr (state, executed)"
    and made: "createCrossProviderRecoveryRecord state executed (jget capsule ''capsuleSha256'') node site observedAt nowMs =
      Inr recovery"
    and signed: "signCrossProviderRecovery H C P recovery pkcs8 = Inr envelope"
  shows "\<exists>b. verifyCrossProviderRecoveryEnvelope C P envelope trusted =
      Inr (JObj [(''verified'', JBool True), (''recoveryId'', jget capsule ''recoveryId''),
        (''capsuleSha256'', jget capsule ''capsuleSha256''), (''recoveredInputHash'', jget state ''validatedInputHash''),
        (''outputHash'', JStr (native_digest P b)), (''keyId'', JStr (native_digest P (public_of C key)))]) \<and>
    proof_bytes P (jget recovery ''output'') = Inr b \<and> executeRecoveredOperation P (jget state ''job'') = Inr executed"
proof -
  note state = openRecoveryCapsule_Inr [OF opened]
  from state(1) obtain i b where executed: "jget executed ''inputHash'' = JStr (native_digest P i)"
    "jget executed ''outputHash'' = JStr (native_digest P b)" "proof_bytes P (jget executed ''output'') = Inr b"
    by (rule executed_fields)
  have "signed_proof H C P ''recovery'' recovery pkcs8 = Inr envelope"
    using signed by (auto simp: signCrossProviderRecovery_def result_simps split: if_splits)
  note accepted = signed_proof_accepted [OF crypto(2,3) this crypto(4)]
  have fields: "jget recovery ''schemaVersion'' = JStr CROSS_PROVIDER_RECOVERY_SCHEMA" "truthy recovery"
    "jget recovery ''recoveryId'' = jget state ''recoveryId''" "jget recovery ''capsuleSha256'' = jget capsule ''capsuleSha256''"
    "jget recovery ''recoveredInputHash'' = jget executed ''inputHash''" "jget recovery ''outputHash'' = jget executed ''outputHash''"
    "jget recovery ''output'' = jget executed ''output''"
    "jget (jget recovery ''claims'') ''automaticFailoverProven'' = JBool False"
    "jget (jget recovery ''claims'') ''physicalMachineAttestationProven'' = JBool False"
    and capsule: "validSha256 (jget capsule ''capsuleSha256'')"
    using made by (auto simp: createCrossProviderRecoveryRecord_def Let_def result_simps split: if_splits)
  have "jget state ''recoveryId'' = jget capsule ''recoveryId''" using state(4) by auto
  moreover have "validSha256 (jget state ''validatedInputHash'')" using digest_hash [OF crypto(1), of i] executed(1) state(2) by simp
  ultimately show ?thesis
    using accepted digest_hash [OF crypto(1), of b] state(1,2) executed capsule
    by (simp add: verifyCrossProviderRecoveryEnvelope_def fields)
qed

end
