(* ===== verification/PortWitnesses.thy ===== *)
theory PortWitnesses
  imports NameResolution SessionFacts SynaptizerSnapshots RuntimeFacts SkillFacts ReceiptFacts
begin

text \<open>
  Concrete names, sessions, relationships, processes and proofs, and what the properties of ports, of the
  Synaptizer, of process intelligence and of external proofs say of them.
\<close>

section \<open>Names\<close>

text \<open>A toy signature scheme: the signature repeats the key and the message.\<close>

definition crypto0 :: crypto where
  "crypto0 = \<lparr>key_type = (\<lambda>_. Some ''ed25519''), public_of = (\<lambda>k. take 44 (k @ replicate 44 CHR ''k'')),
     sign_bytes = (\<lambda>k m. take 64 (take 44 (k @ replicate 44 CHR ''k'') @ m @ replicate 64 CHR ''s'')),
     verify_bytes = (\<lambda>m pk s. s = take 64 (pk @ m @ replicate 64 CHR ''s''))\<rparr>"

lemma ed25519_crypto0: "ed25519 crypto0"
  by (auto simp: ed25519_def crypto0_def min_def)

definition platform1 :: platform where
  "platform1 = \<lparr>num_other = (\<lambda>_. []), date_other = (\<lambda>_. None), nfkc = (\<lambda>s. s),
     locale_le = (\<lambda>a b. a \<le> b), sha256 = (\<lambda>s. take 32 (s @ replicate 32 CHR ''a''))\<rparr>"

definition sample_id :: string where
  "sample_id =
     ''strata:port:ed25519:73616d706c652d6b65796b6b6b6b6b6b6b6b6b6b6b6b6b6b6b6b6b6b6b6b6b6b''"

definition sample_port :: port_identity where
  "sample_port = \<lparr>identity_id = sample_id, identity_publicKey = base64 (public_of crypto0 ''sample-key''),
     identity_privateKey = ''sample-key''\<rparr>"

definition sample_entry :: jsv where
  "sample_entry = JObj [(''targetPort'', JStr sample_id), (''name'', JStr ''home'')]"

definition sample_body :: jsv where
  "sample_body = JObj
     [(''entries'',
       JArr
        [JObj
          [(''name'', JStr ''home''),
           (''targetPort'',
            JStr
             sample_id)]]),
      (''expiresAt'', JNum (Fin 61000)), (''issuedAt'', JNum (Fin 1000)),
      (''ownerPort'',
       JStr
        sample_id),
      (''ownerPublicKey'',
       JStr
        ''c2FtcGxlLWtleWtra2tra2tra2tra2tra2tra2tra2tra2tra2tra2tra2s=''),
      (''revision'', JInt 1),
      (''schema'', JStr ''kindred.sdpn.port-names.v1'')]"

definition sample_record :: jsv where
  "sample_record = JObj
  [(''body'',
    sample_body),
   (''signature'',
    JStr
     ''c2FtcGxlLWtleWtra2tra2tra2tra2tra2tra2tra2tra2tra2tra2tra2t7ImVudHJpZXMiOlt7Im5hbWUiOg=='')]"

definition sample_uri :: string where
  "sample_uri = ''port://home.73616d706c652d6b65796b6b6b6b6b6b.6b6b6b6b6b6b6b6b6b6b6b6b6b6b6b6b.sdpn/''"

definition sample_directory :: directory where
  "sample_directory = \<lparr>directory_records = [], directory_revoked = [], directory_capacity = 256\<rparr>"

definition stored_directory :: directory where
  "stored_directory = \<lparr>directory_records = [(sample_id, sample_record)], directory_revoked = [], directory_capacity = 256\<rparr>"

lemma sample_port: "sample_port = createPortIdentity crypto0 platform1 ''sample-key''"
  by code_simp

lemma sample_signed:
  "signPortNames crypto0 platform1 sample_port (JArr [sample_entry]) (JInt 1) 1000 60000 = Inr sample_record"
  by code_simp

lemma sample_made: "makePortUri (JStr (identity_id sample_port)) (JStr ''home'') (JStr []) = Inr sample_uri"
  by code_simp

lemma sample_ingested:
  "names_ingest crypto0 platform1 sample_directory sample_record 1000 = (Inr sample_id, stored_directory)"
  by code_simp

lemma port_uri_roundtrip_witness:
  "\<exists>ns. parsePortUri (JStr sample_uri) = Inr
     \<lparr>address_uri = sample_uri, address_name = ''home'', address_owner = sample_id,
      address_path = ''/'', address_namespace = ns\<rparr>"
  using port_uri_roundtrip [OF sample_made] by (simp add: sample_port_def)

lemma sample_directory_wf: "directory_wf sample_directory"
  by (simp add: directory_wf_def sample_directory_def)

lemma sample_directory_new: "new_directory JUndef = Inr sample_directory"
  by (simp add: new_directory_def sample_directory_def integral_def)

lemma signed_name_resolves_witness:
  "\<exists>d' r. names_ingest crypto0 platform1 sample_directory sample_record 1000 = (Inr (identity_id sample_port), d') \<and>
     names_resolve crypto0 platform1 d' (JStr sample_uri) 2000 = Inr r \<and> targetPort r = JStr sample_id"
proof -
  have "proper (JArr [sample_entry])" by (simp add: sample_entry_def)
  then show ?thesis
    using signed_name_resolves [OF ed25519_crypto0 sample_port sample_signed _ _
        _ _ _ sample_made sample_directory_wf, of sample_entry sample_id 1000 2000]
    by (fastforce simp: sample_entry_def sample_directory_def)
qed

lemma resolution_authentic_witness:
  "\<exists>r. names_resolve crypto0 platform1 stored_directory (JStr sample_uri) 2000 = Inr r \<and>
     resolution_owner r \<notin> set (directory_revoked stored_directory)"
proof -
  have "succeeds (names_resolve crypto0 platform1 stored_directory (JStr sample_uri) 2000)" by code_simp
  then obtain r where r: "names_resolve crypto0 platform1 stored_directory (JStr sample_uri) 2000 = Inr r"
    by (auto simp: succeeds_iff)
  have "proper sample_record" by code_simp
  then have "\<forall>(k, x) \<in> set (directory_records stored_directory). proper x" by (simp add: stored_directory_def)
  from resolution_authentic [OF r this] r show ?thesis by blast
qed

lemma peer_revocation_final_witness:
  "peer_get crypto0 platform1 (snd (peer_revoke sample_directory ''peer'')) ''peer'' 0 = reject ''Peer revoked''"
proof -
  have "peer_revoke (fold (directory_step (peer_ingest crypto0 platform1) peer_revoke) [] sample_directory) ''peer'' =
      (Inr (), snd (peer_revoke sample_directory ''peer''))"
    by (simp add: peer_revoke_def sample_directory_def)
  from peer_revocation_final [OF sample_directory_new this, where r = JNull and after = "[]" and now = 0]
  show ?thesis by simp
qed

lemma name_records_monotone_witness:
  "length (directory_records stored_directory) \<le> 4096"
proof -
  let ?run = "fold (directory_step (names_ingest crypto0 platform1) (\<lambda>d k. names_revoke d (JStr k)))"
  let ?ops = "[Revoke ''other'']"
  have start: "stored_directory = ?run [Ingest sample_record 1000] sample_directory"
    by (simp add: sample_ingested)
  have ops: "list_all proper_op ?ops" by simp
  have held: "held stored_directory sample_id = Some sample_record" by (simp add: stored_directory_def)
  have after: "?run ?ops stored_directory = stored_directory"
    by (simp add: names_revoke_def fullPortId_def prefixed_def)
  have "\<forall>n \<le> length ?ops. held (?run (take n ?ops) stored_directory) sample_id \<noteq> None"
    using held after by (auto simp: le_Suc_eq)
  from name_records_monotone [OF sample_directory_new start ops this held] held after show ?thesis by simp
qed

definition sample_pair :: "jsv \<times> jsv" where
  "sample_pair = (JObj [(''b'', JInt 1), (''a'', JArr [JNull, JStr ''x''])], JObj [(''a'', JArr [JNull, JStr ''x'']), (''b'', JInt 1)])"

lemma canonical_bytes_characterize_witness:
  "same_value (fst sample_pair) (snd sample_pair)"
proof -
  have "succeeds (canonicalBytes platform1 (fst sample_pair))" by code_simp
  then obtain a where a: "canonicalBytes platform1 (fst sample_pair) = Inr a" by (auto simp: succeeds_iff)
  have "canonicalBytes platform1 (snd sample_pair) = canonicalBytes platform1 (fst sample_pair)" by code_simp
  with a have "canonicalBytes platform1 (snd sample_pair) = Inr a" by simp
  from canonical_bytes_characterize [OF a this] show ?thesis by (simp add: sample_pair_def)
qed

section \<open>Sessions\<close>

text \<open>
  A complete handshake of two ports on small primitives that satisfy the laws of the channel, evaluated
  stage by stage; the witnesses of the session properties.
\<close>

definition crypto2 :: crypto where
  "crypto2 = \<lparr>key_type = (\<lambda>b. Some (if take 1 b = ''x'' then ''x25519'' else ''ed25519'')), public_of = (\<lambda>k. k),
     sign_bytes = (\<lambda>k m. take 64 (k @ m @ replicate 64 CHR ''s'')),
     verify_bytes = (\<lambda>m pk s. s = take 64 (pk @ m @ replicate 64 CHR ''s''))\<rparr>"

definition channel0 :: channel where
  "channel0 = \<lparr>x25519_public = (\<lambda>k. ''x'' @ k),
     x25519_shared = (\<lambda>k p. if ''x'' @ k \<le> p then ''x'' @ k @ p else p @ ''x'' @ k),
     hkdf = (\<lambda>s salt info. s @ info),
     gcm_seal = (\<lambda>k n a m. (m, take 16 (k @ replicate 16 CHR ''g''))),
     gcm_open = (\<lambda>k n a c t. if t = take 16 (k @ replicate 16 CHR ''g'') then Some c else None)\<rparr>"

definition platform2 :: platform where
  "platform2 = \<lparr>num_other = (\<lambda>_. []), date_other = (\<lambda>_. None), nfkc = (\<lambda>s. s),
     locale_le = (\<lambda>a b. a \<le> b), sha256 = take 2\<rparr>"

lemma agreement_channel0: "agreement channel0"
  by (auto simp: agreement_def channel0_def)

lemma sealing_channel0: "sealing channel0"
  by (auto simp: sealing_def channel0_def min_def)

definition portA :: port_identity where
  "portA = \<lparr>identity_id = ''strata:port:ed25519:41'', identity_publicKey = ''QQ=='', identity_privateKey = ''A''\<rparr>"

definition portB :: port_identity where
  "portB = \<lparr>identity_id = ''strata:port:ed25519:42'', identity_publicKey = ''Qg=='', identity_privateKey = ''B''\<rparr>"

definition component0 :: jsv where
  "component0 = JObj [(''id'', JStr ''e''), (''version'', JStr ''1.0.0''), (''evidenceStatus'', JStr ''DECLARED'')]"

definition peer_options0 :: peer_options where
  "peer_options0 = \<lparr>peer_revision = JInt 1, peer_now = 0, peer_ttlMs = 60000,
     peer_capabilities = JArr [JStr ''native.materialize.v1''], tesseractEngine = component0, boundWorker = component0\<rparr>"

definition state0 :: jsv where
  "state0 = JObj [(''stateSha256'', JStr (replicate 64 CHR ''a'')), (''maxBytes'', JInt 1000)]"

definition adapter0 :: jsv where
  "adapter0 = JObj [(''id'', JStr ''loop''), (''substrate'', JStr ''MEM''), (''underlyingIp'', JBool False),
     (''underlyingRouting'', JBool False)]"

definition policy0 :: session_policy where
  "policy0 = \<lparr>policy_peers = [''strata:port:ed25519:41'', ''strata:port:ed25519:42''], policy_adapters = [''7b22''],
     policy_states = [replicate 64 CHR ''a''], policy_revoked = [], policy_used = [], policy_capacity = 256\<rparr>"

definition bound0 :: jsv where
  "bound0 = JObj [(''evidenceStatus'', JStr ''DECLARED''), (''id'', JStr ''e''), (''version'', JStr ''1.0.0'')]"

definition peer_body0 :: "port_identity \<Rightarrow> jsv" where
  "peer_body0 identity = JObj
     [(''boundWorker'', bound0), (''capabilities'', JArr [JStr ''native.materialize.v1'']),
      (''expiresAt'', JInt 60000), (''issuedAt'', JInt 0), (''portId'', JStr (identity_id identity)),
      (''publicKey'', JStr (identity_publicKey identity)), (''revision'', JInt 1),
      (''schema'', JStr ''kindred.sdpn.peer-record.v1''), (''tesseractEngine'', bound0)]"

definition recordA :: jsv where
  "recordA = JObj [(''body'', peer_body0 portA), (''signature'', JStr
     ''QXsiYm91bmRXb3JrZXIiOnsiZXZpZGVuY2VTdGF0dXMiOiJERUNMQVJFRCIsImlkIjoiZSIsInZlcnNpb24iOg=='')]"

definition recordB :: jsv where
  "recordB = JObj [(''body'', peer_body0 portB), (''signature'', JStr
     ''QnsiYm91bmRXb3JrZXIiOnsiZXZpZGVuY2VTdGF0dXMiOiJERUNMQVJFRCIsImlkIjoiZSIsInZlcnNpb24iOg=='')]"

definition scope0 :: jsv where
  "scope0 = JObj [(''maxBytes'', JInt 1000), (''stateSha256'', JStr (replicate 64 CHR ''a''))]"

definition offer0 :: jsv where
  "offer0 = JObj
     [(''adapter'', adapter0), (''ephemeralKey'', JStr ''eGE=''), (''expiresAt'', JInt 31000),
      (''fromPort'', JStr ''strata:port:ed25519:41''), (''issuedAt'', JInt 1000),
      (''schema'', JStr ''kindred.sdpn.session-offer.v1''), (''scope'', scope0),
      (''sessionId'', JStr ''69696969696969696969696969696969''),
      (''suite'', JStr ''ED25519_X25519_HKDF_SHA256_AES256GCM_V1''), (''toPort'', JStr ''strata:port:ed25519:42'')]"

definition offer_envelope0 :: jsv where
  "offer_envelope0 = JObj [(''body'', offer0), (''signature'', JStr
     ''QXsiYWRhcHRlciI6eyJpZCI6Imxvb3AiLCJzdWJzdHJhdGUiOiJNRU0iLCJ1bmRlcmx5aW5nSXAiOmZhbHNlLA=='')]"

definition pending0 :: pending_offer where
  "pending0 = \<lparr>pending_envelope = offer_envelope0, pending_peer = peer_body0 portB, pending_state = state0,
     pending_adapter = adapter0, pending_key = ''a'', pending_identity = portA, finished = False\<rparr>"

lemma offered0:
  "offerNativeSession crypto2 channel0 platform2 policy0 portA recordB state0 adapter0 ''a''
     (replicate 16 CHR ''i'') 1000 = Inr pending0"
  by code_simp

definition session_id0 :: string where
  "session_id0 = ''69696969696969696969696969696969''"

definition accept_envelope0 :: jsv where
  "accept_envelope0 = JObj [(''body'', JObj
     [(''adapter'', adapter0), (''ephemeralKey'', JStr ''eGI=''), (''expiresAt'', JInt 31000),
      (''fromPort'', JStr ''strata:port:ed25519:42''), (''issuedAt'', JInt 1000),
      (''offerSha256'', JStr ''7b22''), (''schema'', JStr ''kindred.sdpn.session-accept.v1''), (''scope'', scope0),
      (''sessionId'', JStr ''69696969696969696969696969696969''),
      (''suite'', JStr ''ED25519_X25519_HKDF_SHA256_AES256GCM_V1''), (''toPort'', JStr ''strata:port:ed25519:41'')]),
     (''signature'', JStr
     ''QnsiYWRhcHRlciI6eyJpZCI6Imxvb3AiLCJzdWJzdHJhdGUiOiJNRU0iLCJ1bmRlcmx5aW5nSXAiOmZhbHNlLA=='')]"

definition sessionA0 :: session where
  "sessionA0 = \<lparr>sessionId = JStr ''69696969696969696969696969696969'',
     localPort = ''strata:port:ed25519:41'', peerPort = ''strata:port:ed25519:42'', offerBody = offer0,
     sessionExpiry = 31000,
     sendKey = ''xaxbED25519_X25519_HKDF_SHA256_AES256GCM_V1|strata:port:ed25519:41|strata:port:ed25519:42'',
     receiveKey = ''xaxbED25519_X25519_HKDF_SHA256_AES256GCM_V1|strata:port:ed25519:42|strata:port:ed25519:41'',
     tx = 0, rx = 0, closed = False\<rparr>"

definition sessionB0 :: session where
  "sessionB0 = sessionA0\<lparr>localPort := peerPort sessionA0, peerPort := localPort sessionA0,
     sendKey := receiveKey sessionA0, receiveKey := sendKey sessionA0\<rparr>"

definition policy1 :: session_policy where
  "policy1 = policy0\<lparr>policy_used := [(JStr ''69696969696969696969696969696969'', 31000)]\<rparr>"

lemma accepted0:
  "acceptNativeSession crypto2 channel0 platform2 policy0 portB offer_envelope0 recordA adapter0 ''b'' 1000 =
     (Inr (accept_envelope0, sessionB0), policy1)"
  by code_simp

lemma finished0:
  "finish_offer crypto2 channel0 platform2 policy0 pending0 accept_envelope0 1000 =
     (Inr sessionA0, pending0\<lparr>finished := True\<rparr>)"
  by code_simp

lemma active0: "active platform2 policy0 sessionB0 1000 = Inr ()"
  by code_simp

definition frame0 :: jsv where
  "frame0 = JObj [(''schema'', JStr ''kindred.sdpn.native-frame.v1''),
     (''sessionId'', JStr ''69696969696969696969696969696969''), (''sequence'', JInt 0), (''ciphertext'', JStr ''aGk=''),
     (''tag'', JStr ''eGF4YkVEMjU1MTlfWDI1NQ=='')]"

lemma sealed0:
  "seal_all channel0 platform2 policy0 sessionA0 [(''hi'', 1000)] = (Inr [frame0], sessionA0\<lparr>tx := 1\<rparr>)"
  by code_simp

lemma proper0: "proper state0" "proper adapter0" "proper offer0"
  by code_simp+

theorem session_delivers_witness:
  "\<exists>b'. open_all channel0 platform2 policy0 sessionB0 [(frame0, 1000)] = (Inr [''hi''], b') \<and>
    (\<exists>e. open_frame channel0 platform2 policy0 b' frame0 1000 = (Inl e, b'))"
proof -
  have envelope: "pending_envelope pending0 = offer_envelope0" by (simp add: pending0_def)
  have live: "length [1000 :: int] = length [(''hi'', 1000 :: int)]"
    "\<forall>t \<in> set [1000]. active platform2 policy0 sessionB0 t = Inr ()"
    by (simp_all add: active0)
  from session_delivers [OF agreement_channel0 sealing_channel0 offered0 proper0(1,2) accepted0 [folded envelope]
    finished0 sealed0 live]
  show ?thesis by fastforce
qed

definition request0 :: session_request where
  "request0 = \<lparr>req_identity = portB, req_offer = offer_envelope0, req_peer = recordA, req_adapter = adapter0,
     req_key = ''b'', req_now = 1000\<rparr>"

theorem session_accepted_once_witness:
  "\<exists>e. fst (handle_request crypto2 channel0 platform2 request0
     (snd (handle_request crypto2 channel0 platform2 request0 policy1))) = Inl e"
proof -
  have wf: "policy_wf policy0" by (simp add: policy_wf_def distinct_primitives_def policy0_def)
  have first: "handle_request crypto2 channel0 platform2 request0 policy0 = (Inr (accept_envelope0, sessionB0), policy1)"
    using accepted0 by (simp add: handle_request_def request0_def)
  have id: "offered_id (req_offer request0) = JStr session_id0" and body: "jget (req_offer request0) ''body'' = offer0"
    and expiry: "offered_expiry (req_offer request0) = 31000"
    by (simp_all add: offered_id_def offered_expiry_def request0_def offer_envelope0_def offer0_def session_id0_def)
  have ids: "proper (jget (req_offer request0) ''body'')" "is_string (offered_id (req_offer request0))"
    using proper0(3) by (simp_all add: id body)
  have clocks: "\<forall>q \<in> set [request0, request0]. req_now q \<le> req_now request0"
    "of_int (req_now request0) < offered_expiry (req_offer request0)"
    unfolding expiry by (simp_all add: request0_def)
  from session_accepted_once [OF wf first ids(1,1,2) HOL.refl clocks] show ?thesis by simp
qed

section \<open>Synaptic relationships\<close>

text \<open>Two pieces of evidence of one relationship, and what the properties of snapshots say of them.\<close>

text \<open>A platform whose digest keeps the length of the text and 31 characters near its end.\<close>

definition platform5 :: platform where
  "platform5 = \<lparr>num_other = (\<lambda>_. []), date_other = (\<lambda>_. None), nfkc = (\<lambda>s. s), locale_le = (\<lambda>a b. a \<le> b),
     sha256 = (\<lambda>s. take 31 (drop 115 (rev s) @ replicate 31 CHR ''a'') @ [char_of (length s mod 256)])\<rparr>"

definition sample_evidence :: "string \<Rightarrow> char \<Rightarrow> jsv" where
  "sample_evidence i y = JObj
     [(''event_type'', JStr ''PROCESS_EDGE_EVIDENCE''), (''contract_version'', JStr ''v1''),
      (''edge_execution_id'', JStr i), (''state_root'', JStr (''sha256:'' @ replicate 64 y)),
      (''edge_relationship'', JObj [(''source_component'', JStr ''a''), (''target_component'', JStr ''b''),
         (''source_role'', JStr ''c''), (''target_role'', JStr ''d'')]),
      (''fitness_evidence'', JObj [(''verified'', JBool True)]), (''success'', JBool True)]"

definition sample_rid :: string where
  "sample_rid = ''sha256:736e6f6974616c65722d63697470616e79736161616161616161616161616185''"

definition synapse_record :: "rat \<Rightarrow> char list \<Rightarrow> jsv" where
  "synapse_record n ys = record_of sample_rid ''a'' ''b'' ''c'' ''d'' JNull
     (\<lambda>k. if k \<in> {''observations'', ''verified_successes'', ''reinforcement''} then n else 0)
     (map (\<lambda>y. ''sha256:'' @ replicate 64 y) ys)"

definition sample_root1 :: string where
  "sample_root1 = ''sha256:74222c2263223a22656c6f725f656372756f73222c2261223a22746e656e6fed''"

definition sample_root2 :: string where
  "sample_root2 = ''sha256:74222c226465663665363536653634373232613332323136323263323232338e''"

definition sample_events :: "jsv list" where
  "sample_events = [sample_evidence ''1'' CHR ''a'', sample_evidence ''2'' CHR ''b'']"

lemma run_first: "consume_events platform5 [sample_evidence ''1'' CHR ''a''] new_synaptizer =
    \<lparr>relationships = [(sample_rid, with_root sample_root1 (synapse_record 1 ''a''))], seenEvents = [''1''],
      receivedEvents = 1, learnedEvents = 1, ignoredEvents = 0, duplicateEvents = 0\<rparr>"
  by code_simp

lemma run_second: "snd (consume_event platform5 (sample_evidence ''2'' CHR ''b'')
    \<lparr>relationships = [(sample_rid, with_root sample_root1 (synapse_record 1 ''a''))], seenEvents = [''1''],
      receivedEvents = 1, learnedEvents = 1, ignoredEvents = 0, duplicateEvents = 0\<rparr>) =
    \<lparr>relationships = [(sample_rid, with_root sample_root2 (synapse_record 2 ''ab''))], seenEvents = [''1'', ''2''],
      receivedEvents = 2, learnedEvents = 2, ignoredEvents = 0, duplicateEvents = 0\<rparr>"
  by code_simp

lemma run_both: "consume_events platform5 sample_events new_synaptizer =
    \<lparr>relationships = [(sample_rid, with_root sample_root2 (synapse_record 2 ''ab''))], seenEvents = [''1'', ''2''],
      receivedEvents = 2, learnedEvents = 2, ignoredEvents = 0, duplicateEvents = 0\<rparr>"
  using run_first run_second by (simp add: sample_events_def)

definition sample_text :: "jsv \<Rightarrow> string" where
  "sample_text u = utf8 (''synaptic-relationship-state:'' @ state_text platform5 u)"

lemma sample_digests:
  "drop 28 (sha256 platform5 (sample_text (synapse_record 2 ''ab''))) = ''eno7''"
  "drop 28 (sha256 platform5 (sample_text (with_root sample_root1 (synapse_record 2 ''ab'')))) = ''223'' @ [CHR 0x8E]"
  "drop 28 (sha256 platform5 (sample_text (with_root sample_root2 (synapse_record 2 ''ab'')))) = ''331'' @ [CHR 0x8E]"
  by code_simp+

lemma sample_roots_met: "roots_met platform5 sample_events \<subseteq> {sample_root1, sample_root2}"
proof -
  have runs: "{..length sample_events} = insert 0 (insert 1 (insert 2 {}))" by (auto simp: sample_events_def)
  have starts: "take 0 sample_events = []" "take 1 sample_events = [sample_evidence ''1'' CHR ''a'']"
    "take 2 sample_events = sample_events" by (simp_all add: sample_events_def)
  have root: "jget (with_root w (synapse_record n ys)) ''state_root'' = JStr w" for w n ys by (simp add: synapse_record_def)
  have roots: "roots_of [(sample_rid, with_root w (synapse_record n ys))] = {w}" for w n ys
    unfolding roots_of_def by (auto simp: root)
  have "roots_of (relationships new_synaptizer) = {}" by (simp add: roots_of_def new_synaptizer_def)
  then show ?thesis
    unfolding roots_met_def runs UN_insert starts run_first run_both synaptizer.simps roots by simp
qed

lemma drop_neq: "drop n x = a \<Longrightarrow> drop n y = b \<Longrightarrow> a \<noteq> b \<Longrightarrow> x \<noteq> y"
  by auto

lemma inj_on_three: "f a \<noteq> f b \<Longrightarrow> f a \<noteq> f c \<Longrightarrow> f b \<noteq> f c \<Longrightarrow> inj_on f {a, b, c}"
  by (auto simp: inj_on_def)

lemma sample_no_collision: "inj_on (sha256 platform5) (committed_texts platform5 sample_events)"
proof -
  let ?u = "synapse_record 2 ''ab''"
  have deleted: "jdelete ''state_root'' (with_root sample_root2 ?u) = ?u" by (simp add: synapse_record_def)
  have again: "with_root old (with_root sample_root2 ?u) = with_root old ?u" for old by (simp add: synapse_record_def)
  have "committed_texts platform5 sample_events =
      sample_text ` insert ?u ((\<lambda>old. with_root old ?u) ` roots_met platform5 sample_events)"
    unfolding committed_texts_def run_both synaptizer.simps sample_text_def by (auto simp: deleted again)
  also have "\<dots> \<subseteq> sample_text ` insert ?u ((\<lambda>old. with_root old ?u) ` {sample_root1, sample_root2})"
    by (intro image_mono insert_mono sample_roots_met)
  finally have "committed_texts platform5 sample_events \<subseteq> {sample_text ?u,
      sample_text (with_root sample_root1 ?u), sample_text (with_root sample_root2 ?u)}"
    by (simp only: image_insert image_empty)
  moreover have "sha256 platform5 (sample_text ?u) \<noteq> sha256 platform5 (sample_text (with_root sample_root1 ?u))"
    "sha256 platform5 (sample_text ?u) \<noteq> sha256 platform5 (sample_text (with_root sample_root2 ?u))"
    "sha256 platform5 (sample_text (with_root sample_root1 ?u)) \<noteq> sha256 platform5 (sample_text (with_root sample_root2 ?u))"
    by (rule drop_neq [OF sample_digests(1,2)], simp, rule drop_neq [OF sample_digests(1,3)], simp,
      rule drop_neq [OF sample_digests(2,3)], simp)
  then have "inj_on (sha256 platform5) {sample_text ?u,
      sample_text (with_root sample_root1 ?u), sample_text (with_root sample_root2 ?u)}"
    by (rule inj_on_three)
  ultimately show ?thesis by (rule inj_on_subset [rotated])
qed

lemma platform5_laws: "hash_width platform5" "collation platform5"
  by (auto simp: hash_width_def collation_def platform5_def)

lemma sample_evidence_list: "evidence platform5 {} sample_events = sample_events"
  by code_simp

lemma sample_identity_roots: "identity_root platform5 (sample_evidence i y) = sample_rid"
  by code_simp

lemma sample_first:
  "evidence platform5 {} [sample_evidence ''1'' CHR ''a''] = [sample_evidence ''1'' CHR ''a'']"
  "accepted platform5 [sample_evidence ''1'' CHR ''a''] = [sample_evidence ''1'' CHR ''a'']"
  by code_simp+

theorem snapshot_hydrates_witness:
  "\<exists>snap s'. snapshot platform5 (consume_events platform5 [sample_evidence ''1'' CHR ''a''] new_synaptizer) = Inr snap \<and>
    hydrate platform5 snap new_synaptizer = (Inr snap, s') \<and> receivedEvents s' = 1 \<and> learnedEvents s' = 1"
proof -
  have "distinct (map (identity_root platform5) (evidence platform5 {} [sample_evidence ''1'' CHR ''a'']))"
    unfolding sample_first by simp
  from snapshot_hydrates [OF platform5_laws _ this, of new_synaptizer] show ?thesis
    unfolding sample_first by (auto simp: max_safe_def)
qed

theorem repeated_evidence_unloadable_witness:
  "\<exists>snap. snapshot platform5 (consume_events platform5 sample_events new_synaptizer) = Inr snap \<and>
    hydrate platform5 snap new_synaptizer = (reject ''synaptizer_relationship_integrity_mismatch'', new_synaptizer)"
proof (rule repeated_evidence_unloadable [OF platform5_laws(1) _ _ sample_no_collision])
  show "int (length sample_events) \<le> max_safe" by (simp add: sample_events_def max_safe_def)
  show "\<not> distinct (map (identity_root platform5) (evidence platform5 {} sample_events))"
    unfolding sample_evidence_list by (simp add: sample_events_def sample_identity_roots)
qed

section \<open>Process intelligence\<close>

text \<open>A host that counts its clock, an edge, a genome, a capability of two skills, and what the properties of process
  intelligence say of them.\<close>

subsection \<open>Edges\<close>

definition sample_host :: "(nat \<times> 'q) host" where
  "sample_host = \<lparr>now_call = (\<lambda>(n, q). (JInt (int n), (Suc n, q))), uuid_call = (\<lambda>w. (''u'', w)),
     number_of = (\<lambda>_. NaN)\<rparr>"

definition sample_edge :: jsv where
  "sample_edge = JObj
     [(''edge_execution_id'', JStr ''e1''), (''correlation_id'', JStr ''c''),
      (''source_component'', JStr ''a''), (''target_component'', JStr ''b''),
      (''source_role'', JStr ''r''), (''target_role'', JStr ''s''),
      (''input_state_root'', JStr ''x''), (''output_state_root'', JStr ''y''),
      (''success'', JBool True), (''verified'', JBool True), (''contribution'', JStr ''RECOVERY'')]"

definition sample_prosynthesine :: prosynthesine where
  "sample_prosynthesine = \<lparr>composed = new_cache, discoveryCount = 0\<rparr>"

definition sample_observer :: "(nat \<times> synaptizer) observer" where
  "sample_observer = \<lparr>edge_records = [], listeners = [(0, \<lambda>r. feed platform5 (toSynaptizerEvent platform5 r))],
     next_listener = 1\<rparr>"

lemma sample_adapter: "new_adapter platform5 (Some new_observer) (Some (new_registry (JObj []))) (Some sample_prosynthesine)
    (Some (Some (feed platform5))) = (Inr 0, Some sample_observer)"
  by (simp add: new_adapter_def subscribe_def new_observer_def sample_observer_def)

definition sample_edge_record :: jsv where
  "sample_edge_record = (case edge_record platform5 sample_edge 0 1 (JStr ''e1'') of Inr r \<Rightarrow> r | Inl e \<Rightarrow> JNull)"

lemma sample_edge_made: "edge_record platform5 sample_edge 0 1 (JStr ''e1'') = Inr sample_edge_record"
  "jget sample_edge_record ''verified'' = JBool True" "jget sample_edge_record ''success'' = JBool True"
  "jget sample_edge_record ''contribution'' = JStr ''RECOVERY''" "jget sample_edge_record ''correlation_id'' = JStr ''c''"
  "count_ok (jget sample_edge_record ''retry_count'')" "count_ok (jget sample_edge_record ''fallback_count'')"
  "jget sample_edge_record ''edge_execution_id'' = JStr ''e1''"
  by code_simp+

lemma sample_edge_fields: "sample_edge \<noteq> JUndef" "sample_edge \<noteq> JNull" "jget sample_edge ''start_time'' = JUndef"
  "jget sample_edge ''end_time'' = JUndef" "jget sample_edge ''hidden_reasoning'' = JUndef"
  "jget sample_edge ''chain_of_thought'' = JUndef" "jget sample_edge ''edge_execution_id'' = JStr ''e1''"
  by (simp_all add: sample_edge_def)

lemma sample_observed: "fst (observe_edge platform5 sample_host sample_edge sample_observer (0, new_synaptizer)) =
    Inr sample_edge_record"
proof -
  have "succeeds (fst (feed platform5 (toSynaptizerEvent platform5 sample_edge_record) (2::nat, new_synaptizer)))"
    by code_simp
  then obtain w where "feed platform5 (toSynaptizerEvent platform5 sample_edge_record) (2::nat, new_synaptizer) = (Inr (), w)"
    by (cases "feed platform5 (toSynaptizerEvent platform5 sample_edge_record) (2::nat, new_synaptizer)")
      (auto simp: succeeds_def split: sum.splits)
  moreover have "reading sample_host JUndef (0, new_synaptizer) = (Fin 0, (1, new_synaptizer))"
    "reading sample_host JUndef (1, new_synaptizer) = (Fin 1, (2, new_synaptizer))"
    by (simp_all add: reading_def sample_host_def)
  ultimately show ?thesis
    unfolding observe_edge_def sample_edge_fields
    by (simp add: sample_edge_made sample_edge_fields sample_observer_def del: One_nat_def)
qed

theorem observed_edges_reach_synaptizer_witness:
  "\<exists>ob' e' s'. observe_edge platform5 sample_host sample_edge sample_observer (0, new_synaptizer) =
      (Inr sample_edge_record, ob', (e', s')) \<and>
    edge_records ob' = [sample_edge_record] \<and> learnedEvents s' = 1 \<and> ''e1'' \<in> set (seenEvents s')"
proof -
  obtain ob' e' s' where run: "observe_edge platform5 sample_host sample_edge sample_observer (0, new_synaptizer) =
      (Inr sample_edge_record, ob', (e', s'))"
    using sample_observed
    by (cases "observe_edge platform5 sample_host sample_edge sample_observer (0, new_synaptizer)") auto
  have same: "sample_observer\<lparr>edge_records := []\<rparr> = sample_observer" by (simp add: sample_observer_def)
  have "event_id (toSynaptizerEvent platform5 sample_edge_record) = ''e1''"
    by (simp add: event_id_def toSynaptizerEvent_def sample_edge_made)
  moreover have "keeps sample_host (snd :: nat \<times> synaptizer \<Rightarrow> synaptizer)" "sums_up platform5 (relationships new_synaptizer) []"
    by (auto simp: keeps_def sample_host_def sums_up_def new_synaptizer_def)
  moreover have "edge_id_ok (jget sample_edge ''edge_execution_id'')" by (simp add: edge_id_ok_def sample_edge_def)
  moreover note observed_edges_reach_synaptizer [OF platform5_laws(1) calculation(2,3) sample_adapter, where rs = "[]", unfolded same, OF run]
  ultimately show ?thesis using run by (auto simp: sample_edge_made new_synaptizer_def)
qed

theorem credit_is_reinforcement_witness:
  "map (\<lambda>c. jget c ''reinforcement'') (credit (JStr ''c'') \<lparr>edge_records = [sample_edge_record], listeners = [],
      next_listener = 0\<rparr>) = [JNum (Fin (3 / 2))] \<and>
    reinforcement (toSynaptizerEvent platform5 sample_edge_record) = 3 / 2"
proof -
  let ?ob = "\<lparr>edge_records = [sample_edge_record], listeners = [], next_listener = 0\<rparr>"
  have "\<forall>r \<in> set (edge_records ?ob). (\<exists>input s e eid. edge_record platform5 input s e eid = Inr r) \<and>
      jget r ''verified'' = JBool True"
    using sample_edge_made by auto
  from credit_is_reinforcement [OF this, of "JStr ''c''"] show ?thesis
    by (simp add: credit_def credit_of_def sample_edge_made)
qed

subsection \<open>Executions\<close>

definition sample_node :: "string \<Rightarrow> jsv" where
  "sample_node s = JObj [(''skill_id'', JStr s), (''role'', JStr ''r'')]"

definition capability_run :: "(nat \<times> nat) execution" where
  "capability_run = \<lparr>
     capability = JObj [(''capability_id'', JStr ''k''), (''status'', JStr ''PROSYNTHESIZED''),
       (''composition_graph'', JObj [(''kind'', JStr ''SEQUENTIAL''), (''nodes'', JArr [sample_node ''f'', sample_node ''g''])])],
     skill_codes = (\<lambda>s. Some (\<lambda>state w. (Inr (JObj [(''state'', JArr [JStr s, state]), (''success'', JBool True)]), w))),
     correlation_ref = JStr ''c'', context_of = JNull, authority_of = JNull,
     verify_code = (\<lambda>state w. (Inr (JBool True), w))\<rparr>"

lemma sample_execution_nodes:
  "jget (jget (capability capability_run) ''composition_graph'') ''nodes'' = JArr [sample_node ''f'', sample_node ''g'']"
  by (simp add: capability_run_def)

lemma sample_execution_returns:
  "succeeds (fst (executeProsynthesizedCapability platform5 sample_host capability_run JNull (Some new_observer) (0, 0)))"
  by code_simp

theorem execution_leaves_trail_witness:
  "\<exists>answer ob' w'. executeProsynthesizedCapability platform5 sample_host capability_run JNull (Some new_observer) (0, 0) =
      (Inr answer, Some ob', w') \<and>
    jget answer ''completed'' = JArr [JStr ''f'', JStr ''g''] \<and> length (edge_records ob') = 2"
proof -
  obtain answer observer' w' where run: "executeProsynthesizedCapability platform5 sample_host capability_run JNull
      (Some new_observer) (0, 0) = (Inr answer, observer', w')"
    using sample_execution_returns
    by (cases "executeProsynthesizedCapability platform5 sample_host capability_run JNull (Some new_observer) (0, 0)")
      (auto simp: succeeds_def split: sum.splits)
  have two: "length new = 2" if "trail platform5 H x a s w [n, n'] new f w'" for H :: "(nat \<times> nat) host" and x a s w n n' new f w'
    using that by (cases new rule: list.exhaust; cases "tl new") (auto elim!: trail.elims)
  show ?thesis
    using execution_leaves_trail [OF run sample_execution_nodes] run two by (auto simp: sample_node_def new_observer_def)
qed

subsection \<open>Genomes\<close>

definition sample_genome :: jsv where
  "sample_genome = new_genome (JObj [(''process_id'', JStr ''p''), (''role'', JStr ''r''), (''purpose'', JStr ''test'')])
     (JStr ''2026-01-01T00:00:00.000Z'')"

lemma sample_genome_ok: "genome_ok platform5 sample_genome"
  by code_simp

definition sample_changes :: jsv where
  "sample_changes = JObj [(''genome_version'', JInt 7), (''purpose'', JStr ''other'')]"

lemma sample_evolves: "succeeds (evolve_all platform5 [(sample_changes, 0), (sample_changes, 1)] sample_genome)"
  by code_simp

theorem evolution_keeps_identity_witness:
  "\<exists>g. evolve_all platform5 [(sample_changes, 0), (sample_changes, 1)] sample_genome = Inr g \<and>
    jget g ''role'' = JStr ''r'' \<and> num_of (jget g ''genome_version'') = 3"
proof -
  obtain g where g: "evolve_all platform5 [(sample_changes, 0), (sample_changes, 1)] sample_genome = Inr g"
    using sample_evolves by (auto simp: succeeds_def split: sum.splits)
  show ?thesis
    using evolution_keeps_identity [OF g sample_genome_ok] g by (simp add: sample_genome_def new_genome_def nullish_or_def)
qed

subsection \<open>Skills\<close>

theorem graduation_decision_witness:
  "succeeds (fst (graduate platform5 (sample_host :: (nat \<times> nat) host) sample_genome
      (JObj [(''evidence_refs'', JArr [JStr ''e''])]) (new_registry (JObj [])))) \<and>
    \<not> succeeds (fst (graduate platform5 (sample_host :: (nat \<times> nat) host) sample_genome
      (JObj [(''success_rate'', JNum (Fin (1 / 2)))]) (new_registry (JObj []))))"
proof -
  let ?with = "JObj [(''evidence_refs'', JArr [JStr ''e''])]" and ?low = "JObj [(''success_rate'', JNum (Fin (1 / 2)))]"
  have "\<forall>k \<in> set threshold_names. optional_number (jget ?with k)" "\<forall>k \<in> set threshold_names. optional_number (jget ?low k)"
    by (auto simp: optional_number_def threshold_names_def)
  moreover have "lists_ok ?with" by (simp add: lists_ok_def string_array_ok_def)
  ultimately show ?thesis
    using sample_genome_ok graduation_decision [of ?with platform5 "sample_host :: (nat \<times> nat) host" sample_genome]
      graduation_decision [of ?low platform5 "sample_host :: (nat \<times> nat) host" sample_genome]
    by (simp add: optional_number_def)
qed

theorem promoted_capability_reused_witness:
  "\<exists>answer ps' w' ps''. promote platform5 (sample_host :: (nat \<times> nat) host) (JObj [(''status'', JStr ''CANDIDATE'')])
      (JObj (map (\<lambda>k. (k, JBool True)) promotion_evidence)) sample_prosynthesine (0, 0) = (Inr answer, ps', w') \<and>
    synthesize platform5 None (JObj []) ps' = (Inr (synthesis_answer (jget answer ''capability'') True 0), ps'')"
proof -
  let ?evidence = "JObj (map (\<lambda>k. (k, JBool True)) promotion_evidence)"
  have "''CANDIDATE'' \<in> set capabilityStates" by (simp add: capabilityStates_def)
  moreover have "\<not> list_ex (\<lambda>k. jget ?evidence k \<noteq> JBool True) promotion_evidence" by code_simp
  ultimately obtain answer ps' w' where promoted: "promote platform5 (sample_host :: (nat \<times> nat) host)
      (JObj [(''status'', JStr ''CANDIDATE'')]) ?evidence sample_prosynthesine (0, 0) = (Inr answer, ps', w')"
    by (simp add: promote_def Let_def safeExecutionId_def sample_host_def)
  have "jget ?evidence ''intent_class'' = JUndef" "jget ?evidence ''context_root'' = JUndef" by code_simp+
  then show ?thesis using promoted promoted_capability_reused [OF promoted, of "JObj []" None] by auto
qed

theorem resume_fences_witness:
  "resumePostSynthesis platform5 (sample_host :: (nat \<times> nat) host) (JObj [(''fencing_token'', JInt 4)])
      (JObj [(''fencing_token'', JInt 4), (''port'', JStr ''b'')]) = reject ''stale_failover_fencing_token'' \<and>
    succeeds (resumePostSynthesis platform5 (sample_host :: (nat \<times> nat) host) (JObj [(''fencing_token'', JInt 4)])
      (JObj [(''port'', JStr ''b'')]))"
proof -
  have "filled (JStr ''b'')" by code_simp
  then show ?thesis
    using resume_fences [of "JObj [(''fencing_token'', JInt 4)]" "JObj [(''fencing_token'', JInt 4), (''port'', JStr ''b'')]"
        platform5 "sample_host :: (nat \<times> nat) host"]
      resume_fences [of "JObj [(''fencing_token'', JInt 4)]" "JObj [(''port'', JStr ''b'')]" platform5
        "sample_host :: (nat \<times> nat) host"]
    by (simp add: optional_number_def)
qed

section \<open>External proofs\<close>

text \<open>A challenge, a receipt and a recovery capsule, and what the properties of external proofs say of them.\<close>

definition proof_host0 :: proof_host where
  "proof_host0 = \<lparr>hmac_bytes = (\<lambda>k m. replicate 32 CHR ''m''), pkcs8_key = Some, engine_json = (\<lambda>_. None)\<rparr>"

definition secret0 :: jsv where
  "secret0 = JStr (replicate 32 CHR ''s'')"

definition body0 :: string where
  "body0 = ''payload''"

definition request_sample :: jsv where
  "request_sample = JObj [(''sourceNodeId'', JStr ''a''), (''stateId'', JStr ''state''),
     (''stateHash'', JStr (native_digest platform1 body0)), (''payloadSha256'', JStr (native_digest platform1 body0)),
     (''generation'', JInt 1), (''payloadBytes'', JInt 7)]"

definition issued_sample :: "jsv result" where
  "issued_sample = issueExternalProofChallenge proof_host0 platform1 secret0 request_sample (JStr ''b'') JUndef 1000
     ''11111111-2222-3333-4444-555555555555'' (replicate 32 CHR ''n'')"

lemma hash_width_platform1: "hash_width platform1"
  by (auto simp: hash_width_def platform1_def min_def)

lemma hmac_width_host0: "hmac_width proof_host0"
  by (simp add: hmac_width_def proof_host0_def)

lemma issued_succeeds: "succeeds issued_sample"
  by code_simp

lemma request_digest: "to_lower (native_digest platform1 body0) = native_digest platform1 body0" "length body0 = 7"
  by code_simp+

theorem challenge_carries_payload_witness:
  "\<exists>answer claims sealed. issued_sample = Inr answer \<and>
    verifyExternalProofToken proof_host0 platform1 secret0 (jget answer ''token'') 121000 = Inr claims \<and>
    encryptExternalProofPayload channel0 platform1 secret0 (jget answer ''token'') answer body0 (replicate 12 CHR ''i'') = Inr sealed \<and>
    decryptExternalProofPayload channel0 platform1 secret0 (jget answer ''token'') claims (jget sealed ''ciphertextB64'')
      (jget sealed ''ivB64'') (jget sealed ''tagB64'') = Inr (body0, native_digest platform1 body0, 7)"
proof -
  obtain answer where answer: "issued_sample = Inr answer" using issued_succeeds by (auto simp: succeeds_iff)
  have line: "line_text 64 ''11111111-2222-3333-4444-555555555555''" by code_simp
  from challenge_carries_payload [OF sealing_channel0 hmac_width_host0 answer [unfolded issued_sample_def] line, of "replicate 12 CHR ''i''" 121000 body0]
  show ?thesis using answer request_digest by (auto simp: request_sample_def default_to_def)
qed

subsection \<open>A receipt\<close>

definition claims_sample :: jsv where
  "claims_sample = JObj [(''challengeId'', JStr ''c''), (''sourceNodeId'', JStr ''a''), (''destinationNodeId'', JStr ''b''),
     (''stateId'', JStr ''state''), (''stateHash'', JStr ''11''), (''generation'', JInt 1), (''payloadSha256'', JStr ''11''),
     (''payloadBytes'', JInt 7)]"

definition pkcs8_sample :: jsv where
  "pkcs8_sample = JStr ''c2s=''"

lemma signs_sample: "signs_with proof_host0 pkcs8_sample (base64_bytes ''c2s='')"
proof -
  have "line_text 8192 ''c2s=''" by code_simp
  then show ?thesis by (simp add: signs_with_def pkcs8_sample_def proof_host0_def)
qed

definition receipt_sample :: "string \<Rightarrow> jsv" where
  "receipt_sample received = (case createExternalProofReceipt claims_sample (JStr received) (JInt 7) JUndef (JStr ''now'') 0 of
     Inr r \<Rightarrow> r | Inl e \<Rightarrow> JNull)"

lemma receipt_made: "createExternalProofReceipt claims_sample (JStr received) (JInt 7) JUndef (JStr ''now'') 0 = Inr (receipt_sample received)"
  by (simp add: receipt_sample_def createExternalProofReceipt_def claims_sample_def default_to_def observed_time_def Let_def)

lemma receipt_signed:
  "succeeds (signExternalProofReceipt proof_host0 crypto0 platform1 (receipt_sample ''11'') pkcs8_sample)"
  "succeeds (signExternalProofReceipt proof_host0 crypto0 platform1 (receipt_sample ''22'') pkcs8_sample)"
  by code_simp+

theorem receipt_accepted_iff_intact_witness:
  "(\<exists>envelope r. signExternalProofReceipt proof_host0 crypto0 platform1 (receipt_sample ''11'') pkcs8_sample = Inr envelope \<and>
      verifyExternalProofEnvelope crypto0 platform1 envelope JUndef = Inr r) \<and>
    (\<exists>envelope. signExternalProofReceipt proof_host0 crypto0 platform1 (receipt_sample ''22'') pkcs8_sample = Inr envelope \<and>
      verifyExternalProofEnvelope crypto0 platform1 envelope JUndef = reject ''external proof receipt integrity mismatch'')"
proof -
  have trusts: "trusts crypto0 (base64_bytes ''c2s='') JUndef" by (simp add: trusts_def)
  obtain e1 e2 where signed:
    "signExternalProofReceipt proof_host0 crypto0 platform1 (receipt_sample ''11'') pkcs8_sample = Inr e1"
    "signExternalProofReceipt proof_host0 crypto0 platform1 (receipt_sample ''22'') pkcs8_sample = Inr e2"
    using receipt_signed by (auto simp: succeeds_iff)
  note receipt_accepted_iff_intact [OF ed25519_crypto0 signs_sample trusts receipt_made]
  from this [OF signed(1)] this [OF signed(2)] signed show ?thesis by (simp add: claims_sample_def)
qed

subsection \<open>A capsule\<close>

definition operation_sample :: jsv where
  "operation_sample = JObj [(''input'', JObj [(''text'', JStr ''hi'')]), (''operation'', JStr ''HASH_TEXT'')]"

definition state_sample :: jsv where
  "state_sample = JObj
     [(''checkpointStage'', JStr ''VALIDATED_BEFORE_EXTERNAL_TRANSFER''), (''checkpointedAt'', JStr ''then''),
      (''job'', operation_sample), (''recoveryId'', JStr ''r''), (''schemaVersion'', JStr RECOVERY_STATE_SCHEMA),
      (''sourceBootId'', JStr ''boot''), (''sourceNodeId'', JStr ''a''),
      (''validatedInputHash'', JStr (native_digest platform1 ''{\"text\":\"hi\"}''))]"

definition plain_sample :: string where
  "plain_sample = (case proof_bytes platform1 state_sample of Inr b \<Rightarrow> b | Inl e \<Rightarrow> [])"

definition parts_sample :: capsule_parts where
  "parts_sample = \<lparr>recovery_id = ''r'', capsule_salt = replicate 32 CHR ''x'', capsule_iv = replicate 12 CHR ''i'',
     capsule_ciphertext = plain_sample, capsule_tag = replicate 16 CHR ''s''\<rparr>"

definition unsigned_sample :: "(string \<times> jsv) list" where
  "unsigned_sample =
     [(''schemaVersion'', JStr RECOVERY_CAPSULE_SCHEMA), (''recoveryId'', JStr ''r''),
      (''saltB64'', JStr (base64url (replicate 32 CHR ''x''))), (''ivB64'', JStr (base64url (replicate 12 CHR ''i''))),
      (''ciphertextB64'', JStr (base64url plain_sample)), (''tagB64'', JStr (base64url (replicate 16 CHR ''s'')))]"

definition capsule_sample :: jsv where
  "capsule_sample = JObj (unsigned_sample @
     [(''capsuleSha256'', case proof_digest platform1 (JObj unsigned_sample) of Inr d \<Rightarrow> JStr d | Inl e \<Rightarrow> JNull)])"

definition executed_sample :: jsv where
  "executed_sample = (case executeRecoveredOperation platform1 operation_sample of Inr e \<Rightarrow> e | Inl e \<Rightarrow> JNull)"

definition digest_sample :: jsv where
  "digest_sample = JStr ''7b2263697068657274657874423634223a2265794a6a6147566a613342766157''"

lemma capsule_digest: "jget capsule_sample ''capsuleSha256'' = digest_sample"
  by code_simp

definition recovery_sample :: jsv where
  "recovery_sample =
     (case createCrossProviderRecoveryRecord state_sample executed_sample digest_sample (JStr ''b'') JUndef
         (JStr ''now'') 0 of Inr r \<Rightarrow> r | Inl e \<Rightarrow> JNull)"

lemma capsule_checked: "check_capsule platform1 capsule_sample = Inr parts_sample"
  by code_simp

lemma capsule_plain:
  "gcm_open channel0 (deriveRecoveryKey channel0 (replicate 32 CHR ''s'') salt rid) iv aad c (replicate 16 CHR ''s'') = Some c"
  by code_simp

lemma capsule_parsed: "parse_bytes proof_host0 plain_sample = Some state_sample"
  by code_simp

lemma capsule_state: "check_recovered_state state_sample ''r'' = Inr ()"
  by code_simp

lemma capsule_executed:
  "executeRecoveredOperation platform1 operation_sample = Inr executed_sample"
  "jget executed_sample ''inputHash'' = jget state_sample ''validatedInputHash''"
  by code_simp+

lemma capsule_opened: "openRecoveryCapsule proof_host0 channel0 platform1 secret0 capsule_sample = Inr (state_sample, executed_sample)"
proof -
  have "jget state_sample ''job'' = operation_sample" by (simp add: state_sample_def)
  then show ?thesis
    by (simp add: openRecoveryCapsule_def requireRecoverySecret_def secret0_def capsule_checked capsule_plain parts_sample_def
        capsule_parsed capsule_state capsule_executed)
qed

lemma recovery_made:
  "createCrossProviderRecoveryRecord state_sample executed_sample (jget capsule_sample ''capsuleSha256'') (JStr ''b'') JUndef
     (JStr ''now'') 0 = Inr recovery_sample"
  unfolding capsule_digest by code_simp

lemma recovery_signed: "succeeds (signCrossProviderRecovery proof_host0 crypto0 platform1 recovery_sample pkcs8_sample)"
  by code_simp

theorem recovery_record_accepted_witness:
  "\<exists>envelope r. signCrossProviderRecovery proof_host0 crypto0 platform1 recovery_sample pkcs8_sample = Inr envelope \<and>
    verifyCrossProviderRecoveryEnvelope crypto0 platform1 envelope JUndef = Inr r"
proof -
  have trusts: "trusts crypto0 (base64_bytes ''c2s='') JUndef" by (simp add: trusts_def)
  obtain envelope where signed:
    "signCrossProviderRecovery proof_host0 crypto0 platform1 recovery_sample pkcs8_sample = Inr envelope"
    using recovery_signed by (auto simp: succeeds_iff)
  from recovery_record_accepted [OF hash_width_platform1 ed25519_crypto0 signs_sample trusts capsule_opened recovery_made this] signed
  show ?thesis by auto
qed

end
