(* ===== verification/StoreFacts.thy ===== *)
theory StoreFacts
  imports CognitiveStore
begin

text \<open>
  The cognitive state store: what a saved state is read back as, which saved states cannot be loaded
  again, and that the file behaves as a register each save writes at once or not at all.
\<close>

section \<open>Reading a saved envelope\<close>

lemma jget_json_value: "shaped b v \<Longrightarrow> jget (json_value v) k = json_value (jget v k)"
proof (cases v)
  case (JObj kvs)
  have "map_of (json_members us) k =
      (case map_of us k of None \<Rightarrow> None | Some w \<Rightarrow> if w = JUndef then None else Some (json_value w))"
    if "distinct (map fst us)" for us
    using that by (induction us) (auto simp flip: map_of_eq_None_iff)
  then show "shaped b v \<Longrightarrow> jget (json_value v) k = json_value (jget v k)"
    using JObj by (auto split: option.splits)
next
  case (JNum n)
  then show "jget (json_value v) k = json_value (jget v k)" by (cases n) simp_all
qed simp_all

lemma json_value_kind:
  "typeof_object (json_value v) \<longleftrightarrow> typeof_object v \<or> (\<exists>n. v = JNum n \<and> \<not> is_finite v)"
  "is_string (json_value v) = is_string v" "is_array (json_value v) = is_array v"
  "json_value v = JUndef \<longleftrightarrow> v = JUndef" "json_value (JStr s) = JStr s"
  by (cases v; auto split: jnum.split)+

lemma json_value_truthy: "truthy v \<Longrightarrow> typeof_object v \<Longrightarrow> truthy (json_value v)"
  by (cases v) auto

lemma validate_json_value:
  assumes "shaped b v"
  shows "validateGraphSnapshot v = Inr () \<Longrightarrow> validateGraphSnapshot (json_value v) = Inr ()"
    and "validateSynapticSnapshot v = Inr () \<Longrightarrow> validateSynapticSnapshot (json_value v) = Inr ()"
  using assms json_value_truthy [of v]
  by (auto simp: validateGraphSnapshot_def validateSynapticSnapshot_def jget_json_value json_value_kind split: if_splits)

lemma validateSequence_json: "validateSequence q = Inr () \<Longrightarrow> json_value q = q \<and> shaped b q \<and> q \<noteq> JUndef"
  by (cases q; cases "case q of JNum n \<Rightarrow> n | _ \<Rightarrow> NaN") (auto simp: validateSequence_def split: if_splits)

definition metadata_of :: "jsv \<Rightarrow> jsv" where
  "metadata_of metadata = (if metadata = JUndef then JObj [] else metadata)"

lemma save_envelope_Inr:
  "save_envelope P g s q m = Inr env \<longleftrightarrow>
     validateGraphSnapshot g = Inr () \<and> validateSynapticSnapshot s = Inr () \<and> validateSequence q = Inr () \<and>
     (\<exists>root. persistentStateRoot P state_label (JObj (state_material q g s (metadata_of m))) = Inr root \<and>
        env = JObj (state_material q g s (metadata_of m) @ [(''state_root'', JStr root)]))"
  by (auto simp: save_envelope_def result_simps metadata_of_def Let_def)

lemma state_root_label: "persistentStateRoot P state_label v =
    Inr (''sha256:'' @ hex_text (sha256 P (utf8 (''persistent-cognitive-state:'' @ state_text P v))))"
  by (simp add: persistentStateRoot_def state_label_def)

lemma envelope_order: "property_order (state_material q g s m @ [(''state_root'', r)]) = state_material q g s m @ [(''state_root'', r)]"
  by (simp add: state_material_def property_order_def index_key_def is_digit_def between_def)

lemma metadata_json: "shaped b m \<Longrightarrow> shaped b (metadata_of m) \<and> metadata_of m \<noteq> JUndef"
  by (auto simp: metadata_of_def property_order_def)

text \<open>
  What is relied on of the engine when the saved values have numbers that are not safe integers: it writes
  such a number as digits with a fraction or an exponent, or as more digits than a safe integer has, and
  \<open>JSON.parse\<close> reads the text of the file back as the values that JSON keeps. Where all numbers
  are safe integers (the flag is false) nothing is relied on.
\<close>

definition engine_reads :: "bool \<Rightarrow> platform \<Rightarrow> (string \<Rightarrow> jsv option) \<Rightarrow> jsv \<Rightarrow> jsv \<Rightarrow> jsv \<Rightarrow> jsv \<Rightarrow> bool" where
  "engine_reads b P engine g s q m \<longleftrightarrow> (b \<longrightarrow> number_texts P \<and>
     (\<forall>env. save_envelope P g s q m = Inr env \<longrightarrow> engine (state_file P env) = Some (json_value env)))"

text \<open>What a file of a save is read back as: the values that JSON keeps.\<close>

lemma saved_value:
  assumes "save_envelope P g s q m = Inr env" "shaped b m"
  shows "json_value env = JObj (state_material q (json_value g) (json_value s) (json_value (metadata_of m)) @
      [(''state_root'', jget env ''state_root'')])"
proof -
  from assms(1) obtain root where valid: "validateGraphSnapshot g = Inr ()" "validateSynapticSnapshot s = Inr ()"
      "validateSequence q = Inr ()"
    and env: "env = JObj (state_material q g s (metadata_of m) @ [(''state_root'', JStr root)])"
    by (auto simp: save_envelope_Inr)
  note q = validateSequence_json [OF valid(3)]
  have "g \<noteq> JUndef" "s \<noteq> JUndef"
    using valid by (auto simp: validateGraphSnapshot_def validateSynapticSnapshot_def)
  then show ?thesis
    using q metadata_json [OF assms(2)] by (simp add: env state_material_def)
qed

lemma parse_saved:
  assumes "save_envelope P g s q m = Inr env" "shaped b g" "shaped b s" "shaped b m"
    and engine: "engine_reads b P engine g s q m"
  shows "json_parse engine (state_file P env) = Some (json_value env)"
proof -
  from assms(1) obtain root where valid: "validateGraphSnapshot g = Inr ()" "validateSynapticSnapshot s = Inr ()"
      "validateSequence q = Inr ()"
    and env: "env = JObj (state_material q g s (metadata_of m) @ [(''state_root'', JStr root)])"
    by (auto simp: save_envelope_Inr)
  note q = validateSequence_json [OF valid(3), of b]
  have "shaped b env" using q assms(2-4) metadata_json [OF assms(4)] envelope_order [of q g s "metadata_of m"]
    by (simp add: env) (simp add: state_material_def)
  then show ?thesis
    unfolding state_file_def
    by (rule parse_printed) (use assms(1) engine in \<open>simp_all add: env engine_reads_def state_file_def\<close>)
qed

text \<open>What the commitment of a state is taken of.\<close>

definition commit_text :: "platform \<Rightarrow> jsv \<Rightarrow> jsv \<Rightarrow> jsv \<Rightarrow> jsv \<Rightarrow> string" where
  "commit_text P g s q m =
     utf8 (''persistent-cognitive-state:'' @ state_text P (JObj (state_material q g s m)))"

text \<open>The state a load of the file takes the commitment of.\<close>

definition kept_state :: "jsv \<Rightarrow> jsv \<Rightarrow> jsv \<Rightarrow> jsv \<Rightarrow> jsv" where
  "kept_state q g s m = JObj (state_material q (json_value g) (json_value s) (nullish_or (json_value (metadata_of m)) (JObj [])))"

lemma check_saved:
  assumes "save_envelope P g s q m = Inr env" "shaped b g" "shaped b s" "shaped b m"
  shows "check_envelope P (json_value env) =
    (if persistentStateRoot P state_label (kept_state q g s m) =
        persistentStateRoot P state_label (JObj (state_material q g s (metadata_of m)))
     then Inr (json_value env) else reject ''persistent_state_integrity_mismatch'')"
proof -
  from assms(1) obtain root where valid: "validateGraphSnapshot g = Inr ()" "validateSynapticSnapshot s = Inr ()"
      "validateSequence q = Inr ()"
    and root: "persistentStateRoot P state_label (JObj (state_material q g s (metadata_of m))) = Inr root"
    and env: "env = JObj (state_material q g s (metadata_of m) @ [(''state_root'', JStr root)])"
    by (auto simp: save_envelope_Inr)
  note valid' = validate_json_value [OF assms(2)] validate_json_value [OF assms(3)]
  have parts: "jget (json_value env) ''sequence'' = q" "jget (json_value env) ''cognitive_graph'' = json_value g"
    "jget (json_value env) ''synaptic_snapshot'' = json_value s" "jget (json_value env) ''state_root'' = JStr root"
    "jget (json_value env) ''metadata'' = json_value (metadata_of m)"
    "jget (json_value env) ''contract_version'' = JStr state_contract"
    unfolding saved_value [OF assms(1,4)] by (simp_all add: env state_material_def)
  obtain kept where kept: "persistentStateRoot P state_label (kept_state q g s m) = Inr kept"
    by (simp add: state_root_label)
  have "json_value env \<noteq> JNull" by (simp add: env)
  then show ?thesis
    using valid valid' root kept unfolding check_envelope_def parts
    by (simp add: kept_state_def)
qed

section \<open>A save that is not interrupted\<close>

text \<open>\<open>dirname\<close> does not look at the last part of a path.\<close>

definition sibling_paths :: "(string \<Rightarrow> string) \<Rightarrow> string \<Rightarrow> bool" where
  "sibling_paths dirname path \<longleftrightarrow> (\<forall>pid. dirname (temporaryPath path pid) = dirname path)"

lemma temporaryPath_other [simp]: "temporaryPath path pid \<noteq> path" "path \<noteq> temporaryPath path pid"
  by (simp_all add: temporaryPath_def)

lemma temporaryPath_inj: "temporaryPath path pid = temporaryPath path pid' \<longleftrightarrow> pid = pid'"
  by (auto simp: temporaryPath_def dest: arg_cong [where f = "read_digits 0"] simp: read_nat_text)

lemma save_done:
  assumes "save_envelope P g s q m = Inr env" "sibling_paths dirname path"
  obtains d' where "save dirname P path pid None g s q m d = (Inr env, d')" "files d' path = Some (state_file P env)"
  using assms by (simp add: save_def save_calls_def sibling_paths_def temporaryPath_other)

lemma load_saved:
  assumes "files d path = Some (state_file P env)"
    and "save_envelope P g s q m = Inr env" "shaped b g" "shaped b s" "shaped b m" "engine_reads b P engine g s q m"
  shows "load P engine path d =
    (if persistentStateRoot P state_label (kept_state q g s m) =
        persistentStateRoot P state_label (JObj (state_material q g s (metadata_of m)))
     then Inr (json_value env) else reject ''persistent_state_integrity_mismatch'')"
  using assms(1) parse_saved [OF assms(2-)] check_saved [OF assms(2-5)] by (simp add: load_def)

text \<open>The values a JSON text keeps as they are.\<close>

definition json_ready :: "bool \<Rightarrow> jsv \<Rightarrow> bool" where
  "json_ready b v \<longleftrightarrow> shaped b v \<and> json_value v = v"

text \<open>
  C20: A save of JSON values with metadata that is not null succeeds when the system's calls do, returns the
  envelope with the commitment, and a later load of the file gives back exactly that envelope. Fractions
  and numbers beyond the safe integers are covered for an engine that reads back the text it wrote
  (\<open>engine_reads\<close>); for safe integers nothing is assumed of the engine.
\<close>

theorem state_store_roundtrip:
  assumes valid: "validateGraphSnapshot g = Inr ()" "validateSynapticSnapshot s = Inr ()" "validateSequence q = Inr ()"
    and ready: "json_ready b g" "json_ready b s" "json_ready b m" "m \<noteq> JNull"
    and engine: "engine_reads b P engine g s q m" and dirname: "sibling_paths dirname path"
  shows "\<exists>env d'. save dirname P path pid None g s q m d = (Inr env, d') \<and> load P engine path d' = Inr env \<and>
    jget env ''cognitive_graph'' = g \<and> jget env ''synaptic_snapshot'' = s \<and> jget env ''sequence'' = q \<and>
    jget env ''metadata'' = metadata_of m"
proof -
  obtain root where root: "persistentStateRoot P state_label (JObj (state_material q g s (metadata_of m))) = Inr root"
    by (simp add: state_root_label)
  let ?env = "JObj (state_material q g s (metadata_of m) @ [(''state_root'', JStr root)])"
  have env: "save_envelope P g s q m = Inr ?env" using valid root by (simp add: save_envelope_Inr)
  have m: "json_value (metadata_of m) = metadata_of m" "metadata_of m \<noteq> JNull" "metadata_of m \<noteq> JUndef"
    using ready by (auto simp: json_ready_def metadata_of_def)
  then have kept: "kept_state q g s m = JObj (state_material q g s (metadata_of m))"
    using ready by (simp add: kept_state_def json_ready_def nullish_or_def)
  have "jget ?env ''state_root'' = JStr root" by (simp add: state_material_def)
  then have "json_value ?env = ?env"
    using ready m(1) saved_value [OF env, of b] by (simp only: json_ready_def simp_thms)
  moreover obtain d' where "save dirname P path pid None g s q m d = (Inr ?env, d')" "files d' path = Some (state_file P ?env)"
    by (rule save_done [OF env dirname])
  moreover have "load P engine path d' = Inr (json_value ?env)"
    using load_saved [OF calculation(3) env _ _ _ engine] ready kept by (simp add: json_ready_def)
  ultimately have "save dirname P path pid None g s q m d = (Inr ?env, d') \<and> load P engine path d' = Inr ?env" by simp
  then show ?thesis by (intro exI [of _ ?env] exI [of _ d']) (simp add: state_material_def)
qed

lemma null_metadata_text:
  "state_text P (JObj (state_material q g s JNull)) \<noteq> state_text P (JObj (state_material q g s (JObj [])))"
proof -
  have "sort_key fst (state_fields P (state_material q g s m)) =
    [(''cognitive_graph'', state_text P g), (''contract_version'', state_text P (JStr state_contract)),
     (''metadata'', state_text P m), (''sequence'', state_text P q), (''synaptic_snapshot'', state_text P s)]" for m
    by (simp add: state_material_def)
  then show ?thesis by simp
qed

text \<open>
  C22: A save with null metadata succeeds and returns its envelope, but no load accepts the file: the
  commitment is of null, while the load takes that of the empty object it puts in its place. Of the hash it
  is assumed that it tells these two texts apart.
\<close>

theorem null_metadata_unloadable:
  assumes valid: "validateGraphSnapshot g = Inr ()" "validateSynapticSnapshot s = Inr ()" "validateSequence q = Inr ()"
    and ready: "json_ready b g" "json_ready b s" and dirname: "sibling_paths dirname path"
    and engine: "engine_reads b P engine g s q JNull"
    and hash: "inj_on (sha256 P) {commit_text P g s q JNull, commit_text P g s q (JObj [])}"
  shows "\<exists>env d'. save dirname P path pid None g s q JNull d = (Inr env, d') \<and>
    load P engine path d' = reject ''persistent_state_integrity_mismatch''"
proof -
  obtain root where "persistentStateRoot P state_label (JObj (state_material q g s (metadata_of JNull))) = Inr root"
    by (simp add: state_root_label)
  then obtain env where env: "save_envelope P g s q JNull = Inr env" using valid by (simp add: save_envelope_Inr)
  obtain d' where saved: "save dirname P path pid None g s q JNull d = (Inr env, d')"
    and written: "files d' path = Some (state_file P env)"
    by (rule save_done [OF env dirname])
  have "kept_state q g s JNull = JObj (state_material q g s (JObj []))"
    using ready by (simp add: kept_state_def json_ready_def nullish_or_def metadata_of_def)
  moreover have "commit_text P g s q (JObj []) \<noteq> commit_text P g s q JNull"
    using null_metadata_text [of P q g s] by (auto simp: commit_text_def dest: utf8_inj)
  then have "sha256 P (commit_text P g s q (JObj [])) \<noteq> sha256 P (commit_text P g s q JNull)"
    using hash by (simp add: inj_on_def)
  ultimately have "persistentStateRoot P state_label (kept_state q g s JNull) \<noteq>
      persistentStateRoot P state_label (JObj (state_material q g s (metadata_of JNull)))"
    by (auto simp: state_root_label metadata_of_def commit_text_def dest: hex_text_inj)
  then show ?thesis
    using saved load_saved [OF written env _ _ _ engine] ready by (auto simp: json_ready_def)
qed

section \<open>Many processes, and crashes\<close>

text \<open>
  Processes that save to one path, each with the envelope it saves and the calls it has still to make,
  and the disk between them. A process starts a save when it has none running: the temporary file is named
  by the process alone, so two saves that one process runs at once would share it. A save ends when its
  calls are made, or fails: a call may fail at any point, and the process may be lost behind the last one.
  The calls of the file system are silent; what is seen from outside is a save that begins, is done or
  fails.
\<close>

datatype store_event = Begun nat jsv | Done nat jsv | Failed nat

type_synonym store_state = "disk \<times> (nat \<Rightarrow> (jsv \<times> disk_call list) option)"

inductive store_step :: "(string \<Rightarrow> string) \<Rightarrow> platform \<Rightarrow> string \<Rightarrow> store_state \<Rightarrow> store_event option \<Rightarrow> store_state \<Rightarrow> bool"
  for dirname P path where
  begin_save: "saves pid = None \<Longrightarrow> save_envelope P g s q m = Inr env \<Longrightarrow>
    store_step dirname P path (d, saves) (Some (Begun pid env)) (d, saves(pid \<mapsto> (env, save_calls dirname P path pid env)))"
| next_call: "saves pid = Some (env, c # cs) \<Longrightarrow> perform dirname c d = Some d' \<Longrightarrow>
    store_step dirname P path (d, saves) None (d', saves(pid \<mapsto> (env, cs)))"
| failed_call: "saves pid = Some (env, c # cs) \<Longrightarrow>
    store_step dirname P path (d, saves) (Some (Failed pid)) (perform_part n c d, saves(pid := None))"
| lost: "saves pid = Some (env, []) \<Longrightarrow> store_step dirname P path (d, saves) (Some (Failed pid)) (d, saves(pid := None))"
| end_save: "saves pid = Some (env, []) \<Longrightarrow>
    store_step dirname P path (d, saves) (Some (Done pid env)) (d, saves(pid := None))"

text \<open>The specification: a register. A save proposes its envelope; the register takes it at once, unseen;
  only then may the save be done, and it may fail before or after.\<close>

type_synonym register = "jsv option \<times> (nat \<Rightarrow> (jsv \<times> bool) option)"

inductive register_step :: "register \<Rightarrow> store_event option \<Rightarrow> register \<Rightarrow> bool" where
  propose: "pending pid = None \<Longrightarrow> register_step (r, pending) (Some (Begun pid env)) (r, pending(pid \<mapsto> (env, False)))"
| commit: "pending pid = Some (env, False) \<Longrightarrow> register_step (r, pending) None (Some env, pending(pid \<mapsto> (env, True)))"
| finish: "pending pid = Some (env, True) \<Longrightarrow> register_step (r, pending) (Some (Done pid env)) (r, pending(pid := None))"
| give_up: "pending pid = Some (env, b) \<Longrightarrow> register_step (r, pending) (Some (Failed pid)) (r, pending(pid := None))"

text \<open>A run, with the events that are seen of it.\<close>

inductive runs :: "('s \<Rightarrow> 'e option \<Rightarrow> 's \<Rightarrow> bool) \<Rightarrow> 's \<Rightarrow> 'e list \<Rightarrow> 's \<Rightarrow> bool" for step where
  stay: "runs step s [] s"
| more: "runs step s es t \<Longrightarrow> step t e u \<Longrightarrow> runs step s (es @ (case e of None \<Rightarrow> [] | Some x \<Rightarrow> [x])) u"

lemma runs_silent: "runs step s es t \<Longrightarrow> step t None u \<Longrightarrow> runs step s es u"
  using runs.more [of step s es t None u] by simp

lemma runs_seen: "runs step s es t \<Longrightarrow> step t (Some x) u \<Longrightarrow> runs step s (es @ [x]) u"
  using runs.more [of step s es t "Some x" u] by simp

text \<open>The states of a save: its proposal stands open until the file has been renamed.\<close>

fun save_matches :: "(string \<Rightarrow> string) \<Rightarrow> platform \<Rightarrow> string \<Rightarrow> disk \<Rightarrow> nat \<Rightarrow> (jsv \<times> disk_call list) option \<Rightarrow>
    (jsv \<times> bool) option \<Rightarrow> bool" where
  "save_matches dirname P path d pid None e \<longleftrightarrow> e = None"
| "save_matches dirname P path d pid (Some (env, cs)) e \<longleftrightarrow> (cs = [] \<and> e = Some (env, True)) \<or>
     (\<exists>i. e = Some (env, False) \<and> i < 3 \<and> cs = drop i (save_calls dirname P path pid env) \<and>
        (i = 2 \<longrightarrow> files d (temporaryPath path pid) = Some (state_file P env)))"

definition refines :: "(string \<Rightarrow> string) \<Rightarrow> platform \<Rightarrow> string \<Rightarrow> store_state \<Rightarrow> register \<Rightarrow> bool" where
  "refines dirname P path c a \<longleftrightarrow>
     (\<forall>pid. save_matches dirname P path (fst c) pid (snd c pid) (snd a pid)) \<and>
     files (fst c) path = map_option (state_file P) (fst a)"

lemma refinesE:
  assumes "refines dirname P path (d, saves) a" "saves pid = x"
  obtains r pending where "a = (r, pending)" "\<And>p. save_matches dirname P path d p (saves p) (pending p)"
    "save_matches dirname P path d pid x (pending pid)" "files d path = map_option (state_file P) r"
  using assms by (cases a) (auto simp: refines_def)

text \<open>A call of one save leaves the temporary files of the others alone.\<close>

lemma save_matches_other:
  "save_matches dirname P path d pid cs e \<Longrightarrow>
     files d' (temporaryPath path pid) = files d (temporaryPath path pid) \<Longrightarrow> save_matches dirname P path d' pid cs e"
  by (cases cs) auto

lemma save_calls_rest:
  assumes "c # cs = drop i (save_calls dirname P path pid env)" "i < 3"
  obtains "i = 0" "c = MakeDirectory (dirname path)" "cs = drop 1 (save_calls dirname P path pid env)"
  | "i = 1" "c = WriteFile (temporaryPath path pid) (state_file P env)" "cs = drop 2 (save_calls dirname P path pid env)"
  | "i = 2" "c = Rename (temporaryPath path pid) path" "cs = []"
  using assms by (auto simp: save_calls_def less_Suc_eq numeral_3_eq_3 numeral_2_eq_2)

lemma save_calls_left: "i < 3 \<Longrightarrow> drop i (save_calls dirname P path pid env) \<noteq> []"
  by (simp add: save_calls_def)

lemma refines_end:
  assumes "refines dirname P path (d, saves) (r, pending)" "\<And>p. p \<noteq> temporaryPath path pid \<Longrightarrow> files d' p = files d p"
  shows "refines dirname P path (d', saves(pid := None)) (r, pending(pid := None))"
proof -
  have "save_matches dirname P path d' p ((saves(pid := None)) p) ((pending(pid := None)) p)" for p
  proof (cases "p = pid")
    case False
    then have "files d' (temporaryPath path p) = files d (temporaryPath path p)"
      by (intro assms(2)) (simp add: temporaryPath_inj)
    with assms(1) False show ?thesis by (auto simp: refines_def intro: save_matches_other)
  qed simp
  moreover have "files d' path = files d path" by (rule assms(2)) simp
  ultimately show ?thesis using assms(1) by (simp add: refines_def)
qed

lemma store_simulation:
  assumes "store_step dirname P path c e c'" "refines dirname P path c a"
  shows "(e = None \<and> refines dirname P path c' a) \<or> (\<exists>a'. register_step a e a' \<and> refines dirname P path c' a')"
  using assms
proof (induction rule: store_step.induct)
  case (begin_save saves pid g s q m env d)
  from begin_save.prems begin_save.hyps(1) obtain r pending where a: "a = (r, pending)" and none: "pending pid = None"
    by (rule refinesE) simp
  have "register_step a (Some (Begun pid env)) (r, pending(pid \<mapsto> (env, False)))"
    unfolding a using none by (rule register_step.propose)
  moreover have "refines dirname P path (d, saves(pid \<mapsto> (env, save_calls dirname P path pid env)))
      (r, pending(pid \<mapsto> (env, False)))"
    using begin_save.prems by (auto simp: refines_def a intro!: exI [of _ "0::nat"])
  ultimately show ?case by blast
next
  case (next_call saves pid env c cs d d')
  from next_call.prems next_call.hyps(1) obtain r pending i where a: "a = (r, pending)"
    and all: "\<And>p. save_matches dirname P path d p (saves p) (pending p)" and stored: "files d path = map_option (state_file P) r"
    and i: "pending pid = Some (env, False)" "i < 3" "c # cs = drop i (save_calls dirname P path pid env)"
      "i = 2 \<longrightarrow> files d (temporaryPath path pid) = Some (state_file P env)"
    by (rule refinesE) auto
  from i(3,2) show ?case
  proof (cases rule: save_calls_rest)
    case 1
    with next_call.hyps(2) have "d' = d\<lparr>directories := insert (dirname path) (directories d)\<rparr>" by simp
    then have "refines dirname P path (d', saves(pid \<mapsto> (env, cs))) a"
      using i(1) 1(3) stored by (auto simp: refines_def a intro!: save_matches_other [OF all] intro!: exI [of _ "1::nat"])
    then show ?thesis by blast
  next
    case 2
    with next_call.hyps(2) have "d' = d\<lparr>files := (files d)(temporaryPath path pid \<mapsto> state_file P env)\<rparr>"
      by (simp split: if_splits)
    then have "refines dirname P path (d', saves(pid \<mapsto> (env, cs))) a"
      using i(1) 2(3) stored
      by (auto simp: refines_def a temporaryPath_inj intro!: save_matches_other [OF all] intro!: exI [of _ "2::nat"])
    then show ?thesis by blast
  next
    case 3
    with next_call.hyps(2) i(4) have d': "d' = d\<lparr>files := (files d)(temporaryPath path pid := None, path \<mapsto> state_file P env)\<rparr>"
      by simp
    have "register_step a None (Some env, pending(pid \<mapsto> (env, True)))"
      unfolding a using i(1) by (rule register_step.commit)
    moreover have "refines dirname P path (d', saves(pid \<mapsto> (env, cs))) (Some env, pending(pid \<mapsto> (env, True)))"
      using 3(3)
      by (auto simp: refines_def d' temporaryPath_inj intro!: save_matches_other [OF all])
    ultimately show ?thesis by blast
  qed
next
  case (failed_call saves pid env c cs d n)
  from failed_call.prems failed_call.hyps obtain r pending i where a: "a = (r, pending)"
    and i: "pending pid = Some (env, False)" "i < 3" "c # cs = drop i (save_calls dirname P path pid env)"
    by (rule refinesE) auto
  have part: "files (perform_part n c d) p = files d p" if "p \<noteq> temporaryPath path pid" for p
    by (rule_tac save_calls_rest [OF i(3,2)]) (use that in auto)
  have "register_step a (Some (Failed pid)) (r, pending(pid := None))"
    unfolding a using i(1) by (rule register_step.give_up)
  moreover have "refines dirname P path (perform_part n c d, saves(pid := None)) (r, pending(pid := None))"
    using failed_call.prems unfolding a by (rule refines_end) (rule part)
  ultimately show ?case by blast
next
  case (lost saves pid env d)
  from lost.prems lost.hyps obtain r pending where a: "a = (r, pending)" "pending pid = Some (env, True)"
    by (rule refinesE) (use save_calls_left in fastforce)
  then have "register_step a (Some (Failed pid)) (r, pending(pid := None))" by (auto intro: register_step.give_up)
  then show ?case using lost.prems unfolding a by (blast intro: refines_end)
next
  case (end_save saves pid env d)
  from end_save.prems end_save.hyps obtain r pending where a: "a = (r, pending)" "pending pid = Some (env, True)"
    by (rule refinesE) (use save_calls_left in fastforce)
  then have "register_step a (Some (Done pid env)) (r, pending(pid := None))" by (auto intro: register_step.finish)
  then show ?case using end_save.prems unfolding a by (blast intro: refines_end)
qed

lemma store_simulation_run:
  "runs (store_step dirname P path) c es c' \<Longrightarrow> refines dirname P path c a \<Longrightarrow>
     \<exists>a'. runs register_step a es a' \<and> refines dirname P path c' a'"
proof (induction rule: runs.induct)
  case (more s es t e u)
  then obtain a' where a': "runs register_step a es a'" "refines dirname P path t a'" by blast
  from store_simulation [OF more.hyps(2) a'(2)] show ?case
  proof (elim disjE conjE exE)
    assume "e = None" "refines dirname P path u a'"
    then show ?thesis using a'(1) by (intro exI [of _ a']) simp
  next
    fix a'' assume "register_step a' e a''" "refines dirname P path u a''"
    then show ?thesis using runs.more [OF a'(1)] by blast
  qed
qed (blast intro: runs.stay)

text \<open>What the register holds: the value it had while no save is done, or one whose save had begun.\<close>

lemma register_values:
  "runs register_step a es a' \<Longrightarrow> a = (r0, Map.empty) \<Longrightarrow>
     (\<forall>pid env c. snd a' pid = Some (env, c) \<longrightarrow> Begun pid env \<in> set es) \<and>
     ((fst a' = r0 \<and> (\<forall>pid env. Done pid env \<notin> set es \<and> snd a' pid \<noteq> Some (env, True))) \<or>
      (\<exists>pid env. fst a' = Some env \<and> Begun pid env \<in> set es))"
proof (induction rule: runs.induct)
  case (more s es t e u)
  note IH = more.IH [OF more.prems]
  from more.hyps(2) show ?case
  proof cases
    case (propose pending pid r env)
    with IH show ?thesis by (auto split: if_splits)
  next
    case (commit pending pid env r)
    then have "Begun pid env \<in> set es" using IH by auto
    with IH commit show ?thesis by (auto split: if_splits)
  next
    case (finish pending pid env r)
    with IH show ?thesis by (auto split: if_splits)
  next
    case (give_up pending pid env b r)
    with IH show ?thesis by (auto split: if_splits)
  qed
qed simp

text \<open>
  C21: However the saves of several processes to one path interleave, with one save at a time in each
  process, and wherever they fail, the file behaves as a register that each save writes at once or not at all,
  and that a save which is done has written: the register has a run with the same events, and the file is
  the text of what it holds, never a part of an envelope or a mixture of two. That is what was there before,
  while no save is done, or the envelope of a save that had begun; a load reads it.
\<close>

theorem store_refines_register:
  assumes run: "runs (store_step dirname P path) (d0, Map.empty) es (d, saves)"
    and start: "files d0 path = map_option (state_file P) r0"
  shows "\<exists>r pending. runs register_step (r0, Map.empty) es (r, pending) \<and> files d path = map_option (state_file P) r \<and>
    ((r = r0 \<and> (\<forall>pid env. Done pid env \<notin> set es)) \<or> (\<exists>pid env. r = Some env \<and> Begun pid env \<in> set es)) \<and>
    load P engine path d = (case r of None \<Rightarrow> reject ''persistent_state_read_failed''
      | Some env \<Rightarrow> load P engine path (d0\<lparr>files := [path \<mapsto> state_file P env]\<rparr>))"
proof -
  have "refines dirname P path (d0, Map.empty) (r0, Map.empty)"
    using start by (simp add: refines_def)
  from store_simulation_run [OF run this] obtain r pending where
    steps: "runs register_step (r0, Map.empty) es (r, pending)" and last: "refines dirname P path (d, saves) (r, pending)"
    by fastforce
  have "files d path = map_option (state_file P) r" using last by (simp add: refines_def)
  moreover have "load P engine path d = (case r of None \<Rightarrow> reject ''persistent_state_read_failed''
      | Some env \<Rightarrow> load P engine path (d0\<lparr>files := [path \<mapsto> state_file P env]\<rparr>))"
    using calculation by (cases r) (simp_all add: load_def)
  moreover have "(r = r0 \<and> (\<forall>pid env. Done pid env \<notin> set es)) \<or> (\<exists>pid env. r = Some env \<and> Begun pid env \<in> set es)"
    using register_values [OF steps] by auto
  ultimately show ?thesis using steps by blast
qed

section \<open>An example\<close>

definition platform3 :: platform where
  "platform3 = \<lparr>num_other = (\<lambda>_. ''1.25''), date_other = (\<lambda>_. None), nfkc = (\<lambda>s. s),
     locale_le = (\<lambda>a b. a \<le> b), sha256 = (\<lambda>s. replicate 31 CHR ''a'' @ [char_of (length s mod 256)])\<rparr>"

definition graph0 :: jsv where
  "graph0 = JObj [(''state_root'', JStr ''g''), (''nodes'', JArr [JInt 1, JNull])]"

definition snapshot0 :: jsv where
  "snapshot0 = JObj [(''state_root'', JStr ''s''), (''strength'', JNum (Fin (5 / 4))), (''relationships'', JArr [])]"

lemma ready0: "json_ready True graph0" "json_ready True snapshot0" "json_ready True (JObj [])"
  by (simp_all add: json_ready_def graph0_def snapshot0_def property_order_def index_key_def is_digit_def between_def)

lemma valid0: "validateGraphSnapshot graph0 = Inr ()" "validateSynapticSnapshot snapshot0 = Inr ()"
  "validateSequence (JInt 7) = Inr ()"
  by code_simp+

definition disk0 :: disk where
  "disk0 = \<lparr>directories = {}, files = Map.empty\<rparr>"

lemma number_texts0: "number_texts platform3"
proof -
  have "foreign_number ''1.25''"
    unfolding foreign_number_def
    by (rule exI [of _ "[]"], rule exI [of _ "''1''"], rule exI [of _ "''.25''"]) (simp add: is_digit_def between_def)
  then show ?thesis by (simp add: number_texts_def platform3_def)
qed

text \<open>The envelope of a save of these values, which the engine of the example reads its file as.\<close>

definition envelope0 :: "jsv \<Rightarrow> jsv" where
  "envelope0 m = JObj (state_material (JInt 7) graph0 snapshot0 (metadata_of m) @ [(''state_root'', JStr (''sha256:'' @
     hex_text (sha256 platform3 (commit_text platform3 graph0 snapshot0 (JInt 7) (metadata_of m)))))])"

lemma envelope0: "save_envelope platform3 graph0 snapshot0 (JInt 7) m = Inr (envelope0 m)"
  using valid0 by (simp add: save_envelope_Inr envelope0_def state_root_label commit_text_def)

lemma engine0: "engine_reads True platform3 (\<lambda>_. Some (json_value (envelope0 m))) graph0 snapshot0 (JInt 7) m"
  using envelope0 [of m] by (simp add: engine_reads_def number_texts0)

theorem state_store_roundtrip_witness:
  "\<exists>env d'. save (\<lambda>_. ''d'') platform3 ''d/f'' 3 None graph0 snapshot0 (JInt 7) (JObj []) disk0 = (Inr env, d') \<and>
    load platform3 (\<lambda>_. Some (json_value (envelope0 (JObj [])))) ''d/f'' d' = Inr env \<and>
    jget (jget env ''synaptic_snapshot'') ''strength'' = JNum (Fin (5 / 4))"
  using state_store_roundtrip [OF valid0 ready0 _ engine0, of "\<lambda>_. ''d''" "''d/f''" 3 disk0]
  by (auto simp: sibling_paths_def snapshot0_def)

theorem null_metadata_unloadable_witness:
  "\<exists>env d'. save (\<lambda>_. ''d'') platform3 ''d/f'' 3 None graph0 snapshot0 (JInt 7) JNull disk0 = (Inr env, d') \<and>
    load platform3 (\<lambda>_. Some (json_value (envelope0 JNull))) ''d/f'' d' = reject ''persistent_state_integrity_mismatch''"
proof -
  have "sha256 platform3 (commit_text platform3 graph0 snapshot0 (JInt 7) JNull) \<noteq>
      sha256 platform3 (commit_text platform3 graph0 snapshot0 (JInt 7) (JObj []))"
    by code_simp
  then show ?thesis
    by (intro null_metadata_unloadable [OF valid0 ready0(1,2) _ engine0]) (auto simp: sibling_paths_def)
qed

text \<open>A save that nothing interrupts, and one that is lost while it writes its temporary file.\<close>

lemma uninterrupted_save:
  assumes run: "runs (store_step dirname P path) c es (d, saves)" and idle: "saves pid = None"
    and env: "save_envelope P g s q m = Inr env" and dirname: "sibling_paths dirname path"
  shows "\<exists>d'. runs (store_step dirname P path) c (es @ [Begun pid env, Done pid env]) (d', saves) \<and>
    files d' path = Some (state_file P env)"
proof -
  let ?step = "store_step dirname P path" and ?calls = "save_calls dirname P path pid env"
  let ?d1 = "d\<lparr>directories := insert (dirname path) (directories d)\<rparr>"
  let ?d2 = "?d1\<lparr>files := (files d)(temporaryPath path pid \<mapsto> state_file P env)\<rparr>"
  let ?d3 = "?d2\<lparr>files := (files ?d2)(temporaryPath path pid := None, path \<mapsto> state_file P env)\<rparr>"
  have made: "perform dirname (MakeDirectory (dirname path)) d = Some ?d1" by simp
  have written: "perform dirname (WriteFile (temporaryPath path pid) (state_file P env)) ?d1 = Some ?d2"
    using dirname by (simp add: sibling_paths_def)
  have renamed: "perform dirname (Rename (temporaryPath path pid) path) ?d2 = Some ?d3" by simp
  have call: "runs ?step c es' (d', saves(pid \<mapsto> (env, x # xs))) \<Longrightarrow> perform dirname x d' = Some d'' \<Longrightarrow>
      runs ?step c es' (d'', saves(pid \<mapsto> (env, xs)))" for es' d' x xs d''
    using store_step.next_call [of "saves(pid \<mapsto> (env, x # xs))" pid env x xs dirname d' d'' P path]
    by (auto intro: runs_silent)
  have "runs ?step c (es @ [Begun pid env]) (d, saves(pid \<mapsto> (env, ?calls)))"
    by (rule runs_seen [OF run], rule store_step.begin_save) fact+
  then have "runs ?step c (es @ [Begun pid env]) (?d3, saves(pid \<mapsto> (env, [])))"
    unfolding save_calls_def
    by (intro call [OF call [OF call [OF _ made] written] renamed])
  then have "runs ?step c ((es @ [Begun pid env]) @ [Done pid env]) (?d3, (saves(pid \<mapsto> (env, [])))(pid := None))"
    by (rule runs_seen) (rule store_step.end_save; simp)
  moreover have "(saves(pid \<mapsto> (env, [])))(pid := None) = saves" using idle by auto
  ultimately show ?thesis by (intro exI [of _ ?d3]) simp
qed

lemma sample_run:
  "\<exists>d. runs (store_step (\<lambda>_. ''d'') platform3 ''d/f'') (disk0, Map.empty)
     [Begun 3 (envelope0 JUndef), Done 3 (envelope0 JUndef), Begun 4 (envelope0 (JObj [])), Failed 4] (d, Map.empty)"
proof -
  let ?step = "store_step (\<lambda>_. ''d'') platform3 ''d/f''" and ?e = "envelope0 JUndef" and ?f = "envelope0 (JObj [])"
  let ?calls = "save_calls (\<lambda>_. ''d'') platform3 ''d/f'' 4 ?f"
  obtain d where "runs ?step (disk0, Map.empty) ([] @ [Begun 3 ?e, Done 3 ?e]) (d, Map.empty)"
    using uninterrupted_save [OF runs.stay _ envelope0, of Map.empty 3 "\<lambda>_. ''d''" "''d/f''" disk0]
    by (auto simp: sibling_paths_def)
  then have "runs ?step (disk0, Map.empty) (([] @ [Begun 3 ?e, Done 3 ?e]) @ [Begun 4 ?f]) (d, Map.empty(4 \<mapsto> (?f, ?calls)))"
    by (rule runs_seen) (rule store_step.begin_save [OF _ envelope0]; simp)
  then have "runs ?step (disk0, Map.empty) (([] @ [Begun 3 ?e, Done 3 ?e]) @ [Begun 4 ?f])
      (d\<lparr>directories := insert ''d'' (directories d)\<rparr>, (Map.empty(4 \<mapsto> (?f, ?calls)))(4 \<mapsto> (?f, drop 1 ?calls)))"
    by (rule runs_silent) (rule store_step.next_call [where c = "hd ?calls"]; simp add: save_calls_def)
  then have "runs ?step (disk0, Map.empty) ((([] @ [Begun 3 ?e, Done 3 ?e]) @ [Begun 4 ?f]) @ [Failed 4])
      (perform_part 6 (WriteFile (temporaryPath ''d/f'' 4) (state_file platform3 ?f)) (d\<lparr>directories := insert ''d'' (directories d)\<rparr>),
       ((Map.empty(4 \<mapsto> (?f, ?calls)))(4 \<mapsto> (?f, drop 1 ?calls)))(4 := None))"
    by (rule runs_seen) (rule store_step.failed_call [where cs = "drop 2 ?calls"]; simp add: save_calls_def)
  then show ?thesis by (simp only: append_Nil append_Cons fun_upd_upd fun_upd_idem) (rule exI)
qed

theorem store_refines_register_witness:
  "\<exists>d es. runs (store_step (\<lambda>_. ''d'') platform3 ''d/f'') (disk0, Map.empty) es (d, Map.empty) \<and> Failed 4 \<in> set es \<and>
    (files d ''d/f'' = Some (state_file platform3 (envelope0 JUndef)) \<or>
     files d ''d/f'' = Some (state_file platform3 (envelope0 (JObj []))))"
proof -
  from sample_run obtain d where run: "runs (store_step (\<lambda>_. ''d'') platform3 ''d/f'') (disk0, Map.empty)
     [Begun 3 (envelope0 JUndef), Done 3 (envelope0 JUndef), Begun 4 (envelope0 (JObj [])), Failed 4] (d, Map.empty)" by blast
  have "files disk0 ''d/f'' = map_option (state_file platform3) None" by (simp add: disk0_def)
  from store_refines_register [OF run this, of "\<lambda>_. None"] obtain r where
    "files d ''d/f'' = map_option (state_file platform3) r" "r = Some (envelope0 JUndef) \<or> r = Some (envelope0 (JObj []))"
    by auto
  with run show ?thesis by (auto intro!: exI [of _ d] exI)
qed

end
