(* ===== verification/DirectPipe.thy ===== *)
theory DirectPipe
  imports CanonicalBytes
begin

text \<open>
  \<open>src/direct-pipe-worker-transfer.mjs\<close> and \<open>src/direct-pipe-worker.mjs\<close>: requests that move an owned
  buffer to a worker thread and back. The promise of a request is settled by an entry of \<open>settled\<close>;
  \<open>posted\<close> is what the worker was sent. Timers, the worker and its thread call the operations below in
  any order; the clock is an argument.
\<close>

section \<open>The worker\<close>

text \<open>A message of the worker: \<open>reply_buffer\<close> is none where the message has no ArrayBuffer.\<close>

record reply =
  reply_id :: jsv
  reply_error :: jsv
  reply_buffer :: "string option"
  reply_byteLength :: jsv
  reply_sha256 :: jsv

definition worker_reply :: "platform \<Rightarrow> jsv \<Rightarrow> string option \<Rightarrow> reply" where
  "worker_reply P i buffer =
     (let refused = (\<lambda>why. \<lparr>reply_id = i, reply_error = JStr why, reply_buffer = None, reply_byteLength = JUndef,
                          reply_sha256 = JUndef\<rparr>)
      in if \<not> is_safe_integer i then refused ''invalid_transfer''
         else case buffer of
           None \<Rightarrow> refused ''invalid_transfer''
         | Some bytes \<Rightarrow> \<lparr>reply_id = i, reply_error = JUndef, reply_buffer = Some bytes,
             reply_byteLength = JInt (int (length bytes)), reply_sha256 = JStr (native_digest P bytes)\<rparr>)"

section \<open>The transfers\<close>

definition worker_transfer_schema :: string where
  "worker_transfer_schema = ''kindred.direct-pipe.worker-transfer.v1''"

definition positiveInteger :: "jsv \<Rightarrow> int result" where
  "positiveInteger v = (if \<not> is_safe_integer v \<or> num_of v < 1 then Inl RangeErr else Inr \<lfloor>num_of v\<rfloor>)"

record request =
  logicalBytes :: nat
  expectedSha256 :: string
  started :: int

record pipe =
  requests :: "(jsv \<times> request) list"
  nextId :: nat
  pipe_closed :: bool
  maxBytes :: int
  maxInflight :: int
  timeoutMs :: int
  posted :: "(jsv \<times> string) list"
  settled :: "(jsv \<times> (string \<times> jsv) result) list"

definition new_pipe :: "jsv \<Rightarrow> jsv \<Rightarrow> jsv \<Rightarrow> pipe result" where
  "new_pipe bytes inflight timeout =
     and_then (positiveInteger (default_to bytes (JInt (16 * 1024 * 1024)))) (\<lambda>b.
     and_then (positiveInteger (default_to inflight (JInt 8))) (\<lambda>i.
     and_then (positiveInteger (default_to timeout (JInt 10000))) (\<lambda>t.
       Inr \<lparr>requests = [], nextId = 1, pipe_closed = False, maxBytes = b, maxInflight = i, timeoutMs = t,
            posted = [], settled = []\<rparr>)))"

text \<open>\<open>#fail\<close>: the first failure closes the pipe and rejects every request there is.\<close>

definition fail_all :: "failure \<Rightarrow> pipe \<Rightarrow> pipe" where
  "fail_all e s =
     (if pipe_closed s then s
      else s\<lparr>pipe_closed := True, requests := [], settled := settled s @ map (\<lambda>(i, _). (i, Inl e)) (requests s)\<rparr>)"

text \<open>Posting a message with the buffer in its transfer list throws, or leaves the sender a buffer of some
  length: zero when it was detached.\<close>

definition request_id :: "nat \<Rightarrow> jsv" where
  "request_id n = JInt (int n)"

lemma request_id_simps [simp]: "request_id m = request_id n \<longleftrightarrow> m = n" "primitive (request_id n)"
  by (simp_all add: request_id_def)

datatype posting = Thrown failure | Posted nat

definition transfer :: "platform \<Rightarrow> string option \<Rightarrow> posting \<Rightarrow> int \<Rightarrow> pipe \<Rightarrow> jsv result \<times> pipe" where
  "transfer P buffer posting now s =
     (if pipe_closed s then (reject ''worker_closed'', s)
      else case buffer of
        None \<Rightarrow> (Inl TypeErr, s)
      | Some bytes \<Rightarrow>
          if length bytes < 1 \<or> maxBytes s < int (length bytes) then (Inl RangeErr, s)
          else if maxInflight s \<le> int (length (requests s)) then (reject ''capacity_exceeded'', s)
          else
            let i = request_id (nextId s);
                s' = s\<lparr>nextId := Suc (nextId s), requests := mput i
                  \<lparr>logicalBytes = length bytes, expectedSha256 = native_digest P bytes, started = now\<rparr> (requests s)\<rparr>
            in (Inr i, case posting of
                  Thrown e \<Rightarrow> fail_all e s'
                | Posted n \<Rightarrow>
                    let s'' = s'\<lparr>posted := posted s' @ [(i, bytes)]\<rparr>
                    in if n \<noteq> 0 then fail_all (Rejected ''source_not_detached'' False) s'' else s''))"

definition measurement :: "request \<Rightarrow> jsv \<Rightarrow> int \<Rightarrow> jsv" where
  "measurement r sha now = JObj
     [(''schemaVersion'', JStr worker_transfer_schema), (''classification'', JStr ''REDUCED_COPY''),
      (''boundary'', JStr ''NODE_WORKER_TRANSFER_LIST_ROUND_TRIP''), (''logicalBytes'', JInt (int (logicalBytes r))),
      (''explicitPayloadCopies'', JInt 0), (''sourceDetached'', JBool True), (''workerSha256'', sha),
      (''outputSha256'', JStr (expectedSha256 r)), (''latencyNs'', JInt (now - started r)),
      (''hardwarePhysicalTransferMeasured'', JBool False), (''zeroCopyClaimAuthorized'', JBool False)]"

text \<open>What a reply makes of its request.\<close>

definition reply_result :: "platform \<Rightarrow> request \<Rightarrow> reply \<Rightarrow> int \<Rightarrow> (string \<times> jsv) result" where
  "reply_result P r m now =
     (if truthy (reply_error m) then reject ''worker_error''
      else case reply_buffer m of
        None \<Rightarrow> reject ''integrity_mismatch''
      | Some bytes \<Rightarrow>
          if reply_byteLength m \<noteq> JInt (int (logicalBytes r)) \<or> length bytes \<noteq> logicalBytes r \<or>
             reply_sha256 m \<noteq> JStr (expectedSha256 r) \<or> native_digest P bytes \<noteq> expectedSha256 r
          then reject ''integrity_mismatch''
          else Inr (bytes, measurement r (reply_sha256 m) now))"

text \<open>\<open>#receive\<close>: a message without a request of its id is ignored, one that is not as expected fails all.\<close>

definition pipe_receive :: "platform \<Rightarrow> reply \<Rightarrow> int \<Rightarrow> pipe \<Rightarrow> pipe" where
  "pipe_receive P m now s =
     (case mget (reply_id m) (requests s) of
        None \<Rightarrow> s
      | Some r \<Rightarrow>
          let outcome = reply_result P r m now;
              s' = s\<lparr>requests := AList.delete (reply_id m) (requests s), settled := settled s @ [(reply_id m, outcome)]\<rparr>
          in case outcome of Inl e \<Rightarrow> fail_all e s' | Inr _ \<Rightarrow> s')"

text \<open>The timer of a request is cleared when the request is taken out, so it fires for a pending one only.\<close>

definition pipe_expire :: "jsv \<Rightarrow> pipe \<Rightarrow> pipe" where
  "pipe_expire i s = (if mget i (requests s) = None then s else fail_all (Rejected ''transfer_timed_out'' False) s)"

definition worker_failed :: "failure \<Rightarrow> pipe \<Rightarrow> pipe" where
  "worker_failed e s = fail_all e s"

definition worker_exited :: "pipe \<Rightarrow> pipe" where
  "worker_exited s = (if pipe_closed s then s else fail_all (Rejected ''worker_exited'' False) s)"

definition pipe_close :: "pipe \<Rightarrow> pipe" where
  "pipe_close s = (if pipe_closed s then s else fail_all (Rejected ''worker_closed'' False) s)"

text \<open>Everything that can happen to a pipe.\<close>

datatype pipe_event =
    Transfer "string option" posting int
  | Receive reply int
  | Expire jsv
  | WorkerFailed failure
  | WorkerExited
  | Close

fun pipe_step :: "platform \<Rightarrow> pipe_event \<Rightarrow> pipe \<Rightarrow> pipe" where
  "pipe_step P (Transfer buffer posting now) s = snd (transfer P buffer posting now s)"
| "pipe_step P (Receive m now) s = pipe_receive P m now s"
| "pipe_step P (Expire i) s = pipe_expire i s"
| "pipe_step P (WorkerFailed e) s = worker_failed e s"
| "pipe_step P WorkerExited s = worker_exited s"
| "pipe_step P Close s = pipe_close s"

section \<open>Requests are settled once\<close>

definition issued :: "pipe \<Rightarrow> jsv list" where
  "issued s = map request_id [1..<nextId s]"

text \<open>Each id that was given out is pending or settled, and only one of the two, and settled once.\<close>

definition pipe_wf :: "pipe \<Rightarrow> bool" where
  "pipe_wf s \<longleftrightarrow>
     1 \<le> nextId s \<and> mset (map fst (requests s) @ map fst (settled s)) = mset (issued s) \<and>
     int (length (requests s)) \<le> maxInflight s \<and> (pipe_closed s \<longrightarrow> requests s = [])"

lemma distinct_issued: "distinct (issued s)"
  by (simp add: issued_def distinct_map inj_on_def)

lemma issued_Suc: "1 \<le> nextId s \<Longrightarrow> issued (s\<lparr>nextId := Suc (nextId s)\<rparr>) = issued s @ [request_id (nextId s)]"
  by (simp add: issued_def)

lemma new_pipe_wf: "new_pipe b i t = Inr s \<Longrightarrow> pipe_wf s"
  by (auto simp: new_pipe_def result_simps positiveInteger_def pipe_wf_def issued_def le_floor_iff split: if_splits)

lemma fail_all_simps [simp]:
  "nextId (fail_all e s) = nextId s" "maxInflight (fail_all e s) = maxInflight s" "posted (fail_all e s) = posted s"
  "pipe_closed (fail_all e s)" "maxBytes (fail_all e s) = maxBytes s"
  by (simp_all add: fail_all_def)

lemma issued_fail_all [simp]: "issued (fail_all e s) = issued s"
  by (simp add: issued_def)

lemma fail_all_ids:
  "\<not> pipe_closed s \<Longrightarrow> map fst (settled (fail_all e s)) = map fst (settled s) @ map fst (requests s)"
  "\<not> pipe_closed s \<Longrightarrow> requests (fail_all e s) = []"
  by (simp_all add: fail_all_def o_def case_prod_unfold)

lemma fail_all_closed: "pipe_closed s \<Longrightarrow> fail_all e s = s"
  by (simp add: fail_all_def)

lemma pipe_wf_fail_all: "pipe_wf s \<Longrightarrow> pipe_wf (fail_all e s)"
proof (cases "pipe_closed s")
  case False
  then show "pipe_wf s \<Longrightarrow> pipe_wf (fail_all e s)"
    by (simp add: pipe_wf_def fail_all_ids union_commute del: mset_map)
qed (simp add: fail_all_closed)

lemma pending_not_next:
  assumes "pipe_wf s"
  shows "request_id (nextId s) \<notin> fst ` set (requests s)"
proof
  assume "request_id (nextId s) \<in> fst ` set (requests s)"
  then have "request_id (nextId s) \<in># mset (map fst (requests s) @ map fst (settled s))" by auto
  with assms have "request_id (nextId s) \<in> set (issued s)" by (simp add: pipe_wf_def flip: set_mset_mset)
  then show False by (auto simp: issued_def)
qed

lemma update_new: "k \<notin> fst ` set m \<Longrightarrow> AList.update k v m = m @ [(k, v)]"
  by (induction m) auto

lemma transfer_wf: "pipe_wf s \<Longrightarrow> pipe_wf (snd (transfer P buffer posting now s))"
proof (cases "pipe_closed s \<or> buffer = None \<or> length (the buffer) < 1 \<or> maxBytes s < int (length (the buffer)) \<or>
    maxInflight s \<le> int (length (requests s))")
  case False
  assume wf: "pipe_wf s"
  from False obtain bytes where bytes: "buffer = Some bytes" by auto
  define r where "r = \<lparr>logicalBytes = length bytes, expectedSha256 = native_digest P bytes, started = now\<rparr>"
  define s' where "s' = s\<lparr>nextId := Suc (nextId s), requests := requests s @ [(request_id (nextId s), r)]\<rparr>"
  have put: "mput (request_id (nextId s)) r (requests s) = requests s @ [(request_id (nextId s), r)]"
    using pending_not_next [OF wf] by (simp add: mput_def update_new)
  have s': "pipe_wf s'" using wf False issued_Suc [of s] by (simp add: pipe_wf_def s'_def issued_def)
  then have "pipe_wf (s'\<lparr>posted := p\<rparr>)" for p by (simp add: pipe_wf_def issued_def)
  moreover have "snd (transfer P buffer posting now s) =
      (case posting of Thrown e \<Rightarrow> fail_all e s'
       | Posted n \<Rightarrow> if n \<noteq> 0 then fail_all (Rejected ''source_not_detached'' False)
             (s'\<lparr>posted := posted s' @ [(request_id (nextId s), bytes)]\<rparr>)
           else s'\<lparr>posted := posted s' @ [(request_id (nextId s), bytes)]\<rparr>)"
    using False by (simp add: transfer_def bytes r_def [symmetric] put s'_def Let_def split: posting.split)
  ultimately show ?thesis using s' by (auto intro: pipe_wf_fail_all split: posting.split)
qed (auto simp: transfer_def split: option.split)

lemma mset_keys_delete:
  "distinct (map fst m) \<Longrightarrow> k \<in> set (map fst m) \<Longrightarrow> mset (map fst m) = add_mset k (mset (map fst (AList.delete k m)))"
  by (induction m) (auto simp: delete_idem)

lemma receive_wf: "pipe_wf s \<Longrightarrow> pipe_wf (pipe_receive P m now s)"
proof (cases "mget (reply_id m) (requests s)")
  case (Some r)
  assume wf: "pipe_wf s"
  let ?i = "reply_id m"
  let ?s = "s\<lparr>requests := AList.delete ?i (requests s), settled := settled s @ [(?i, reply_result P r m now)]\<rparr>"
  have "distinct (map fst (requests s) @ map fst (settled s))"
    using wf distinct_issued by (metis pipe_wf_def mset_eq_imp_distinct_iff)
  then have "distinct (map fst (requests s))" by simp
  moreover have "?i \<in> set (map fst (requests s))" using mget_in_set [OF Some] by force
  ultimately have keys: "mset (map fst (requests s)) = add_mset ?i (mset (map fst (AList.delete ?i (requests s))))"
    by (rule mset_keys_delete)
  have "length (AList.delete ?i (requests s)) \<le> length (requests s)" by (simp add: length_delete_le)
  moreover have "requests s \<noteq> []" using Some by (auto simp: mget_def split: if_splits)
  ultimately have "pipe_wf ?s" using wf keys by (auto simp: pipe_wf_def issued_def)
  then show ?thesis
    by (auto simp: pipe_receive_def Some Let_def intro: pipe_wf_fail_all split: sum.split)
qed (simp add: pipe_receive_def)

lemma pipe_step_wf: "pipe_wf s \<Longrightarrow> pipe_wf (pipe_step P e s)"
  by (cases e) (auto simp: transfer_wf receive_wf pipe_expire_def worker_failed_def worker_exited_def pipe_close_def
    intro: pipe_wf_fail_all)

lemma pipe_run_wf: "pipe_wf s \<Longrightarrow> pipe_wf (fold (pipe_step P) es s)"
  by (induction es arbitrary: s) (simp_all add: pipe_step_wf)

lemma pipe_step_config: "maxInflight (pipe_step P e s) = maxInflight s"
  by (cases e) (auto simp: transfer_def pipe_receive_def pipe_expire_def worker_failed_def worker_exited_def pipe_close_def
    Let_def split: option.split sum.split posting.split)

lemma pipe_run_config: "maxInflight (fold (pipe_step P) es s) = maxInflight s"
  by (induction es arbitrary: s) (simp_all add: pipe_step_config)

text \<open>
  C23: Whatever happens to a pipe, each request it gave an id is settled at most once, those not settled are
  pending, no more are pending than the pipe was made for, and once it is closed every request is settled.
\<close>

theorem requests_settled_once:
  assumes "new_pipe bytes inflight timeout = Inr s0" and "s = fold (pipe_step P) es s0"
  shows "distinct (map fst (settled s)) \<and> fst ` set (requests s) \<inter> fst ` set (settled s) = {} \<and>
    set (issued s) = fst ` set (requests s) \<union> fst ` set (settled s) \<and>
    int (length (requests s)) \<le> maxInflight s0 \<and> (pipe_closed s \<longrightarrow> set (issued s) = fst ` set (settled s))"
proof -
  have wf: "pipe_wf s" using new_pipe_wf [OF assms(1)] pipe_run_wf assms(2) by blast
  then have "distinct (map fst (requests s) @ map fst (settled s))"
    using distinct_issued by (metis pipe_wf_def mset_eq_imp_distinct_iff)
  moreover have "set (issued s) = set (map fst (requests s) @ map fst (settled s))"
    using wf by (metis pipe_wf_def set_mset_mset)
  moreover have "int (length (requests s)) \<le> maxInflight s0"
    using wf by (simp add: pipe_wf_def assms(2) pipe_run_config)
  moreover have "pipe_closed s \<longrightarrow> requests s = []" using wf by (simp add: pipe_wf_def)
  ultimately show ?thesis by auto
qed

section \<open>Outputs are inputs\<close>

text \<open>Every resolved request was posted, with bytes of the digest its output has.\<close>

definition request_posted :: "platform \<Rightarrow> (jsv \<times> string) list \<Rightarrow> jsv \<times> request \<Rightarrow> bool" where
  "request_posted P sent ir \<longleftrightarrow> (\<exists>bytes. (fst ir, bytes) \<in> set sent \<and>
     expectedSha256 (snd ir) = native_digest P bytes \<and> logicalBytes (snd ir) = length bytes)"

definition output_posted :: "platform \<Rightarrow> (jsv \<times> string) list \<Rightarrow> jsv \<times> (string \<times> jsv) result \<Rightarrow> bool" where
  "output_posted P sent io = (case snd io of Inl e \<Rightarrow> True | Inr (out, m) \<Rightarrow>
     \<exists>bytes. (fst io, bytes) \<in> set sent \<and> native_digest P out = native_digest P bytes \<and> length out = length bytes)"

definition pipe_intact :: "platform \<Rightarrow> pipe \<Rightarrow> bool" where
  "pipe_intact P s \<longleftrightarrow>
     list_all (request_posted P (posted s)) (requests s) \<and> list_all (output_posted P (posted s)) (settled s)"

lemma posted_mono:
  "request_posted P sent x \<Longrightarrow> request_posted P (sent @ rest) x"
  "output_posted P sent y \<Longrightarrow> output_posted P (sent @ rest) y"
  by (auto simp: request_posted_def output_posted_def split: sum.splits)

lemma output_posted_Inl [simp]: "output_posted P sent (i, Inl e)"
  by (simp add: output_posted_def)

lemma intact_fail_all: "list_all (output_posted P (posted s)) (settled s) \<Longrightarrow> \<not> pipe_closed s \<Longrightarrow> pipe_intact P (fail_all e s)"
  by (auto simp: pipe_intact_def fail_all_def list_all_iff)

lemma intact_failed: "pipe_intact P s \<Longrightarrow> pipe_intact P (fail_all e s)"
  by (metis fail_all_closed intact_fail_all pipe_intact_def)

lemma reply_result_Inr:
  "reply_result P r m now = Inr (out, w) \<Longrightarrow> native_digest P out = expectedSha256 r \<and> length out = logicalBytes r"
  by (auto simp: reply_result_def split: if_splits option.splits)

lemma intact_transfer:
  assumes "pipe_intact P s"
  shows "pipe_intact P (snd (transfer P buffer posting now s))"
proof (cases "pipe_closed s \<or> buffer = None \<or> length (the buffer) < 1 \<or> maxBytes s < int (length (the buffer)) \<or>
    maxInflight s \<le> int (length (requests s))")
  case False
  then obtain bytes where bytes: "buffer = Some bytes" by auto
  define r where "r = \<lparr>logicalBytes = length bytes, expectedSha256 = native_digest P bytes, started = now\<rparr>"
  define s' where "s' = s\<lparr>nextId := Suc (nextId s), requests := mput (request_id (nextId s)) r (requests s)\<rparr>"
  define s'' where "s'' = s'\<lparr>posted := posted s' @ [(request_id (nextId s), bytes)]\<rparr>"
  have "request_posted P (posted s'') (request_id (nextId s), r)"
    by (auto simp: request_posted_def r_def s''_def)
  moreover have "request_posted P (posted s'') x" if "x \<in> set (requests s)" for x
    using that assms posted_mono(1) by (auto simp: pipe_intact_def list_all_iff s''_def s'_def)
  ultimately have "list_all (request_posted P (posted s'')) (mput (request_id (nextId s)) r (requests s))"
    using set_mput_subset [of "request_id (nextId s)" r "requests s"] unfolding list_all_iff by blast
  moreover have "list_all (output_posted P (posted s'')) (settled s)"
    using assms posted_mono(2) by (auto simp: pipe_intact_def list_all_iff s''_def s'_def)
  ultimately have "pipe_intact P s''" by (simp add: pipe_intact_def s''_def s'_def)
  moreover have "pipe_intact P (fail_all e s')" for e
    using assms False by (intro intact_fail_all) (auto simp: pipe_intact_def s'_def)
  moreover have "snd (transfer P buffer posting now s) =
      (case posting of Thrown e \<Rightarrow> fail_all e s'
       | Posted n \<Rightarrow> if n \<noteq> 0 then fail_all (Rejected ''source_not_detached'' False) s'' else s'')"
    using False by (simp add: transfer_def bytes r_def s''_def s'_def Let_def split: posting.split)
  ultimately show ?thesis by (auto intro: intact_failed split: posting.split)
qed (use assms in \<open>auto simp: transfer_def split: option.split\<close>)

lemma intact_receive:
  assumes "pipe_intact P s"
  shows "pipe_intact P (pipe_receive P m now s)"
proof (cases "mget (reply_id m) (requests s)")
  case (Some r)
  let ?s = "s\<lparr>requests := AList.delete (reply_id m) (requests s),
    settled := settled s @ [(reply_id m, reply_result P r m now)]\<rparr>"
  have "request_posted P (posted s) (reply_id m, r)"
    using assms mget_in_set [OF Some] by (auto simp: pipe_intact_def list_all_iff)
  then obtain bytes where "(reply_id m, bytes) \<in> set (posted s)" "expectedSha256 r = native_digest P bytes"
    "logicalBytes r = length bytes"
    by (auto simp: request_posted_def)
  then have "output_posted P (posted s) (reply_id m, reply_result P r m now)"
    using reply_result_Inr [of P r m now]
    by (cases "reply_result P r m now") (auto simp: output_posted_def intro!: exI [of _ bytes])
  then have "pipe_intact P ?s"
    using assms by (auto simp: pipe_intact_def list_all_iff AList.delete_eq)
  then show ?thesis
    by (auto simp: pipe_receive_def Some Let_def intro: intact_failed split: sum.split)
qed (simp add: pipe_receive_def assms)

lemma intact_step: "pipe_intact P s \<Longrightarrow> pipe_intact P (pipe_step P e s)"
  by (cases e) (auto simp: intact_transfer intact_receive pipe_expire_def worker_failed_def worker_exited_def pipe_close_def
    intro: intact_failed)

text \<open>
  C24: A request resolves only with bytes of the length and the SHA-256 digest of those it was given,
  whatever the messages that arrive: for every output that a pipe ever hands out there is an input
  posted under its id with that length and that digest.
\<close>

theorem outputs_are_inputs:
  assumes new: "new_pipe limit inflight timeout = Inr s0" and run: "s = fold (pipe_step P) es s0"
    and resolved: "(i, Inr (out, m)) \<in> set (settled s)"
  shows "\<exists>bytes. (i, bytes) \<in> set (posted s) \<and> length out = length bytes \<and> sha256 P out = sha256 P bytes"
proof -
  have "pipe_intact P s0" using new by (auto simp: new_pipe_def result_simps pipe_intact_def)
  then have "pipe_intact P s" unfolding run by (induction es arbitrary: s0) (simp_all add: intact_step)
  with resolved obtain bytes where "(i, bytes) \<in> set (posted s)" "native_digest P out = native_digest P bytes"
      "length out = length bytes"
    by (fastforce simp: pipe_intact_def list_all_iff output_posted_def)
  then show ?thesis unfolding native_digest_def by (blast dest: hex_text_inj)
qed

section \<open>Progress and failure\<close>

lemma safe_request_id: "int n \<le> max_safe \<Longrightarrow> is_safe_integer (request_id n)"
  unfolding request_id_def is_safe_integer_JInt by simp

text \<open>
  On an open pipe with room, a buffer within the limit is accepted, and the worker's answer to the
  posted message resolves the request with the same bytes, leaving the other requests pending.
\<close>

theorem transfer_round_trip:
  assumes wf: "pipe_wf s" and ready: "\<not> pipe_closed s" "int (length (requests s)) < maxInflight s"
    and size: "bytes \<noteq> []" "int (length bytes) \<le> maxBytes s" "int (nextId s) \<le> max_safe"
    and sent: "transfer P (Some bytes) (Posted 0) t s = (r, s1)"
  shows "\<exists>i m. r = Inr i \<and> posted s1 = posted s @ [(i, bytes)] \<and>
    pipe_receive P (worker_reply P i (Some bytes)) t' s1 = s\<lparr>nextId := Suc (nextId s), posted := posted s1,
      settled := settled s @ [(i, Inr (bytes, m))]\<rparr> \<and>
    jget m ''logicalBytes'' = JInt (int (length bytes)) \<and> jget m ''latencyNs'' = JInt (t' - t)"
proof -
  let ?i = "request_id (nextId s)"
  let ?r = "\<lparr>logicalBytes = length bytes, expectedSha256 = native_digest P bytes, started = t\<rparr>"
  have fresh: "?i \<notin> fst ` set (requests s)" by (rule pending_not_next [OF wf])
  have put: "mput ?i ?r (requests s) = requests s @ [(?i, ?r)]"
    using fresh by (simp add: mput_def update_new)
  have "map_of (requests s) ?i = None" using fresh by (simp only: map_of_eq_None_iff not_False_eq_True)
  then have found: "mget ?i (requests s @ [(?i, ?r)]) = Some ?r" by (simp add: mget_def map_add_def)
  have "AList.delete ?i (requests s @ [(?i, ?r)]) = AList.delete ?i (requests s)" by (simp add: AList.delete_eq)
  then have deleted: "AList.delete ?i (requests s @ [(?i, ?r)]) = requests s" using fresh by simp
  from sent have s1: "r = Inr ?i" "s1 = s\<lparr>nextId := Suc (nextId s), requests := requests s @ [(?i, ?r)],
      posted := posted s @ [(?i, bytes)]\<rparr>"
    using ready size by (auto simp: transfer_def put Let_def)
  from safe_request_id [OF size(3)] have reply: "worker_reply P ?i (Some bytes) = \<lparr>reply_id = ?i, reply_error = JUndef, reply_buffer = Some bytes,
      reply_byteLength = JInt (int (length bytes)), reply_sha256 = JStr (native_digest P bytes)\<rparr>"
    by (simp add: worker_reply_def)
  have "reply_result P ?r (worker_reply P ?i (Some bytes)) t' = Inr (bytes, measurement ?r (JStr (native_digest P bytes)) t')"
    by (simp add: reply reply_result_def)
  then have "pipe_receive P (worker_reply P ?i (Some bytes)) t' s1 = s\<lparr>nextId := Suc (nextId s), posted := posted s1,
      settled := settled s @ [(?i, Inr (bytes, measurement ?r (JStr (native_digest P bytes)) t'))]\<rparr>"
    by (simp add: pipe_receive_def s1(2) found deleted reply)
  then show ?thesis using s1
    by (intro exI [of _ ?i] exI [of _ "measurement ?r (JStr (native_digest P bytes)) t'"]) (simp add: measurement_def)
qed

lemma pipe_step_closed:
  "pipe_wf s \<Longrightarrow> pipe_closed s \<Longrightarrow> pipe_step P e s = s"
  by (cases e) (auto simp: transfer_def pipe_receive_def pipe_expire_def worker_failed_def worker_exited_def pipe_close_def
    pipe_wf_def fail_all_closed mget_def)

lemma pipe_run_closed: "pipe_wf s \<Longrightarrow> pipe_closed s \<Longrightarrow> fold (pipe_step P) es s = s"
  by (induction es) (simp_all add: pipe_step_closed)

text \<open>
  A reply that does not match its request, in its length, in its digest or in the digest of its bytes,
  or that reports an error, stops the pipe: every pending request is rejected with that failure, and nothing
  that happens later resolves a request, posts a message or changes the pipe.
\<close>

theorem bad_reply_stops_pipe:
  assumes wf: "pipe_wf s" and pending: "mget (reply_id m) (requests s) = Some r"
    and bad: "truthy (reply_error m) \<or> reply_byteLength m \<noteq> JInt (int (logicalBytes r)) \<or>
      reply_sha256 m \<noteq> JStr (expectedSha256 r) \<or>
      (\<forall>bytes. reply_buffer m = Some bytes \<longrightarrow> length bytes \<noteq> logicalBytes r \<or> native_digest P bytes \<noteq> expectedSha256 r)"
  shows "\<exists>e. fold (pipe_step P) es (pipe_receive P m now s) = pipe_receive P m now s \<and>
    pipe_closed (pipe_receive P m now s) \<and> posted (pipe_receive P m now s) = posted s \<and>
    settled (pipe_receive P m now s) = settled s @ (reply_id m, Inl e) #
      map (\<lambda>(i, _). (i, Inl e)) (AList.delete (reply_id m) (requests s))"
proof -
  have "\<exists>e. reply_result P r m now = Inl e"
    using bad unfolding reply_result_def by (cases "reply_buffer m") auto
  then obtain e where e: "reply_result P r m now = Inl e" ..
  have opened: "\<not> pipe_closed s" using wf pending by (auto simp: pipe_wf_def mget_def split: if_splits)
  have received: "pipe_receive P m now s = fail_all e (s\<lparr>requests := AList.delete (reply_id m) (requests s),
      settled := settled s @ [(reply_id m, Inl e)]\<rparr>)"
    by (simp add: pipe_receive_def pending e)
  then have "pipe_closed (pipe_receive P m now s)" by simp
  moreover have "fold (pipe_step P) es (pipe_receive P m now s) = pipe_receive P m now s"
    using receive_wf [OF wf] calculation by (rule pipe_run_closed)
  moreover have "settled (pipe_receive P m now s) = settled s @ (reply_id m, Inl e) #
      map (\<lambda>(i, _). (i, Inl e)) (AList.delete (reply_id m) (requests s))"
    unfolding received using opened by (simp add: fail_all_def)
  moreover have "posted (pipe_receive P m now s) = posted s" unfolding received by simp
  ultimately show ?thesis by blast
qed

section \<open>Examples\<close>

definition pipe_platform :: platform where
  "pipe_platform = \<lparr>num_other = (\<lambda>_. []), date_other = (\<lambda>_. None), nfkc = (\<lambda>s. s),
     locale_le = (\<lambda>a b. a \<le> b), sha256 = (\<lambda>s. s)\<rparr>"

definition pipe0 :: pipe where
  "pipe0 = \<lparr>requests = [], nextId = 1, pipe_closed = False, maxBytes = 16777216, maxInflight = 8, timeoutMs = 10000,
     posted = [], settled = []\<rparr>"

lemma new_pipe0: "new_pipe JUndef JUndef JUndef = Inr pipe0"
  by code_simp

lemma pipe0_wf: "pipe_wf pipe0"
  by (rule new_pipe_wf [OF new_pipe0])

definition events0 :: "pipe_event list" where
  "events0 = [Transfer (Some ''ab'') (Posted 0) 5, Transfer (Some ''c'') (Posted 0) 6,
     Receive (worker_reply pipe_platform (JInt 1) (Some ''ab'')) 9]"

lemma events0_settled: "fst (hd (settled (fold (pipe_step pipe_platform) events0 pipe0))) = JInt 1"
    "map_option (map_sum id fst) (map_of (settled (fold (pipe_step pipe_platform) events0 pipe0)) (JInt 1)) = Some (Inr ''ab'')"
    "map fst (requests (fold (pipe_step pipe_platform) events0 pipe0)) = [JInt 2]"
    "pipe_closed (fold (pipe_step pipe_platform) events0 pipe0) = False"
  by code_simp+

theorem requests_settled_once_witness:
  "set (issued (fold (pipe_step pipe_platform) events0 pipe0)) = {JInt 2} \<union>
     fst ` set (settled (fold (pipe_step pipe_platform) events0 pipe0))"
proof -
  let ?s = "fold (pipe_step pipe_platform) events0 pipe0"
  have "fst ` set (requests ?s) = {JInt 2}" using events0_settled(3) by (metis image_set list.simps(15) empty_set)
  with requests_settled_once [OF new_pipe0 HOL.refl, of pipe_platform events0] show ?thesis by metis
qed

theorem outputs_are_inputs_witness:
  "\<exists>bytes. (JInt 1, bytes) \<in> set (posted (fold (pipe_step pipe_platform) events0 pipe0)) \<and> length ''ab'' = length bytes \<and>
     sha256 pipe_platform ''ab'' = sha256 pipe_platform bytes"
proof -
  let ?s = "fold (pipe_step pipe_platform) events0 pipe0"
  from events0_settled(2) obtain o' where "map_of (settled ?s) (JInt 1) = Some o'" "map_sum id fst o' = Inr ''ab''" by auto
  then obtain m where "(JInt 1, Inr (''ab'', m)) \<in> set (settled ?s)" by (cases o') (auto dest: map_of_SomeD)
  then show ?thesis
    by (rule outputs_are_inputs [OF new_pipe0 HOL.refl])
qed

theorem transfer_round_trip_witness:
  "\<exists>s1 m. transfer pipe_platform (Some ''ab'') (Posted 0) 5 pipe0 = (Inr (request_id 1), s1) \<and>
    settled (pipe_receive pipe_platform (worker_reply pipe_platform (request_id 1) (Some ''ab'')) 9 s1) =
      [(request_id 1, Inr (''ab'', m))]"
proof -
  obtain r s1 where sent: "transfer pipe_platform (Some ''ab'') (Posted 0) 5 pipe0 = (r, s1)" by fastforce
  then have r: "r = Inr (request_id 1)" by (simp add: transfer_def pipe0_def Let_def)
  have "\<not> pipe_closed pipe0" "int (length (requests pipe0)) < maxInflight pipe0" "''ab'' \<noteq> []"
    "int (length ''ab'') \<le> maxBytes pipe0" "int (nextId pipe0) \<le> max_safe"
    by (simp_all add: pipe0_def max_safe_def)
  from transfer_round_trip [OF pipe0_wf this sent, of 9] r sent show ?thesis
    by (auto simp: pipe0_def)
qed

theorem bad_reply_stops_pipe_witness:
  "\<exists>s1 e. transfer pipe_platform (Some ''ab'') (Posted 0) 5 pipe0 = (Inr (request_id 1), s1) \<and>
    settled (pipe_receive pipe_platform (worker_reply pipe_platform (request_id 1) (Some ''ax'')) 9 s1) = [(request_id 1, Inl e)]"
proof -
  obtain r s1 where sent: "transfer pipe_platform (Some ''ab'') (Posted 0) 5 pipe0 = (r, s1)" by fastforce
  then have r: "r = Inr (request_id 1)" and s1: "requests s1 = [(request_id 1,
      \<lparr>logicalBytes = 2, expectedSha256 = native_digest pipe_platform ''ab'', started = 5\<rparr>)]" "settled s1 = []"
    by (auto simp: transfer_def pipe0_def mput_def Let_def)
  have wf: "pipe_wf s1" using transfer_wf [OF pipe0_wf, of pipe_platform "Some ''ab''" "Posted 0" 5] sent by simp
  let ?m = "worker_reply pipe_platform (request_id 1) (Some ''ax'')"
  have m: "reply_id ?m = request_id 1" "reply_sha256 ?m = JStr (native_digest pipe_platform ''ax'')"
    using safe_request_id [of 1] by (auto simp: worker_reply_def max_safe_def)
  have "mget (reply_id ?m) (requests s1) =
      Some \<lparr>logicalBytes = 2, expectedSha256 = native_digest pipe_platform ''ab'', started = 5\<rparr>"
    unfolding s1 m by (simp add: mget_def)
  note pending = this
  have other: "native_digest pipe_platform ''ax'' \<noteq> native_digest pipe_platform ''ab''"
    by (auto simp: native_digest_def pipe_platform_def dest: hex_text_inj)
  obtain e where "settled (pipe_receive pipe_platform ?m 9 s1) = settled s1 @ (reply_id ?m, Inl e) #
      map (\<lambda>(i, _). (i, Inl e)) (AList.delete (reply_id ?m) (requests s1))"
    using bad_reply_stops_pipe [OF wf pending, of pipe_platform "[]" 9] other unfolding m by auto
  then have "settled (pipe_receive pipe_platform ?m 9 s1) = [(request_id 1, Inl e)]"
    unfolding m s1 by simp
  then show ?thesis using r sent by auto
qed

end
