(* ===== verification/Spec2Isabelle.thy ===== *)
theory Spec2Isabelle
  imports AgentWitnesses PortWitnesses StoreFacts DirectPipe
begin

text \<open>
  A verification library for the Strata Data Port Network (SDPN) sources.

  The program. The repository implements a network of software agents and of the ports they are reached
  at. Below, U stands for \<^verbatim>\<open>src/candidates/unified-quad-direct-pipe/runtime/unified-quad/src\<close>.
  An agent protocol (\<^verbatim>\<open>U/agent-protocol.mjs\<close>) defines identities, capabilities, grants,
  envelopes, receipts and revocations, and a gateway that registers them, authorizes envelopes and
  revokes authority with a cascade. On top of it stand a bounded capability discovery
  (\<^verbatim>\<open>capability-discovery.mjs\<close>), the proposals of a companion (\<^verbatim>\<open>companion-communication.mjs\<close>,
  \<^verbatim>\<open>companion-memory-proposal.mjs\<close>) and the decisions of the brainstem about them
  (\<^verbatim>\<open>brainstem-companion-decision.mjs\<close>, \<^verbatim>\<open>brainstem-memory-decision.mjs\<close>). Native ports have
  signed identities, names and sessions (\<^verbatim>\<open>src/src/native-port-identity.mjs\<close>,
  \<^verbatim>\<open>port-names.mjs\<close>, \<^verbatim>\<open>native-session.mjs\<close>) and move bytes to worker threads
  (\<^verbatim>\<open>direct-pipe-worker-transfer.mjs\<close>, \<^verbatim>\<open>direct-pipe-worker.mjs\<close>). A cognitive body keeps
  cognitons in a graph and handlers at the ports of a fabric, and compiles plans that activate them
  (\<^verbatim>\<open>U/cognitive-body.mjs\<close>); the choice of a port uses the relationships that the Synaptizer
  learns from execution evidence (\<^verbatim>\<open>U/synaptizer.mjs\<close>); the evidence comes from the edges that
  process intelligence observes while it executes and recomposes skills
  (\<^verbatim>\<open>U/process-intelligence.mjs\<close>); and the state store keeps the snapshots
  (\<^verbatim>\<open>U/cognitive-state-store.mjs\<close>). External proofs (\<^verbatim>\<open>src/src/external-proof-v1.mjs\<close>)
  issue challenges for a payload, carry it encrypted to another provider, sign what was received there, and
  recover and repeat an operation from a sealed capsule.

  Conventions. Wire data are the values of the datatype jsv, an object being the list of its
  properties in property order. An exception of the code is a failure value; an operation
  returns its result together with the state it leaves, so that the statements speak of the state
  after a refusal as well. Clocks, fresh keys, ids and random bytes are arguments. What the code takes
  from the JavaScript engine and that its sources do not determine (number formatting beyond the
  integers, foreign date formats, Unicode normalization, the collation order, the bytes of SHA-256) is
  a record of parameters, platform; a property that relies on the width of a digest says so by the
  hypothesis hash_width, one that sorts by names by the hypothesis collation, and one that needs the digest to
  tell texts apart names those texts. Ed25519, X25519, HKDF and
  AES-GCM of node:crypto are the records crypto and channel, with their documented laws as the
  hypotheses ed25519, agreement and sealing. Code that is passed to the program (handlers of ports,
  methods of a boundary, codes of skills, listeners, clocks read in between) is a function on a world of
  any type, so that its effects and its failures are part of the model. Strings are lists of code units
  below 256; numbers are exact rationals with NaN and the infinities. Objects that the code stores in a
  Map are stored by key; what an object holds by reference (the observer of an adapter, the registry of
  a ProSynthesine) is an argument of its operations.

  The theories.
    Prelude: results, generic list and map lemmas, sorting with a comparator.
    JsValue, JsText, JsDate, JsonText: values, texts and patterns, time stamps, JSON texts and their
      reader, whose recursion has the fuel 2 * length + 1 (enough by read_value_fuel), and the round trip of
      printed values (parse_printed), which relies on the engine for numbers that are not safe integers.
    AgentContracts, AgentValidators, AgentMessages: the vocabulary and the validators; the locale
      validator states what a validator promises (it returns its argument) and is interpreted on
      every validator of the code.
    ReplayGuard: the guard against replayed nonces; locale replay_filter, interpreted on the guard and on
      the used session ids of a policy.
    Gateway, GatewayFacts, RevocationFacts, GatewayProperties: AgentProtocolGateway, the effect of each
      operation, the invariant, the revocation closure.
    Digests, CapabilityDiscovery, DiscoveryFacts: the catalog, its requests and its ranking.
    CompanionProposals, CompanionFacts: the two proposals and the living companion
      identity.
    BrainstemDecisions, DecisionFacts: the two decisions and their receipts.
    CanonicalBytes, NativeIdentity, NativeFacts: canonical bytes (equal exactly for values equal up to
      property order), base64, signed envelopes, peer records and their directory.
    PortNames, PortNameFacts, SignedDirectories, DirectoryProperties, NameResolution: names, addresses and
      name records; the locale signed_directory states what a directory of signed records keeps and is
      interpreted on the peer and the name directory; a signed name resolves to its target.
    NativeSession, SessionFacts: the owner policy, the handshake and the frames; what one
      end seals the other opens, in order and once, and an offer with a textual id opens one session.
    CognitiveStore, StoreFacts: the state store; a save is the list of its calls of the file system (a map
      of paths to texts), any of which can fail or be the last before a crash; the file refines an atomic
      register under every interleaving of such processes, each with one save at a time: a save that is done
      has written its envelope.
    DirectPipe: the requests of a pipe to a worker and every event that reaches it.
    Synaptizer, SynaptizerFacts, SynaptizerSnapshots: evidence, learning, snapshots;
      relationships are the summaries of the verified evidence, snapshots of evidence seen once are taken
      back and those of evidence seen twice are not.
    CognitiveBody, ActivationPlans, CognitiveFacts, PlanFacts: cognitons, graph, fabric,
      compiler, execution and process port attachment; a compiled plan names the best port of each type,
      and its execution runs the handlers of those very ports in order.
    ProcessGenomes, EdgeObserver, ProcessSkills, ProcessBoundary: genomes and their evolution; the edge
      observer with fitness and credit; graduation, synthesis, promotion and execution; the recomposing
      runtime, checkpoints, and the boundary adapter. ProcessFacts, RuntimeFacts, SkillFacts:
      edges reach the Synaptizer, credit is reinforcement, the runtime ends within its
      budgets, executions leave a trail, and the rules of evolution, graduation, reuse and resumption.
    ExternalProof, ExternalReceipts, ExternalFacts, ReceiptFacts: challenge tokens, payloads,
      receipts and recovery records; a challenge carries its payload to the other end, a receipt is accepted
      exactly when the payload arrived intact, and the record of a recovery names recomputed digests. HMAC,
      the reading of PKCS8 keys and of JSON texts outside the model are the record proof_host.
    AgentWitnesses, PortWitnesses: concrete runs of the components, and the properties at them.

  Termination. All recursion is structural or has a measure. The cascade of applyRevocation is given as
  many passes as there are grants and is proved to have reached its fixed point by then
  (cascade_computes_closure); the loop of the recomposing runtime ends because a step that goes on
  completes a place of the graph or uses up a recomposition (runtime_step_progress), the budgets being
  natural numbers.

  Not modelled. The gateway owns its replay guard (the injected replayGuard option is modelled
  in executeCapabilityDiscovery only). Negative zero is identified with zero, and sums beyond 2^53 are
  not rounded. Objects with their own toString, and functions inside values, are not values of the model.
  Each subscription to an observer is a new function. The handlers of the external proofs (\<^verbatim>\<open>src/api/proof\<close>), the
  two-machine proof, the direct pipe runtime with its process attachment, the state port, the community client, the
  portal, the browser package and the scripts are programs around sockets, HTTP, files and measurements; they are
  left out.
\<close>

end
